(* ===== verification/Prelude.thy ===== *)
theory Prelude
  imports Complex_Main "HOL-Library.AList" "HOL-Library.Multiset"
begin

text \<open>
  Shared vocabulary of the development. The Rust program keeps every entity in a
  \<open>HashMap<i32, T>\<close> owned by \<open>Game\<close> (src/src/core/game.rs); such a table is
  modelled as an association list \<open>(int \<times> 'v) list\<close>, so that the iteration order the
  code depends on (\<open>iter().find\<close>, \<open>iter().filter\<close>) is explicit and every theorem
  holds for every order. Lookups are \<open>map_of\<close>, \<open>insert\<close> is \<open>AList.update\<close>,
  \<open>remove\<close> is \<open>AList.delete\<close>. A panic of the code (\<open>unwrap\<close> on \<open>None\<close>,
  \<open>panic!()\<close>, an out-of-range \<open>Vec::remove\<close>) is an error value of the sum type
  \<open>'a res\<close>; running out of the recursion budget of a re-entrant routine is the error
  \<open>Fuel\<close>, which stands for not returning.
\<close>

named_theorems table_simps "lookup laws of the id-keyed registry tables"
named_theorems queue_same "operations that leave the turn queue as it is"

datatype error =
    Missing  \<comment> \<open>\<open>Option::unwrap\<close> on \<open>None\<close>: a registry entry that is not there\<close>
  | Panic    \<comment> \<open>an explicit \<open>panic!()\<close> or an out-of-range \<open>Vec\<close> operation\<close>
  | Fuel     \<comment> \<open>the recursion budget is exhausted: the code does not return\<close>

type_synonym 'a res = "error + 'a"

type_synonym ('k, 'v) table = "('k \<times> 'v) list"

definition bindE :: "'a res \<Rightarrow> ('a \<Rightarrow> 'b res) \<Rightarrow> 'b res" where
  "bindE m f = (case m of Inl e \<Rightarrow> Inl e | Inr x \<Rightarrow> f x)"

definition unwrap :: "'a option \<Rightarrow> 'a res" where
  "unwrap x = (case x of None \<Rightarrow> Inl Missing | Some v \<Rightarrow> Inr v)"

text \<open>\<open>*table.keys().max().unwrap_or(&0)\<close>, the base of every fresh id.\<close>

fun keys_max :: "(int, 'v) table \<Rightarrow> int option" where
  "keys_max [] = None"
| "keys_max (kv # t) = (case keys_max t of None \<Rightarrow> Some (fst kv) | Some m \<Rightarrow> Some (max (fst kv) m))"

definition fresh_id :: "(int, 'v) table \<Rightarrow> int" where
  "fresh_id t = 1 + (case keys_max t of None \<Rightarrow> 0 | Some m \<Rightarrow> m)"

text \<open>\<open>Vec::get\<close>, and \<open>Vec::get(i as usize)\<close> for an \<open>i32\<close> index: a negative
  index is cast to a huge \<open>usize\<close> and is out of range for every vector.\<close>

fun nth_opt :: "'a list \<Rightarrow> nat \<Rightarrow> 'a option" where
  "nth_opt [] i = None"
| "nth_opt (x # xs) 0 = Some x"
| "nth_opt (x # xs) (Suc i) = nth_opt xs i"

definition get_i32 :: "'a list \<Rightarrow> int \<Rightarrow> 'a option" where
  "get_i32 xs i = (if i < 0 then None else nth_opt xs (nat i))"

text \<open>\<open>Vec::remove(i)\<close> panics when \<open>i\<close> is out of range.\<close>

definition vec_remove :: "'a list \<Rightarrow> nat \<Rightarrow> 'a list res" where
  "vec_remove xs i = (if i < length xs then Inr (take i xs @ drop (Suc i) xs) else Inl Panic)"

text \<open>\<open>if let Some(i) = p.last_mut() { *i += 1; }\<close>\<close>

fun last_inc :: "nat list \<Rightarrow> nat list" where
  "last_inc [] = []"
| "last_inc [x] = [Suc x]"
| "last_inc (x # y # ys) = x # last_inc (y # ys)"

subsection \<open>Laws of the error monad\<close>

lemma bindE_Inl [simp]: "bindE (Inl e) f = Inl e"
  by (simp add: bindE_def)

lemma bindE_Inr [simp]: "bindE (Inr x) f = f x"
  by (simp add: bindE_def)

lemma bindE_eq_Inr: "bindE m f = Inr y \<longleftrightarrow> (\<exists>x. m = Inr x \<and> f x = Inr y)"
  by (cases m) (auto simp: bindE_def)

lemma bindE_eq_Inl: "bindE m f = Inl e \<longleftrightarrow> m = Inl e \<or> (\<exists>x. m = Inr x \<and> f x = Inl e)"
  by (cases m) (auto simp: bindE_def)

lemma bindE_InrE:
  assumes "bindE m f = Inr y"
  obtains x where "m = Inr x" and "f x = Inr y"
  using assms by (auto simp: bindE_eq_Inr)

lemma unwrap_simps [simp]: "unwrap None = Inl Missing" "unwrap (Some v) = Inr v"
  by (simp_all add: unwrap_def)

lemma unwrap_eq_Inr [simp]: "unwrap x = Inr v \<longleftrightarrow> x = Some v"
  by (cases x) simp_all

subsection \<open>Tables\<close>

lemma keys_max_None [simp]: "keys_max t = None \<longleftrightarrow> t = []"
  by (induction t) (auto split: option.splits)

lemma keys_max_ge: "keys_max t = Some m \<Longrightarrow> k \<in> fst ` set t \<Longrightarrow> k \<le> m"
proof (induction t arbitrary: m)
  case Nil
  then show ?case by simp
next
  case (Cons kv t)
  show ?case
  proof (cases "keys_max t")
    case None
    with Cons.prems show ?thesis by simp
  next
    case (Some a)
    with Cons.prems have m: "m = max (fst kv) a" by simp
    show ?thesis
    proof (cases "k = fst kv")
      case True
      with m show ?thesis by simp
    next
      case False
      with Cons.prems have "k \<in> fst ` set t" by auto
      with Some Cons.IH have "k \<le> a" by blast
      with m show ?thesis by simp
    qed
  qed
qed

lemma fresh_id_not_key: "fresh_id t \<notin> fst ` set t"
proof
  assume k: "fresh_id t \<in> fst ` set t"
  then have "t \<noteq> []" by auto
  then obtain m where m: "keys_max t = Some m" by (cases "keys_max t") auto
  from m k have "fresh_id t \<le> m" by (rule keys_max_ge)
  with m show False by (simp add: fresh_id_def)
qed

lemma map_of_fresh_id [simp, table_simps]: "map_of t (fresh_id t) = None"
  using fresh_id_not_key by (simp add: map_of_eq_None_iff)

lemma map_of_update_same [simp, table_simps]: "map_of (AList.update k v t) k = Some v"
  by (simp add: update_conv')

lemma map_of_update_other [simp, table_simps]:
  "k' \<noteq> k \<Longrightarrow> map_of (AList.update k v t) k' = map_of t k'"
  by (simp add: update_conv')

lemma map_of_delete_same [simp, table_simps]: "map_of (AList.delete k t) k = None"
  by (simp add: delete_conv')

lemma set_update_sub: "set (AList.update k v t) \<subseteq> insert (k, v) (set t)"
  by (induction t) auto

lemma map_fst_update_present:
  "map_of t k = Some v \<Longrightarrow> map fst (AList.update k v' t) = map fst t"
  by (induction t) auto

subsection \<open>Vectors and the dialogue cursor\<close>

lemma nth_opt_conv: "nth_opt xs i = (if i < length xs then Some (xs ! i) else None)"
  by (induction xs i rule: nth_opt.induct) auto

lemma length_last_inc [simp]: "length (last_inc p) = length p"
  by (induction p rule: last_inc.induct) auto

lemma last_inc_snoc [simp]: "last_inc (p @ [i]) = p @ [Suc i]"
proof (induction p)
  case Nil
  then show ?case by simp
next
  case (Cons a p)
  then show ?case by (cases p) auto
qed

lemma last_inc_Nil_iff [simp]: "last_inc p = [] \<longleftrightarrow> p = []"
  by (induction p rule: last_inc.induct) auto

lemma vec_remove_length: "vec_remove xs i = Inr ys \<Longrightarrow> length ys = length xs - 1"
  by (auto simp: vec_remove_def split: if_splits)

lemma key_in_filter_distinct:
  "distinct (map fst t) \<Longrightarrow> map_of t k = Some v \<Longrightarrow>
     k \<in> set (map fst (filter (\<lambda>(_, x). P x) t)) \<longleftrightarrow> P v"
proof (induction t)
  case Nil
  then show ?case by simp
next
  case (Cons kv t)
  obtain a b where kv: "kv = (a, b)" by fastforce
  show ?case
  proof (cases "k = a")
    case True
    have "k \<notin> fst ` set t" using Cons.prems(1) True kv by simp
    then have "k \<notin> set (map fst (filter (\<lambda>(_, x). P x) t))" by auto
    then show ?thesis using Cons.prems(2) True kv by simp
  next
    case False
    then show ?thesis using Cons kv by simp
  qed
qed

end
