(* ===== verification/Basics.thy ===== *)
theory Basics
  imports Prelude
begin

text \<open>
  The entity data of the game: \<open>Attribute\<close> (src/src/core/attribute.rs),
  \<open>Position\<close> (position.rs), and \<open>Character\<close> with its crowd-control counters,
  known actions and items (character.rs), with the operations on a single character:
  \<open>Attribute::current\<close>, \<open>Attribute::max\<close>, \<open>Position::distance\<close>,
  \<open>CharacterCrowdControl::turn_end\<close>, \<open>Character::set_experience\<close>,
  \<open>gain_exp\<close>, \<open>kill_experience\<close>. Rust \<open>i32\<close> fields are \<open>int\<close>; the one place
  where the width shows, the distance between positions on different maps, is the
  constant \<open>i32::MAX\<close>. \<open>f32\<close> offsets are \<open>real\<close>.
\<close>

record attribute =
  base :: int
  drain :: int
  damage :: int
  modifier :: int

definition current :: "attribute \<Rightarrow> int" where
  "current a = base a - damage a - drain a + modifier a"

definition attr_max :: "attribute \<Rightarrow> int" where
  "attr_max a = base a - drain a + modifier a"

datatype attribute_kind = Hp | Mp | Attack | Defence | Sanity

record position =
  map_id :: int
  pos_x :: int
  pos_y :: int

definition i32_max :: int where
  "i32_max = 2147483647"

definition distance :: "position \<Rightarrow> position \<Rightarrow> int" where
  "distance a b =
     (if map_id a = map_id b then \<bar>pos_x a - pos_x b\<bar> + \<bar>pos_y a - pos_y b\<bar> else i32_max)"

datatype race = Human | Elf | Orc | Demon

datatype controller = Player | Enemy | NPC | Boss bool

record crowd_control =
  stun :: int
  charm :: int
  shock :: int
  shocked :: bool
  poison :: int
  sleep :: int
  root :: int
  silent :: int

definition turn_end :: "crowd_control \<Rightarrow> crowd_control" where
  "turn_end cc = cc\<lparr>stun := max (stun cc - 1) 0, charm := max (charm cc - 1) 0,
     shock := max (shock cc - 1) 0, poison := max (poison cc - 1) 0,
     sleep := max (sleep cc - 1) 0, root := max (root cc - 1) 0,
     silent := max (silent cc - 1) 0\<rparr>"

record character_action =
  action_id :: int
  ca_cooldown :: int
  ca_exp :: int

definition new_character_action :: "int \<Rightarrow> character_action" where
  "new_character_action aid = \<lparr>action_id = aid, ca_cooldown = 0, ca_exp = 0\<rparr>"

record character_item =
  item_id :: int
  quantity :: int

datatype item_kind = Potion | ActionBook int

record item =
  it_id :: int
  item_name :: string
  item_description :: string
  item_kind :: item_kind

record shop_item =
  si_item_id :: int
  stock :: "int option"

record shop =
  shop_id :: int
  shop_items :: "shop_item list"

record character =
  ch_id :: int
  crowd_controls :: crowd_control
  position :: position
  controller :: controller
  ch_items :: "character_item list"
  character_action_ids :: "int list"
  race :: race
  character_sprite_id :: int
  offset_x :: real
  offset_y :: real
  defeated :: bool
  dead :: bool
  experience :: int
  level :: int
  hp :: attribute
  mp :: attribute
  attack :: attribute
  defence :: attribute
  sanity :: attribute
  hidden :: bool
  command_id :: "int option"
  talk_id :: int
  ch_shop :: "shop option"
  gold :: int
  wood :: int

text \<open>The level table of \<open>set_experience\<close>: the \<open>match\<close> over \<open>i32\<close> ranges.\<close>

definition level_of_exp :: "int \<Rightarrow> int" where
  "level_of_exp e =
     (if e \<le> 4 then 1 else if e \<le> 14 then 2 else if e \<le> 29 then 3
      else if e \<le> 49 then 4 else 5)"

definition set_experience :: "int \<Rightarrow> character \<Rightarrow> character" where
  "set_experience e c =
     (let c' = c\<lparr>experience := e\<rparr>; l = level_of_exp e in
      if l \<noteq> level c
      then c'\<lparr>level := l, hp := (hp c)\<lparr>base := 100 + l * 10\<rparr>,
              mp := (mp c)\<lparr>base := 100 + l * 10\<rparr>\<rparr>
      else c')"

definition gain_exp :: "int \<Rightarrow> character \<Rightarrow> character" where
  "gain_exp e c = set_experience (experience c + e) c"

definition kill_experience :: "character \<Rightarrow> int" where
  "kill_experience c = 1"

text \<open>The flags a defeat or a death sets, and the invariant the spec states for them:
  \<open>dead \<Rightarrow> defeated \<Rightarrow> hidden\<close>.\<close>

definition flags_ok :: "character \<Rightarrow> bool" where
  "flags_ok c \<longleftrightarrow> (dead c \<longrightarrow> defeated c) \<and> (defeated c \<longrightarrow> hidden c)"

definition cc_nonneg :: "crowd_control \<Rightarrow> bool" where
  "cc_nonneg cc \<longleftrightarrow> 0 \<le> stun cc \<and> 0 \<le> charm cc \<and> 0 \<le> shock cc \<and> 0 \<le> poison cc
     \<and> 0 \<le> sleep cc \<and> 0 \<le> root cc \<and> 0 \<le> silent cc"

subsection \<open>Lemmas\<close>

lemma current_eq_max_minus_damage: "current a = attr_max a - damage a"
  by (simp add: current_def attr_max_def)

lemma level_of_exp_bounds: "1 \<le> level_of_exp e \<and> level_of_exp e \<le> 5"
  by (simp add: level_of_exp_def)

lemma level_of_exp_mono: "e \<le> e' \<Longrightarrow> level_of_exp e \<le> level_of_exp e'"
  by (simp add: level_of_exp_def)

lemma set_experience_fields [simp]:
  "experience (set_experience e c) = e"
  "level (set_experience e c) = level_of_exp e"
  "position (set_experience e c) = position c"
  "dead (set_experience e c) = dead c"
  "defeated (set_experience e c) = defeated c"
  "hidden (set_experience e c) = hidden c"
  "damage (hp (set_experience e c)) = damage (hp c)"
  "crowd_controls (set_experience e c) = crowd_controls c"
  "controller (set_experience e c) = controller c"
  "race (set_experience e c) = race c"
  "command_id (set_experience e c) = command_id c"
  "character_action_ids (set_experience e c) = character_action_ids c"
  "talk_id (set_experience e c) = talk_id c"
  by (simp_all add: set_experience_def Let_def)

lemma flags_ok_gain_exp [simp]: "flags_ok (gain_exp e c) = flags_ok c"
  by (simp add: flags_ok_def gain_exp_def)

lemma turn_end_cc_nonneg: "cc_nonneg (turn_end cc)"
  by (simp add: cc_nonneg_def turn_end_def)

lemma turn_end_shocked [simp]: "shocked (turn_end cc) = shocked cc"
  by (simp add: turn_end_def)

lemma max_dec_int: "max (max (x - a) 0 - 1) 0 = max (x - (a + 1)) (0::int)"
  by linarith

lemma level_of_exp_table:
  "(5 \<le> e \<and> e \<le> 14 \<longrightarrow> level_of_exp e = 2) \<and> (50 \<le> e \<longrightarrow> level_of_exp e = 5)"
  by (simp add: level_of_exp_def)

lemma set_experience_level_eq: "level (set_experience e c) = level_of_exp e"
  by (simp add: set_experience_def Let_def)

lemma set_experience_bases:
  "level_of_exp e \<noteq> level c \<Longrightarrow> hp (set_experience e c) = (hp c)\<lparr>base := 100 + 10 * level_of_exp e\<rparr>
     \<and> mp (set_experience e c) = (mp c)\<lparr>base := 100 + 10 * level_of_exp e\<rparr>"
  "level_of_exp e = level c \<Longrightarrow> hp (set_experience e c) = hp c \<and> mp (set_experience e c) = mp c"
  by (simp_all add: set_experience_def Let_def mult.commute)


subsection \<open>Properties\<close>

text \<open>C9: \<open>Character::set_experience\<close> (spec 8.7). The level follows the table
  (experience 5..14 gives level 2, 50 and more gives level 5, always between 1 and 5);
  when the level changes, the hp and mp bases become \<open>100 + 10 * level\<close>; when it does
  not, they are left alone.\<close>

theorem set_experience_level:
  "level (set_experience e c) = level_of_exp e
   \<and> 1 \<le> level (set_experience e c) \<and> level (set_experience e c) \<le> 5
   \<and> (5 \<le> e \<and> e \<le> 14 \<longrightarrow> level (set_experience e c) = 2)
   \<and> (50 \<le> e \<longrightarrow> level (set_experience e c) = 5)
   \<and> (level_of_exp e \<noteq> level c \<longrightarrow>
        base (hp (set_experience e c)) = 100 + 10 * level_of_exp e
        \<and> base (mp (set_experience e c)) = 100 + 10 * level_of_exp e)
   \<and> (level_of_exp e = level c \<longrightarrow> hp (set_experience e c) = hp c \<and> mp (set_experience e c) = mp c)"
  using level_of_exp_bounds [of e] level_of_exp_table [of e] set_experience_bases [of e c]
  by (simp add: set_experience_level_eq)

text \<open>C10: crowd-control decay (spec 8.2). After \<open>k + 1\<close> calls of
  \<open>CharacterCrowdControl::turn_end\<close> every counter is \<open>max (old - (k + 1)) 0\<close>, so it
  never goes below zero, and the shock toggle and the record's other fields are
  untouched.\<close>

theorem turn_end_decay:
  "(turn_end ^^ Suc k) cc = cc\<lparr>stun := max (stun cc - int (Suc k)) 0, charm := max (charm cc - int (Suc k)) 0,
     shock := max (shock cc - int (Suc k)) 0, poison := max (poison cc - int (Suc k)) 0,
     sleep := max (sleep cc - int (Suc k)) 0, root := max (root cc - int (Suc k)) 0,
     silent := max (silent cc - int (Suc k)) 0\<rparr>"
proof (induction k)
  case 0
  then show ?case by (simp add: turn_end_def)
next
  case (Suc k)
  have "(turn_end ^^ Suc (Suc k)) cc = turn_end ((turn_end ^^ Suc k) cc)" by simp
  then show ?case by (simp only: Suc.IH) (simp add: turn_end_def max_dec_int add.commute)
qed

end
