(* ===== verification/Registry.thy ===== *)
theory Registry
  imports Basics
begin

text \<open>
  The World Registry: the \<open>Game\<close> struct of src/src/core/game.rs with every table
  and system struct it owns, the data types those tables hold (action.rs, command.rs,
  turn.rs, novel.rs, shop.rs, floor.rs, area.rs, tile_map.rs, sprite.rs,
  teleportation.rs), and the read-only queries and small mutators of \<open>impl Game\<close>
  that the components share: \<open>character_at_position\<close>, \<open>characters_in_range\<close>,
  \<open>characters_in_square\<close>, \<open>teleportation_at_position\<close>,
  \<open>set_character_command\<close>, \<open>add_player_command\<close>, \<open>open_shop\<close>. The tables
  \<open>tile_sheets\<close>, \<open>sprite_sheets\<close> and \<open>sprite_sequences\<close> hold rendering assets
  that no core routine reads; they are left out of the record.
\<close>

subsection \<open>Sprites, tiles, areas, teleportations\<close>

datatype animation = SpriteSheet int string | SpriteSequence int

record animation_effect =
  ae_id :: int
  ae_animation :: animation
  percentage :: real
  ae_position :: position

record character_sprite =
  spr_id :: int
  avatar :: string
  spr_animation :: "(string, animation) table"

datatype tile_kind = Tile_Sheet int int int | Tile_Image string

record tile =
  walkable :: bool
  tile_kind :: tile_kind

record tile_map =
  tm_id :: int
  tm_tiles :: "int list list"

record teleportation =
  tp_position :: position
  teleport :: position

datatype event = StartBossFight

record area =
  area_map_id :: int
  area_x :: int
  area_y :: int
  area_w :: int
  area_h :: int
  events :: "event list"

subsection \<open>Actions and commands (action.rs, command.rs)\<close>

datatype action_kind =
    Idle | Talk | Move | Damage int | Drain | Lullaby int | Thunder int | Root int
  | HpRecover int | MpRecover int

text \<open>\<open>Target::None\<close>, \<open>Target::Character(id)\<close>, \<open>Target::Position(p)\<close>.\<close>

datatype target = TNone | TCharacter int | TPosition position

datatype target_kind = TKNone | TKCharacter | TKPosition

datatype effect_kind = EKCharacter | Square int | Manhattan int

record action =
  act_id :: int
  name :: string
  description :: string
  act_hp :: "int option"
  act_mp :: "int option"
  action_kind :: action_kind
  target_kind :: target_kind
  effect_kind :: effect_kind
  act_range :: int
  duration :: real
  act_cooldown :: int
  animation :: "animation option"

datatype command_state = New | Started | Ended

datatype command_data = CDNone | CDMove position position | CDDrain int

datatype command_error = Target_Error

record command =
  cmd_character_id :: int
  cmd_action_id :: int
  target :: target
  elapsed_time :: real
  data :: command_data
  sprite_animation_id :: "int option"
  cmd_state :: command_state

subsection \<open>Turn system (turn.rs)\<close>

datatype turn_kind = Character_Turn int | Respawn int

record turn =
  time :: int
  kind :: turn_kind

datatype state = Empty | StartTurn | StartCommand | UpdateCommand | EndCommand | EndTurn

record turn_system =
  turn_queue :: "turn list"
  current_turn :: "turn option"
  waiting_input :: bool
  ts_state :: state
  ts_pause :: bool

subsection \<open>Dialogue scripts (novel.rs)\<close>

text \<open>
  \<open>enum Condition {}\<close> has no variant in the source, so no \<open>If\<close> node can be
  built there; a HOL type is never empty, and the model's one value \<open>Condition\<close>
  stands for a condition that \<open>Condition::is_met\<close> reports as unmet, as the source's
  \<open>is_met\<close> does for every argument.
\<close>

datatype condition = Condition

datatype script_character = Initiator | STarget

datatype background = BNone | Color nat nat nat nat | Image string

datatype script_kind =
    Text string
  | Background background
  | If condition "script_kind list"
  | IfElse condition "script_kind list" "script_kind list"
  | Select "(string \<times> script_kind list) list"
  | Restart
  | Shop
  | Surrender
  | CharacterMove script_character int int
  | CharacterChangePosition script_character int int int
  | SelectAbility "script_kind list"
  | ForgetSkill
  | PracticeSkill

record script =
  sc_id :: int
  scripts :: "script_kind list"

record current_script =
  cs_id :: int
  cs_character_id :: int
  cs_target_id :: int
  p :: "nat list"
  history :: "string list"
  select :: "string list option"
  select_ability_character_action_index :: "nat option"
  waiting_select_ability :: bool
  cs_command_id :: "int option"
  background :: "background option"

record novel_system =
  ns_pause :: bool
  novel_scripts :: "(int, script) table"
  ns_current :: "current_script option"

subsection \<open>Shop, floor, camera, and the game\<close>

record current_shop =
  csh_character_id :: int
  shop_character_id :: int

record shop_system =
  shop_current :: "current_shop option"

record floor_current =
  fc_character_id :: int
  floor :: int

record floor_system =
  fs_pause :: bool
  fs_current :: "floor_current option"

record camera =
  cam_character_id :: int
  cam_extend :: int
  tile_size :: int
  border :: int

record game =
  characters :: "(int, character) table"
  character_actions :: "(int, character_action) table"
  commands :: "(int, command) table"
  actions :: "(int, action) table"
  items :: "(int, item) table"
  tile_maps :: "(int, tile_map) table"
  teleportations :: "(int, teleportation) table"
  tiles :: "(int, tile) table"
  character_sprites :: "(int, character_sprite) table"
  sprite_animations :: "(int, animation_effect) table"
  areas :: "(int, area) table"
  camera :: camera
  turn_system :: turn_system
  novel_system :: novel_system
  shop_system :: shop_system
  floor_system :: floor_system

subsection \<open>Accessors shared by the components\<close>

text \<open>
  \<open>game.characters.get_mut(&id).unwrap()\<close> followed by writes to the character: the
  write \<open>f\<close> is applied in place, and a missing entry is the panic \<open>Missing\<close>.
\<close>

definition map_char :: "int \<Rightarrow> (character \<Rightarrow> character) \<Rightarrow> game \<Rightarrow> game res" where
  "map_char cid f g =
     (case map_of (characters g) cid of
        None \<Rightarrow> Inl Missing
      | Some c \<Rightarrow> Inr (g\<lparr>characters := AList.update cid (f c) (characters g)\<rparr>))"

text \<open>\<open>if let Some(c) = game.characters.get_mut(&id) { ... }\<close>: absent is a no-op.\<close>

definition map_char_opt :: "int \<Rightarrow> (character \<Rightarrow> character) \<Rightarrow> game \<Rightarrow> game" where
  "map_char_opt cid f g =
     (case map_of (characters g) cid of
        None \<Rightarrow> g
      | Some c \<Rightarrow> g\<lparr>characters := AList.update cid (f c) (characters g)\<rparr>)"

definition map_turn_system :: "(turn_system \<Rightarrow> turn_system) \<Rightarrow> game \<Rightarrow> game" where
  "map_turn_system f g = g\<lparr>turn_system := f (turn_system g)\<rparr>"

definition character_at_position :: "game \<Rightarrow> position \<Rightarrow> int option" where
  "character_at_position g pos =
     map_option fst (find (\<lambda>(_, c). position c = pos \<and> \<not> hidden c) (characters g))"

definition characters_in_range :: "game \<Rightarrow> position \<Rightarrow> int \<Rightarrow> int list" where
  "characters_in_range g pos r =
     map fst (filter (\<lambda>(_, c). distance pos (position c) \<le> r) (characters g))"

definition in_square :: "position \<Rightarrow> int \<Rightarrow> position \<Rightarrow> bool" where
  "in_square pos r q \<longleftrightarrow>
     map_id pos = map_id q \<and> \<bar>pos_x pos - pos_x q\<bar> \<le> r \<and> \<bar>pos_y pos - pos_y q\<bar> \<le> r"

definition characters_in_square :: "game \<Rightarrow> position \<Rightarrow> int \<Rightarrow> int list" where
  "characters_in_square g pos r =
     map fst (filter (\<lambda>(_, c). in_square pos r (position c)) (characters g))"

definition teleportation_at_position :: "game \<Rightarrow> position \<Rightarrow> int option" where
  "teleportation_at_position g pos =
     map_option fst (find (\<lambda>(_, t). tp_position t = pos) (teleportations g))"

text \<open>\<open>Game::set_character_command\<close>: the command is stored under a fresh id and the
  character points at it; the command the character pointed at before is not removed.\<close>

definition set_character_command :: "int \<Rightarrow> command \<Rightarrow> game \<Rightarrow> game" where
  "set_character_command cid cmd g =
     (case map_of (characters g) cid of
        None \<Rightarrow> g
      | Some c \<Rightarrow>
          let i = fresh_id (commands g) in
          g\<lparr>commands := AList.update i cmd (commands g),
            characters := AList.update cid (c\<lparr>command_id := Some i\<rparr>) (characters g)\<rparr>)"

definition add_player_command :: "int \<Rightarrow> command \<Rightarrow> game \<Rightarrow> game" where
  "add_player_command cid cmd g =
     (if waiting_input (turn_system g)
      then map_turn_system (\<lambda>ts. ts\<lparr>waiting_input := False\<rparr>) (set_character_command cid cmd g)
      else g)"

definition open_shop :: "int \<Rightarrow> int \<Rightarrow> game \<Rightarrow> game" where
  "open_shop cid shop_cid g =
     g\<lparr>novel_system := (novel_system g)\<lparr>ns_pause := True\<rparr>,
       shop_system := (shop_system g)\<lparr>shop_current := Some \<lparr>csh_character_id = cid, shop_character_id = shop_cid\<rparr>\<rparr>\<rparr>"

text \<open>Every character of the registry satisfies \<open>dead \<Rightarrow> defeated \<Rightarrow> hidden\<close>.\<close>

definition chars_ok :: "game \<Rightarrow> bool" where
  "chars_ok g \<longleftrightarrow> (\<forall>(i, c) \<in> set (characters g). flags_ok c)"

subsection \<open>Lemmas\<close>

lemma map_char_Inr_iff:
  "map_char cid f g = Inr g' \<longleftrightarrow>
     (\<exists>c. map_of (characters g) cid = Some c \<and> g' = g\<lparr>characters := AList.update cid (f c) (characters g)\<rparr>)"
  by (auto simp: map_char_def split: option.splits)

lemma map_char_Some [simp]:
  "map_of (characters g) cid = Some c \<Longrightarrow>
     map_char cid f g = Inr (g\<lparr>characters := AList.update cid (f c) (characters g)\<rparr>)"
  by (simp add: map_char_def)

lemma map_char_None [simp]: "map_of (characters g) cid = None \<Longrightarrow> map_char cid f g = Inl Missing"
  by (simp add: map_char_def)

lemma map_turn_system_simps [simp]:
  "turn_system (map_turn_system f g) = f (turn_system g)"
  "characters (map_turn_system f g) = characters g"
  "commands (map_turn_system f g) = commands g"
  "actions (map_turn_system f g) = actions g"
  "novel_system (map_turn_system f g) = novel_system g"
  by (simp_all add: map_turn_system_def)

lemma character_at_position_Some:
  "character_at_position g pos = Some i \<Longrightarrow>
     \<exists>c. (i, c) \<in> set (characters g) \<and> position c = pos \<and> \<not> hidden c"
  by (auto simp: character_at_position_def dest!: find_Some_iff[THEN iffD1] nth_mem)

lemma character_at_position_None:
  "character_at_position g pos = None \<longleftrightarrow>
     (\<forall>(i, c) \<in> set (characters g). position c = pos \<longrightarrow> hidden c)"
  by (auto simp: character_at_position_def find_None_iff)

lemma set_characters_in_range:
  "set (characters_in_range g pos r) = {i. \<exists>c. (i, c) \<in> set (characters g) \<and> distance pos (position c) \<le> r}"
  by (force simp: characters_in_range_def)

lemma set_characters_in_square:
  "set (characters_in_square g pos r) = {i. \<exists>c. (i, c) \<in> set (characters g) \<and> in_square pos r (position c)}"
  by (force simp: characters_in_square_def)

lemma chars_ok_update:
  "chars_ok g \<Longrightarrow> flags_ok c \<Longrightarrow> chars_ok (g\<lparr>characters := AList.update i c (characters g)\<rparr>)"
  using set_update_sub [of i c "characters g"] by (auto simp: chars_ok_def)

lemma chars_ok_lookup: "chars_ok g \<Longrightarrow> map_of (characters g) i = Some c \<Longrightarrow> flags_ok c"
  by (auto simp: chars_ok_def dest: map_of_SomeD)

lemma chars_ok_map_char:
  assumes "chars_ok g" and "\<And>c. flags_ok c \<Longrightarrow> flags_ok (f c)" and "map_char cid f g = Inr g'"
  shows "chars_ok g'"
proof -
  from assms(3) obtain c where c: "map_of (characters g) cid = Some c"
    and g': "g' = g\<lparr>characters := AList.update cid (f c) (characters g)\<rparr>"
    by (auto simp: map_char_Inr_iff)
  from assms(1) c have "flags_ok c" by (rule chars_ok_lookup)
  with assms(1,2) g' show ?thesis by (simp add: chars_ok_update)
qed

lemma chars_ok_map_turn_system [simp]: "chars_ok (map_turn_system f g) = chars_ok g"
  by (simp add: chars_ok_def)


subsection \<open>Properties\<close>

text \<open>C19: \<open>Game::add_player_command\<close> (spec 6). While the scheduler is not waiting
  for input it does nothing; while it is, the command is stored under a fresh id,
  the actor points to it, and the wait is over. The actor's previous command, if it
  had one, stays in the table.\<close>

theorem add_player_command_gate:
  "(\<not> waiting_input (turn_system g) \<longrightarrow> add_player_command cid cmd g = g)
   \<and> (waiting_input (turn_system g) \<and> map_of (characters g) cid = Some c \<longrightarrow>
        map_of (commands (add_player_command cid cmd g)) (fresh_id (commands g)) = Some cmd
      \<and> map_of (characters (add_player_command cid cmd g)) cid = Some (c\<lparr>command_id := Some (fresh_id (commands g))\<rparr>)
      \<and> \<not> waiting_input (turn_system (add_player_command cid cmd g))
      \<and> (\<forall>j. j \<noteq> fresh_id (commands g) \<longrightarrow>
             map_of (commands (add_player_command cid cmd g)) j = map_of (commands g) j))"
  by (simp add: add_player_command_def set_character_command_def map_turn_system_def Let_def)

end
