(* ===== verification/Turn_Queue.thy ===== *)
theory Turn_Queue
  imports Registry
begin

text \<open>
  The turn queue of \<open>TurnSystem\<close> and the three operations on it:
  insertion \<open>Game::add_turn\<close> (game.rs), the pop-and-renormalise of
  \<open>TurnSystem::empty\<close> (turn.rs), and the \<open>retain\<close> by which
  \<open>Character::take_damage\<close> (character.rs) drops the turns of a defeated character.
  \<open>queue_insert\<close> is the code's index search and \<open>Vec::insert\<close>; \<open>ins_after\<close> is
  the reference insertion it is proved equal to, and on a sorted queue both are the
  stable sort by time of the queue with the new turn appended. The invariant
  \<open>queue_ok\<close> (sorted by time, no negative time) is kept by all three operations.
  The factories \<open>Game::new_player_character\<close> and \<open>Game::new_enemy\<close>, which
  enqueue a fresh character at time 0, close the theory.
\<close>

text \<open>\<open>.iter().enumerate().find(|(_, t)| t.time > turn.time).map(|(i, _)| i)
  .unwrap_or(len)\<close>\<close>

fun first_later :: "turn list \<Rightarrow> int \<Rightarrow> nat" where
  "first_later [] tm = 0"
| "first_later (u # q) tm = (if time u > tm then 0 else Suc (first_later q tm))"

definition queue_insert :: "turn \<Rightarrow> turn list \<Rightarrow> turn list" where
  "queue_insert t q = (let i = first_later q (time t) in take i q @ t # drop i q)"

definition add_turn :: "turn \<Rightarrow> game \<Rightarrow> game" where
  "add_turn t g = map_turn_system (\<lambda>ts. ts\<lparr>turn_queue := queue_insert t (turn_queue ts)\<rparr>) g"

text \<open>Reference insertion: behind every turn that is not later.\<close>

fun ins_after :: "turn \<Rightarrow> turn list \<Rightarrow> turn list" where
  "ins_after t [] = [t]"
| "ins_after t (u # q) = (if time t < time u then t # u # q else u # ins_after t q)"

text \<open>\<open>TurnSystem::empty\<close> on a non-empty queue: remove the head, subtract its time
  from every other turn when it is positive, make it current with time 0.\<close>

definition pop_turn :: "turn list \<Rightarrow> (turn \<times> turn list) option" where
  "pop_turn q =
     (case q of
        [] \<Rightarrow> None
      | t # rest \<Rightarrow>
          Some (t\<lparr>time := 0\<rparr>,
                if time t > 0 then map (\<lambda>u. u\<lparr>time := time u - time t\<rparr>) rest else rest))"

text \<open>The \<open>retain\<close> of \<open>take_damage\<close>: drop \<open>Character\<close> turns of the target,
  keep its \<open>Respawn\<close> turns and everything else.\<close>

definition keep_turn :: "int \<Rightarrow> turn \<Rightarrow> bool" where
  "keep_turn cid t = (case kind t of Character_Turn i \<Rightarrow> i \<noteq> cid | Respawn _ \<Rightarrow> True)"

definition retain_turns :: "int \<Rightarrow> turn list \<Rightarrow> turn list" where
  "retain_turns cid q = filter (keep_turn cid) q"

definition queue_ok :: "turn list \<Rightarrow> bool" where
  "queue_ok q \<longleftrightarrow> sorted (map time q) \<and> (\<forall>t \<in> set q. 0 \<le> time t)"

text \<open>The factories of game.rs: four \<open>CharacterAction\<close>s for the actions 1 to 4, each
  under a fresh id, then the character under a fresh id and its first turn at time 0.\<close>

fun insert_character_actions :: "int list \<Rightarrow> int list \<Rightarrow> game \<Rightarrow> game \<times> int list" where
  "insert_character_actions [] acc g = (g, acc)"
| "insert_character_actions (a # as) acc g =
     (let i = fresh_id (character_actions g) in
      insert_character_actions as (acc @ [i])
        (g\<lparr>character_actions := AList.update i (new_character_action a) (character_actions g)\<rparr>))"

definition zero_cc :: crowd_control where
  "zero_cc = \<lparr>stun = 0, charm = 0, shock = 0, shocked = False, poison = 0, sleep = 0,
     root = 0, silent = 0\<rparr>"

definition fresh_attr :: "int \<Rightarrow> attribute" where
  "fresh_attr b = \<lparr>base = b, drain = 0, damage = 0, modifier = 0\<rparr>"

definition new_character :: "int \<Rightarrow> controller \<Rightarrow> race \<Rightarrow> int \<Rightarrow> int \<Rightarrow> int \<Rightarrow> int \<Rightarrow> int list \<Rightarrow> character" where
  "new_character i ctl r spr ex lv hpb cas =
     \<lparr>ch_id = i, crowd_controls = zero_cc, position = \<lparr>map_id = 0, pos_x = 5, pos_y = 8\<rparr>,
      controller = ctl, ch_items = [], character_action_ids = cas, race = r,
      character_sprite_id = spr, offset_x = 0, offset_y = 0, defeated = False, dead = False,
      experience = ex, level = lv, hp = fresh_attr hpb, mp = fresh_attr hpb,
      attack = fresh_attr 10, defence = fresh_attr 5, sanity = fresh_attr 10, hidden = False,
      command_id = None, talk_id = 1, ch_shop = None, gold = 0, wood = 0\<rparr>"

definition spawn_character :: "controller \<Rightarrow> race \<Rightarrow> int \<Rightarrow> int \<Rightarrow> int \<Rightarrow> int \<Rightarrow> game \<Rightarrow> game \<times> int" where
  "spawn_character ctl r spr ex lv hpb g =
     (let (g1, cas) = insert_character_actions [1, 2, 3, 4] [] g;
          i = fresh_id (characters g1);
          g2 = g1\<lparr>characters := AList.update i (new_character i ctl r spr ex lv hpb cas) (characters g1)\<rparr>
      in (add_turn \<lparr>time = 0, kind = Character_Turn i\<rparr> g2, i))"

definition new_player_character :: "game \<Rightarrow> game" where
  "new_player_character g = fst (spawn_character Player Human 1 8945 20 20 g)"

definition new_enemy :: "game \<Rightarrow> game \<times> int" where
  "new_enemy g = spawn_character Enemy Demon 2 0 1 10 g"

subsection \<open>Insertion\<close>

lemma queue_insert_ins_after: "queue_insert t q = ins_after t q"
proof (induction q)
  case Nil
  then show ?case by (simp add: queue_insert_def)
next
  case (Cons u q)
  then show ?case by (simp add: queue_insert_def Let_def)
qed

lemma mset_ins_after [simp]: "mset (ins_after t q) = add_mset t (mset q)"
  by (induction q) auto

lemma set_ins_after [simp]: "set (ins_after t q) = insert t (set q)"
  by (metis mset_ins_after set_mset_add_mset_insert set_mset_mset)

lemma length_ins_after [simp]: "length (ins_after t q) = Suc (length q)"
  by (induction q) auto

lemma sorted_ins_after: "sorted (map time q) \<Longrightarrow> sorted (map time (ins_after t q))"
  by (induction q) (auto simp: order_less_imp_le)

lemma ins_after_head_le:
  "\<forall>v \<in> set q. time u \<le> time v \<Longrightarrow> time u \<le> time t \<Longrightarrow> insort_key time u (ins_after t q) = u # ins_after t q"
  by (cases q) auto

lemma ins_after_sorted_cons:
  assumes "sorted (map time (u # q))"
  shows "insort_key time u (ins_after t q) = ins_after t (u # q)"
proof (cases "time t < time u")
  case True
  with assms have "ins_after t q = t # q" by (cases q) auto
  with True assms show ?thesis by (cases q) auto
next
  case False
  with assms show ?thesis by (simp add: ins_after_head_le)
qed

lemma foldr_insort_sorted:
  "sorted (map time q) \<Longrightarrow> foldr (insort_key time) q [t] = ins_after t q"
proof (induction q)
  case Nil
  then show ?case by simp
next
  case (Cons u q)
  then have "foldr (insort_key time) q [t] = ins_after t q" by simp
  with Cons.prems show ?case by (simp add: ins_after_sorted_cons)
qed

lemma ins_after_equal_times:
  "sorted (map time q) \<Longrightarrow>
     filter (\<lambda>u. time u = tm) (ins_after t q) =
       (if time t = tm then filter (\<lambda>u. time u = tm) q @ [t] else filter (\<lambda>u. time u = tm) q)"
proof (induction q)
  case Nil
  then show ?case by simp
next
  case (Cons u q)
  show ?case
  proof (cases "time t < time u")
    case True
    with Cons.prems have "\<forall>v \<in> set q. time t < time v" by auto
    then have "filter (\<lambda>v. time v = time t) q = []" by (auto simp: filter_empty_conv)
    with True show ?thesis by auto
  next
    case False
    with Cons show ?thesis by auto
  qed
qed

text \<open>On a sorted queue, insertion is appending and sorting stably by time.\<close>

lemma queue_insert_sort_key:
  "sorted (map time q) \<Longrightarrow> queue_insert t q = sort_key time (q @ [t])"
  by (simp add: queue_insert_ins_after sort_key_def foldr_insort_sorted)

lemma queue_insert_ok: "queue_ok q \<Longrightarrow> 0 \<le> time t \<Longrightarrow> queue_ok (queue_insert t q)"
  by (auto simp: queue_ok_def queue_insert_ins_after sorted_ins_after)

subsection \<open>Pop and retain\<close>

lemma sorted_map_shift:
  "sorted (map time q) \<Longrightarrow> sorted (map (\<lambda>u. time u - d) q)"
  by (induction q) auto

lemma pop_turn_ok:
  assumes "queue_ok q" and "pop_turn q = Some (t, q')"
  shows "queue_ok q' \<and> time t = 0"
proof -
  from assms(2) obtain u rest where q: "q = u # rest" and t: "t = u\<lparr>time := 0\<rparr>"
    by (auto simp: pop_turn_def split: list.splits)
  from assms(1) q have s: "sorted (map time rest)" and ge: "\<forall>v \<in> set rest. time u \<le> time v"
    and nn: "\<forall>v \<in> set rest. 0 \<le> time v"
    by (auto simp: queue_ok_def)
  show ?thesis
  proof (cases "time u > 0")
    case True
    with assms(2) q have "q' = map (\<lambda>v. v\<lparr>time := time v - time u\<rparr>) rest"
      by (simp add: pop_turn_def)
    moreover have "sorted (map time (map (\<lambda>v. v\<lparr>time := time v - time u\<rparr>) rest))"
      using sorted_map_shift [OF s, of "time u"] by (simp add: comp_def)
    ultimately show ?thesis using ge t by (auto simp: queue_ok_def)
  next
    case False
    with assms(2) q have "q' = rest" by (simp add: pop_turn_def)
    with s nn t show ?thesis by (simp add: queue_ok_def)
  qed
qed

lemma retain_turns_ok: "queue_ok q \<Longrightarrow> queue_ok (retain_turns cid q)"
  by (auto simp: queue_ok_def retain_turns_def sorted_filter)

lemma retain_turns_drops: "t \<in> set (retain_turns cid q) \<Longrightarrow> kind t \<noteq> Character_Turn cid"
  by (auto simp: retain_turns_def keep_turn_def)

lemma retain_turns_keeps:
  "t \<in> set q \<Longrightarrow> kind t \<noteq> Character_Turn cid \<Longrightarrow> t \<in> set (retain_turns cid q)"
  by (auto simp: retain_turns_def keep_turn_def split: turn_kind.splits)

subsection \<open>Properties\<close>

text \<open>C1: \<open>Game::add_turn\<close> refines stable sorting. On a turn queue sorted by time,
  inserting a turn gives the queue with the turn appended and then stably sorted by time
  (the code's commented-out \<open>push\<close> plus \<open>sort_by_key\<close>).\<close>

theorem add_turn_stable_sort:
  "sorted (map time (turn_queue (turn_system g))) \<Longrightarrow>
   turn_queue (turn_system (add_turn t g)) = sort_key time (turn_queue (turn_system g) @ [t])"
  by (simp add: add_turn_def queue_insert_sort_key)

text \<open>Insertion keeps the queue sorted, adds exactly the new turn, and breaks ties
  first-in first-out: among the turns with the new turn's time, the new one is last.\<close>

theorem add_turn_fifo_ties:
  "sorted (map time q) \<Longrightarrow>
     sorted (map time (queue_insert t q)) \<and> mset (queue_insert t q) = add_mset t (mset q)
     \<and> filter (\<lambda>u. time u = time t) (queue_insert t q) = filter (\<lambda>u. time u = time t) q @ [t]"
  by (simp add: queue_insert_ins_after sorted_ins_after ins_after_equal_times)

end
