(* ===== verification/Effects.thy ===== *)
theory Effects
  imports Turn_Queue
begin

text \<open>
  The spatial layer and the resolution of an action's effect:
  \<open>EffectKind::effective_characters\<close> (src/src/core/action.rs), which expands a
  nominal target into the affected character ids through \<open>Game::characters_in_square\<close>
  (Chebyshev) or \<open>Game::characters_in_range\<close> (Manhattan, with \<open>i32::MAX\<close> across
  maps); \<open>Character::take_damage\<close> (character.rs), the damage rule with its
  death and defeat thresholds, the killer's experience and the removal of the victim's
  turns; and \<open>AreaSystem::character_position_changed\<close> (area.rs), which wakes every
  boss when a character steps into an area carrying \<open>StartBossFight\<close>.
\<close>

text \<open>The origin of an area effect: the actor's own position for \<open>Target::None\<close>,
  the target character's for \<open>Target::Character\<close>, else the explicit position.\<close>

definition origin_of :: "game \<Rightarrow> int \<Rightarrow> target \<Rightarrow> position res" where
  "origin_of g cid t =
     (case t of
        TNone \<Rightarrow> unwrap (map_option position (map_of (characters g) cid))
      | TCharacter i \<Rightarrow> unwrap (map_option position (map_of (characters g) i))
      | TPosition pos \<Rightarrow> Inr pos)"

definition effective_characters :: "game \<Rightarrow> int \<Rightarrow> target \<Rightarrow> effect_kind \<Rightarrow> int list res" where
  "effective_characters g cid t ek =
     (case ek of
        EKCharacter \<Rightarrow>
          (case t of TNone \<Rightarrow> Inr [cid] | TCharacter i \<Rightarrow> Inr [i] | TPosition _ \<Rightarrow> Inl Panic)
      | Square r \<Rightarrow> bindE (origin_of g cid t) (\<lambda>pos. Inr (characters_in_square g pos r))
      | Manhattan r \<Rightarrow> bindE (origin_of g cid t) (\<lambda>pos. Inr (characters_in_range g pos r)))"

text \<open>\<open>Character::take_damage\<close>: the two threshold checks are independent and run in
  this order; the defeat grants \<open>kill_experience\<close> to the source and removes the
  target's \<open>Character\<close> turns.\<close>

definition hit :: "int \<Rightarrow> character \<Rightarrow> character" where
  "hit dmg c =
     (let c1 = c\<lparr>hp := (hp c)\<lparr>damage := damage (hp c) + dmg\<rparr>\<rparr> in
      if \<not> dead c1 \<and> current (hp c1) \<le> -1000 then c1\<lparr>dead := True, hidden := True\<rparr> else c1)"

definition take_damage :: "int \<Rightarrow> int \<Rightarrow> int \<Rightarrow> game \<Rightarrow> game res" where
  "take_damage dmg tid sid g =
     (case map_of (characters g) tid of
        None \<Rightarrow> Inl Missing
      | Some c \<Rightarrow>
          let c2 = hit dmg c in
          if \<not> defeated c2 \<and> current (hp c2) \<le> 0 then
            let c3 = c2\<lparr>defeated := True, hidden := True\<rparr>;
                ex = kill_experience c3;
                g1 = g\<lparr>characters := AList.update tid c3 (characters g)\<rparr>
            in bindE (map_char sid (gain_exp ex) g1)
                 (\<lambda>g2. Inr (map_turn_system
                    (\<lambda>ts. ts\<lparr>turn_queue := retain_turns tid (turn_queue ts)\<rparr>) g2))
          else Inr (g\<lparr>characters := AList.update tid c2 (characters g)\<rparr>))"

text \<open>\<open>for target_id in characters { Character::take_damage(...) }\<close>\<close>

fun damage_all :: "int \<Rightarrow> int list \<Rightarrow> int \<Rightarrow> game \<Rightarrow> game res" where
  "damage_all dmg [] sid g = Inr g"
| "damage_all dmg (t # ts) sid g = bindE (take_damage dmg t sid g) (damage_all dmg ts sid)"

subsection \<open>Areas (area.rs)\<close>

definition in_area :: "position \<Rightarrow> area \<Rightarrow> bool" where
  "in_area pos a \<longleftrightarrow>
     area_map_id a = map_id pos \<and> area_x a \<le> pos_x pos \<and> pos_x pos < area_x a + area_w a
     \<and> area_y a \<le> pos_y pos \<and> pos_y pos < area_y a + area_h a"

definition wake_boss :: "character \<Rightarrow> character" where
  "wake_boss c = (case controller c of Boss _ \<Rightarrow> c\<lparr>controller := Boss False\<rparr> | _ \<Rightarrow> c)"

definition run_event :: "event \<Rightarrow> game \<Rightarrow> game" where
  "run_event ev g =
     (case ev of StartBossFight \<Rightarrow> g\<lparr>characters := map (\<lambda>(i, c). (i, wake_boss c)) (characters g)\<rparr>)"

definition character_position_changed :: "int \<Rightarrow> game \<Rightarrow> game" where
  "character_position_changed cid g =
     (case map_of (characters g) cid of
        None \<Rightarrow> g
      | Some c \<Rightarrow>
          fold (\<lambda>(_, a). fold run_event (events a))
            (filter (\<lambda>(_, a). in_area (position c) a) (areas g)) g)"

definition wake_all :: "game \<Rightarrow> game" where
  "wake_all g = g\<lparr>characters := map (\<lambda>(i, c). (i, wake_boss c)) (characters g)\<rparr>"

subsection \<open>Lemmas\<close>

lemma effective_characters_square:
  assumes "effective_characters g cid t (Square r) = Inr ids" and "origin_of g cid t = Inr pos"
  shows "set ids = {i. \<exists>c. (i, c) \<in> set (characters g) \<and> in_square pos r (position c)}"
proof -
  from assms have "ids = characters_in_square g pos r" by (simp add: effective_characters_def)
  then show ?thesis by (simp add: set_characters_in_square)
qed

lemma effective_characters_manhattan:
  assumes "effective_characters g cid t (Manhattan r) = Inr ids" and "origin_of g cid t = Inr pos"
  shows "set ids = {i. \<exists>c. (i, c) \<in> set (characters g) \<and> distance pos (position c) \<le> r}"
proof -
  from assms have "ids = characters_in_range g pos r" by (simp add: effective_characters_def)
  then show ?thesis by (simp add: set_characters_in_range)
qed

lemma distance_other_map: "map_id a \<noteq> map_id b \<Longrightarrow> distance a b = i32_max"
  by (simp add: distance_def)

lemma hit_fields [simp]:
  "position (hit dmg c) = position c" "defeated (hit dmg c) = defeated c"
  "controller (hit dmg c) = controller c" "crowd_controls (hit dmg c) = crowd_controls c"
  "experience (hit dmg c) = experience c" "command_id (hit dmg c) = command_id c"
  "current (hp (hit dmg c)) = current (hp c) - dmg"
  by (simp_all add: hit_def Let_def current_def)

lemma dead_hit: "dead (hit dmg c) \<longleftrightarrow> dead c \<or> current (hp c) - dmg \<le> -1000"
  by (simp add: hit_def Let_def current_def)

lemma hidden_hit: "hidden (hit dmg c) \<longleftrightarrow> hidden c \<or> (\<not> dead c \<and> current (hp c) - dmg \<le> -1000)"
  by (simp add: hit_def Let_def current_def)

lemma flags_ok_hit_survive:
  "flags_ok c \<Longrightarrow> \<not> (\<not> defeated (hit dmg c) \<and> current (hp (hit dmg c)) \<le> 0) \<Longrightarrow> flags_ok (hit dmg c)"
  by (auto simp: flags_ok_def dead_hit hidden_hit)

lemma chars_ok_take_damage:
  assumes ok: "chars_ok g" and td: "take_damage dmg tid sid g = Inr g'"
  shows "chars_ok g'"
proof -
  from td obtain c where c: "map_of (characters g) tid = Some c"
    by (auto simp: take_damage_def split: option.splits)
  from ok c have fc: "flags_ok c" by (rule chars_ok_lookup)
  show ?thesis
  proof (cases "\<not> defeated (hit dmg c) \<and> current (hp (hit dmg c)) \<le> 0")
    case True
    let ?c3 = "(hit dmg c)\<lparr>defeated := True, hidden := True\<rparr>"
    have "flags_ok ?c3" by (simp add: flags_ok_def)
    with ok have ok1: "chars_ok (g\<lparr>characters := AList.update tid ?c3 (characters g)\<rparr>)"
      by (rule chars_ok_update)
    from td c True obtain g2 where
      mc: "map_char sid (gain_exp 1) (g\<lparr>characters := AList.update tid ?c3 (characters g)\<rparr>) = Inr g2"
      and g': "g' = map_turn_system (\<lambda>ts. ts\<lparr>turn_queue := retain_turns tid (turn_queue ts)\<rparr>) g2"
      by (auto simp: take_damage_def Let_def kill_experience_def bindE_eq_Inr)
    from ok1 _ mc have "chars_ok g2" by (rule chars_ok_map_char) simp
    with g' show ?thesis by (simp add: chars_ok_def)
  next
    case False
    with td c have "g' = g\<lparr>characters := AList.update tid (hit dmg c) (characters g)\<rparr>"
      by (auto simp: take_damage_def Let_def split: if_splits)
    with ok fc False show ?thesis by (simp add: chars_ok_update flags_ok_hit_survive)
  qed
qed

text \<open>The defeat branch of \<open>take_damage\<close>, computed.\<close>

lemma take_damage_low:
  assumes "map_of (characters g) tid = Some c" and "map_of (characters g) sid = Some s"
    and "sid \<noteq> tid" and "\<not> defeated c" and "current (hp c) - dmg \<le> 0"
  shows "take_damage dmg tid sid g = Inr (map_turn_system
      (\<lambda>ts. ts\<lparr>turn_queue := retain_turns tid (turn_queue ts)\<rparr>)
      (g\<lparr>characters := AList.update sid (gain_exp 1 s)
         (AList.update tid ((hit dmg c)\<lparr>defeated := True, hidden := True\<rparr>) (characters g))\<rparr>))"
  using assms by (simp add: take_damage_def Let_def kill_experience_def)

text \<open>The survival branch: only the target's damage accumulator (and a death past
  -1000 of an already defeated target) changes.\<close>

lemma take_damage_high:
  assumes "map_of (characters g) tid = Some c" and "defeated c \<or> 0 < current (hp c) - dmg"
  shows "take_damage dmg tid sid g = Inr (g\<lparr>characters := AList.update tid (hit dmg c) (characters g)\<rparr>)"
  using assms by (auto simp: take_damage_def Let_def)

subsubsection \<open>Area triggers only wake bosses\<close>

lemma wake_boss_idem [simp]: "wake_boss (wake_boss c) = wake_boss c"
  by (simp add: wake_boss_def split: controller.splits)

lemma wake_boss_fields [simp]:
  "position (wake_boss c) = position c" "offset_x (wake_boss c) = offset_x c"
  "offset_y (wake_boss c) = offset_y c" "flags_ok (wake_boss c) = flags_ok c"
  "command_id (wake_boss c) = command_id c"
  by (simp_all add: wake_boss_def flags_ok_def split: controller.splits)

lemma run_event_wake_all: "run_event ev g = wake_all g"
  by (cases ev) (simp add: run_event_def wake_all_def)

lemma map_wake_boss_idem:
  "(\<lambda>(i, c). (i, wake_boss c)) \<circ> (\<lambda>(i, c). (i, wake_boss c)) = (\<lambda>(i::int, c). (i, wake_boss c))"
  by (auto simp: fun_eq_iff)

lemma wake_all_idem [simp]: "wake_all (wake_all g) = wake_all g"
  by (simp add: wake_all_def map_wake_boss_idem)

lemma wake_all_closed: "g' \<in> {g, wake_all g} \<Longrightarrow> wake_all g' \<in> {g, wake_all g}"
proof -
  assume "g' \<in> {g, wake_all g}"
  then consider "g' = g" | "g' = wake_all g" by blast
  then show "wake_all g' \<in> {g, wake_all g}"
  proof cases
    case 1
    then show ?thesis by (simp only: insert_iff simp_thms)
  next
    case 2
    then show ?thesis by (simp only: wake_all_idem insert_iff simp_thms)
  qed
qed

lemma fold_run_event: "g' \<in> {g, wake_all g} \<Longrightarrow> fold run_event evs g' \<in> {g, wake_all g}"
proof (induction evs arbitrary: g')
  case Nil
  then show ?case by (simp only: fold_Nil id_apply)
next
  case (Cons ev evs)
  from Cons.prems have "run_event ev g' \<in> {g, wake_all g}"
    unfolding run_event_wake_all by (rule wake_all_closed)
  then show ?case unfolding fold_Cons comp_apply by (rule Cons.IH)
qed

lemma fold_areas:
  "g' \<in> {g, wake_all g} \<Longrightarrow> fold (\<lambda>(_, a). fold run_event (events a)) as g' \<in> {g, wake_all g}"
proof (induction as arbitrary: g')
  case Nil
  then show ?case by (simp only: fold_Nil id_apply)
next
  case (Cons x as)
  from Cons.prems have "fold run_event (events (snd x)) g' \<in> {g, wake_all g}"
    by (rule fold_run_event)
  then have "(\<lambda>(_, a). fold run_event (events a)) x g' \<in> {g, wake_all g}"
    by (simp only: case_prod_beta)
  then show ?case unfolding fold_Cons comp_apply by (rule Cons.IH)
qed

lemma character_position_changed_cases:
  "character_position_changed cid g \<in> {g, wake_all g}"
proof (cases "map_of (characters g) cid")
  case None
  then show ?thesis by (simp only: character_position_changed_def option.case insert_iff simp_thms)
next
  case (Some c)
  have "g \<in> {g, wake_all g}" by (simp only: insert_iff simp_thms)
  then have "fold (\<lambda>(_, a). fold run_event (events a)) (filter (\<lambda>(_, a). in_area (position c) a) (areas g)) g \<in> {g, wake_all g}"
    by (rule fold_areas)
  with Some show ?thesis by (simp only: character_position_changed_def option.case)
qed

lemma map_of_wake_all: "map_of (characters (wake_all g)) i = map_option wake_boss (map_of (characters g) i)"
  by (simp add: wake_all_def map_of_map)

lemma character_position_changed_char:
  assumes "map_of (characters g) i = Some c"
  shows "\<exists>c'. map_of (characters (character_position_changed cid g)) i = Some c' \<and>
     position c' = position c \<and> offset_x c' = offset_x c \<and> offset_y c' = offset_y c"
proof -
  from character_position_changed_cases [of cid g]
  consider "character_position_changed cid g = g" | "character_position_changed cid g = wake_all g"
    by blast
  then show ?thesis
  proof cases
    case 1
    with assms show ?thesis by simp
  next
    case 2
    with assms show ?thesis by (simp add: map_of_wake_all)
  qed
qed

subsection \<open>Properties\<close>

text \<open>C4: the defeat rule of \<open>Character::take_damage\<close>. A hit that brings a
  character that is not yet defeated to at most 0 hp defeats and hides it, marks it dead
  exactly when it was dead or the hit reaches -1000, gives the attacker exactly one
  experience point, and removes the target's \<open>Character\<close> turns, and only those, from
  the queue.\<close>

theorem take_damage_defeat:
  assumes "map_of (characters g) tid = Some c" and "map_of (characters g) sid = Some s"
    and "sid \<noteq> tid" and "\<not> defeated c" and "current (hp c) - dmg \<le> 0"
  shows "\<exists>g' c' s'. take_damage dmg tid sid g = Inr g'
     \<and> map_of (characters g') tid = Some c' \<and> defeated c' \<and> hidden c'
     \<and> (dead c' \<longleftrightarrow> dead c \<or> current (hp c) - dmg \<le> -1000)
     \<and> map_of (characters g') sid = Some s' \<and> experience s' = experience s + 1
     \<and> turn_queue (turn_system g') = retain_turns tid (turn_queue (turn_system g))"
  using take_damage_low [OF assms] assms(3) by (simp add: dead_hit gain_exp_def)

text \<open>C5: death and defeat are independent checks. A hit on a character that is
  already defeated but alive, reaching -1000 hp, kills it (dead and hidden) without a
  second reward and without touching the queue or any other character.\<close>

theorem take_damage_death_after_defeat:
  assumes "map_of (characters g) tid = Some c" and "defeated c" and "\<not> dead c"
    and "current (hp c) - dmg \<le> -1000"
  shows "\<exists>c'. take_damage dmg tid sid g = Inr (g\<lparr>characters := AList.update tid c' (characters g)\<rparr>)
     \<and> dead c' \<and> hidden c' \<and> defeated c' \<and> current (hp c') = current (hp c) - dmg"
proof -
  from assms have "take_damage dmg tid sid g = Inr (g\<lparr>characters := AList.update tid (hit dmg c) (characters g)\<rparr>)"
    by (simp add: take_damage_high)
  moreover from assms have "dead (hit dmg c) \<and> hidden (hit dmg c) \<and> defeated (hit dmg c)"
    by (simp add: dead_hit hidden_hit)
  ultimately show ?thesis by auto
qed

text \<open>C7: effect-area targeting (spec 8.6). For a character of the registry (keys
  distinct, as in a \<open>HashMap\<close>) and an origin the target resolves to, \<open>Square r\<close>
  selects it exactly when it is on the origin's map within Chebyshev distance \<open>r\<close>,
  and \<open>Manhattan r\<close> exactly when \<open>Position::distance\<close> to it is at most \<open>r\<close>.\<close>

theorem effect_area_membership:
  assumes "distinct (map fst (characters g))" and "map_of (characters g) i = Some c"
    and "origin_of g cid t = Inr pos"
  shows "(\<exists>ids. effective_characters g cid t (Square r) = Inr ids \<and>
            (i \<in> set ids \<longleftrightarrow> map_id (position c) = map_id pos
               \<and> \<bar>pos_x pos - pos_x (position c)\<bar> \<le> r \<and> \<bar>pos_y pos - pos_y (position c)\<bar> \<le> r))
       \<and> (\<exists>ids. effective_characters g cid t (Manhattan r) = Inr ids \<and>
            (i \<in> set ids \<longleftrightarrow> distance pos (position c) \<le> r))"
proof -
  have sq: "i \<in> set (characters_in_square g pos r) \<longleftrightarrow> in_square pos r (position c)"
    unfolding characters_in_square_def
    by (rule key_in_filter_distinct [OF assms(1,2), where P = "\<lambda>c. in_square pos r (position c)"])
  have mh: "i \<in> set (characters_in_range g pos r) \<longleftrightarrow> distance pos (position c) \<le> r"
    unfolding characters_in_range_def
    by (rule key_in_filter_distinct [OF assms(1,2), where P = "\<lambda>c. distance pos (position c) \<le> r"])
  show ?thesis
    using assms(3) sq mh by (auto simp: effective_characters_def in_square_def)
qed

text \<open>C8: the width of \<open>Position::distance\<close> shows across maps. A character on
  another map than the origin is never in a \<open>Square\<close> effect, but it is in a
  \<open>Manhattan r\<close> effect exactly when \<open>r \<ge> i32::MAX\<close>, the distance the code gives
  to positions on different maps.\<close>

theorem effect_other_map:
  assumes "distinct (map fst (characters g))" and "map_of (characters g) i = Some c"
    and "map_id (position c) \<noteq> map_id pos"
  shows "i \<notin> set (characters_in_square g pos r)
     \<and> (i \<in> set (characters_in_range g pos r) \<longleftrightarrow> i32_max \<le> r)"
proof -
  have sq: "i \<in> set (characters_in_square g pos r) \<longleftrightarrow> in_square pos r (position c)"
    unfolding characters_in_square_def
    by (rule key_in_filter_distinct [OF assms(1,2), where P = "\<lambda>c. in_square pos r (position c)"])
  have mh: "i \<in> set (characters_in_range g pos r) \<longleftrightarrow> distance pos (position c) \<le> r"
    unfolding characters_in_range_def
    by (rule key_in_filter_distinct [OF assms(1,2), where P = "\<lambda>c. distance pos (position c) \<le> r"])
  show ?thesis
    using assms(3) sq mh by (auto simp: in_square_def distance_def)
qed

end
