(* ===== verification/Floor.thy ===== *)
theory Floor
  imports Effects
begin

text \<open>
  The progression controller \<open>FloorSystem\<close> (src/src/core/floor.rs) and the
  movement entry point \<open>Game::character_set_position\<close> (game.rs) that triggers it.
  Both may re-enter the dialogue interpreter through \<open>Game::start_novel\<close> (a boss
  floor opens the boss talk). That call is the parameter \<open>sn :: novel_hook\<close>: the
  theory is stated for any implementation of the hook, and Novel.thy instantiates it
  with the interpreter itself, one recursion level deeper.
\<close>

type_synonym novel_hook = "int \<Rightarrow> int \<Rightarrow> int \<Rightarrow> game \<Rightarrow> game res"

definition temp_map_id :: int where "temp_map_id = -1"
definition boss_map_id :: int where "boss_map_id = -2"
definition normal_map_id :: int where "normal_map_id = -3"
definition skill_vendor_id :: int where "skill_vendor_id = -1"

definition floor_start :: "int \<Rightarrow> game \<Rightarrow> game" where
  "floor_start cid g =
     g\<lparr>floor_system := (floor_system g)\<lparr>fs_current := Some \<lparr>fc_character_id = cid, floor = 0\<rparr>\<rparr>\<rparr>"

text \<open>The player's reward on reaching floor \<open>fl\<close>: one experience (written to the
  field directly, without \<open>gain_exp\<close>), gold and wood; full recovery when entering
  or leaving a boss floor; the room's entry position.\<close>

definition reward_player :: "int \<Rightarrow> character \<Rightarrow> character" where
  "reward_player fl c =
     (let c1 = c\<lparr>experience := experience c + 1, gold := gold c + 1, wood := wood c + 1\<rparr>;
          c2 = (if fl mod 5 = 0 \<or> (fl - 1) mod 5 = 0
                then c1\<lparr>hp := (hp c1)\<lparr>damage := 0\<rparr>, mp := (mp c1)\<lparr>damage := 0\<rparr>\<rparr> else c1)
      in c2\<lparr>position := (if fl mod 5 = 0 then \<lparr>map_id = boss_map_id, pos_x = 5, pos_y = 10\<rparr>
                         else \<lparr>map_id = normal_map_id, pos_x = 0, pos_y = 2\<rparr>)\<rparr>)"

definition bump_action_exp :: "int list \<Rightarrow> (int, character_action) table \<Rightarrow> (int, character_action) table" where
  "bump_action_exp ids t =
     fold (\<lambda>i t. case map_of t i of None \<Rightarrow> t | Some ca \<Rightarrow> AList.update i (ca\<lparr>ca_exp := ca_exp ca + 1\<rparr>) t) ids t"

definition banish :: "character \<Rightarrow> character" where
  "banish c =
     (if controller c \<noteq> Player \<and> (map_id (position c) = boss_map_id \<or> map_id (position c) = normal_map_id)
      then c\<lparr>position := (position c)\<lparr>map_id := temp_map_id\<rparr>\<rparr> else c)"

definition normal_floor :: "int \<Rightarrow> bool" where
  "normal_floor fl \<longleftrightarrow> 1 \<le> fl \<and> fl \<le> 49 \<and> fl mod 5 \<noteq> 0"

definition boss_floor :: "int \<Rightarrow> bool" where
  "boss_floor fl \<longleftrightarrow> 0 \<le> fl \<and> fl \<le> 50 \<and> fl mod 5 = 0"

definition place_enemy :: "int \<Rightarrow> character \<Rightarrow> character" where
  "place_enemy fl e = e\<lparr>position := \<lparr>map_id = normal_map_id, pos_x = 9, pos_y = 2\<rparr>, hp := (hp e)\<lparr>base := fl\<rparr>\<rparr>"

definition place_boss :: "int \<Rightarrow> character \<Rightarrow> character" where
  "place_boss fl e =
     e\<lparr>position := \<lparr>map_id = boss_map_id, pos_x = 5, pos_y = 5\<rparr>, hp := (hp e)\<lparr>base := 100 + fl\<rparr>,
       controller := Boss True\<rparr>"

definition place_vendor :: "character \<Rightarrow> character" where
  "place_vendor c = c\<lparr>position := (position c)\<lparr>map_id := boss_map_id, pos_x := 4, pos_y := 10\<rparr>\<rparr>"

text \<open>The \<open>match floor\<close> of \<open>FloorSystem::next\<close>; a floor outside 0..50 is only logged.\<close>

definition spawn_floor_content :: "novel_hook \<Rightarrow> int \<Rightarrow> int \<Rightarrow> game \<Rightarrow> game res" where
  "spawn_floor_content sn pid fl g =
     (if normal_floor fl then
        (let (g1, i) = new_enemy g in Inr (map_char_opt i (place_enemy fl) g1))
      else if boss_floor fl then
        (let g1 = map_char_opt skill_vendor_id place_vendor g;
             (g2, i) = new_enemy g1;
             g3 = map_char_opt i (place_boss fl) g2
         in sn 0 pid i g3)
      else Inr g)"

definition floor_next :: "novel_hook \<Rightarrow> game \<Rightarrow> game res" where
  "floor_next sn g =
     (case fs_current (floor_system g) of
        None \<Rightarrow> Inr g
      | Some cur \<Rightarrow>
          let fl = floor cur + 1; pid = fc_character_id cur;
              g1 = g\<lparr>floor_system := (floor_system g)\<lparr>fs_current := Some (cur\<lparr>floor := fl\<rparr>)\<rparr>\<rparr>;
              g2 = (case map_of (characters g1) pid of
                      None \<Rightarrow> g1
                    | Some c \<Rightarrow> g1\<lparr>characters := AList.update pid (reward_player fl c) (characters g1),
                                   character_actions := bump_action_exp (character_action_ids c) (character_actions g1)\<rparr>);
              g3 = g2\<lparr>characters := map (\<lambda>(i, c). (i, banish c)) (characters g2)\<rparr>
          in spawn_floor_content sn pid fl g3)"

text \<open>\<open>Game::character_set_position\<close>: move, then a teleport tile advances the floor,
  then the area triggers run.\<close>

definition character_set_position :: "novel_hook \<Rightarrow> int \<Rightarrow> position \<Rightarrow> game \<Rightarrow> game res" where
  "character_set_position sn cid pos g =
     bindE (map_char cid (\<lambda>c. c\<lparr>position := pos\<rparr>) g)
       (\<lambda>g1. bindE (if teleportation_at_position g1 pos \<noteq> None then floor_next sn g1 else Inr g1)
         (\<lambda>g2. Inr (character_position_changed cid g2)))"

definition character_change_position :: "novel_hook \<Rightarrow> int \<Rightarrow> int \<Rightarrow> int \<Rightarrow> int \<Rightarrow> game \<Rightarrow> game res" where
  "character_change_position sn cid x y m g =
     character_set_position sn cid \<lparr>map_id = m, pos_x = x, pos_y = y\<rparr> g"

subsection \<open>Lemmas\<close>

lemma reward_player_fields [simp]:
  "experience (reward_player fl c) = experience c + 1"
  "gold (reward_player fl c) = gold c + 1"
  "wood (reward_player fl c) = wood c + 1"
  "controller (reward_player fl c) = controller c"
  "flags_ok (reward_player fl c) = flags_ok c"
  by (simp_all add: reward_player_def Let_def flags_ok_def)

lemma banish_fields [simp]:
  "controller (banish c) = controller c" "flags_ok (banish c) = flags_ok c"
  "experience (banish c) = experience c" "gold (banish c) = gold c"
  by (simp_all add: banish_def flags_ok_def)

lemma banish_clears_rooms:
  "controller c \<noteq> Player \<Longrightarrow> map_id (position (banish c)) \<noteq> boss_map_id \<and> map_id (position (banish c)) \<noteq> normal_map_id"
  by (auto simp: banish_def temp_map_id_def boss_map_id_def normal_map_id_def)

lemma normal_boss_disjoint: "normal_floor fl \<Longrightarrow> \<not> boss_floor fl"
  by (simp add: normal_floor_def boss_floor_def)

end
