(* ===== verification/Command.thy ===== *)
theory Command
  imports Floor
begin

text \<open>
  The command lifecycle of src/src/core/command.rs: \<open>Command::new\<close> computes the
  payload and may register a sprite animation (always under id 1, as the code does);
  \<open>Command::start\<close> marks the command \<open>Started\<close> and charges the action's hp/mp cost;
  \<open>Command::update\<close> advances the animation percentage and the move offset;
  \<open>Command::end\<close> marks it \<open>Ended\<close>, releases the animation and resolves the
  effect of the action kind. \<open>Talk\<close> and \<open>Move\<close> re-enter the dialogue interpreter
  (directly, or through a teleport and the floor controller): \<open>command_end\<close> takes the
  hook \<open>sn\<close> for \<open>Game::start_novel\<close>. The recoverable \<open>CommandError::Target\<close> is
  the value \<open>Inl Target_Error\<close> inside a successful result; panics are \<open>Inl\<close> of
  the outer result.
\<close>

subsection \<open>\<open>Command::new\<close>\<close>

definition drain_animation :: "game \<Rightarrow> character \<Rightarrow> animation res" where
  "drain_animation g c =
     unwrap (case map_of (character_sprites g) (character_sprite_id c) of
               None \<Rightarrow> None
             | Some cs \<Rightarrow> map_of (spr_animation cs) ''drain'')"

definition put_animation :: "animation \<Rightarrow> position \<Rightarrow> game \<Rightarrow> game" where
  "put_animation an pos g =
     g\<lparr>sprite_animations := AList.update 1
        \<lparr>ae_id = 1, ae_animation = an, percentage = 0, ae_position = pos\<rparr> (sprite_animations g)\<rparr>"

text \<open>The payload, by action kind; \<open>Move\<close> needs a position, \<open>Drain\<close> a character.\<close>

definition new_data :: "game \<Rightarrow> character \<Rightarrow> action \<Rightarrow> target \<Rightarrow> (game \<times> (command_error + command_data)) res" where
  "new_data g c a t =
     (case action_kind a of
        Move \<Rightarrow>
          (case t of TPosition pos \<Rightarrow> Inr (g, Inr (CDMove (position c) pos)) | _ \<Rightarrow> Inr (g, Inl Target_Error))
      | Drain \<Rightarrow>
          (case t of
             TCharacter i \<Rightarrow>
               bindE (unwrap (map_of (characters g) i)) (\<lambda>tc.
               bindE (drain_animation g c) (\<lambda>an.
               Inr (put_animation an (position tc) g, Inr (CDDrain 1))))
           | _ \<Rightarrow> Inr (g, Inl Target_Error))
      | _ \<Rightarrow> Inr (g, Inr CDNone))"

definition new_animation :: "game \<Rightarrow> int \<Rightarrow> action \<Rightarrow> target \<Rightarrow> (game \<times> int option) res" where
  "new_animation g cid a t =
     (case animation a of
        None \<Rightarrow> Inr (g, None)
      | Some an \<Rightarrow> bindE (origin_of g cid t) (\<lambda>pos. Inr (put_animation an pos g, Some 1)))"

definition command_new :: "game \<Rightarrow> int \<Rightarrow> int \<Rightarrow> target \<Rightarrow> (game \<times> (command_error + command)) res" where
  "command_new g cid aid t =
     bindE (unwrap (map_of (actions g) aid)) (\<lambda>a.
     bindE (unwrap (map_of (characters g) cid)) (\<lambda>c.
     bindE (new_data g c a t) (\<lambda>(g1, r).
       case r of
         Inl e \<Rightarrow> Inr (g1, Inl e)
       | Inr d \<Rightarrow>
           bindE (new_animation g1 cid a t) (\<lambda>(g2, sid).
             Inr (g2, Inr \<lparr>cmd_character_id = cid, cmd_action_id = aid, target = t,
                          elapsed_time = 0, data = d, sprite_animation_id = sid,
                          cmd_state = New\<rparr>)))))"

subsection \<open>\<open>Command::start\<close> and \<open>Command::update\<close>\<close>

definition add_opt :: "int \<Rightarrow> int option \<Rightarrow> int" where
  "add_opt x d = (case d of None \<Rightarrow> x | Some v \<Rightarrow> x + v)"

definition pay_cost :: "action \<Rightarrow> character \<Rightarrow> character" where
  "pay_cost a c =
     c\<lparr>hp := (hp c)\<lparr>damage := add_opt (damage (hp c)) (act_hp a)\<rparr>,
       mp := (mp c)\<lparr>damage := add_opt (damage (mp c)) (act_mp a)\<rparr>\<rparr>"

definition command_start :: "int \<Rightarrow> game \<Rightarrow> game res" where
  "command_start i g =
     bindE (unwrap (map_of (commands g) i)) (\<lambda>cmd.
       let g1 = g\<lparr>commands := AList.update i (cmd\<lparr>cmd_state := Started\<rparr>) (commands g)\<rparr> in
       bindE (unwrap (map_of (actions g1) (cmd_action_id cmd))) (\<lambda>a.
         map_char (cmd_character_id cmd) (pay_cost a) g1))"

definition set_percentage :: "int \<Rightarrow> real \<Rightarrow> game \<Rightarrow> game res" where
  "set_percentage sid pc g =
     bindE (unwrap (map_of (sprite_animations g) sid)) (\<lambda>ae.
       Inr (g\<lparr>sprite_animations := AList.update sid (ae\<lparr>percentage := pc\<rparr>) (sprite_animations g)\<rparr>))"

text \<open>\<open>(elapsed_time / duration).min(1.0)\<close>; HOL's division by zero is 0 where
  \<open>f32\<close> gives infinity, but \<open>update\<close> is only called while
  \<open>elapsed_time < duration\<close>.\<close>

definition progress :: "command \<Rightarrow> action \<Rightarrow> real" where
  "progress cmd a = min (elapsed_time cmd / duration a) 1"

definition command_update :: "int \<Rightarrow> game \<Rightarrow> game res" where
  "command_update i g =
     bindE (unwrap (map_of (commands g) i)) (\<lambda>cmd.
     bindE (unwrap (map_of (actions g) (cmd_action_id cmd))) (\<lambda>a.
       let pc = progress cmd a in
       bindE (case sprite_animation_id cmd of None \<Rightarrow> Inr g | Some sid \<Rightarrow> set_percentage sid pc g) (\<lambda>g1.
         case data cmd of
           CDNone \<Rightarrow> Inr g1
         | CDMove fr to \<Rightarrow>
             map_char (cmd_character_id cmd)
               (\<lambda>c. c\<lparr>offset_x := of_int (pos_x to - pos_x fr) * pc,
                      offset_y := of_int (pos_y to - pos_y fr) * pc\<rparr>) g1
         | CDDrain sid \<Rightarrow> set_percentage sid pc g1)))"

subsection \<open>\<open>Command::end\<close>\<close>

text \<open>\<open>for target_id in characters { let target = ...get_mut(&target_id).unwrap(); ... }\<close>\<close>

fun map_chars :: "int list \<Rightarrow> (character \<Rightarrow> character) \<Rightarrow> game \<Rightarrow> game res" where
  "map_chars [] f g = Inr g"
| "map_chars (i # is) f g = bindE (map_char i f g) (map_chars is f)"

fun drain_all :: "int list \<Rightarrow> int \<Rightarrow> game \<Rightarrow> game res" where
  "drain_all [] sid g = Inr g"
| "drain_all (t # ts) sid g =
     bindE (unwrap (map_of (characters g) t)) (\<lambda>c.
       if experience c > 0
       then bindE (map_char t (gain_exp (-1)) g) (\<lambda>g1.
              bindE (map_char sid (gain_exp 1) g1) (drain_all ts sid))
       else drain_all ts sid g)"

text \<open>A move lands only on a walkable tile that no visible character occupies;
  \<open>to.y as usize\<close> of a negative coordinate is out of range, so not walkable.\<close>

definition is_walkable :: "game \<Rightarrow> position \<Rightarrow> bool" where
  "is_walkable g to =
     (case map_of (tile_maps g) (map_id to) of
        None \<Rightarrow> False
      | Some m \<Rightarrow>
          (case get_i32 (tm_tiles m) (pos_y to) of
             None \<Rightarrow> False
           | Some row \<Rightarrow>
               (case get_i32 row (pos_x to) of
                  None \<Rightarrow> False
                | Some tid \<Rightarrow> (case map_of (tiles g) tid of None \<Rightarrow> False | Some t \<Rightarrow> walkable t))))"

definition move_destination :: "game \<Rightarrow> position \<Rightarrow> position \<Rightarrow> position" where
  "move_destination g fr to =
     (if \<not> is_walkable g to \<or> character_at_position g to \<noteq> None then fr else to)"

definition resolve_move :: "novel_hook \<Rightarrow> int \<Rightarrow> position \<Rightarrow> position \<Rightarrow> game \<Rightarrow> game res" where
  "resolve_move sn cid fr to g =
     (let pos = move_destination g fr to in
      bindE (map_char cid (\<lambda>c. c\<lparr>offset_x := 0, offset_y := 0\<rparr>) g) (\<lambda>g1.
        character_set_position sn cid pos g1))"

definition set_sleep :: "int \<Rightarrow> character \<Rightarrow> character" where
  "set_sleep d c = c\<lparr>crowd_controls := (crowd_controls c)\<lparr>sleep := max (sleep (crowd_controls c)) d\<rparr>\<rparr>"

definition set_shock :: "int \<Rightarrow> character \<Rightarrow> character" where
  "set_shock d c =
     c\<lparr>crowd_controls := (crowd_controls c)\<lparr>shock := max (shock (crowd_controls c)) d, shocked := False\<rparr>\<rparr>"

definition set_root :: "int \<Rightarrow> character \<Rightarrow> character" where
  "set_root d c = c\<lparr>crowd_controls := (crowd_controls c)\<lparr>root := max (root (crowd_controls c)) d\<rparr>\<rparr>"

definition recover_hp :: "int \<Rightarrow> character \<Rightarrow> character" where
  "recover_hp v c = c\<lparr>hp := (hp c)\<lparr>damage := damage (hp c) - v\<rparr>\<rparr>"

definition recover_mp :: "int \<Rightarrow> character \<Rightarrow> character" where
  "recover_mp v c = c\<lparr>mp := (mp c)\<lparr>damage := damage (mp c) - v\<rparr>\<rparr>"

definition resolve_effect :: "novel_hook \<Rightarrow> command \<Rightarrow> action \<Rightarrow> game \<Rightarrow> game res" where
  "resolve_effect sn cmd a g =
     (let cid = cmd_character_id cmd;
          targets = effective_characters g cid (target cmd) (effect_kind a) in
      case action_kind a of
        Idle \<Rightarrow> Inr g
      | Talk \<Rightarrow>
          (case target cmd of
             TCharacter tid \<Rightarrow>
               bindE (unwrap (map_option talk_id (map_of (characters g) tid))) (\<lambda>s. sn s cid tid g)
           | _ \<Rightarrow> Inl Panic)
      | Move \<Rightarrow> (case data cmd of CDMove fr to \<Rightarrow> resolve_move sn cid fr to g | _ \<Rightarrow> Inl Panic)
      | Damage d \<Rightarrow> bindE targets (\<lambda>ids. damage_all d ids cid g)
      | Drain \<Rightarrow>
          (case data cmd of
             CDDrain sid \<Rightarrow>
               let g1 = g\<lparr>sprite_animations := AList.delete sid (sprite_animations g)\<rparr> in
               bindE (effective_characters g1 cid (target cmd) (effect_kind a)) (\<lambda>ids. drain_all ids cid g1)
           | _ \<Rightarrow> Inl Panic)
      | Lullaby d \<Rightarrow> bindE targets (\<lambda>ids. map_chars ids (set_sleep d) g)
      | Thunder d \<Rightarrow> bindE targets (\<lambda>ids. map_chars ids (set_shock d) g)
      | Root d \<Rightarrow> bindE targets (\<lambda>ids. map_chars ids (set_root d) g)
      | HpRecover v \<Rightarrow> bindE targets (\<lambda>ids. map_chars ids (recover_hp v) g)
      | MpRecover v \<Rightarrow> bindE targets (\<lambda>ids. map_chars ids (recover_mp v) g))"

text \<open>A missing action is not a panic in \<open>end\<close>: \<open>if let Some(action)\<close>.\<close>

definition command_end :: "novel_hook \<Rightarrow> int \<Rightarrow> game \<Rightarrow> game res" where
  "command_end sn i g =
     bindE (unwrap (map_of (commands g) i)) (\<lambda>cmd0.
       let cmd = cmd0\<lparr>cmd_state := Ended\<rparr>;
           g1 = g\<lparr>commands := AList.update i cmd (commands g)\<rparr>;
           g2 = (case sprite_animation_id cmd of
                   None \<Rightarrow> g1
                 | Some sid \<Rightarrow> g1\<lparr>sprite_animations := AList.delete sid (sprite_animations g1)\<rparr>)
       in case map_of (actions g2) (cmd_action_id cmd) of
            None \<Rightarrow> Inr g2
          | Some a \<Rightarrow> resolve_effect sn cmd a g2)"

subsection \<open>Commands issued by name (game.rs, character.rs)\<close>

text \<open>The first of the character's known actions with the given name.\<close>

definition find_action :: "game \<Rightarrow> int \<Rightarrow> string \<Rightarrow> int option" where
  "find_action g cid nm =
     (case map_of (characters g) cid of
        None \<Rightarrow> None
      | Some c \<Rightarrow>
          map_option act_id
            (find (\<lambda>a. name a = nm)
              (List.map_filter (\<lambda>ca. map_of (actions g) (action_id ca))
                (List.map_filter (map_of (character_actions g)) (character_action_ids c)))))"

definition add_command :: "int \<Rightarrow> string \<Rightarrow> target \<Rightarrow> game \<Rightarrow> game res" where
  "add_command cid nm t g =
     bindE (unwrap (find_action g cid nm)) (\<lambda>aid.
     bindE (command_new g cid aid t) (\<lambda>(g1, r).
       case r of Inl _ \<Rightarrow> Inr g1 | Inr cmd \<Rightarrow> Inr (set_character_command cid cmd g1)))"

text \<open>\<open>Character::move_command\<close>: a relative move with the character's \<open>Move\<close>
  action; an unknown character is \<open>Err(CommandError::Target)\<close>.\<close>

definition move_command :: "int \<Rightarrow> int \<Rightarrow> int \<Rightarrow> game \<Rightarrow> (game \<times> (command_error + command)) res" where
  "move_command cid dx dy g =
     (case map_of (characters g) cid of
        None \<Rightarrow> Inr (g, Inl Target_Error)
      | Some c \<Rightarrow>
          bindE (unwrap (find_action g cid ''Move'')) (\<lambda>aid.
            command_new g cid aid
              (TPosition \<lparr>map_id = map_id (position c), pos_x = pos_x (position c) + dx,
                          pos_y = pos_y (position c) + dy\<rparr>)))"

subsection \<open>Properties\<close>

text \<open>C6: move resolution (\<open>Command::end\<close> for \<open>Move\<close>). When the destination
  decided by the code carries no teleport, the mover ends on the target tile if that
  tile is walkable and no visible character stands on it, and back on its origin
  otherwise; either way its drawing offset is reset to zero.\<close>

theorem resolve_move_lands:
  assumes c: "map_of (characters g) cid = Some c"
    and tp: "teleportation_at_position g (move_destination g fr to) = None"
  shows "\<exists>g' c'. resolve_move sn cid fr to g = Inr g' \<and> map_of (characters g') cid = Some c'
     \<and> position c' = (if \<not> is_walkable g to \<or> character_at_position g to \<noteq> None then fr else to)
     \<and> offset_x c' = 0 \<and> offset_y c' = 0"
proof -
  define pos where "pos = move_destination g fr to"
  define c1 where "c1 = c\<lparr>offset_x := 0, offset_y := 0\<rparr>"
  define g1 where "g1 = g\<lparr>characters := AList.update cid c1 (characters g)\<rparr>"
  define g2 where "g2 = g1\<lparr>characters := AList.update cid (c1\<lparr>position := pos\<rparr>) (characters g1)\<rparr>"
  have m1: "map_char cid (\<lambda>c. c\<lparr>offset_x := 0, offset_y := 0\<rparr>) g = Inr g1"
    using c by (simp add: g1_def c1_def)
  have m2: "map_char cid (\<lambda>c. c\<lparr>position := pos\<rparr>) g1 = Inr g2"
    by (simp add: g1_def g2_def)
  have tp2: "teleportation_at_position g2 pos = None"
    using tp by (simp add: teleportation_at_position_def g2_def g1_def pos_def)
  have res: "resolve_move sn cid fr to g = Inr (character_position_changed cid g2)"
    unfolding resolve_move_def Let_def character_set_position_def pos_def[symmetric]
    by (simp only: m1 m2 tp2 bindE_Inr if_False simp_thms)
  have "map_of (characters g2) cid = Some (c1\<lparr>position := pos\<rparr>)" by (simp add: g2_def)
  then obtain c' where "map_of (characters (character_position_changed cid g2)) cid = Some c'"
    and "position c' = pos" and "offset_x c' = 0" and "offset_y c' = 0"
    using character_position_changed_char by (fastforce simp: c1_def)
  with res show ?thesis by (auto simp: pos_def move_destination_def)
qed


text \<open>C17: the recoverable error of \<open>Command::new\<close> (spec 7). For an existing actor
  and action, \<open>CommandError::Target\<close> is returned exactly for a \<open>Move\<close> without a
  position target or a \<open>Drain\<close> without a character target, and whenever it is
  returned the game is left as it was: no partial mutation precedes the check.\<close>

theorem command_new_target_error:
  assumes "map_of (actions g) aid = Some a" and "map_of (characters g) cid = Some c"
  shows "((\<exists>e. command_new g cid aid t = Inr (g, Inl e)) \<longleftrightarrow>
           (action_kind a = Move \<and> (\<forall>pos. t \<noteq> TPosition pos))
           \<or> (action_kind a = Drain \<and> (\<forall>i. t \<noteq> TCharacter i)))
    \<and> (\<forall>g' e. command_new g cid aid t = Inr (g', Inl e) \<longrightarrow> g' = g)"
  using assms
  by (auto simp: command_new_def new_data_def new_animation_def bindE_eq_Inr
      split: action_kind.splits target.splits option.splits prod.splits sum.splits)
    (meson sum.exhaust)+

text \<open>C18: \<open>Command::start\<close> charges the upfront cost (spec 4.1). For a stored
  command whose actor and action exist, it marks the command \<open>Started\<close> and lowers
  the actor's current hp and mp by the action's costs (a missing cost is zero, a
  negative one recovers); no other character changes.\<close>

theorem command_start_charges:
  assumes "map_of (commands g) i = Some cmd" and "map_of (actions g) (cmd_action_id cmd) = Some a"
    and "map_of (characters g) (cmd_character_id cmd) = Some c"
  shows "\<exists>g' c'. command_start i g = Inr g'
    \<and> map_of (commands g') i = Some (cmd\<lparr>cmd_state := Started\<rparr>)
    \<and> map_of (characters g') (cmd_character_id cmd) = Some c'
    \<and> current (hp c') = current (hp c) - (case act_hp a of None \<Rightarrow> 0 | Some v \<Rightarrow> v)
    \<and> current (mp c') = current (mp c) - (case act_mp a of None \<Rightarrow> 0 | Some v \<Rightarrow> v)
    \<and> (\<forall>j. j \<noteq> cmd_character_id cmd \<longrightarrow> map_of (characters g') j = map_of (characters g) j)"
  using assms
  by (auto simp: command_start_def pay_cost_def add_opt_def current_def split: option.splits)

end
