(* ===== verification/Turn.thy ===== *)
theory Turn
  imports Command
begin

text \<open>
  The turn scheduler of src/src/core/turn.rs: one function per state of the six-state
  machine (\<open>TurnSystem::empty\<close>, \<open>start_turn\<close>, \<open>start_command\<close>,
  \<open>update_command\<close>, \<open>end_command\<close>, \<open>end_turn\<close>), each returning the code's
  pair \<open>(out, next state)\<close> with the new game, the dispatcher \<open>turn_step\<close>, and the
  frame loop \<open>TurnSystem::update\<close>, which checks the pause flag before every step and
  stops at the first step that reports \<open>out\<close>. That loop has no bound in the code;
  the model gives it a budget of steps, and running out of it (\<open>Inl Fuel\<close>) is the
  loop not returning within that many steps. The AI of \<open>start_turn\<close> (enemy and boss)
  is modelled in full, with the stable \<open>sort_by_key\<close> of the code as \<open>sort_key\<close>.
  \<open>end_command\<close> re-enters the dialogue interpreter through the hook \<open>sn\<close>.
\<close>

type_synonym step = "(bool \<times> state \<times> game) res"

definition set_current_turn :: "turn option \<Rightarrow> game \<Rightarrow> game" where
  "set_current_turn t g = map_turn_system (\<lambda>ts. ts\<lparr>current_turn := t\<rparr>) g"

definition ts_empty :: "game \<Rightarrow> step" where
  "ts_empty g =
     (case pop_turn (turn_queue (turn_system g)) of
        None \<Rightarrow> Inr (True, Empty, g)
      | Some (t, rest) \<Rightarrow>
          Inr (False, StartTurn,
               map_turn_system (\<lambda>ts. ts\<lparr>turn_queue := rest, current_turn := Some t\<rparr>) g))"

subsection \<open>The AI of \<open>start_turn\<close>\<close>

text \<open>\<open>if x.abs() > y.abs() { (signum x, 0) } else { (0, signum y) }\<close>, where the
  sign is \<open>if v.is_positive() { 1 } else { -1 }\<close>.\<close>

definition step_toward :: "position \<Rightarrow> position \<Rightarrow> int \<times> int" where
  "step_toward from to =
     (let x = pos_x to - pos_x from; y = pos_y to - pos_y from in
      if \<bar>x\<bar> > \<bar>y\<bar> then (if x > 0 then 1 else -1, 0) else (0, if y > 0 then 1 else -1))"

text \<open>\<open>Character::move_command(...)\<close> then \<open>set_character_command(.., command.unwrap())\<close>.\<close>

definition issue_move :: "int \<Rightarrow> int \<times> int \<Rightarrow> game \<Rightarrow> game res" where
  "issue_move cid d g =
     bindE (move_command cid (fst d) (snd d) g) (\<lambda>(g1, r).
       case r of Inl _ \<Rightarrow> Inl Panic | Inr cmd \<Rightarrow> Inr (set_character_command cid cmd g1))"

text \<open>The humans an enemy sees: within Manhattan distance 5, human, not dead, in the
  order of the character table, then stably sorted by distance.\<close>

definition visible_humans :: "game \<Rightarrow> character \<Rightarrow> (int \<times> character) list" where
  "visible_humans g c =
     sort_key (\<lambda>(_, h). distance (position h) (position c))
       (filter (\<lambda>(_, h). \<not> dead h)
         (filter (\<lambda>(_, h). race h = Human)
           (filter (\<lambda>(_, h). 5 \<ge> distance (position h) (position c)) (characters g))))"

definition enemy_ai :: "int \<Rightarrow> character \<Rightarrow> game \<Rightarrow> game res" where
  "enemy_ai cid c g =
     (case visible_humans g c of
        [] \<Rightarrow> add_command cid ''Idle'' TNone g
      | (k, h) # _ \<Rightarrow>
          if distance (position c) (position h) \<le> 1 then
            (if defeated h then add_command cid ''Idle'' (TCharacter k) g
             else add_command cid ''Melee'' (TCharacter k) g)
          else issue_move cid (step_toward (position c) (position h)) g)"

definition boss_ai :: "int \<Rightarrow> character \<Rightarrow> game \<Rightarrow> game res" where
  "boss_ai cid c g =
     (case fs_current (floor_system g) of
        None \<Rightarrow> add_command cid ''Idle'' TNone g
      | Some cur \<Rightarrow>
          let pid = fc_character_id cur in
          bindE (unwrap (map_of (characters g) pid)) (\<lambda>tc.
            if distance (position c) (position tc) \<le> 1
            then add_command cid ''Melee'' (TCharacter pid) g
            else issue_move cid (step_toward (position c) (position tc)) g))"

definition act_by_controller :: "int \<Rightarrow> character \<Rightarrow> game \<Rightarrow> game res" where
  "act_by_controller cid c g =
     (case controller c of
        Player \<Rightarrow>
          Inr (g\<lparr>turn_system := (turn_system g)\<lparr>waiting_input := True\<rparr>,
                 camera := (camera g)\<lparr>cam_character_id := cid\<rparr>\<rparr>)
      | Enemy \<Rightarrow> enemy_ai cid c g
      | NPC \<Rightarrow> add_command cid ''Idle'' TNone g
      | Boss w \<Rightarrow> if w then add_command cid ''Idle'' TNone g else boss_ai cid c g)"

subsection \<open>The six states\<close>

definition respawn :: "character \<Rightarrow> character" where
  "respawn c =
     c\<lparr>hp := (hp c)\<lparr>damage := 0\<rparr>, mp := (mp c)\<lparr>damage := 0\<rparr>, attack := (attack c)\<lparr>damage := 0\<rparr>,
       defence := (defence c)\<lparr>damage := 0\<rparr>, sanity := (sanity c)\<lparr>damage := 0\<rparr>,
       defeated := False, dead := False, hidden := False\<rparr>"

definition toggle_shocked :: "character \<Rightarrow> character" where
  "toggle_shocked c =
     c\<lparr>crowd_controls := (crowd_controls c)\<lparr>shocked := \<not> shocked (crowd_controls c)\<rparr>\<rparr>"

text \<open>The skip checks of \<open>start_turn\<close> for a character turn, in the code's order.\<close>

definition start_character_turn :: "int \<Rightarrow> game \<Rightarrow> step" where
  "start_character_turn cid g =
     bindE (unwrap (map_of (characters g) cid)) (\<lambda>c.
       if dead c \<or> defeated c then Inr (False, EndTurn, g)
       else if sleep (crowd_controls c) > 0 \<or> stun (crowd_controls c) > 0 then Inr (False, EndTurn, g)
       else
         let shocking = shock (crowd_controls c) > 0;
             c1 = (if shocking then toggle_shocked c else c);
             g1 = (if shocking then g\<lparr>characters := AList.update cid c1 (characters g)\<rparr> else g)
         in if shocking \<and> shocked (crowd_controls c1) then Inr (False, EndTurn, g1)
            else if charm (crowd_controls c1) > 0 then Inr (False, EndTurn, g1)
            else bindE (act_by_controller cid c1 g1) (\<lambda>g2. Inr (False, StartCommand, g2)))"

definition start_turn :: "game \<Rightarrow> step" where
  "start_turn g =
     (case current_turn (turn_system g) of
        None \<Rightarrow> Inr (True, Empty, g)
      | Some t \<Rightarrow>
          (case kind t of
             Character_Turn cid \<Rightarrow> start_character_turn cid g
           | Respawn cid \<Rightarrow>
               bindE (map_char cid respawn g) (\<lambda>g1.
                 Inr (False, EndTurn,
                      set_current_turn None (add_turn \<lparr>time = 1, kind = Character_Turn cid\<rparr> g1)))))"

text \<open>The actor of the current turn: \<open>.map(|t| match t.kind { Character .. => id,
  Respawn .. => panic!() }).unwrap()\<close>.\<close>

definition current_char :: "game \<Rightarrow> int res" where
  "current_char g =
     (case current_turn (turn_system g) of
        None \<Rightarrow> Inl Missing
      | Some t \<Rightarrow> (case kind t of Character_Turn i \<Rightarrow> Inr i | Respawn _ \<Rightarrow> Inl Panic))"

definition start_command :: "game \<Rightarrow> step" where
  "start_command g =
     bindE (current_char g) (\<lambda>cid.
     bindE (unwrap (map_of (characters g) cid)) (\<lambda>c.
       case command_id c of
         Some i \<Rightarrow> bindE (command_start i g) (\<lambda>g1. Inr (False, UpdateCommand, g1))
       | None \<Rightarrow> Inr (True, StartCommand, g)))"

definition update_command :: "real \<Rightarrow> game \<Rightarrow> step" where
  "update_command delta g =
     bindE (current_char g) (\<lambda>cid.
     bindE (unwrap (map_of (characters g) cid)) (\<lambda>c.
     bindE (unwrap (map_of (characters g) (cam_character_id (camera g)))) (\<lambda>cam.
       case command_id c of
         None \<Rightarrow> Inr (False, EndCommand, g)
       | Some i \<Rightarrow>
           bindE (unwrap (map_of (commands g) i)) (\<lambda>cmd.
           bindE (unwrap (map_of (actions g) (cmd_action_id cmd))) (\<lambda>a.
             let cmd' = cmd\<lparr>elapsed_time := elapsed_time cmd + delta\<rparr>;
                 g1 = g\<lparr>commands := AList.update i cmd' (commands g)\<rparr>;
                 on_screen = (map_id (position c) = map_id (position cam));
                 finished = (duration a \<le> elapsed_time cmd')
             in if on_screen \<and> \<not> finished
                then bindE (command_update i g1) (\<lambda>g2. Inr (True, UpdateCommand, g2))
                else Inr (False, EndCommand, g1))))))"

definition end_command :: "novel_hook \<Rightarrow> game \<Rightarrow> step" where
  "end_command sn g =
     bindE (current_char g) (\<lambda>cid.
     bindE (unwrap (map_of (characters g) cid)) (\<lambda>c.
     bindE (case command_id c of
              None \<Rightarrow> Inr g
            | Some i \<Rightarrow> bindE (command_end sn i g) (\<lambda>g1.
                         Inr (g1\<lparr>commands := AList.delete i (commands g1)\<rparr>))) (\<lambda>g2.
     bindE (map_char cid (\<lambda>c. c\<lparr>command_id := None\<rparr>) g2) (\<lambda>g3. Inr (False, EndTurn, g3)))))"

definition end_turn :: "game \<Rightarrow> step" where
  "end_turn g =
     (case current_turn (turn_system g) of
        None \<Rightarrow> Inr (False, Empty, g)
      | Some t \<Rightarrow>
          let g1 = set_current_turn None g in
          (case kind t of
             Character_Turn cid \<Rightarrow>
               bindE (map_char cid (\<lambda>c. c\<lparr>crowd_controls := turn_end (crowd_controls c)\<rparr>)
                        (add_turn (t\<lparr>time := 1\<rparr>) g1)) (\<lambda>g2. Inr (False, Empty, g2))
           | Respawn _ \<Rightarrow> Inr (False, Empty, g1)))"

definition turn_step :: "novel_hook \<Rightarrow> real \<Rightarrow> game \<Rightarrow> step" where
  "turn_step sn delta g =
     (case ts_state (turn_system g) of
        Empty \<Rightarrow> ts_empty g
      | StartTurn \<Rightarrow> start_turn g
      | StartCommand \<Rightarrow> start_command g
      | UpdateCommand \<Rightarrow> update_command delta g
      | EndCommand \<Rightarrow> end_command sn g
      | EndTurn \<Rightarrow> end_turn g)"

definition set_state :: "state \<Rightarrow> game \<Rightarrow> game" where
  "set_state st g = map_turn_system (\<lambda>ts. ts\<lparr>ts_state := st\<rparr>) g"

text \<open>\<open>TurnSystem::update\<close>: \<open>loop { if pause { return } ...; state = s; if out { return } }\<close>,
  with a budget of \<open>n\<close> iterations.\<close>

fun turn_update :: "novel_hook \<Rightarrow> nat \<Rightarrow> real \<Rightarrow> game \<Rightarrow> game res" where
  "turn_update sn 0 delta g = Inl Fuel"
| "turn_update sn (Suc n) delta g =
     (if ts_pause (turn_system g) then Inr g
      else bindE (turn_step sn delta g) (\<lambda>(out, st, g').
             if out then Inr (set_state st g') else turn_update sn n delta (set_state st g')))"

text \<open>\<open>k\<close> iterations of the frame loop's body that neither find the pause flag set
  nor report \<open>out\<close>; \<open>None\<close> as soon as one does.\<close>

primrec run_steps :: "novel_hook \<Rightarrow> real \<Rightarrow> nat \<Rightarrow> game \<Rightarrow> game option" where
  "run_steps sn delta 0 g = Some g"
| "run_steps sn delta (Suc k) g =
     (if ts_pause (turn_system g) then None
      else case turn_step sn delta g of
             Inr (False, st, g') \<Rightarrow> run_steps sn delta k (set_state st g')
           | _ \<Rightarrow> None)"

text \<open>Progress of a running command (\<open>TurnSystem::update_command\<close> with
  \<open>Command::update\<close>). \<open>frames\<close> is the event loop calling \<open>TurnSystem::update\<close> once
  per frame with the same frame time.\<close>

text \<open>The tables a running command reads: the current turn is the actor's, the actor
  points to the command, stands on the camera's map, and the command's action and
  sprite animations exist.\<close>

definition running :: "game \<Rightarrow> int \<Rightarrow> int \<Rightarrow> bool" where
  "running g cid i \<longleftrightarrow>
     current_char g = Inr cid \<and>
     (case map_of (characters g) cid of
        None \<Rightarrow> False
      | Some c \<Rightarrow>
          command_id c = Some i \<and>
          (case map_of (characters g) (cam_character_id (camera g)) of
             None \<Rightarrow> False
           | Some cam \<Rightarrow> map_id (position c) = map_id (position cam)) \<and>
          (case map_of (commands g) i of
             None \<Rightarrow> False
           | Some cmd \<Rightarrow>
               cmd_character_id cmd = cid \<and> map_of (actions g) (cmd_action_id cmd) \<noteq> None \<and>
               (case sprite_animation_id cmd of
                  None \<Rightarrow> True | Some sid \<Rightarrow> map_of (sprite_animations g) sid \<noteq> None) \<and>
               (case data cmd of
                  CDDrain sid \<Rightarrow> map_of (sprite_animations g) sid \<noteq> None | _ \<Rightarrow> True)))"

primrec frames :: "novel_hook \<Rightarrow> nat \<Rightarrow> real \<Rightarrow> nat \<Rightarrow> game \<Rightarrow> game res" where
  "frames sn n delta 0 g = Inr g"
| "frames sn n delta (Suc k) g = bindE (turn_update sn n delta g) (frames sn n delta k)"

text \<open>What \<open>Command::update\<close> may change: the sprite animations (at existing ids) and
  the characters' drawing offsets.\<close>

definition same_but_drawing :: "game \<Rightarrow> game \<Rightarrow> bool" where
  "same_but_drawing g g' \<longleftrightarrow>
     commands g' = commands g \<and> actions g' = actions g \<and> turn_system g' = turn_system g
     \<and> camera g' = camera g
     \<and> dom (map_of (sprite_animations g')) = dom (map_of (sprite_animations g))
     \<and> (\<forall>k. map_option (\<lambda>c. (position c, command_id c)) (map_of (characters g') k)
            = map_option (\<lambda>c. (position c, command_id c)) (map_of (characters g) k))"

subsection \<open>Lemmas\<close>

lemma run_steps_SucE:
  assumes "run_steps sn delta (Suc k) g = Some g'"
  obtains st g1 where "\<not> ts_pause (turn_system g)" and "turn_step sn delta g = Inr (False, st, g1)"
    and "run_steps sn delta k (set_state st g1) = Some g'"
proof (cases "turn_step sn delta g")
  case (Inl e)
  with assms show ?thesis by (simp split: if_splits)
next
  case (Inr r)
  obtain out st g1 where r: "r = (out, st, g1)" by (cases r) auto
  from assms Inr r show ?thesis
    by (cases out) (auto split: if_splits intro: that)
qed

lemma turn_update_step:
  assumes "\<not> ts_pause (turn_system g)" and "turn_step sn delta g = Inr (False, st, g1)"
  shows "turn_update sn (Suc m) delta g = turn_update sn m delta (set_state st g1)"
  using assms by simp

lemma turn_update_run_steps:
  "run_steps sn delta k g = Some g' \<Longrightarrow> turn_update sn (k + n) delta g = turn_update sn n delta g'"
proof (induction k arbitrary: g)
  case 0
  then show ?case by simp
next
  case (Suc k)
  from Suc.prems obtain st g1 where np: "\<not> ts_pause (turn_system g)"
    and ts: "turn_step sn delta g = Inr (False, st, g1)"
    and rs: "run_steps sn delta k (set_state st g1) = Some g'"
    by (rule run_steps_SucE)
  have "turn_update sn (Suc k + n) delta g = turn_update sn (k + n) delta (set_state st g1)"
    using turn_update_step [OF np ts, of "k + n"] by simp
  also have "\<dots> = turn_update sn n delta g'" by (rule Suc.IH [OF rs])
  finally show ?case .
qed

lemma turn_update_run_steps_fuel:
  "run_steps sn delta k g = Some g' \<Longrightarrow> n \<le> k \<Longrightarrow> turn_update sn n delta g = Inl Fuel"
proof (induction k arbitrary: g n)
  case 0
  then show ?case by simp
next
  case (Suc k)
  from Suc.prems(1) obtain st g1 where np: "\<not> ts_pause (turn_system g)"
    and ts: "turn_step sn delta g = Inr (False, st, g1)"
    and rs: "run_steps sn delta k (set_state st g1) = Some g'"
    by (rule run_steps_SucE)
  show ?case
  proof (cases n)
    case 0
    then show ?thesis by simp
  next
    case (Suc m)
    then have "turn_update sn n delta g = turn_update sn m delta (set_state st g1)"
      using turn_update_step [OF np ts, of m] by simp
    also have "\<dots> = Inl Fuel"
      using Suc.IH [OF rs, of m] Suc.prems(2) \<open>n = Suc m\<close> by simp
    finally show ?thesis .
  qed
qed

text \<open>A cycle of non-returning steps: the frame loop never returns.\<close>

lemma turn_update_cycle:
  assumes "run_steps sn delta k g = Some g" and "0 < k"
  shows "turn_update sn n delta g = Inl Fuel"
proof (induction n rule: less_induct)
  case (less n)
  show ?case
  proof (cases "n \<le> k")
    case True
    then show ?thesis by (rule turn_update_run_steps_fuel [OF assms(1)])
  next
    case False
    define m where "m = n - k"
    have n: "n = k + m" and mn: "m < n" using False assms(2) by (simp_all add: m_def)
    have "turn_update sn n delta g = turn_update sn m delta g"
      unfolding n by (rule turn_update_run_steps [OF assms(1)])
    also have "\<dots> = Inl Fuel" by (rule less.IH [OF mn])
    finally show ?thesis .
  qed
qed

subsection \<open>Properties\<close>

text \<open>C3: while the scheduler is paused, \<open>TurnSystem::update\<close> returns at once and
  changes nothing: the pause flag is checked before every step.\<close>

theorem turn_update_paused:
  "ts_pause (turn_system g) \<Longrightarrow> turn_update sn (Suc n) delta g = Inr g"
  by simp


text \<open>C14: the enemy's step (\<open>start_turn\<close>, the \<open>move_command\<close> of the enemy and boss
  AI). Towards a different cell of the same map, the step is one cell along one axis
  and brings the mover exactly one closer in \<open>Position::distance\<close>; when the offsets
  along both axes have the same size, the step is along the y-axis.\<close>

theorem step_toward_progress:
  assumes "map_id a = map_id b" and "(pos_x a, pos_y a) \<noteq> (pos_x b, pos_y b)"
  shows "\<bar>fst (step_toward a b)\<bar> + \<bar>snd (step_toward a b)\<bar> = 1
    \<and> distance (a\<lparr>pos_x := pos_x a + fst (step_toward a b), pos_y := pos_y a + snd (step_toward a b)\<rparr>) b
        = distance a b - 1
    \<and> (\<bar>pos_x b - pos_x a\<bar> = \<bar>pos_y b - pos_y a\<bar> \<longrightarrow> fst (step_toward a b) = 0)"
  using assms by (auto simp: step_toward_def Let_def distance_def abs_if split: if_splits)

text \<open>C15: the enemy's choice of target. When an enemy sees at least one human, the
  one it acts on is a character of the registry, human, not dead, within distance 5,
  and no farther than any other such character; it strikes (or idles at a defeated
  target) when adjacent and steps towards it otherwise.\<close>

theorem enemy_targets_nearest:
  assumes "visible_humans g c = (k, h) # rest"
  shows "(k, h) \<in> set (characters g) \<and> race h = Human \<and> \<not> dead h \<and> distance (position h) (position c) \<le> 5
    \<and> (\<forall>(k', h') \<in> set (characters g). race h' = Human \<and> \<not> dead h' \<and> distance (position h') (position c) \<le> 5
          \<longrightarrow> distance (position h) (position c) \<le> distance (position h') (position c))
    \<and> enemy_ai cid c g =
        (if distance (position c) (position h) \<le> 1 then
           (if defeated h then add_command cid ''Idle'' (TCharacter k) g
            else add_command cid ''Melee'' (TCharacter k) g)
         else issue_move cid (step_toward (position c) (position h)) g)"
proof -
  let ?f = "\<lambda>(_, h). distance (position h) (position c)"
  have set_v: "set (visible_humans g c) =
      {(k', h') \<in> set (characters g). distance (position h') (position c) \<le> 5 \<and> race h' = Human \<and> \<not> dead h'}"
    by (auto simp: visible_humans_def)
  have "sorted (map ?f (visible_humans g c))"
    unfolding visible_humans_def by (rule sorted_sort_key)
  then have least: "\<forall>x \<in> set rest. ?f (k, h) \<le> ?f x" using assms by simp
  have hd: "(k, h) \<in> set (visible_humans g c)" using assms by simp
  show ?thesis
  proof (intro conjI)
    show "(k, h) \<in> set (characters g)" "race h = Human" "\<not> dead h" "distance (position h) (position c) \<le> 5"
      using hd set_v by auto
    show "\<forall>(k', h') \<in> set (characters g). race h' = Human \<and> \<not> dead h' \<and> distance (position h') (position c) \<le> 5
          \<longrightarrow> distance (position h) (position c) \<le> distance (position h') (position c)"
    proof (intro ballI impI, clarify)
      fix k' h' assume m: "(k', h') \<in> set (characters g)" and "race h' = Human" "\<not> dead h'"
        and "distance (position h') (position c) \<le> 5"
      then have "(k', h') \<in> set ((k, h) # rest)" using set_v assms by auto
      then show "distance (position h) (position c) \<le> distance (position h') (position c)"
        using least by auto
    qed
    show "enemy_ai cid c g = (if distance (position c) (position h) \<le> 1 then
           (if defeated h then add_command cid ''Idle'' (TCharacter k) g
            else add_command cid ''Melee'' (TCharacter k) g)
         else issue_move cid (step_toward (position c) (position h)) g)"
      using assms by (simp add: enemy_ai_def)
  qed
qed

text \<open>C16: \<open>TurnSystem::end_turn\<close> for a character turn. The turn goes back into the
  queue at relative time 1 (by the insertion of \<open>Game::add_turn\<close>), the current turn
  is cleared, the state returns to \<open>Empty\<close> without ending the frame, and the actor's
  crowd-control counters tick down once; no other character changes.\<close>

theorem end_turn_requeue:
  assumes "current_turn (turn_system g) = Some t" and "kind t = Character_Turn cid"
    and "map_of (characters g) cid = Some c"
  shows "\<exists>g'. end_turn g = Inr (False, Empty, g')
    \<and> turn_queue (turn_system g') = queue_insert (t\<lparr>time := 1\<rparr>) (turn_queue (turn_system g))
    \<and> current_turn (turn_system g') = None
    \<and> map_of (characters g') cid = Some (c\<lparr>crowd_controls := turn_end (crowd_controls c)\<rparr>)
    \<and> (\<forall>i. i \<noteq> cid \<longrightarrow> map_of (characters g') i = map_of (characters g) i)"
  using assms
  by (simp add: end_turn_def set_current_turn_def add_turn_def map_turn_system_def map_char_def)

lemma same_but_drawing_refl [simp]: "same_but_drawing g g"
  by (simp add: same_but_drawing_def)

lemma same_but_drawing_trans:
  "same_but_drawing g g1 \<Longrightarrow> same_but_drawing g1 g2 \<Longrightarrow> same_but_drawing g g2"
  by (simp add: same_but_drawing_def)

lemma set_percentage_drawing:
  assumes "map_of (sprite_animations g) sid \<noteq> None"
  shows "\<exists>g'. set_percentage sid pc g = Inr g' \<and> same_but_drawing g g'"
  using assms by (auto simp: set_percentage_def same_but_drawing_def update_conv')

lemma map_char_offsets_drawing:
  assumes "map_of (characters g) cid = Some c"
  shows "\<exists>g'. map_char cid (\<lambda>c. c\<lparr>offset_x := x c, offset_y := y c\<rparr>) g = Inr g'
           \<and> same_but_drawing g g'"
  using assms by (auto simp: same_but_drawing_def update_conv')

lemma same_but_drawing_chars:
  assumes "same_but_drawing g g'"
  shows "map_of (characters g') k = None \<longleftrightarrow> map_of (characters g) k = None"
    and "map_of (characters g) k = Some c \<Longrightarrow>
           \<exists>c'. map_of (characters g') k = Some c' \<and> position c' = position c \<and> command_id c' = command_id c"
proof -
  have k: "map_option (\<lambda>c. (position c, command_id c)) (map_of (characters g') k)
         = map_option (\<lambda>c. (position c, command_id c)) (map_of (characters g) k)"
    using assms by (simp add: same_but_drawing_def)
  show "map_of (characters g') k = None \<longleftrightarrow> map_of (characters g) k = None"
    using k by (cases "map_of (characters g') k"; cases "map_of (characters g) k") simp_all
  show "map_of (characters g) k = Some c \<Longrightarrow>
           \<exists>c'. map_of (characters g') k = Some c' \<and> position c' = position c \<and> command_id c' = command_id c"
    using k by (cases "map_of (characters g') k") auto
qed

lemma running_cong:
  assumes s: "same_but_drawing g g'"
  shows "running g' cid i = running g cid i"
proof -
  have eq: "commands g' = commands g" "actions g' = actions g" "camera g' = camera g"
    "current_char g' = current_char g"
    using s by (simp_all add: same_but_drawing_def current_char_def)
  have sp: "\<And>sid. (map_of (sprite_animations g') sid = None) = (map_of (sprite_animations g) sid = None)"
    using s unfolding same_but_drawing_def by (metis domIff)
  show ?thesis
  proof (cases "map_of (characters g) cid")
    case None
    then show ?thesis using same_but_drawing_chars(1) [OF s, of cid] by (simp add: running_def)
  next
    case (Some c)
    then obtain c' where c': "map_of (characters g') cid = Some c'" "position c' = position c"
      "command_id c' = command_id c"
      using same_but_drawing_chars(2) [OF s] by blast
    show ?thesis
    proof (cases "map_of (characters g) (cam_character_id (camera g))")
      case None
      then show ?thesis
        using same_but_drawing_chars(1) [OF s, of "cam_character_id (camera g)"] Some c'
        by (simp add: running_def eq)
    next
      case (Some cam)
      then obtain cam' where "map_of (characters g') (cam_character_id (camera g)) = Some cam'"
        "position cam' = position cam"
        using same_but_drawing_chars(2) [OF s] by blast
      then show ?thesis
        using \<open>map_of (characters g) cid = Some c\<close> Some c' by (simp add: running_def eq sp split: option.split command_data.split)
    qed
  qed
qed

lemma command_update_drawing:
  assumes "running g cid i"
  shows "\<exists>g'. command_update i g = Inr g' \<and> same_but_drawing g g'"
proof -
  obtain c cmd a where c: "map_of (characters g) cid = Some c" and cmd: "map_of (commands g) i = Some cmd"
    and a: "map_of (actions g) (cmd_action_id cmd) = Some a" and cc: "cmd_character_id cmd = cid"
    and sa: "case sprite_animation_id cmd of None \<Rightarrow> True | Some sid \<Rightarrow> map_of (sprite_animations g) sid \<noteq> None"
    and dr: "case data cmd of CDDrain sid \<Rightarrow> map_of (sprite_animations g) sid \<noteq> None | _ \<Rightarrow> True"
    using assms by (auto simp: running_def split: option.splits)
  have "\<exists>g1. (case sprite_animation_id cmd of None \<Rightarrow> Inr g
                | Some sid \<Rightarrow> set_percentage sid (progress cmd a) g) = Inr g1 \<and> same_but_drawing g g1"
  proof (cases "sprite_animation_id cmd")
    case None
    then show ?thesis by simp
  next
    case (Some sid)
    then show ?thesis using sa set_percentage_drawing by simp
  qed
  then obtain g1 where g1: "(case sprite_animation_id cmd of None \<Rightarrow> Inr g
                         | Some sid \<Rightarrow> set_percentage sid (progress cmd a) g) = Inr g1"
    and s1: "same_but_drawing g g1"
    by blast
  have "\<exists>g2. (case data cmd of
                CDNone \<Rightarrow> Inr g1
              | CDMove fr to \<Rightarrow>
                  map_char (cmd_character_id cmd)
                    (\<lambda>c. c\<lparr>offset_x := of_int (pos_x to - pos_x fr) * progress cmd a,
                           offset_y := of_int (pos_y to - pos_y fr) * progress cmd a\<rparr>) g1
              | CDDrain sid \<Rightarrow> set_percentage sid (progress cmd a) g1) = Inr g2
           \<and> same_but_drawing g1 g2"
  proof (cases "data cmd")
    case CDNone
    then show ?thesis by simp
  next
    case (CDMove fr to)
    obtain c1 where "map_of (characters g1) cid = Some c1"
      using same_but_drawing_chars(2) [OF s1 c] by blast
    then show ?thesis
      using CDMove cc map_char_offsets_drawing [where g = g1 and cid = cid and c = c1
          and x = "\<lambda>_. of_int (pos_x to - pos_x fr) * progress cmd a"
          and y = "\<lambda>_. of_int (pos_y to - pos_y fr) * progress cmd a"]
      by simp
  next
    case (CDDrain sid)
    then have "sid \<in> dom (map_of (sprite_animations g))" using dr by auto
    then have "sid \<in> dom (map_of (sprite_animations g1))" using s1 by (simp add: same_but_drawing_def)
    then show ?thesis using CDDrain set_percentage_drawing by auto
  qed
  then obtain g2 where g2: "(case data cmd of
                CDNone \<Rightarrow> Inr g1
              | CDMove fr to \<Rightarrow>
                  map_char (cmd_character_id cmd)
                    (\<lambda>c. c\<lparr>offset_x := of_int (pos_x to - pos_x fr) * progress cmd a,
                           offset_y := of_int (pos_y to - pos_y fr) * progress cmd a\<rparr>) g1
              | CDDrain sid \<Rightarrow> set_percentage sid (progress cmd a) g1) = Inr g2"
    and s2: "same_but_drawing g1 g2"
    by blast
  have "command_update i g = Inr g2"
    unfolding command_update_def Let_def using cmd a g1 g2 by simp
  then show ?thesis using same_but_drawing_trans [OF s1 s2] by blast
qed

lemma running_elapsed:
  assumes "running g cid i" and "map_of (commands g) i = Some cmd"
  shows "running (g\<lparr>commands := AList.update i (cmd\<lparr>elapsed_time := e\<rparr>) (commands g)\<rparr>) cid i"
  using assms by (auto simp: running_def current_char_def split: option.splits command_data.splits)

lemma running_set_state [simp]: "running (set_state st g) cid i = running g cid i"
  by (simp add: running_def set_state_def map_turn_system_def current_char_def
      split: option.split command_data.split)

lemma running_parts:
  assumes "running g cid i"
  obtains c cam cmd where "current_char g = Inr cid" "map_of (characters g) cid = Some c"
    "command_id c = Some i" "map_of (characters g) (cam_character_id (camera g)) = Some cam"
    "map_id (position c) = map_id (position cam)" "map_of (commands g) i = Some cmd"
  using assms by (auto simp: running_def split: option.splits)

text \<open>A frame of a command that has not reached its duration: the command's elapsed
  time grows by the frame time and the frame ends in \<open>UpdateCommand\<close>.\<close>

lemma update_command_continues:
  assumes r: "running g cid i" and cmd: "map_of (commands g) i = Some cmd"
    and a: "map_of (actions g) (cmd_action_id cmd) = Some a"
    and lt: "elapsed_time cmd + delta < duration a"
  shows "\<exists>g2. update_command delta g = Inr (True, UpdateCommand, g2) \<and> running g2 cid i
           \<and> map_of (commands g2) i = Some (cmd\<lparr>elapsed_time := elapsed_time cmd + delta\<rparr>)
           \<and> actions g2 = actions g \<and> turn_system g2 = turn_system g"
proof -
  define g1 where "g1 = g\<lparr>commands := AList.update i (cmd\<lparr>elapsed_time := elapsed_time cmd + delta\<rparr>) (commands g)\<rparr>"
  have r1: "running g1 cid i" unfolding g1_def by (rule running_elapsed [OF r cmd])
  obtain g2 where g2: "command_update i g1 = Inr g2" and s: "same_but_drawing g1 g2"
    using command_update_drawing [OF r1] by blast
  obtain c cam cmd' where "current_char g = Inr cid" "map_of (characters g) cid = Some c"
    "command_id c = Some i" "map_of (characters g) (cam_character_id (camera g)) = Some cam"
    "map_id (position c) = map_id (position cam)" "map_of (commands g) i = Some cmd'"
    using r by (rule running_parts)
  then have "update_command delta g = Inr (True, UpdateCommand, g2)"
    using cmd a lt g2 unfolding g1_def by (simp add: update_command_def Let_def)
  moreover have "running g2 cid i" using running_cong [OF s] r1 by simp
  ultimately show ?thesis using s by (simp add: same_but_drawing_def g1_def)
qed

text \<open>The frame in which the command reaches its duration moves on to \<open>EndCommand\<close>
  without ending the frame.\<close>

lemma update_command_finishes:
  assumes r: "running g cid i" and cmd: "map_of (commands g) i = Some cmd"
    and a: "map_of (actions g) (cmd_action_id cmd) = Some a"
    and ge: "duration a \<le> elapsed_time cmd + delta"
  shows "\<exists>g1. update_command delta g = Inr (False, EndCommand, g1)"
proof -
  obtain c cam cmd' where "current_char g = Inr cid" "map_of (characters g) cid = Some c"
    "command_id c = Some i" "map_of (characters g) (cam_character_id (camera g)) = Some cam"
    "map_id (position c) = map_id (position cam)" "map_of (commands g) i = Some cmd'"
    using r by (rule running_parts)
  then show ?thesis using cmd a ge by (simp add: update_command_def Let_def)
qed

lemma frame_continues:
  assumes r: "running g cid i" and st: "ts_state (turn_system g) = UpdateCommand"
    and np: "\<not> ts_pause (turn_system g)" and cmd: "map_of (commands g) i = Some cmd"
    and a: "map_of (actions g) (cmd_action_id cmd) = Some a"
    and lt: "elapsed_time cmd + delta < duration a"
  shows "\<exists>g'. turn_update sn (Suc n) delta g = Inr g' \<and> running g' cid i
           \<and> map_of (commands g') i = Some (cmd\<lparr>elapsed_time := elapsed_time cmd + delta\<rparr>)
           \<and> actions g' = actions g \<and> turn_system g' = turn_system g"
proof -
  obtain g2 where g2: "update_command delta g = Inr (True, UpdateCommand, g2)" and "running g2 cid i"
    and "map_of (commands g2) i = Some (cmd\<lparr>elapsed_time := elapsed_time cmd + delta\<rparr>)"
    and "actions g2 = actions g" and ts: "turn_system g2 = turn_system g"
    using update_command_continues [OF r cmd a lt] by blast
  moreover have "set_state UpdateCommand g2 = g2"
    using ts st by (simp add: set_state_def map_turn_system_def)
  ultimately show ?thesis using np st by (simp add: turn_step_def)
qed

lemma ceiling_frame_step:
  assumes "0 < (d :: real)"
  shows "nat \<lceil>(D - (e + d)) / d\<rceil> = nat \<lceil>(D - e) / d\<rceil> - 1"
proof -
  have "(D - (e + d)) / d = (D - e) / d - 1" using assms by (simp add: field_simps)
  then show ?thesis by (simp add: ceiling_diff_one)
qed

lemma ceiling_frame_last:
  assumes "0 < (d :: real)" and "nat \<lceil>(D - e) / d\<rceil> - 1 = 0"
  shows "D \<le> e + d"
proof -
  have "(D - e) / d \<le> 1" using assms(2) by linarith
  then show ?thesis using assms(1) by (simp add: pos_divide_le_eq)
qed

lemma ceiling_frame_more:
  assumes "0 < (d :: real)" and "nat \<lceil>(D - e) / d\<rceil> - 1 = Suc m"
  shows "e + d < D"
proof -
  have "1 < (D - e) / d" using assms(2) by linarith
  then show ?thesis using assms(1) by (simp add: pos_less_divide_eq)
qed

lemma frames_until_end:
  assumes "running g cid i" and "ts_state (turn_system g) = UpdateCommand"
    and "\<not> ts_pause (turn_system g)" and "map_of (commands g) i = Some cmd"
    and "map_of (actions g) (cmd_action_id cmd) = Some a" and "0 < delta"
    and "nat \<lceil>(duration a - elapsed_time cmd) / delta\<rceil> - 1 = m"
  shows "\<exists>g'. frames sn (Suc n) delta m g = Inr g'
           \<and> map_of (commands g') i = Some (cmd\<lparr>elapsed_time := elapsed_time cmd + of_nat m * delta\<rparr>)
           \<and> (\<exists>g''. turn_step sn delta g' = Inr (False, EndCommand, g''))"
  using assms
proof (induction m arbitrary: g cmd)
  case 0
  then have "duration a \<le> elapsed_time cmd + delta" by (intro ceiling_frame_last) simp_all
  then obtain g1 where "update_command delta g = Inr (False, EndCommand, g1)"
    using update_command_finishes [OF "0.prems"(1,4,5)] by blast
  then show ?case using "0.prems" by (intro exI [of _ g]) (simp add: turn_step_def)
next
  case (Suc m)
  define cmd1 where "cmd1 = cmd\<lparr>elapsed_time := elapsed_time cmd + delta\<rparr>"
  have lt: "elapsed_time cmd + delta < duration a"
    using ceiling_frame_more [OF Suc.prems(6,7)] .
  obtain g1 where f: "turn_update sn (Suc n) delta g = Inr g1" and r1: "running g1 cid i"
    and c1: "map_of (commands g1) i = Some cmd1" and a1: "actions g1 = actions g"
    and t1: "turn_system g1 = turn_system g"
    using frame_continues [OF Suc.prems(1-5) lt, where sn = sn and n = n] unfolding cmd1_def by blast
  have e1: "elapsed_time cmd1 = elapsed_time cmd + delta" by (simp add: cmd1_def)
  have m: "nat \<lceil>(duration a - elapsed_time cmd1) / delta\<rceil> - 1 = m"
    using Suc.prems(7) by (simp only: e1 ceiling_frame_step [OF Suc.prems(6)])
  have s1: "ts_state (turn_system g1) = UpdateCommand" "\<not> ts_pause (turn_system g1)"
    using t1 Suc.prems(2,3) by simp_all
  have a1': "map_of (actions g1) (cmd_action_id cmd1) = Some a"
    using a1 Suc.prems(5) by (simp add: cmd1_def)
  then obtain g' where "frames sn (Suc n) delta m g1 = Inr g'"
    and "map_of (commands g') i = Some (cmd1\<lparr>elapsed_time := elapsed_time cmd1 + of_nat m * delta\<rparr>)"
    and "\<exists>g''. turn_step sn delta g' = Inr (False, EndCommand, g'')"
    using Suc.IH [OF r1 s1 c1 a1' Suc.prems(6) m] by blast
  then show ?case using f by (intro exI [of _ g']) (simp add: cmd1_def algebra_simps)
qed


end
