(* ===== verification/Novel.thy ===== *)
theory Novel
  imports Turn
begin

text \<open>
  The dialogue interpreter \<open>NovelSystem\<close> (src/src/core/novel.rs). The cursor \<open>p\<close>
  is a stack of child indices; \<open>nav_from\<close> is the \<open>while i < p.len()\<close> descent of
  \<open>run\<close> (through \<open>If\<close>, \<open>SelectAbility\<close>, and \<open>Select\<close>, which consumes two
  indices), panicking on any other inner node as the code does. \<open>NovelSystem::run\<close>
  first drives the dialogue's pending command to its end (the \<open>loop\<close> over its state),
  then executes the node under the cursor; it calls itself after every node that does
  not wait for input, and it reaches the command lifecycle, the floor controller and
  itself again through \<open>Game::start_novel\<close>. The three routines are one mutually
  recursive definition with a budget \<open>n\<close> that every nested call spends:
  \<open>novel_run\<close>, the clearing loop \<open>clear_loop\<close>, and the node dispatch
  \<open>run_node\<close>. The hook handed to the command lifecycle and the floor controller is
  \<open>start_novel n\<close>, one level down. \<open>Inl Fuel\<close> is a run that does not return within
  the budget.
\<close>

subsection \<open>Cursor navigation\<close>

fun nav_from :: "script_kind option \<Rightarrow> nat list \<Rightarrow> script_kind option res" where
  "nav_from c [] = Inr c"
| "nav_from None (_ # _) = Inr None"
| "nav_from (Some (If _ v)) (j # rest) = nav_from (nth_opt v j) rest"
| "nav_from (Some (SelectAbility v)) (j # rest) = nav_from (nth_opt v j) rest"
| "nav_from (Some (Select v)) (j # rest) =
     (case rest of
        [] \<Rightarrow> Inr None
      | k # rest' \<Rightarrow>
          nav_from (case nth_opt v j of None \<Rightarrow> None | Some (_, w) \<Rightarrow> nth_opt w k) rest')"
| "nav_from (Some _) (_ # _) = Inl Panic"

definition node_at :: "script_kind list \<Rightarrow> nat list \<Rightarrow> script_kind option res" where
  "node_at s ps = (case ps of [] \<Rightarrow> Inr None | i # rest \<Rightarrow> nav_from (nth_opt s i) rest)"

subsection \<open>Single-node effects\<close>

definition upd_cur :: "(current_script \<Rightarrow> current_script) \<Rightarrow> game \<Rightarrow> game" where
  "upd_cur f g = g\<lparr>novel_system := (novel_system g)\<lparr>ns_current := map_option f (ns_current (novel_system g))\<rparr>\<rparr>"

definition advance :: "current_script \<Rightarrow> current_script" where
  "advance cur = cur\<lparr>p := last_inc (p cur)\<rparr>"

definition backtrack :: "current_script \<Rightarrow> current_script" where
  "backtrack cur = cur\<lparr>p := last_inc (butlast (p cur))\<rparr>"

definition end_novel :: "game \<Rightarrow> game" where
  "end_novel g =
     g\<lparr>novel_system := (novel_system g)\<lparr>ns_current := None\<rparr>,
       turn_system := (turn_system g)\<lparr>ts_pause := False\<rparr>\<rparr>"

definition is_met :: "game \<Rightarrow> condition \<Rightarrow> bool" where
  "is_met g c = False"

definition script_char :: "current_script \<Rightarrow> script_character \<Rightarrow> int" where
  "script_char cur sc = (case sc of Initiator \<Rightarrow> cs_character_id cur | STarget \<Rightarrow> cs_target_id cur)"

text \<open>The action id of the character's first known action named \<open>Move\<close>, as the
  \<open>CharacterMove\<close> node looks it up (by \<open>CharacterAction::action_id\<close>).\<close>

definition novel_move_action :: "game \<Rightarrow> int \<Rightarrow> int option" where
  "novel_move_action g cid =
     (case map_of (characters g) cid of
        None \<Rightarrow> None
      | Some c \<Rightarrow>
          map_option action_id
            (find (\<lambda>ca. map_option name (map_of (actions g) (action_id ca)) = Some ''Move'')
              (List.map_filter (map_of (character_actions g)) (character_action_ids c))))"

definition character_move_node :: "current_script \<Rightarrow> script_character \<Rightarrow> int \<Rightarrow> int \<Rightarrow> game \<Rightarrow> game res" where
  "character_move_node cur sc x y g =
     (let cid = script_char cur sc in
      bindE (unwrap (novel_move_action g cid)) (\<lambda>aid.
      bindE (unwrap (map_option (map_id \<circ> position) (map_of (characters g) cid))) (\<lambda>m.
      bindE (command_new g cid aid (TPosition \<lparr>map_id = m, pos_x = x, pos_y = y\<rparr>)) (\<lambda>(g1, r).
        case r of
          Inl _ \<Rightarrow> Inl Panic
        | Inr cmd \<Rightarrow>
            let i = fresh_id (commands g1) in
            Inr (upd_cur (\<lambda>cur. cur\<lparr>cs_command_id := Some i\<rparr>)
                   (g1\<lparr>commands := AList.update i cmd (commands g1)\<rparr>))))))"

definition forget_skill :: "current_script \<Rightarrow> game \<Rightarrow> game res" where
  "forget_skill cur g =
     (case select_ability_character_action_index cur of
        None \<Rightarrow> Inr g
      | Some idx \<Rightarrow>
          (case map_of (characters g) (cs_character_id cur) of
             None \<Rightarrow> Inr g
           | Some c \<Rightarrow>
               bindE (vec_remove (character_action_ids c) idx) (\<lambda>ids.
                 Inr (g\<lparr>characters := AList.update (cs_character_id cur)
                          (c\<lparr>character_action_ids := ids\<rparr>) (characters g)\<rparr>))))"

text \<open>Book learning: the actions of the character's action books it does not know yet,
  each once (the code's \<open>HashSet\<close>, whose order is unspecified), then the books are
  dropped from the inventory.\<close>

definition is_book :: "game \<Rightarrow> character_item \<Rightarrow> bool" where
  "is_book g ci =
     (case map_of (items g) (item_id ci) of
        None \<Rightarrow> False
      | Some it \<Rightarrow> (case item_kind it of ActionBook _ \<Rightarrow> True | Potion \<Rightarrow> False))"

definition learnable :: "game \<Rightarrow> character \<Rightarrow> int list" where
  "learnable g c =
     remdups (List.map_filter (\<lambda>ci.
       case map_of (items g) (item_id ci) of
         None \<Rightarrow> None
       | Some it \<Rightarrow>
           (case item_kind it of
              ActionBook aid \<Rightarrow>
                if (\<exists>ca \<in> set (List.map_filter (map_of (character_actions g)) (character_action_ids c)).
                      action_id ca = aid)
                then None else Some aid
            | Potion \<Rightarrow> None)) (ch_items c))"

fun learn_all :: "int \<Rightarrow> int list \<Rightarrow> game \<Rightarrow> game" where
  "learn_all cid [] g = g"
| "learn_all cid (aid # aids) g =
     (let i = fresh_id (character_actions g);
          g1 = g\<lparr>character_actions := AList.update i (new_character_action aid) (character_actions g)\<rparr>
      in learn_all cid aids (map_char_opt cid (\<lambda>c. c\<lparr>character_action_ids := character_action_ids c @ [i]\<rparr>) g1))"

definition practice_skill :: "int \<Rightarrow> game \<Rightarrow> game" where
  "practice_skill cid g =
     (case map_of (characters g) cid of
        None \<Rightarrow> g
      | Some c \<Rightarrow>
          let g1 = learn_all cid (learnable g c) g in
          map_char_opt cid (\<lambda>c. c\<lparr>ch_items := filter (\<lambda>ci. \<not> is_book g1 ci) (ch_items c)\<rparr>) g1)"

definition novel_start_state :: "int \<Rightarrow> int \<Rightarrow> int \<Rightarrow> game \<Rightarrow> game" where
  "novel_start_state s cid tid g =
     g\<lparr>turn_system := (turn_system g)\<lparr>ts_pause := True\<rparr>,
       novel_system := (novel_system g)\<lparr>ns_current := Some
         \<lparr>cs_id = s, cs_character_id = cid, cs_target_id = tid, p = [0], history = [],
          select = None, select_ability_character_action_index = None,
          waiting_select_ability = False, cs_command_id = None, background = None\<rparr>\<rparr>\<rparr>"

subsection \<open>The interpreter\<close>

function novel_run :: "nat \<Rightarrow> game \<Rightarrow> game res"
  and clear_loop :: "nat \<Rightarrow> int \<Rightarrow> game \<Rightarrow> game res"
  and run_node :: "nat \<Rightarrow> game \<Rightarrow> game res"
where
  "novel_run 0 g = Inl Fuel"
| "novel_run (Suc n) g =
     bindE (case ns_current (novel_system g) of
              None \<Rightarrow> Inr g
            | Some cur \<Rightarrow> (case cs_command_id cur of None \<Rightarrow> Inr g | Some i \<Rightarrow> clear_loop n i g))
       (run_node n)"
| "clear_loop 0 i g = Inl Fuel"
| "clear_loop (Suc n) i g =
     bindE (unwrap (map_of (commands g) i)) (\<lambda>cmd.
       case cmd_state cmd of
         New \<Rightarrow> bindE (command_start i g) (clear_loop n i)
       | Started \<Rightarrow>
           bindE (command_end (\<lambda>s c t g'. novel_run n (novel_start_state s c t g')) i g) (clear_loop n i)
       | Ended \<Rightarrow>
           Inr (upd_cur (\<lambda>cur. cur\<lparr>cs_command_id := None\<rparr>)
                  (g\<lparr>commands := AList.delete i (commands g)\<rparr>)))"
| "run_node n g =
     (case ns_current (novel_system g) of
        None \<Rightarrow> Inr g
      | Some cur0 \<Rightarrow>
          let cur = cur0\<lparr>select := None\<rparr>;
              g0 = upd_cur (\<lambda>_. cur) g
          in case map_of (novel_scripts (novel_system g0)) (cs_id cur) of
               None \<Rightarrow> Inr g0
             | Some sc \<Rightarrow>
                 if p cur = [] then Inr (end_novel g0)
                 else bindE (node_at (scripts sc) (p cur)) (\<lambda>node.
                   case node of
                     None \<Rightarrow> novel_run n (upd_cur backtrack g0)
                   | Some (Text s) \<Rightarrow>
                       Inr (upd_cur (\<lambda>cur. advance (cur\<lparr>history := history cur @ [s]\<rparr>)) g0)
                   | Some (If cond _) \<Rightarrow>
                       novel_run n (if is_met g0 cond then upd_cur (\<lambda>cur. cur\<lparr>p := p cur @ [0]\<rparr>) g0 else g0)
                   | Some (IfElse _ _ _) \<Rightarrow> Inr g0
                   | Some (Select v) \<Rightarrow> Inr (upd_cur (\<lambda>cur. cur\<lparr>select := Some (map fst v)\<rparr>) g0)
                   | Some Shop \<Rightarrow>
                       Inr (open_shop (cs_character_id cur) (cs_target_id cur) (upd_cur advance g0))
                   | Some Surrender \<Rightarrow> Inr g0
                   | Some Restart \<Rightarrow> novel_run n (upd_cur (\<lambda>cur. cur\<lparr>p := [0]\<rparr>) g0)
                   | Some (CharacterMove sc x y) \<Rightarrow> character_move_node cur sc x y (upd_cur advance g0)
                   | Some (CharacterChangePosition sc x y m) \<Rightarrow>
                       bindE (character_change_position (\<lambda>s c t g'. novel_run n (novel_start_state s c t g'))
                                (script_char cur sc) x y m (upd_cur advance g0))
                         (novel_run n)
                   | Some (SelectAbility _) \<Rightarrow>
                       Inr (upd_cur (\<lambda>cur. cur\<lparr>waiting_select_ability := True\<rparr>) g0)
                   | Some ForgetSkill \<Rightarrow>
                       bindE (forget_skill cur g0) (\<lambda>g1. novel_run n (upd_cur advance g1))
                   | Some (Background b) \<Rightarrow>
                       novel_run n (upd_cur (\<lambda>cur. advance (cur\<lparr>background := Some b\<rparr>)) g0)
                   | Some PracticeSkill \<Rightarrow>
                       novel_run n (practice_skill (cs_character_id cur) (upd_cur advance g0))))"
  by pat_completeness auto
termination
  by (relation "measure (\<lambda>x. case x of
       Inl (n, _) \<Rightarrow> 2 * n + 1
     | Inr (Inl (n, _, _)) \<Rightarrow> 2 * n + 2
     | Inr (Inr (n, _)) \<Rightarrow> 2 * n + 2)") auto

definition start_novel :: "nat \<Rightarrow> novel_hook" where
  "start_novel n s cid tid g = novel_run n (novel_start_state s cid tid g)"


subsection \<open>Lemmas\<close>

declare run_node.simps [simp del]

lemma upd_cur_some:
  "ns_current (novel_system g) = Some cur \<Longrightarrow>
   upd_cur f g = g\<lparr>novel_system := (novel_system g)\<lparr>ns_current := Some (f cur)\<rparr>\<rparr>"
  by (simp add: upd_cur_def)

lemma novel_run_no_command:
  "ns_current (novel_system g) = Some cur \<Longrightarrow> cs_command_id cur = None \<Longrightarrow>
   novel_run (Suc n) g = run_node n g"
  by simp

text \<open>One step of \<open>run\<close> on the node under the cursor, branch by branch; the
  cursor's \<open>select\<close> is cleared first.\<close>

lemma run_node_end:
  assumes "ns_current (novel_system g) = Some cur"
    and "map_of (novel_scripts (novel_system g)) (cs_id cur) = Some sc" and "p cur = []"
  shows "run_node n g = Inr (end_novel g)"
  using assms by (simp add: run_node.simps upd_cur_def end_novel_def)

lemma run_node_missing:
  assumes "ns_current (novel_system g) = Some cur"
    and "map_of (novel_scripts (novel_system g)) (cs_id cur) = Some sc"
    and "p cur \<noteq> []" and "node_at (scripts sc) (p cur) = Inr None"
  shows "run_node n g = novel_run n (g\<lparr>novel_system := (novel_system g)\<lparr>ns_current :=
           Some (cur\<lparr>select := None, p := last_inc (butlast (p cur))\<rparr>)\<rparr>\<rparr>)"
  using assms by (simp add: run_node.simps upd_cur_def backtrack_def)

lemma run_node_text:
  assumes "ns_current (novel_system g) = Some cur"
    and "map_of (novel_scripts (novel_system g)) (cs_id cur) = Some sc"
    and "p cur \<noteq> []" and "node_at (scripts sc) (p cur) = Inr (Some (Text s))"
  shows "run_node n g = Inr (g\<lparr>novel_system := (novel_system g)\<lparr>ns_current :=
           Some (cur\<lparr>select := None, history := history cur @ [s], p := last_inc (p cur)\<rparr>)\<rparr>\<rparr>)"
  using assms by (simp add: run_node.simps upd_cur_def advance_def)

lemma run_node_select:
  assumes "ns_current (novel_system g) = Some cur"
    and "map_of (novel_scripts (novel_system g)) (cs_id cur) = Some sc"
    and "p cur \<noteq> []" and "node_at (scripts sc) (p cur) = Inr (Some (Select v))"
  shows "run_node n g = Inr (g\<lparr>novel_system := (novel_system g)\<lparr>ns_current :=
           Some (cur\<lparr>select := Some (map fst v)\<rparr>)\<rparr>\<rparr>)"
  using assms by (simp add: run_node.simps upd_cur_def)

lemma run_node_if:
  assumes "ns_current (novel_system g) = Some cur"
    and "map_of (novel_scripts (novel_system g)) (cs_id cur) = Some sc"
    and "p cur \<noteq> []" and "node_at (scripts sc) (p cur) = Inr (Some (If cond body))"
  shows "run_node n g = novel_run n (g\<lparr>novel_system := (novel_system g)\<lparr>ns_current :=
           Some (cur\<lparr>select := None\<rparr>)\<rparr>\<rparr>)"
  using assms by (simp add: run_node.simps upd_cur_def is_met_def)


subsection \<open>Properties\<close>


end
