(* ===== verification/Game.thy ===== *)
theory Game
  imports Novel
begin

text \<open>
  The entry points the presentation layer calls (src/src/core/game.rs): the frame
  \<open>Game::update\<close> (the scheduler's loop, then \<open>NovelSystem::update\<close>), the dialogue
  inputs \<open>select_option\<close>, \<open>select_ability\<close>, \<open>novel_run\<close> (the scenes call it
  to go on after a text line) and \<open>NovelSystem::next\<close>, and the shop inputs
  \<open>buy_item\<close> and \<open>close_shop\<close> (src/src/core/shop.rs). Every entry point that can
  reach the re-entrant interpreter takes the budget \<open>n\<close>.
\<close>

text \<open>\<open>NovelSystem::update\<close>: drive the dialogue's pending command one frame.\<close>

definition novel_update :: "nat \<Rightarrow> real \<Rightarrow> game \<Rightarrow> game res" where
  "novel_update n delta g =
     (if ns_pause (novel_system g) then Inr g
      else case ns_current (novel_system g) of
        None \<Rightarrow> Inr g
      | Some cur \<Rightarrow>
          (case cs_command_id cur of
             None \<Rightarrow> Inr g
           | Some i \<Rightarrow>
               bindE (unwrap (map_of (commands g) i)) (\<lambda>cmd.
                 case cmd_state cmd of
                   New \<Rightarrow> command_start i g
                 | Started \<Rightarrow>
                     bindE (unwrap (map_of (actions g) (cmd_action_id cmd))) (\<lambda>a.
                       let cmd' = cmd\<lparr>elapsed_time := elapsed_time cmd + delta\<rparr>;
                           g1 = g\<lparr>commands := AList.update i cmd' (commands g)\<rparr>
                       in if \<not> duration a \<le> elapsed_time cmd' then command_update i g1
                          else command_end (start_novel n) i g1)
                 | Ended \<Rightarrow>
                     novel_run n (upd_cur (\<lambda>cur. cur\<lparr>cs_command_id := None\<rparr>)
                                   (g\<lparr>commands := AList.delete i (commands g)\<rparr>)))))"

definition game_update :: "nat \<Rightarrow> real \<Rightarrow> game \<Rightarrow> game res" where
  "game_update n delta g = bindE (turn_update (start_novel n) n delta g) (novel_update n delta)"

definition select_option :: "nat \<Rightarrow> nat \<Rightarrow> game \<Rightarrow> game res" where
  "select_option n i g =
     (case ns_current (novel_system g) of
        None \<Rightarrow> Inr g
      | Some _ \<Rightarrow> novel_run n (upd_cur (\<lambda>cur. cur\<lparr>p := p cur @ [i, 0]\<rparr>) g))"

definition select_ability :: "nat \<Rightarrow> nat \<Rightarrow> game \<Rightarrow> game res" where
  "select_ability n i g =
     (case ns_current (novel_system g) of
        None \<Rightarrow> Inr g
      | Some _ \<Rightarrow>
          novel_run n (upd_cur (\<lambda>cur. cur\<lparr>waiting_select_ability := False,
                                         select_ability_character_action_index := Some i,
                                         p := p cur @ [0]\<rparr>) g))"

definition novel_next :: "nat \<Rightarrow> game \<Rightarrow> game res" where
  "novel_next n g =
     (case ns_current (novel_system g) of None \<Rightarrow> Inr g | Some _ \<Rightarrow> novel_run n (upd_cur advance g))"

definition buy_item :: "nat \<Rightarrow> game \<Rightarrow> game" where
  "buy_item i g =
     (case shop_current (shop_system g) of
        None \<Rightarrow> g
      | Some cur \<Rightarrow>
          (case map_of (characters g) (shop_character_id cur) of
             None \<Rightarrow> g
           | Some sc \<Rightarrow>
               (case ch_shop sc of
                  None \<Rightarrow> g
                | Some sh \<Rightarrow>
                    (case nth_opt (shop_items sh) i of
                       None \<Rightarrow> g
                     | Some si \<Rightarrow>
                         map_char_opt (csh_character_id cur)
                           (\<lambda>c. c\<lparr>ch_items := ch_items c @ [\<lparr>item_id = si_item_id si, quantity = 1\<rparr>]\<rparr>) g))))"

definition close_shop :: "nat \<Rightarrow> game \<Rightarrow> game res" where
  "close_shop n g =
     novel_run n (g\<lparr>shop_system := (shop_system g)\<lparr>shop_current := None\<rparr>,
                    novel_system := (novel_system g)\<lparr>ns_pause := False\<rparr>\<rparr>)"

end
