(* ===== verification/Invariant.thy ===== *)
theory Invariant
  imports Game
begin

text \<open>
  The scheduler's queue invariant \<open>queue_ok\<close> (sorted by time, no negative time) as
  an invariant of the whole core. The components that can re-enter the dialogue
  interpreter are proved for any hook that keeps the invariant (\<open>hook_ok\<close>, the
  interface between them and the interpreter); the interpreter then discharges that
  assumption for itself by induction over its own recursion, one level at a time.
  The operations that never touch the queue are collected in \<open>queue_same\<close>.
\<close>

abbreviation tq :: "game \<Rightarrow> turn list" where
  "tq g \<equiv> turn_queue (turn_system g)"

definition qok :: "game \<Rightarrow> bool" where
  "qok g \<longleftrightarrow> queue_ok (tq g)"

definition hook_ok :: "novel_hook \<Rightarrow> bool" where
  "hook_ok sn \<longleftrightarrow> (\<forall>s c t g g'. qok g \<longrightarrow> sn s c t g = Inr g' \<longrightarrow> qok g')"

lemma hook_okD: "hook_ok sn \<Longrightarrow> qok g \<Longrightarrow> sn s c t g = Inr g' \<Longrightarrow> qok g'"
  by (auto simp: hook_ok_def)

subsection \<open>Operations that leave the queue alone\<close>

lemma qok_same: "tq g' = tq g \<Longrightarrow> qok g \<Longrightarrow> qok g'"
  by (simp add: qok_def)

lemma qok_upd [simp]:
  "qok (g\<lparr>characters := cs\<rparr>) = qok g" "qok (g\<lparr>character_actions := cas\<rparr>) = qok g"
  "qok (g\<lparr>commands := cms\<rparr>) = qok g" "qok (g\<lparr>sprite_animations := sa\<rparr>) = qok g"
  "qok (g\<lparr>floor_system := fs\<rparr>) = qok g" "qok (g\<lparr>novel_system := ns\<rparr>) = qok g"
  "qok (g\<lparr>shop_system := ss\<rparr>) = qok g" "qok (g\<lparr>camera := cam\<rparr>) = qok g"
  "qok (g\<lparr>turn_system := (turn_system g)\<lparr>ts_pause := b\<rparr>\<rparr>) = qok g"
  "qok (g\<lparr>turn_system := (turn_system g)\<lparr>waiting_input := b\<rparr>\<rparr>) = qok g"
  "qok (set_state st g) = qok g" "qok (set_current_turn ct g) = qok g"
  by (simp_all add: qok_def set_state_def set_current_turn_def map_turn_system_def)

lemma map_char_tq [queue_same]: "map_char cid f g = Inr g' \<Longrightarrow> tq g' = tq g"
  by (auto simp: map_char_def split: option.splits)

lemma map_char_opt_tq [simp]: "tq (map_char_opt cid f g) = tq g"
  by (simp add: map_char_opt_def split: option.split)

lemma map_chars_tq [queue_same]: "map_chars ids f g = Inr g' \<Longrightarrow> tq g' = tq g"
proof (induction ids arbitrary: g)
  case Nil
  then show ?case by simp
next
  case (Cons i ids)
  then show ?case by (auto simp: bindE_eq_Inr dest: map_char_tq)
qed

lemma drain_all_tq [queue_same]: "drain_all ids sid g = Inr g' \<Longrightarrow> tq g' = tq g"
proof (induction ids arbitrary: g)
  case Nil
  then show ?case by simp
next
  case (Cons i ids)
  then show ?case by (auto simp: bindE_eq_Inr unwrap_eq_Inr split: if_splits dest!: map_char_tq)
qed

lemma set_character_command_tq [simp]: "tq (set_character_command cid cmd g) = tq g"
  by (simp add: set_character_command_def Let_def split: option.split)

lemma new_data_tq: "new_data g c a t = Inr (g', r) \<Longrightarrow> tq g' = tq g"
  unfolding new_data_def
  by (cases "action_kind a"; cases t) (auto simp: put_animation_def bindE_eq_Inr)

lemma new_animation_tq: "new_animation g cid a t = Inr (g', r) \<Longrightarrow> tq g' = tq g"
  by (auto simp: new_animation_def put_animation_def bindE_eq_Inr split: option.splits)

lemma command_new_tq [queue_same]:
  assumes "command_new g cid aid t = Inr (g', r)"
  shows "tq g' = tq g"
proof -
  from assms obtain a c g1 r1 where d: "new_data g c a t = Inr (g1, r1)"
    and rest: "(case r1 of Inl e \<Rightarrow> Inr (g1, Inl e)
               | Inr d \<Rightarrow> bindE (new_animation g1 cid a t) (\<lambda>(g2, sid).
                   Inr (g2, Inr \<lparr>cmd_character_id = cid, cmd_action_id = aid, target = t,
                          elapsed_time = 0, data = d, sprite_animation_id = sid, cmd_state = New\<rparr>)))
             = Inr (g', r)"
    by (auto simp: command_new_def bindE_eq_Inr unwrap_eq_Inr)
  have "tq g' = tq g1"
  proof (cases r1)
    case (Inl e)
    with rest show ?thesis by simp
  next
    case (Inr x)
    with rest show ?thesis by (auto simp: bindE_eq_Inr dest: new_animation_tq)
  qed
  with new_data_tq [OF d] show ?thesis by simp
qed

lemma add_command_tq [queue_same]:
  assumes "add_command cid nm t g = Inr g'"
  shows "tq g' = tq g"
proof -
  from assms obtain aid p where c: "command_new g cid aid t = Inr p"
    and e: "(\<lambda>(g1, r). case r of Inl _ \<Rightarrow> Inr g1 | Inr cmd \<Rightarrow> Inr (set_character_command cid cmd g1)) p = (Inr g' :: game res)"
    by (auto simp: add_command_def bindE_eq_Inr)
  obtain g1 r where p: "p = (g1, r)" by (cases p)
  from c p have "tq g1 = tq g" by (simp add: command_new_tq)
  with e p show ?thesis by (cases r) auto
qed

lemma issue_move_tq [queue_same]:
  assumes "issue_move cid d g = Inr g'"
  shows "tq g' = tq g"
proof -
  from assms obtain p where c: "move_command cid (fst d) (snd d) g = Inr p"
    and e: "(\<lambda>(g1, r). case r of Inl _ \<Rightarrow> Inl Panic | Inr cmd \<Rightarrow> Inr (set_character_command cid cmd g1)) p = Inr g'"
    by (auto simp: issue_move_def bindE_eq_Inr)
  obtain g1 r where p: "p = (g1, r)" by (cases p)
  from c p have "tq g1 = tq g"
    by (auto simp: move_command_def bindE_eq_Inr split: option.split_asm dest: command_new_tq)
  with e p show ?thesis by (cases r) auto
qed

lemma command_start_tq [queue_same]: "command_start i g = Inr g' \<Longrightarrow> tq g' = tq g"
  by (auto simp: command_start_def Let_def bindE_eq_Inr dest!: map_char_tq)

lemma command_update_tq [queue_same]: "command_update i g = Inr g' \<Longrightarrow> tq g' = tq g"
  by (auto simp: command_update_def set_percentage_def Let_def bindE_eq_Inr
      split: option.splits command_data.splits dest!: map_char_tq)

lemma character_position_changed_tq [simp]: "tq (character_position_changed cid g) = tq g"
  using character_position_changed_cases [of cid g] by (auto simp: wake_all_def)

lemma qok_map_char_opt [simp]: "qok (map_char_opt cid f g) = qok g"
  by (simp add: qok_def)

lemma qok_character_position_changed [simp]: "qok (character_position_changed cid g) = qok g"
  by (simp add: qok_def)

subsection \<open>Damage, floors and the end of a command\<close>

lemma take_damage_qok:
  assumes "qok g" and "take_damage dmg tid sid g = Inr g'"
  shows "qok g'"
proof (cases "map_of (characters g) tid")
  case None
  with assms show ?thesis by (simp add: take_damage_def)
next
  case (Some c)
  show ?thesis
  proof (cases "\<not> defeated (hit dmg c) \<and> current (hp (hit dmg c)) \<le> 0")
    case True
    with assms Some obtain g2 where m: "map_char sid (gain_exp (kill_experience ((hit dmg c)\<lparr>defeated := True, hidden := True\<rparr>)))
        (g\<lparr>characters := AList.update tid ((hit dmg c)\<lparr>defeated := True, hidden := True\<rparr>) (characters g)\<rparr>) = Inr g2"
      and g': "g' = map_turn_system (\<lambda>ts. ts\<lparr>turn_queue := retain_turns tid (turn_queue ts)\<rparr>) g2"
      by (auto simp: take_damage_def Let_def bindE_eq_Inr)
    from map_char_tq [OF m] assms(1) show ?thesis
      by (simp add: g' qok_def retain_turns_ok)
  next
    case False
    with assms Some show ?thesis by (auto simp: take_damage_def Let_def qok_def)
  qed
qed

lemma damage_all_qok: "qok g \<Longrightarrow> damage_all dmg ids sid g = Inr g' \<Longrightarrow> qok g'"
proof (induction ids arbitrary: g)
  case Nil
  then show ?case by simp
next
  case (Cons i ids)
  then show ?case by (auto simp: bindE_eq_Inr dest: take_damage_qok)
qed


lemma tq_add_turn [simp]: "tq (add_turn t g) = queue_insert t (tq g)"
  by (simp add: add_turn_def)

lemma tq_set_current_turn [simp]: "tq (set_current_turn ct g) = tq g"
  by (simp add: set_current_turn_def)

lemma add_turn_qok: "qok g \<Longrightarrow> 0 \<le> time t \<Longrightarrow> qok (add_turn t g)"
  by (simp add: qok_def add_turn_def queue_insert_ok)

lemma insert_character_actions_tq [simp]: "tq (fst (insert_character_actions ids acc g)) = tq g"
  by (induction ids acc g rule: insert_character_actions.induct) (simp_all add: Let_def)

lemma spawn_character_qok: "qok g \<Longrightarrow> qok (fst (spawn_character ctl r spr ex lv hpb g))"
proof -
  assume q: "qok g"
  obtain g1 cas where ica: "insert_character_actions [1, 2, 3, 4] [] g = (g1, cas)" by fastforce
  have "tq g1 = tq g" using insert_character_actions_tq [of "[1, 2, 3, 4]" "[]" g] ica by simp
  with q show ?thesis
    by (simp add: spawn_character_def ica Let_def add_turn_qok qok_same)
qed

lemma new_enemy_qok: "qok g \<Longrightarrow> qok (fst (new_enemy g))"
  by (simp add: new_enemy_def spawn_character_qok)

lemma new_player_character_qok: "qok g \<Longrightarrow> qok (new_player_character g)"
  by (simp add: new_player_character_def spawn_character_qok)

lemma spawn_floor_content_qok:
  assumes "hook_ok sn" and "qok g" and "spawn_floor_content sn pid fl g = Inr g'"
  shows "qok g'"
proof (cases "normal_floor fl")
  case True
  obtain g1 i where ne: "new_enemy g = (g1, i)" by fastforce
  have "qok g1" using new_enemy_qok [OF assms(2)] ne by simp
  with True assms(3) ne show ?thesis by (auto simp: spawn_floor_content_def)
next
  case False
  define g0 where "g0 = map_char_opt skill_vendor_id place_vendor g"
  obtain g1 i where ne: "new_enemy g0 = (g1, i)" by fastforce
  have "qok g0" using assms(2) by (simp add: g0_def)
  then have "qok g1" using new_enemy_qok [of g0] ne by simp
  then have "qok (map_char_opt i (place_boss fl) g1)" by simp
  with False assms ne show ?thesis
    by (auto simp: spawn_floor_content_def g0_def [symmetric] split: if_splits)
      (erule hook_okD [OF assms(1), rotated], simp)
qed

lemma floor_next_qok:
  assumes "hook_ok sn" and "qok g" and "floor_next sn g = Inr g'"
  shows "qok g'"
proof (cases "fs_current (floor_system g)")
  case None
  with assms show ?thesis by (simp add: floor_next_def)
next
  case (Some cur)
  have "\<exists>g3. qok g3 \<and> spawn_floor_content sn (fc_character_id cur) (floor cur + 1) g3 = Inr g'"
    using assms(2,3) Some
    by (auto simp: floor_next_def Let_def split: option.splits)
      (rule exI, rule conjI [rotated], assumption, simp)+
  then show ?thesis using spawn_floor_content_qok [OF assms(1)] by blast
qed

lemma character_set_position_qok:
  assumes "hook_ok sn" and "qok g" and "character_set_position sn cid pos g = Inr g'"
  shows "qok g'"
proof -
  from assms(3) obtain g1 g2 where m: "map_char cid (\<lambda>c. c\<lparr>position := pos\<rparr>) g = Inr g1"
    and f: "(if teleportation_at_position g1 pos \<noteq> None then floor_next sn g1 else Inr g1) = Inr g2"
    and g': "g' = character_position_changed cid g2"
    by (auto simp: character_set_position_def bindE_eq_Inr)
  have "qok g1" using map_char_tq [OF m] assms(2) by (rule qok_same)
  then have "qok g2" using f floor_next_qok [OF assms(1)] by (auto split: if_splits)
  then show ?thesis by (simp add: g' qok_same)
qed

lemma resolve_move_qok:
  assumes "hook_ok sn" and "qok g" and "resolve_move sn cid fr to g = Inr g'"
  shows "qok g'"
proof -
  from assms(3) obtain g1 where m: "map_char cid (\<lambda>c. c\<lparr>offset_x := 0, offset_y := 0\<rparr>) g = Inr g1"
    and c: "character_set_position sn cid (move_destination g fr to) g1 = Inr g'"
    by (auto simp: resolve_move_def Let_def bindE_eq_Inr)
  have "qok g1" using map_char_tq [OF m] assms(2) by (rule qok_same)
  then show ?thesis using c by (rule character_set_position_qok [OF assms(1)])
qed

lemma resolve_effect_qok:
  assumes "hook_ok sn" and "qok g" and "resolve_effect sn cmd a g = Inr g'"
  shows "qok g'"
proof (cases "action_kind a")
  case Talk
  with assms show ?thesis
    by (auto simp: resolve_effect_def bindE_eq_Inr hook_ok_def split: target.splits)
next
  case Move
  with assms show ?thesis
    by (auto simp: resolve_effect_def split: command_data.splits intro: resolve_move_qok)
next
  case (Damage d)
  with assms show ?thesis
    by (auto simp: resolve_effect_def Let_def bindE_eq_Inr intro: damage_all_qok)
next
  case Drain
  with assms show ?thesis
    by (auto simp: resolve_effect_def Let_def bindE_eq_Inr qok_def split: command_data.splits
        dest!: drain_all_tq)
qed (use assms in \<open>auto simp: resolve_effect_def Let_def bindE_eq_Inr qok_def dest!: map_chars_tq\<close>)

lemma command_end_qok:
  assumes "hook_ok sn" and "qok g" and "command_end sn i g = Inr g'"
  shows "qok g'"
  using assms
  by (auto simp: command_end_def Let_def bindE_eq_Inr split: option.splits)
    (erule resolve_effect_qok [OF assms(1), rotated], simp)+


subsection \<open>The scheduler\<close>

lemma enemy_ai_tq [queue_same]: "enemy_ai cid c g = Inr g' \<Longrightarrow> tq g' = tq g"
  by (auto simp: enemy_ai_def split: list.splits prod.splits if_splits
      dest: add_command_tq issue_move_tq)

lemma boss_ai_tq [queue_same]: "boss_ai cid c g = Inr g' \<Longrightarrow> tq g' = tq g"
  by (auto simp: boss_ai_def Let_def bindE_eq_Inr split: option.splits if_splits
      dest: add_command_tq issue_move_tq)

lemma act_by_controller_tq [queue_same]: "act_by_controller cid c g = Inr g' \<Longrightarrow> tq g' = tq g"
  by (auto simp: act_by_controller_def split: controller.splits if_splits dest: queue_same)

lemma ts_empty_qok: "qok g \<Longrightarrow> ts_empty g = Inr (out, st, g') \<Longrightarrow> qok g'"
  by (auto simp: ts_empty_def qok_def map_turn_system_def split: option.splits
      dest: pop_turn_ok)

lemma start_character_turn_qok:
  "qok g \<Longrightarrow> start_character_turn cid g = Inr (out, st, g') \<Longrightarrow> qok g'"
  by (auto simp: start_character_turn_def Let_def bindE_eq_Inr qok_def split: if_splits
      dest!: act_by_controller_tq)

lemma start_turn_qok:
  assumes "qok g" and "start_turn g = Inr (out, st, g')"
  shows "qok g'"
proof (cases "current_turn (turn_system g)")
  case None
  with assms show ?thesis by (simp add: start_turn_def)
next
  case (Some t)
  show ?thesis
  proof (cases "kind t")
    case (Character_Turn cid)
    with assms Some show ?thesis by (auto simp: start_turn_def intro: start_character_turn_qok)
  next
    case (Respawn cid)
    with assms(2) Some obtain g1 where m: "map_char cid respawn g = Inr g1"
      and g': "g' = set_current_turn None (add_turn \<lparr>time = 1, kind = Character_Turn cid\<rparr> g1)"
      by (auto simp: start_turn_def bindE_eq_Inr)
    from map_char_tq [OF m] assms(1) show ?thesis by (simp add: g' qok_def queue_insert_ok)
  qed
qed

lemma start_command_qok: "qok g \<Longrightarrow> start_command g = Inr (out, st, g') \<Longrightarrow> qok g'"
  by (auto simp: start_command_def bindE_eq_Inr qok_def split: option.splits
      dest!: command_start_tq)

lemma update_command_qok: "qok g \<Longrightarrow> update_command delta g = Inr (out, st, g') \<Longrightarrow> qok g'"
  by (auto simp: update_command_def Let_def bindE_eq_Inr qok_def split: option.splits if_splits
      dest!: command_update_tq)

lemma end_command_qok:
  assumes "hook_ok sn" and "qok g" and "end_command sn g = Inr (out, st, g')"
  shows "qok g'"
proof -
  from assms(3) obtain cid c g2 where c: "map_of (characters g) cid = Some c"
    and g2: "(case command_id c of None \<Rightarrow> Inr g
             | Some i \<Rightarrow> bindE (command_end sn i g) (\<lambda>g1. Inr (g1\<lparr>commands := AList.delete i (commands g1)\<rparr>)))
             = Inr g2"
    and m: "map_char cid (\<lambda>c. c\<lparr>command_id := None\<rparr>) g2 = Inr g'"
    by (auto simp: end_command_def bindE_eq_Inr unwrap_eq_Inr)
  have "qok g2"
  proof (cases "command_id c")
    case None
    with g2 assms(2) show ?thesis by simp
  next
    case (Some i)
    with g2 obtain g1 where e: "command_end sn i g = Inr g1"
      and g2': "g2 = g1\<lparr>commands := AList.delete i (commands g1)\<rparr>"
      by (auto simp: bindE_eq_Inr)
    show ?thesis using command_end_qok [OF assms(1,2) e] by (simp add: g2')
  qed
  then show ?thesis using map_char_tq [OF m] by (simp add: qok_def)
qed

lemma end_turn_qok: "qok g \<Longrightarrow> end_turn g = Inr (out, st, g') \<Longrightarrow> qok g'"
  by (auto simp: end_turn_def Let_def bindE_eq_Inr qok_def queue_insert_ok
      split: option.splits turn_kind.splits dest!: map_char_tq)

lemma turn_step_qok:
  "hook_ok sn \<Longrightarrow> qok g \<Longrightarrow> turn_step sn delta g = Inr (out, st, g') \<Longrightarrow> qok g'"
  by (auto simp: turn_step_def split: state.splits
      elim: ts_empty_qok start_turn_qok start_command_qok update_command_qok end_command_qok
        end_turn_qok)

lemma turn_update_qok:
  "hook_ok sn \<Longrightarrow> qok g \<Longrightarrow> turn_update sn n delta g = Inr g' \<Longrightarrow> qok g'"
proof (induction n arbitrary: g)
  case 0
  then show ?case by simp
next
  case (Suc n)
  show ?case
  proof (cases "ts_pause (turn_system g)")
    case True
    with Suc.prems show ?thesis by simp
  next
    case False
    with Suc.prems(3) obtain out st g1 where ts: "turn_step sn delta g = Inr (out, st, g1)"
      and rest: "(if out then Inr (set_state st g1) else turn_update sn n delta (set_state st g1)) = Inr g'"
      by (auto simp: bindE_eq_Inr)
    have q: "qok (set_state st g1)" using turn_step_qok [OF Suc.prems(1,2) ts] by simp
    show ?thesis
    proof (cases out)
      case True
      with rest q show ?thesis by simp
    next
      case False
      with rest have "turn_update sn n delta (set_state st g1) = Inr g'" by simp
      then show ?thesis by (rule Suc.IH [OF Suc.prems(1) q])
    qed
  qed
qed


subsection \<open>The dialogue interpreter\<close>

lemma qok_novel_simps [simp]:
  "qok (upd_cur f g) = qok g" "qok (end_novel g) = qok g" "qok (open_shop cid sid g) = qok g"
  "qok (novel_start_state s cid tid g) = qok g"
  by (simp_all add: qok_def upd_cur_def end_novel_def open_shop_def novel_start_state_def)

lemma tq_upd_cur [simp]: "tq (upd_cur f g) = tq g"
  by (simp add: upd_cur_def)

lemma learn_all_tq [simp]: "tq (learn_all cid aids g) = tq g"
  by (induction aids arbitrary: g) (simp_all add: Let_def)

lemma qok_practice_skill [simp]: "qok (practice_skill cid g) = qok g"
  by (simp add: practice_skill_def qok_def Let_def split: option.split)

lemma forget_skill_tq [queue_same]: "forget_skill cur g = Inr g' \<Longrightarrow> tq g' = tq g"
  by (auto simp: forget_skill_def bindE_eq_Inr split: option.splits)

lemma character_move_node_tq [queue_same]:
  assumes "character_move_node cur sc x y g = Inr g'"
  shows "tq g' = tq g"
proof -
  from assms obtain aid m p where c: "command_new g (script_char cur sc) aid
      (TPosition \<lparr>map_id = m, pos_x = x, pos_y = y\<rparr>) = Inr p"
    and e: "(\<lambda>(g1, r). case r of Inl _ \<Rightarrow> Inl Panic
             | Inr cmd \<Rightarrow> Inr (upd_cur (\<lambda>cur. cur\<lparr>cs_command_id := Some (fresh_id (commands g1))\<rparr>)
                   (g1\<lparr>commands := AList.update (fresh_id (commands g1)) cmd (commands g1)\<rparr>))) p = Inr g'"
    by (auto simp: character_move_node_def Let_def bindE_eq_Inr)
  obtain g1 r where p: "p = (g1, r)" by (cases p)
  from c p have "tq g1 = tq g" by (simp add: command_new_tq)
  with e p show ?thesis by (cases r) (auto simp: upd_cur_def)
qed

text \<open>One node, given that the recursive calls keep the invariant.\<close>

lemma run_node_qok:
  assumes nr0: "\<forall>g g'. qok g \<longrightarrow> novel_run n g = Inr g' \<longrightarrow> qok g'"
    and q: "qok g" and r: "run_node n g = Inr g'"
  shows "qok g'"
proof -
  have nr: "qok g1 \<Longrightarrow> novel_run n g1 = Inr g2 \<Longrightarrow> qok g2" for g1 g2 using nr0 by blast
  have hk: "hook_ok (\<lambda>s c t g'. novel_run n (novel_start_state s c t g'))"
    by (auto simp: hook_ok_def) (erule nr [rotated], simp)
  note nr' = nr [rotated]
  note csp = character_set_position_qok [OF hk, rotated]
  from q r show ?thesis
    by (auto simp: run_node.simps Let_def bindE_def character_change_position_def
        split: option.split_asm if_split_asm script_kind.split_asm sum.split_asm
        dest!: queue_same)
      ((erule nr' csp | simp | simp add: qok_def)+)
qed


text \<open>The interpreter keeps the invariant at every budget: \<open>run_node n\<close> only calls
  \<open>novel_run n\<close>, and \<open>novel_run (Suc n)\<close> and \<open>clear_loop (Suc n)\<close> only call the
  three routines at budget \<open>n\<close>, so one induction on the budget covers all of them.\<close>

lemma novel_run_clear_loop_qok:
  "(\<forall>g g'. qok g \<longrightarrow> novel_run n g = Inr g' \<longrightarrow> qok g')
   \<and> (\<forall>i g g'. qok g \<longrightarrow> clear_loop n i g = Inr g' \<longrightarrow> qok g')"
proof (induction n)
  case 0
  then show ?case by simp
next
  case (Suc n)
  have nr0: "\<forall>g g'. qok g \<longrightarrow> novel_run n g = Inr g' \<longrightarrow> qok g'" using Suc.IH by blast
  have nr: "\<And>g g'. qok g \<Longrightarrow> novel_run n g = Inr g' \<Longrightarrow> qok g'" using nr0 by blast
  have cl: "\<And>i g g'. qok g \<Longrightarrow> clear_loop n i g = Inr g' \<Longrightarrow> qok g'" using Suc.IH by blast
  have hk: "hook_ok (\<lambda>s c t g'. novel_run n (novel_start_state s c t g'))"
    by (auto simp: hook_ok_def) (erule nr [rotated], simp)
  have "qok g'" if q: "qok g" and r: "novel_run (Suc n) g = Inr g'" for g g'
  proof -
    from r obtain g1 where c: "(case ns_current (novel_system g) of
              None \<Rightarrow> Inr g
            | Some cur \<Rightarrow> (case cs_command_id cur of None \<Rightarrow> Inr g | Some i \<Rightarrow> clear_loop n i g)) = Inr g1"
      and rn: "run_node n g1 = Inr g'"
      by (auto simp: bindE_eq_Inr)
    from c q have "qok g1" by (auto split: option.splits intro: cl)
    then show ?thesis using rn by (rule run_node_qok [OF nr0])
  qed
  moreover have "qok g'" if q: "qok g" and r: "clear_loop (Suc n) i g = Inr g'" for i g g'
    using q r
    by (auto simp: bindE_def split: option.split_asm command_state.split_asm sum.split_asm
        dest!: queue_same)
      ((erule cl [rotated] command_end_qok [OF hk, rotated] | simp | simp add: qok_def)+)
  ultimately show ?case by blast
qed

lemma novel_run_qok: "qok g \<Longrightarrow> novel_run n g = Inr g' \<Longrightarrow> qok g'"
  using novel_run_clear_loop_qok by blast

lemma start_novel_hook_ok: "hook_ok (start_novel n)"
  by (auto simp: hook_ok_def start_novel_def) (erule novel_run_qok [rotated], simp)

subsection \<open>The entry points of \<open>Game\<close>\<close>

lemma novel_update_qok: "qok g \<Longrightarrow> novel_update n delta g = Inr g' \<Longrightarrow> qok g'"
  by (auto simp: novel_update_def Let_def bindE_def
      split: if_split_asm option.split_asm command_state.split_asm sum.split_asm
      dest!: queue_same)
    ((erule novel_run_qok [rotated] command_end_qok [OF start_novel_hook_ok, rotated]
      | simp | simp add: qok_def)+)

lemma game_update_qok: "qok g \<Longrightarrow> game_update n delta g = Inr g' \<Longrightarrow> qok g'"
  by (auto simp: game_update_def bindE_eq_Inr
      intro: novel_update_qok turn_update_qok [OF start_novel_hook_ok])

lemma input_qok:
  "qok g \<Longrightarrow> select_option n i g = Inr g' \<Longrightarrow> qok g'"
  "qok g \<Longrightarrow> select_ability n i g = Inr g' \<Longrightarrow> qok g'"
  "qok g \<Longrightarrow> novel_next n g = Inr g' \<Longrightarrow> qok g'"
  "qok g \<Longrightarrow> close_shop n g = Inr g' \<Longrightarrow> qok g'"
  by (auto simp: select_option_def select_ability_def novel_next_def close_shop_def
      split: option.splits elim!: novel_run_qok [rotated])

lemma qok_inputs [simp]:
  "qok (buy_item i g) = qok g" "qok (add_player_command cid cmd g) = qok g"
  by (simp_all add: qok_def buy_item_def add_player_command_def map_turn_system_def
      split: option.split)

end
