(* ===== verification/Scenes.thy ===== *)
theory Scenes
  imports Invariant
begin

text \<open>
  The scene layer of the application (src/src/scene.rs, src/src/scenes, src/src/data.rs,
  the event handler of src/src/main.rs): the state each scene keeps, its per-frame
  \<open>update\<close> and its \<open>key_down_event\<close>, and the \<open>SceneStack\<close> that dispatches both to the
  top scene and applies the returned \<open>Transition\<close>. Drawing, image caches and asset
  loading are I/O and are left out; so are the scenes' pre-rendered texts, which only
  drawing reads. Every call a scene makes into the core is the core's model, and the
  frame update carries the interpreter budget \<open>n\<close> of \<open>game_update\<close>.
\<close>

record scene_data =
  sd_game :: game
  target_finish :: bool
  chosen_action_id :: "int option"

definition data_new :: "game \<Rightarrow> scene_data" where
  "data_new g = \<lparr>sd_game = g, target_finish = False, chosen_action_id = None\<rparr>"

datatype key = KeyW | KeyA | KeyS | KeyD | KeyQ | KeyE | KeyN | KeyEscape | KeyOther

record action_sc =
  as_character_id :: int
  as_current_item :: nat
  as_action_ids :: "int list"
  as_waiting :: bool

record target_sc =
  tg_character_id :: int
  tg_action_id :: int
  tg_position :: position

record select_ability_sc =
  sa_character_id :: int
  sa_current_item :: nat
  sa_action_ids :: "int list"

datatype scene =
    LevelScene
  | ActionScene action_sc
  | TargetScene target_sc
  | NovelScene nat
  | PauseScene
  | SelectAbilityScene select_ability_sc
  | ShopScene nat

datatype transition = TrNone | TrPop | TrPush scene | TrReplace scene

type_synonym scene_step = "(scene_data \<times> scene \<times> transition) res"

subsection \<open>Constructors\<close>

text \<open>The actions a menu lists: for each known action of the character whose
  \<open>CharacterAction\<close> and \<open>Action\<close> both exist, its action id, in order.\<close>

definition known_action_ids :: "game \<Rightarrow> int \<Rightarrow> int list" where
  "known_action_ids g cid =
     (case map_of (characters g) cid of
        None \<Rightarrow> []
      | Some c \<Rightarrow>
          List.map_filter (\<lambda>i.
            case map_of (character_actions g) i of
              None \<Rightarrow> None
            | Some ca \<Rightarrow> map_option (\<lambda>_. action_id ca) (map_of (actions g) (action_id ca)))
          (character_action_ids c))"

definition action_scene_new :: "scene_data \<Rightarrow> int \<Rightarrow> action_sc" where
  "action_scene_new d cid =
     \<lparr>as_character_id = cid, as_current_item = 0, as_action_ids = known_action_ids (sd_game d) cid,
      as_waiting = False\<rparr>"

definition target_scene_new :: "scene_data \<Rightarrow> int \<Rightarrow> int \<Rightarrow> target_sc res" where
  "target_scene_new d cid aid =
     bindE (unwrap (map_option position (map_of (characters (sd_game d)) cid))) (\<lambda>pos.
       Inr \<lparr>tg_character_id = cid, tg_action_id = aid, tg_position = pos\<rparr>)"

definition select_ability_scene_new :: "scene_data \<Rightarrow> int \<Rightarrow> select_ability_sc" where
  "select_ability_scene_new d cid =
     \<lparr>sa_character_id = cid, sa_current_item = 0, sa_action_ids = known_action_ids (sd_game d) cid\<rparr>"

definition cancel_select_ability :: "game \<Rightarrow> game" where
  "cancel_select_ability g = g"

definition with_game :: "scene_data \<Rightarrow> game \<Rightarrow> scene_data" where
  "with_game d g = d\<lparr>sd_game := g\<rparr>"

text \<open>The game-level helpers the scenes read.\<close>

definition current_character_turn :: "game \<Rightarrow> int option" where
  "current_character_turn g =
     (case current_turn (turn_system g) of
        None \<Rightarrow> None
      | Some t \<Rightarrow> (case kind t of Character_Turn cid \<Rightarrow> Some cid | Respawn _ \<Rightarrow> None))"

definition option_count :: "game \<Rightarrow> nat" where
  "option_count g =
     (case ns_current (novel_system g) of
        None \<Rightarrow> 0
      | Some cur \<Rightarrow> (case select cur of None \<Rightarrow> 0 | Some s \<Rightarrow> length s))"

definition shop_item_count :: "game \<Rightarrow> nat" where
  "shop_item_count g =
     (case shop_current (shop_system g) of
        None \<Rightarrow> 0
      | Some cur \<Rightarrow>
          (case map_of (characters g) (shop_character_id cur) of
             None \<Rightarrow> 0
           | Some c \<Rightarrow> (case ch_shop c of None \<Rightarrow> 0 | Some sh \<Rightarrow> length (shop_items sh))))"

text \<open>The menus' cursor moves, \<open>usize\<close> arithmetic guarded as in the code: a
  grid of \<open>w\<close> rows (\<open>W\<close>/\<open>S\<close> step by one, \<open>A\<close>/\<open>D\<close> by \<open>w\<close>), and the wrapping
  list of the dialogue and the shop (\<open>S\<close> past the end returns to the top).\<close>

definition grid_move :: "nat \<Rightarrow> nat \<Rightarrow> key \<Rightarrow> nat \<Rightarrow> nat" where
  "grid_move w len k i =
     (case k of
        KeyW \<Rightarrow> if 1 \<le> i then i - 1 else i
      | KeyA \<Rightarrow> if w \<le> i then i - w else i
      | KeyS \<Rightarrow> if i + 1 < len then i + 1 else i
      | KeyD \<Rightarrow> if i + w < len then i + w else i
      | _ \<Rightarrow> i)"

definition wrap_move :: "nat \<Rightarrow> key \<Rightarrow> nat \<Rightarrow> nat" where
  "wrap_move m k i =
     (case k of
        KeyW \<Rightarrow> if 0 < i then i - 1 else i
      | KeyS \<Rightarrow> if i + 1 < m then i + 1 else 0
      | _ \<Rightarrow> i)"


subsection \<open>\<open>LevelScene\<close>\<close>

text \<open>The map view: while a dialogue is open it pushes the dialogue scene, otherwise it
  runs the frame. While the scheduler waits for input, \<open>W A S D\<close> issue the player's
  relative move (the game mutated by \<open>Command::new\<close> is kept even when the command is
  refused), \<open>E\<close> opens the action menu, and \<open>Escape\<close> opens the pause menu at any time.\<close>

definition level_update :: "nat \<Rightarrow> real \<Rightarrow> scene_data \<Rightarrow> scene_step" where
  "level_update n delta d =
     (if ns_current (novel_system (sd_game d)) \<noteq> None then Inr (d, LevelScene, TrPush (NovelScene 0))
      else bindE (game_update n delta (sd_game d)) (\<lambda>g'. Inr (with_game d g', LevelScene, TrNone)))"

definition level_move :: "int \<Rightarrow> int \<Rightarrow> scene_data \<Rightarrow> scene_step" where
  "level_move dx dy d =
     (case current_character_turn (sd_game d) of
        None \<Rightarrow> Inr (d, LevelScene, TrNone)
      | Some cid \<Rightarrow>
          bindE (move_command cid dx dy (sd_game d)) (\<lambda>(g1, r).
            case r of
              Inl _ \<Rightarrow> Inr (with_game d g1, LevelScene, TrNone)
            | Inr cmd \<Rightarrow> Inr (with_game d (add_player_command cid cmd g1), LevelScene, TrNone)))"

definition level_key_down :: "key \<Rightarrow> scene_data \<Rightarrow> scene_step" where
  "level_key_down k d =
     (if waiting_input (turn_system (sd_game d)) then
        (case k of
           KeyW \<Rightarrow> level_move 0 (-1) d
         | KeyA \<Rightarrow> level_move (-1) 0 d
         | KeyS \<Rightarrow> level_move 0 1 d
         | KeyD \<Rightarrow> level_move 1 0 d
         | KeyE \<Rightarrow>
             (case current_character_turn (sd_game d) of
                None \<Rightarrow> Inr (d, LevelScene, TrNone)
              | Some cid \<Rightarrow> Inr (d, LevelScene, TrPush (ActionScene (action_scene_new d cid))))
         | KeyEscape \<Rightarrow> Inr (d, LevelScene, TrPush PauseScene)
         | _ \<Rightarrow> Inr (d, LevelScene, TrNone))
      else if k = KeyEscape then Inr (d, LevelScene, TrPush PauseScene)
      else Inr (d, LevelScene, TrNone))"

subsection \<open>\<open>ActionScene\<close> and \<open>TargetScene\<close>\<close>

definition action_update :: "scene_data \<Rightarrow> action_sc \<Rightarrow> scene_step" where
  "action_update d s =
     (if as_waiting s then
        Inr (d, ActionScene (s\<lparr>as_waiting := False\<rparr>), if target_finish d then TrPop else TrNone)
      else Inr (d, ActionScene s, TrNone))"

definition action_key_down :: "key \<Rightarrow> scene_data \<Rightarrow> action_sc \<Rightarrow> scene_step" where
  "action_key_down k d s =
     (case k of
        KeyQ \<Rightarrow> Inr (d\<lparr>chosen_action_id := None\<rparr>, ActionScene s, TrPop)
      | KeyE \<Rightarrow>
          (case nth_opt (as_action_ids s) (as_current_item s) of
             None \<Rightarrow> Inr (d, ActionScene s, TrNone)
           | Some aid \<Rightarrow>
               let d' = d\<lparr>target_finish := False\<rparr> in
               bindE (target_scene_new d' (as_character_id s) aid) (\<lambda>t.
                 Inr (d', ActionScene (s\<lparr>as_waiting := True\<rparr>), TrPush (TargetScene t))))
      | _ \<Rightarrow> Inr (d, ActionScene (s\<lparr>as_current_item :=
                 grid_move 4 (length (as_action_ids s)) k (as_current_item s)\<rparr>), TrNone))"

text \<open>The target of the confirmed cell, by the action's declared target kind: none,
  the visible character standing there (no target when the cell is empty), or the
  cell itself.\<close>

definition scene_target :: "game \<Rightarrow> target_kind \<Rightarrow> position \<Rightarrow> target option" where
  "scene_target g tk pos =
     (case tk of
        TKNone \<Rightarrow> Some TNone
      | TKCharacter \<Rightarrow> map_option TCharacter (character_at_position g pos)
      | TKPosition \<Rightarrow> Some (TPosition pos))"

definition target_confirm :: "scene_data \<Rightarrow> target_sc \<Rightarrow> scene_step" where
  "target_confirm d t =
     (let g = sd_game d; cid = tg_character_id t; aid = tg_action_id t in
      bindE (unwrap (map_option target_kind (map_of (actions g) aid))) (\<lambda>tk.
        case scene_target g tk (tg_position t) of
          None \<Rightarrow> Inr (d, TargetScene t, TrNone)
        | Some tgt \<Rightarrow>
            bindE (command_new g cid aid tgt) (\<lambda>(g1, r).
              case r of
                Inl _ \<Rightarrow> Inr (with_game d g1, TargetScene t, TrNone)
              | Inr cmd \<Rightarrow>
                  Inr ((with_game d (add_player_command cid cmd g1))\<lparr>target_finish := True\<rparr>,
                       TargetScene t, TrPop))))"

definition cursor_move :: "key \<Rightarrow> position \<Rightarrow> position" where
  "cursor_move k pos =
     (case k of
        KeyW \<Rightarrow> pos\<lparr>pos_y := pos_y pos - 1\<rparr>
      | KeyA \<Rightarrow> pos\<lparr>pos_x := pos_x pos - 1\<rparr>
      | KeyS \<Rightarrow> pos\<lparr>pos_y := pos_y pos + 1\<rparr>
      | KeyD \<Rightarrow> pos\<lparr>pos_x := pos_x pos + 1\<rparr>
      | _ \<Rightarrow> pos)"

definition target_key_down :: "key \<Rightarrow> scene_data \<Rightarrow> target_sc \<Rightarrow> scene_step" where
  "target_key_down k d t =
     (case k of
        KeyQ \<Rightarrow> Inr (d\<lparr>target_finish := False\<rparr>, TargetScene t, TrPop)
      | KeyE \<Rightarrow> target_confirm d t
      | _ \<Rightarrow> Inr (d, TargetScene (t\<lparr>tg_position := cursor_move k (tg_position t)\<rparr>), TrNone))"


subsection \<open>\<open>NovelScene\<close>, \<open>SelectAbilityScene\<close>, \<open>ShopScene\<close>, \<open>PauseScene\<close>\<close>

definition novel_scene_update :: "nat \<Rightarrow> real \<Rightarrow> scene_data \<Rightarrow> nat \<Rightarrow> scene_step" where
  "novel_scene_update n delta d ci =
     (let g = sd_game d in
      if shop_current (shop_system g) \<noteq> None then Inr (d, NovelScene ci, TrPush (ShopScene 0))
      else case ns_current (novel_system g) of
        None \<Rightarrow> Inr (d, NovelScene ci, TrPop)
      | Some cur \<Rightarrow>
          if waiting_select_ability cur
          then Inr (d, NovelScene ci, TrPush (SelectAbilityScene (select_ability_scene_new d (cs_character_id cur))))
          else bindE (game_update n delta g) (\<lambda>g'. Inr (with_game d g', NovelScene ci, TrNone)))"

text \<open>\<open>E\<close> picks the highlighted option when a choice is shown (an index past the
  choice does nothing) and otherwise continues the dialogue with \<open>run\<close>; the scene
  closes when the dialogue has ended.\<close>

definition novel_scene_key_down :: "nat \<Rightarrow> key \<Rightarrow> scene_data \<Rightarrow> nat \<Rightarrow> scene_step" where
  "novel_scene_key_down n k d ci =
     (let g = sd_game d in
      case k of
        KeyE \<Rightarrow>
          bindE (case ns_current (novel_system g) of
                   None \<Rightarrow> novel_run n g
                 | Some cur \<Rightarrow>
                     (case select cur of
                        None \<Rightarrow> novel_run n g
                      | Some sel \<Rightarrow> if ci < length sel then select_option n ci g else Inr g)) (\<lambda>g1.
            Inr (with_game d g1, NovelScene ci, if ns_current (novel_system g1) = None then TrPop else TrNone))
      | KeyEscape \<Rightarrow> Inr (d, NovelScene ci, TrPush PauseScene)
      | _ \<Rightarrow> Inr (d, NovelScene (wrap_move (option_count g) k ci), TrNone))"

definition select_ability_update :: "nat \<Rightarrow> real \<Rightarrow> scene_data \<Rightarrow> select_ability_sc \<Rightarrow> scene_step" where
  "select_ability_update n delta d s =
     (let g = sd_game d in
      if \<not> (case ns_current (novel_system g) of None \<Rightarrow> False | Some cur \<Rightarrow> waiting_select_ability cur)
      then Inr (d, SelectAbilityScene s, TrPop)
      else bindE (game_update n delta g) (\<lambda>g'. Inr (with_game d g', SelectAbilityScene s, TrNone)))"

definition select_ability_key_down :: "nat \<Rightarrow> key \<Rightarrow> scene_data \<Rightarrow> select_ability_sc \<Rightarrow> scene_step" where
  "select_ability_key_down n k d s =
     (let g = sd_game d in
      case k of
        KeyQ \<Rightarrow> Inr (with_game d (cancel_select_ability g), SelectAbilityScene s, TrNone)
      | KeyE \<Rightarrow>
          bindE (select_ability n (sa_current_item s) g) (\<lambda>g1.
            Inr (with_game d g1, SelectAbilityScene s, TrNone))
      | KeyEscape \<Rightarrow> Inr (d, SelectAbilityScene s, TrPush PauseScene)
      | _ \<Rightarrow> Inr (d, SelectAbilityScene (s\<lparr>sa_current_item :=
                 grid_move 5 (length (sa_action_ids s)) k (sa_current_item s)\<rparr>), TrNone))"

definition shop_scene_update :: "nat \<Rightarrow> real \<Rightarrow> scene_data \<Rightarrow> nat \<Rightarrow> scene_step" where
  "shop_scene_update n delta d ci =
     bindE (game_update n delta (sd_game d)) (\<lambda>g'.
       Inr (with_game d g', ShopScene ci, if shop_current (shop_system g') = None then TrPop else TrNone))"

definition shop_scene_key_down :: "nat \<Rightarrow> key \<Rightarrow> scene_data \<Rightarrow> nat \<Rightarrow> scene_step" where
  "shop_scene_key_down n k d ci =
     (let g = sd_game d in
      case k of
        KeyQ \<Rightarrow>
          bindE (close_shop n g) (\<lambda>g1.
            Inr (with_game d g1, ShopScene ci, if shop_current (shop_system g1) = None then TrPop else TrNone))
      | KeyE \<Rightarrow> Inr (with_game d (buy_item ci g), ShopScene ci, TrNone)
      | KeyEscape \<Rightarrow> Inr (d, ShopScene ci, TrPush PauseScene)
      | _ \<Rightarrow> Inr (d, ShopScene (wrap_move (shop_item_count g) k ci), TrNone))"

definition pause_key_down :: "key \<Rightarrow> scene_data \<Rightarrow> scene_step" where
  "pause_key_down k d =
     (case k of
        KeyQ \<Rightarrow> Inr (d, PauseScene, TrPop)
      | KeyEscape \<Rightarrow> Inr (d, PauseScene, TrPop)
      | KeyN \<Rightarrow> Inr (with_game d (new_player_character (sd_game d)), PauseScene, TrPop)
      | _ \<Rightarrow> Inr (d, PauseScene, TrNone))"

subsection \<open>Dispatch and the scene stack\<close>

definition scene_update :: "nat \<Rightarrow> real \<Rightarrow> scene_data \<Rightarrow> scene \<Rightarrow> scene_step" where
  "scene_update n delta d s =
     (case s of
        LevelScene \<Rightarrow> level_update n delta d
      | ActionScene a \<Rightarrow> action_update d a
      | TargetScene t \<Rightarrow> Inr (d, s, TrNone)
      | NovelScene ci \<Rightarrow> novel_scene_update n delta d ci
      | PauseScene \<Rightarrow> Inr (d, s, TrNone)
      | SelectAbilityScene a \<Rightarrow> select_ability_update n delta d a
      | ShopScene ci \<Rightarrow> shop_scene_update n delta d ci)"

definition scene_key_down :: "nat \<Rightarrow> key \<Rightarrow> scene_data \<Rightarrow> scene \<Rightarrow> scene_step" where
  "scene_key_down n k d s =
     (case s of
        LevelScene \<Rightarrow> level_key_down k d
      | ActionScene a \<Rightarrow> action_key_down k d a
      | TargetScene t \<Rightarrow> target_key_down k d t
      | NovelScene ci \<Rightarrow> novel_scene_key_down n k d ci
      | PauseScene \<Rightarrow> pause_key_down k d
      | SelectAbilityScene a \<Rightarrow> select_ability_key_down n k d a
      | ShopScene ci \<Rightarrow> shop_scene_key_down n k d ci)"

text \<open>The stack is a list whose last element is the top (\<open>Vec::last_mut\<close>); popping
  an empty stack does nothing, as \<open>Vec::pop\<close> does.\<close>

definition do_transition :: "transition \<Rightarrow> scene list \<Rightarrow> scene list" where
  "do_transition tr st =
     (case tr of
        TrNone \<Rightarrow> st
      | TrPop \<Rightarrow> butlast st
      | TrPush s \<Rightarrow> st @ [s]
      | TrReplace s \<Rightarrow> [s])"

definition on_top :: "(scene_data \<Rightarrow> scene \<Rightarrow> scene_step) \<Rightarrow> scene_data \<Rightarrow> scene list \<Rightarrow> (scene_data \<times> scene list) res" where
  "on_top h d st =
     (if st = [] then Inr (d, st)
      else bindE (h d (last st)) (\<lambda>(d', s', tr). Inr (d', do_transition tr (butlast st @ [s']))))"

definition stack_update :: "nat \<Rightarrow> real \<Rightarrow> scene_data \<Rightarrow> scene list \<Rightarrow> (scene_data \<times> scene list) res" where
  "stack_update n delta = on_top (scene_update n delta)"

definition stack_key_down :: "nat \<Rightarrow> key \<Rightarrow> scene_data \<Rightarrow> scene list \<Rightarrow> (scene_data \<times> scene list) res" where
  "stack_key_down n k = on_top (scene_key_down n k)"

text \<open>\<open>MainState::new\<close> once the tables are loaded: fresh scene data and the map
  view as the only scene.\<close>

definition main_state_new :: "game \<Rightarrow> scene_data \<times> scene list" where
  "main_state_new g = (data_new g, [LevelScene])"


subsection \<open>Lemmas\<close>

definition cursor_ok :: "nat \<Rightarrow> nat \<Rightarrow> bool" where
  "cursor_ok len i \<longleftrightarrow> i < len \<or> i = 0"

text \<open>The shape of a well-formed scene stack: the map view at the bottom and nowhere
  else, and every menu's cursor inside its list.\<close>

definition scene_ok :: "scene \<Rightarrow> bool" where
  "scene_ok s =
     (case s of
        ActionScene a \<Rightarrow> cursor_ok (length (as_action_ids a)) (as_current_item a)
      | SelectAbilityScene b \<Rightarrow> cursor_ok (length (sa_action_ids b)) (sa_current_item b)
      | _ \<Rightarrow> True)"

definition tr_ok :: "transition \<Rightarrow> bool" where
  "tr_ok tr =
     (case tr of
        TrPush s \<Rightarrow> s \<noteq> LevelScene \<and> scene_ok s
      | TrReplace _ \<Rightarrow> False
      | _ \<Rightarrow> True)"

definition stack_wf :: "scene list \<Rightarrow> bool" where
  "stack_wf st \<longleftrightarrow> st \<noteq> [] \<and> hd st = LevelScene \<and> LevelScene \<notin> set (tl st) \<and> list_all scene_ok st"

lemma grid_move_ok: "0 < w \<Longrightarrow> cursor_ok len i \<Longrightarrow> cursor_ok len (grid_move w len k i)"
  by (cases k) (auto simp: grid_move_def cursor_ok_def)

lemma cursor_ok_nth: "cursor_ok (length xs) i \<Longrightarrow> xs \<noteq> [] \<Longrightarrow> nth_opt xs i = Some (xs ! i)"
  by (auto simp: cursor_ok_def nth_opt_conv)

lemma sd_game_with_game [simp]: "sd_game (with_game d g) = g"
  by (simp add: with_game_def)

lemma move_command_qok: "qok g \<Longrightarrow> move_command cid dx dy g = Inr (g1, r) \<Longrightarrow> qok g1"
  by (auto simp: move_command_def bindE_eq_Inr qok_def split: option.splits dest!: command_new_tq)

lemma command_new_qok: "qok g \<Longrightarrow> command_new g cid aid t = Inr (g1, r) \<Longrightarrow> qok g1"
  by (auto simp: qok_def dest!: command_new_tq)

lemma scene_update_qok:
  "qok (sd_game d) \<Longrightarrow> scene_update n delta d s = Inr (d', s', tr) \<Longrightarrow> qok (sd_game d')"
  by (auto simp: scene_update_def level_update_def action_update_def novel_scene_update_def
      select_ability_update_def shop_scene_update_def Let_def bindE_eq_Inr
      split: scene.splits if_splits option.splits intro: game_update_qok)

lemma level_move_qok:
  "qok (sd_game d) \<Longrightarrow> level_move dx dy d = Inr (d', s', tr) \<Longrightarrow> qok (sd_game d')"
  by (auto simp: level_move_def bindE_def split: option.split_asm sum.split_asm prod.split_asm
      dest: move_command_qok)

lemma scene_key_down_qok:
  "qok (sd_game d) \<Longrightarrow> scene_key_down n k d s = Inr (d', s', tr) \<Longrightarrow> qok (sd_game d')"
  by (auto simp: scene_key_down_def level_key_down_def action_key_down_def target_key_down_def
      target_confirm_def novel_scene_key_down_def select_ability_key_down_def shop_scene_key_down_def
      pause_key_down_def cancel_select_ability_def Let_def bindE_def
      split: scene.splits key.splits if_split_asm option.split_asm sum.split_asm prod.split_asm
      dest: level_move_qok command_new_qok input_qok novel_run_qok intro: new_player_character_qok)

lemma on_top_qok:
  assumes "\<And>d s d' s' tr. qok (sd_game d) \<Longrightarrow> h d s = Inr (d', s', tr) \<Longrightarrow> qok (sd_game d')"
    and "qok (sd_game d)" and "on_top h d st = Inr (d', st')"
  shows "qok (sd_game d')"
  using assms by (auto simp: on_top_def bindE_eq_Inr split: if_splits)

lemma on_top_last:
  "st \<noteq> [] \<Longrightarrow> h d (last st) = Inr (d', s', tr) \<Longrightarrow> on_top h d st = Inr (d', do_transition tr (butlast st @ [s']))"
  by (simp add: on_top_def)

text \<open>What a scene handler may return: the same kind of scene (the map view stays the
  map view), still well-formed, and a transition that pushes no map view, replaces
  nothing, and never pops the map view.\<close>

definition handler_ok :: "scene \<Rightarrow> scene \<Rightarrow> transition \<Rightarrow> bool" where
  "handler_ok s s' tr \<longleftrightarrow>
     (s' = LevelScene \<longleftrightarrow> s = LevelScene) \<and> scene_ok s' \<and> tr_ok tr \<and> (s = LevelScene \<longrightarrow> tr \<noteq> TrPop)"

lemma scene_ok_plain [simp]:
  "scene_ok LevelScene" "scene_ok (TargetScene t)" "scene_ok (NovelScene ci)" "scene_ok PauseScene"
  "scene_ok (ShopScene ci)"
  by (simp_all add: scene_ok_def)

lemma cursor_ok_0 [simp]: "cursor_ok len 0"
  by (simp add: cursor_ok_def)

lemma new_scene_cursors [simp]:
  "as_current_item (action_scene_new d cid) = 0"
  "sa_current_item (select_ability_scene_new d cid) = 0"
  by (simp_all add: action_scene_new_def select_ability_scene_new_def)

lemma scene_update_shape:
  "scene_ok s \<Longrightarrow> scene_update n delta d s = Inr (d', s', tr) \<Longrightarrow> handler_ok s s' tr"
  by (auto simp: handler_ok_def scene_update_def level_update_def action_update_def novel_scene_update_def
      select_ability_update_def shop_scene_update_def Let_def bindE_eq_Inr tr_ok_def scene_ok_def
      split: scene.splits if_splits option.splits)

lemma level_move_shape: "level_move dx dy d = Inr (d', s', tr) \<Longrightarrow> s' = LevelScene \<and> tr = TrNone"
  by (auto simp: level_move_def bindE_def split: option.split_asm sum.split_asm prod.split_asm)

lemma level_key_down_shape:
  "level_key_down k d = Inr (d', s', tr) \<Longrightarrow> s' = LevelScene \<and> tr_ok tr \<and> tr \<noteq> TrPop"
  by (auto simp: level_key_down_def tr_ok_def scene_ok_def split: if_split_asm key.split_asm option.split_asm
      dest: level_move_shape)

lemma action_key_down_shape:
  assumes "scene_ok (ActionScene a)" and "action_key_down k d a = Inr (d', s', tr)"
  shows "\<exists>a'. s' = ActionScene a' \<and> scene_ok s' \<and> tr_ok tr"
  using assms grid_move_ok [of 4]
  by (auto simp: action_key_down_def scene_ok_def tr_ok_def Let_def bindE_eq_Inr
      split: key.split_asm option.split_asm)

lemma target_key_down_shape:
  "target_key_down k d t = Inr (d', s', tr) \<Longrightarrow> (\<exists>t'. s' = TargetScene t') \<and> tr_ok tr"
  by (auto simp: target_key_down_def target_confirm_def tr_ok_def Let_def bindE_def
      split: key.split_asm option.split_asm sum.split_asm prod.split_asm)

lemma select_ability_key_down_shape:
  assumes "scene_ok (SelectAbilityScene b)" and "select_ability_key_down n k d b = Inr (d', s', tr)"
  shows "\<exists>b'. s' = SelectAbilityScene b' \<and> scene_ok s' \<and> tr_ok tr"
  using assms grid_move_ok [of 5]
  by (auto simp: select_ability_key_down_def scene_ok_def tr_ok_def Let_def bindE_eq_Inr
      split: key.split_asm)

lemma menu_key_down_shape:
  "novel_scene_key_down n k d ci = Inr (d', s', tr) \<Longrightarrow> (\<exists>ci'. s' = NovelScene ci') \<and> tr_ok tr"
  "shop_scene_key_down n k d ci = Inr (d', s', tr) \<Longrightarrow> (\<exists>ci'. s' = ShopScene ci') \<and> tr_ok tr"
  "pause_key_down k d = Inr (d', s', tr) \<Longrightarrow> s' = PauseScene \<and> tr_ok tr"
  by (auto simp: novel_scene_key_down_def shop_scene_key_down_def pause_key_down_def tr_ok_def
      scene_ok_def Let_def bindE_eq_Inr split: key.split_asm)

lemma scene_key_down_shape:
  assumes "scene_ok s" and "scene_key_down n k d s = Inr (d', s', tr)"
  shows "handler_ok s s' tr"
  using assms
  by (cases s) (auto simp: scene_key_down_def handler_ok_def dest: level_key_down_shape
      action_key_down_shape target_key_down_shape select_ability_key_down_shape menu_key_down_shape)

lemma on_top_wf:
  assumes h: "\<And>d s d' s' tr. scene_ok s \<Longrightarrow> h d s = Inr (d', s', tr) \<Longrightarrow> handler_ok s s' tr"
    and wf: "stack_wf st" and e: "on_top h d st = Inr (d', st')"
  shows "stack_wf st'"
proof -
  obtain rest where st: "st = LevelScene # rest" and nl: "LevelScene \<notin> set rest"
    and ok: "list_all scene_ok st"
    using wf by (cases st) (auto simp: stack_wf_def)
  obtain s' tr where hs: "h d (last st) = Inr (d', s', tr)"
    and st': "st' = do_transition tr (butlast st @ [s'])"
    using e st by (auto simp: on_top_def bindE_eq_Inr)
  have "scene_ok (last st)" using ok st by (simp add: list_all_iff)
  then have ho: "handler_ok (last st) s' tr" using h hs by blast
  show ?thesis
  proof (cases "rest = []")
    case True
    then show ?thesis using ho st st'
      by (auto simp: handler_ok_def tr_ok_def do_transition_def stack_wf_def split: transition.splits)
  next
    case False
    then have lr: "last rest \<in> set rest" by (rule last_in_set)
    have "last st = last rest" using st False by simp
    then have "last st \<noteq> LevelScene" using lr nl by metis
    then show ?thesis using ho st st' False nl ok
      by (auto simp: handler_ok_def tr_ok_def do_transition_def stack_wf_def list_all_iff
          split: transition.splits dest: in_set_butlastD)
  qed
qed

subsection \<open>Properties\<close>

text \<open>C21: the menus' cursors stay in bounds. In the action menu (a grid of four rows)
  every key keeps the highlighted index inside the list of listed actions (or at 0
  when the list is empty) and leaves the list alone, so with at least one action
  \<open>E\<close> always opens the target scene for a listed action; the ability menu (rows of
  five) keeps its index in bounds the same way.\<close>

theorem menu_cursor_bounds:
  assumes "cursor_ok (length (as_action_ids a)) (as_current_item a)"
    and "cursor_ok (length (sa_action_ids b)) (sa_current_item b)"
  shows "(action_key_down k d a = Inr (d', s', tr) \<longrightarrow>
           (\<exists>a'. s' = ActionScene a' \<and> as_action_ids a' = as_action_ids a
              \<and> cursor_ok (length (as_action_ids a')) (as_current_item a')))
    \<and> (as_action_ids a \<noteq> [] \<longrightarrow>
           nth_opt (as_action_ids a) (as_current_item a) = Some (as_action_ids a ! as_current_item a))
    \<and> (select_ability_key_down n k d b = Inr (d', s', tr) \<longrightarrow>
           (\<exists>b'. s' = SelectAbilityScene b' \<and> sa_action_ids b' = sa_action_ids b
              \<and> cursor_ok (length (sa_action_ids b')) (sa_current_item b')))"
  using assms grid_move_ok [of 4] grid_move_ok [of 5] cursor_ok_nth [OF assms(1)]
  by (auto simp: action_key_down_def select_ability_key_down_def Let_def bindE_eq_Inr
      split: key.splits option.splits)


text \<open>C23: the pause menu comes and goes without side effects. On a stack whose top is
  the map view, \<open>Escape\<close> pushes the pause menu and changes nothing else; on the pause
  menu, \<open>Q\<close> and \<open>Escape\<close> pop it, so the application is back to the same scenes and
  the same data.\<close>

theorem pause_roundtrip:
  assumes "st \<noteq> []" and "last st = LevelScene"
  shows "stack_key_down n KeyEscape d st = Inr (d, st @ [PauseScene])
    \<and> stack_key_down n KeyQ d (st @ [PauseScene]) = Inr (d, st)
    \<and> stack_key_down n KeyEscape d (st @ [PauseScene]) = Inr (d, st)"
proof -
  have st: "butlast st @ [LevelScene, PauseScene] = st @ [PauseScene]"
    using assms by (metis append.assoc append_Cons append_Nil append_butlast_last_id)
  have "stack_key_down n KeyEscape d st = Inr (d, butlast st @ [LevelScene, PauseScene])"
    using assms by (simp add: stack_key_down_def on_top_def scene_key_down_def level_key_down_def
      do_transition_def)
  then show ?thesis
    by (simp add: st stack_key_down_def on_top_def scene_key_down_def do_transition_def pause_key_down_def)
qed


text \<open>C24: a move key on the map view issues the player's move (level_scene.rs with
  \<open>Character::move_command\<close> and \<open>Game::add_player_command\<close>). While the scheduler
  waits for the player whose turn it is, and that player knows a \<open>Move\<close> action,
  \<open>D\<close> stores under a fresh id a new command of that action from the player's cell
  to the cell on its right, points the player to it, and ends the wait; the scene
  stays on the map view.\<close>

theorem level_move_issues_command:
  assumes "waiting_input (turn_system (sd_game d))"
    and "current_character_turn (sd_game d) = Some cid"
    and "map_of (characters (sd_game d)) cid = Some c"
    and "find_action (sd_game d) cid ''Move'' = Some aid"
    and "map_of (actions (sd_game d)) aid = Some a" and "action_kind a = Move"
  shows "\<exists>d' cmd c'. level_key_down KeyD d = Inr (d', LevelScene, TrNone)
     \<and> map_of (commands (sd_game d')) (fresh_id (commands (sd_game d))) = Some cmd
     \<and> cmd_character_id cmd = cid \<and> cmd_action_id cmd = aid \<and> cmd_state cmd = New
     \<and> data cmd = CDMove (position c)
          \<lparr>map_id = map_id (position c), pos_x = pos_x (position c) + 1, pos_y = pos_y (position c)\<rparr>
     \<and> map_of (characters (sd_game d')) cid = Some c'
     \<and> command_id c' = Some (fresh_id (commands (sd_game d)))
     \<and> \<not> waiting_input (turn_system (sd_game d'))"
  using assms
  by (auto simp: level_key_down_def level_move_def move_command_def command_new_def new_data_def
      new_animation_def put_animation_def origin_of_def add_player_command_def set_character_command_def
      map_turn_system_def with_game_def bindE_eq_Inr Let_def split: option.splits)

text \<open>C25: the queue invariant holds for the running application. From scene data
  whose game has a well-formed turn queue, every frame (\<open>SceneStack::update\<close>) and every
  key press (\<open>SceneStack::key_down_event\<close>), whatever scene is on top, leaves a game
  whose queue is again sorted by time with no negative time; the initial state of
  \<open>MainState::new\<close> has the loaded game.\<close>

theorem application_queue_ok:
  assumes "queue_ok (turn_queue (turn_system (sd_game d)))"
  shows "(stack_update n delta d st = Inr (d', st') \<longrightarrow> queue_ok (turn_queue (turn_system (sd_game d'))))
    \<and> (stack_key_down n k d st = Inr (d', st') \<longrightarrow> queue_ok (turn_queue (turn_system (sd_game d'))))
    \<and> sd_game (fst (main_state_new g)) = g"
proof -
  have q: "qok (sd_game d)" using assms by (simp add: qok_def)
  have "stack_update n delta d st = Inr (d', st') \<Longrightarrow> qok (sd_game d')"
    unfolding stack_update_def by (rule on_top_qok [OF scene_update_qok q])
  moreover have "stack_key_down n k d st = Inr (d', st') \<Longrightarrow> qok (sd_game d')"
    unfolding stack_key_down_def by (rule on_top_qok [OF scene_key_down_qok q])
  ultimately show ?thesis by (simp add: qok_def main_state_new_def data_new_def)
qed

text \<open>C28: the scene stack keeps its shape. On a stack with the map view at the
  bottom and nowhere else and every menu cursor in bounds, every frame and every key
  press leaves a stack of the same shape: no scene pops the map view, none pushes a
  second one, none replaces the stack, so the application always has a scene to run
  and returns to the map view when the scenes above it close; \<open>MainState::new\<close>
  starts from such a stack.\<close>

theorem stack_well_formed:
  assumes "stack_wf st"
  shows "(stack_update n delta d st = Inr (d', st') \<longrightarrow> stack_wf st')
    \<and> (stack_key_down n k d st = Inr (d', st') \<longrightarrow> stack_wf st')
    \<and> stack_wf (snd (main_state_new g))"
proof -
  have "stack_update n delta d st = Inr (d', st') \<Longrightarrow> stack_wf st'"
    unfolding stack_update_def by (rule on_top_wf [OF scene_update_shape assms])
  moreover have "stack_key_down n k d st = Inr (d', st') \<Longrightarrow> stack_wf st'"
    unfolding stack_key_down_def by (rule on_top_wf [OF scene_key_down_shape assms])
  ultimately show ?thesis by (simp add: main_state_new_def stack_wf_def)
qed

end
