(* ===== verification/Rendering.thy ===== *)
theory Rendering
  imports Scenes "HOL-Library.Signed_Division"
begin

text \<open>
  The drawing side of the application (src/src/rendering.rs and the \<open>draw\<close> methods
  of the scenes), as the list of draw calls a frame issues. ggez's \<open>graphics::draw\<close>
  is the emission of a \<open>draw_param\<close> (destination, source rectangle, scale; ggez's
  default is the origin, the whole image and scale one). Image loading through
  \<open>ImageCache::get\<close> is the parameter \<open>imgs\<close>: the width and height of each loaded
  image, \<open>None\<close> when the file cannot be loaded (the \<open>?\<close> of the code returns the
  error, \<open>Inl Missing\<close> here). \<open>f32\<close> arithmetic is real arithmetic; HOL's division
  by zero is 0 where \<open>f32\<close> gives infinity.
\<close>

record rendering_param =
  rp_dest :: "(int \<times> real \<times> real) option"
  rp_rect :: "(real \<times> real \<times> real \<times> real) option"
  rp_target :: "(real \<times> real) option"

definition rp_default :: rendering_param where
  "rp_default = \<lparr>rp_dest = None, rp_rect = None, rp_target = None\<rparr>"

definition rp_with_dest :: "int \<Rightarrow> real \<Rightarrow> real \<Rightarrow> rendering_param \<Rightarrow> rendering_param" where
  "rp_with_dest m x y rp = rp\<lparr>rp_dest := Some (m, x, y)\<rparr>"

definition rp_with_position :: "position \<Rightarrow> rendering_param \<Rightarrow> rendering_param" where
  "rp_with_position pos rp = rp\<lparr>rp_dest := Some (map_id pos, of_int (pos_x pos), of_int (pos_y pos))\<rparr>"

definition rp_with_rect :: "real \<Rightarrow> real \<Rightarrow> real \<Rightarrow> real \<Rightarrow> rendering_param \<Rightarrow> rendering_param" where
  "rp_with_rect rx ry rw rh rp = rp\<lparr>rp_rect := Some (rx, ry, rw, rh)\<rparr>"

definition rp_with_target_size :: "real \<Rightarrow> real \<Rightarrow> rendering_param \<Rightarrow> rendering_param" where
  "rp_with_target_size tw th rp = rp\<lparr>rp_target := Some (tw, th)\<rparr>"

record draw_param =
  dp_dest :: "real \<times> real"
  dp_src :: "real \<times> real \<times> real \<times> real"
  dp_scale :: "real \<times> real"

definition dp_default :: draw_param where
  "dp_default = \<lparr>dp_dest = (0, 0), dp_src = (0, 0, 1, 1), dp_scale = (1, 1)\<rparr>"

subsection \<open>\<open>Rendering::dest\<close>, culling and \<open>Rendering::draw\<close>\<close>

text \<open>The screen point of the map point \<open>(x, y)\<close>: the camera character's cell is
  \<open>extend\<close> cells from the top left corner of the view, cells are \<open>tile_size\<close>
  pixels wide, and the view starts \<open>border\<close> pixels in.\<close>

definition screen_dest :: "game \<Rightarrow> real \<Rightarrow> real \<Rightarrow> (real \<times> real) option" where
  "screen_dest g x y =
     (case map_of (characters g) (cam_character_id (camera g)) of
        None \<Rightarrow> None
      | Some c \<Rightarrow>
          Some ((of_int (- pos_x (position c) + cam_extend (camera g)) + x) * of_int (tile_size (camera g))
                  + of_int (border (camera g)),
                (of_int (- pos_y (position c) + cam_extend (camera g)) + y) * of_int (tile_size (camera g))
                  + of_int (border (camera g))))"

text \<open>The culling of \<open>Rendering::draw\<close> and \<open>RenderingParam::draw_image\<close>: a point is
  drawn only on the camera character's map and within \<open>extend\<close> cells of it on
  both axes.\<close>

definition in_view :: "game \<Rightarrow> character \<Rightarrow> int \<Rightarrow> real \<Rightarrow> real \<Rightarrow> bool" where
  "in_view g c m x y \<longleftrightarrow>
     m = map_id (position c)
     \<and> \<bar>of_int (pos_x (position c)) - x\<bar> \<le> of_int (cam_extend (camera g))
     \<and> \<bar>of_int (pos_y (position c)) - y\<bar> \<le> of_int (cam_extend (camera g))"

text \<open>\<open>Rendering::draw\<close>: the destination of the draw call it makes, \<open>None\<close> when it
  makes none.\<close>

definition draw_at :: "game \<Rightarrow> int \<Rightarrow> real \<Rightarrow> real \<Rightarrow> (real \<times> real) option" where
  "draw_at g m x y =
     (case map_of (characters g) (cam_character_id (camera g)) of
        None \<Rightarrow> None
      | Some c \<Rightarrow> if in_view g c m x y then screen_dest g x y else None)"

definition draw_at_position :: "game \<Rightarrow> position \<Rightarrow> (real \<times> real) option" where
  "draw_at_position g pos = draw_at g (map_id pos) (of_int (pos_x pos)) (of_int (pos_y pos))"

definition draw_character_border :: "game \<Rightarrow> character \<Rightarrow> (real \<times> real) option" where
  "draw_character_border g c =
     draw_at g (map_id (position c)) (of_int (pos_x (position c)) + offset_x c)
       (of_int (pos_y (position c)) + offset_y c)"

text \<open>\<open>RenderingParam::draw_image\<close> for an image of width \<open>iw\<close> and height \<open>ih\<close>.\<close>

definition draw_image :: "rendering_param \<Rightarrow> game \<Rightarrow> real \<times> real \<Rightarrow> draw_param option" where
  "draw_image rp g sz =
     (case map_of (characters g) (cam_character_id (camera g)) of
        None \<Rightarrow> None
      | Some c \<Rightarrow>
          (case (case rp_dest rp of
                   None \<Rightarrow> Some dp_default
                 | Some (m, x, y) \<Rightarrow>
                     if in_view g c m x y then
                       Some (case screen_dest g x y of None \<Rightarrow> dp_default | Some d \<Rightarrow> dp_default\<lparr>dp_dest := d\<rparr>)
                     else None) of
             None \<Rightarrow> None
           | Some u \<Rightarrow>
               let (iw, ih) = sz;
                   v = (case rp_rect rp of
                           None \<Rightarrow> u
                         | Some (rx, ry, rw, rh) \<Rightarrow> u\<lparr>dp_src := (rx / iw, ry / ih, rw / iw, rh / ih)\<rparr>)
               in Some (case rp_target rp of
                          None \<Rightarrow> v
                        | Some (tw, th) \<Rightarrow>
                            v\<lparr>dp_scale := (case rp_rect rp of
                                               Some (_, _, rw, rh) \<Rightarrow> (tw / rw, th / rh)
                                             | None \<Rightarrow> (tw / iw, th / ih))\<rparr>)))"

text \<open>\<open>Rendering::draw_border\<close>: a rectangle stroked \<open>border\<close> pixels wide around the
  view of \<open>2 extend + 1\<close> cells (\<open>i32\<close> division truncates, \<open>sdiv\<close>).\<close>

definition view_size :: "game \<Rightarrow> int" where
  "view_size g = (cam_extend (camera g) * 2 + 1) * tile_size (camera g)"

definition border_rect :: "game \<Rightarrow> int \<times> int \<times> int \<times> int" where
  "border_rect g =
     (let b = border (camera g) in (b sdiv 2, b sdiv 2, view_size g + b, view_size g + b))"

text \<open>The map point shown at a screen point, the inverse of \<open>Rendering::dest\<close>
  (not in the code; it states what the transform preserves).\<close>

definition screen_cell :: "game \<Rightarrow> real \<times> real \<Rightarrow> (real \<times> real) option" where
  "screen_cell g d =
     (case map_of (characters g) (cam_character_id (camera g)) of
        None \<Rightarrow> None
      | Some c \<Rightarrow>
          Some ((fst d - of_int (border (camera g))) / of_int (tile_size (camera g))
                  - of_int (cam_extend (camera g)) + of_int (pos_x (position c)),
                (snd d - of_int (border (camera g))) / of_int (tile_size (camera g))
                  - of_int (cam_extend (camera g)) + of_int (pos_y (position c))))"

subsection \<open>The asset tables and the draw calls\<close>

text \<open>The tables of \<open>Game\<close> that only drawing reads (tile_map.rs \<open>TileSheet\<close>, sprite.rs
  \<open>SpriteSheet\<close>, \<open>SpriteSequence\<close>), kept apart from the \<open>game\<close> record of the core.\<close>

record tile_sheet =
  tsh_file_path :: string
  tile_width :: int
  tile_height :: int

record sprite_sheet =
  ss_id :: int
  image_path :: string
  ss_animation :: "(string, int list) table"
  frame_height :: int
  frame_width :: int
  frame_per_row :: int

record sprite_sequence =
  sq_id :: int
  images :: "string list"

record render_tables =
  tile_sheets :: "(int, tile_sheet) table"
  sprite_sheets :: "(int, sprite_sheet) table"
  sprite_sequences :: "(int, sprite_sequence) table"

text \<open>The meshes of the code: the current character's highlight, the map's border,
  and the filled (size, RGBA) and stroked (size, RGB) rectangles of the menus. Texts
  are the string drawn, or what a formatted text shows: an action's card in the action
  menu, an action's name in the ability menu, the stats panel of a character, an
  item's owned count and description in the shop.\<close>

datatype mesh =
    CharacterHighlight
  | MapBorder "int \<times> int \<times> int \<times> int"
  | FilledRect "int \<times> int" "nat \<times> nat \<times> nat \<times> nat"
  | StrokedRect "int \<times> int" "nat \<times> nat \<times> nat"

datatype draw_call =
    DrawImage string draw_param
  | DrawMesh mesh "real \<times> real"
  | DrawStats character "real \<times> real"
  | DrawText string "real \<times> real"
  | DrawActionCard int "real \<times> real"
  | DrawActionName int "real \<times> real"
  | DrawItemInfo nat string "real \<times> real"

type_synonym images = "string \<Rightarrow> (real \<times> real) option"

text \<open>A \<open>for\<close> loop whose body may fail and draws a list of calls.\<close>

fun concat_mapE :: "('a \<Rightarrow> 'b list res) \<Rightarrow> 'a list \<Rightarrow> 'b list res" where
  "concat_mapE f [] = Inr []"
| "concat_mapE f (x # xs) = bindE (f x) (\<lambda>ys. bindE (concat_mapE f xs) (\<lambda>zs. Inr (ys @ zs)))"

definition emit :: "string \<Rightarrow> draw_param option \<Rightarrow> draw_call list" where
  "emit path r = (case r of None \<Rightarrow> [] | Some prm \<Rightarrow> [DrawImage path prm])"

text \<open>\<open>image_caches.get(ctx, path)?\<close> followed by \<open>draw_image\<close>.\<close>

definition draw_loaded :: "images \<Rightarrow> string \<Rightarrow> rendering_param \<Rightarrow> game \<Rightarrow> draw_call list res" where
  "draw_loaded imgs path rp g = bindE (unwrap (imgs path)) (\<lambda>sz. Inr (emit path (draw_image rp g sz)))"

subsection \<open>\<open>LevelScene::draw\<close>\<close>

definition draw_tile :: "images \<Rightarrow> render_tables \<Rightarrow> game \<Rightarrow> int \<Rightarrow> int \<Rightarrow> int \<Rightarrow> tile \<Rightarrow> draw_call list res" where
  "draw_tile imgs rt g m x y t =
     (case tile_kind t of
        Tile_Sheet sid tx ty \<Rightarrow>
          (case map_of (tile_sheets rt) sid of
             None \<Rightarrow> Inr []
           | Some sh \<Rightarrow>
               draw_loaded imgs (tsh_file_path sh)
                 (rp_with_target_size 64 64
                   (rp_with_rect (of_int (tile_width sh * tx)) (of_int (tile_height sh * ty))
                      (of_int (tile_width sh)) (of_int (tile_height sh))
                      (rp_with_dest m (of_int x) (of_int y) rp_default))) g)
      | Tile_Image path \<Rightarrow>
          draw_loaded imgs path (rp_with_target_size 64 64 (rp_with_dest m (of_int x) (of_int y) rp_default)) g)"

text \<open>The tiles of the camera character's map in the square of \<open>extend\<close> cells around
  it; \<open>rows.get(x as usize)\<close> finds nothing at a negative index, as \<open>get_i32\<close>.\<close>

definition draw_tiles :: "images \<Rightarrow> render_tables \<Rightarrow> game \<Rightarrow> character \<Rightarrow> draw_call list res" where
  "draw_tiles imgs rt g c =
     (let m = map_id (position c); e = cam_extend (camera g);
          cx = pos_x (position c); cy = pos_y (position c) in
      case map_of (tile_maps g) m of
        None \<Rightarrow> Inr []
      | Some tm \<Rightarrow>
          concat_mapE (\<lambda>y.
            case get_i32 (tm_tiles tm) y of
              None \<Rightarrow> Inr []
            | Some row \<Rightarrow>
                concat_mapE (\<lambda>x.
                  case get_i32 row x of
                    None \<Rightarrow> Inr []
                  | Some tid \<Rightarrow>
                      (case map_of (tiles g) tid of
                         None \<Rightarrow> Inr []
                       | Some t \<Rightarrow> draw_tile imgs rt g m x y t)) [cx - e..cx + e]) [cy - e..cy + e])"

definition draw_teleportation :: "images \<Rightarrow> game \<Rightarrow> teleportation \<Rightarrow> draw_call list res" where
  "draw_teleportation imgs g t =
     draw_loaded imgs ''/images/teleportation.png''
       (rp_with_target_size 64 64 (rp_with_position (tp_position t) rp_default)) g"

text \<open>A visible character's avatar at its position plus its drawing offset, and the
  highlight of the character whose turn it is.\<close>

definition draw_character :: "images \<Rightarrow> game \<Rightarrow> int option \<Rightarrow> int \<times> character \<Rightarrow> draw_call list res" where
  "draw_character imgs g cur ic =
     (let (i, c) = ic in
      if hidden c then Inr []
      else bindE (unwrap (map_option avatar (map_of (character_sprites g) (character_sprite_id c)))) (\<lambda>av.
        bindE (draw_loaded imgs av
                 (rp_with_target_size 64 64
                   (rp_with_dest (map_id (position c)) (of_int (pos_x (position c)) + offset_x c)
                      (of_int (pos_y (position c)) + offset_y c) rp_default)) g) (\<lambda>ds.
          Inr (ds @ (if cur = Some i then
                       (case draw_character_border g c of None \<Rightarrow> [] | Some d \<Rightarrow> [DrawMesh CharacterHighlight d])
                     else [])))))"

text \<open>The frame an animation shows at a percentage: the index
  \<open>(len as f32 * percentage) as usize\<close> (a saturating cast that truncates, so a
  negative product gives 0), the last frame past the end; an empty list panics on
  \<open>frames[frames.len() - 1]\<close>.\<close>

definition frame_index :: "nat \<Rightarrow> real \<Rightarrow> nat" where
  "frame_index len pc = nat \<lfloor>of_nat len * pc\<rfloor>"

definition frame_pick :: "'a list \<Rightarrow> real \<Rightarrow> 'a res" where
  "frame_pick xs pc =
     (let i = frame_index (length xs) pc in
      if length xs \<le> i then (if xs = [] then Inl Panic else Inr (xs ! (length xs - 1)))
      else Inr (xs ! i))"

text \<open>\<open>i32\<close> remainder and division truncate (\<open>smod\<close>, \<open>sdiv\<close>) and panic on a zero
  divisor.\<close>

definition i32_divmod :: "int \<Rightarrow> int \<Rightarrow> (int \<times> int) res" where
  "i32_divmod a b = (if b = 0 then Inl Panic else Inr (a sdiv b, a smod b))"

definition draw_animation :: "images \<Rightarrow> render_tables \<Rightarrow> game \<Rightarrow> animation_effect \<Rightarrow> draw_call list res" where
  "draw_animation imgs rt g ae =
     (case ae_animation ae of
        SpriteSheet sid aname \<Rightarrow>
          bindE (unwrap (map_of (sprite_sheets rt) sid)) (\<lambda>sh.
          bindE (unwrap (imgs (image_path sh))) (\<lambda>sz.
          bindE (unwrap (map_of (ss_animation sh) aname)) (\<lambda>fr.
          bindE (frame_pick fr (percentage ae)) (\<lambda>fi.
          bindE (i32_divmod fi (frame_per_row sh)) (\<lambda>(row, col).
            Inr (emit (image_path sh)
                   (draw_image (rp_with_target_size 64 64
                                 (rp_with_rect (of_int (col * frame_width sh)) (of_int (row * frame_height sh))
                                    (of_int (frame_width sh)) (of_int (frame_height sh))
                                    (rp_with_position (ae_position ae) rp_default))) g sz)))))))
      | SpriteSequence sid \<Rightarrow>
          bindE (unwrap (map_of (sprite_sequences rt) sid)) (\<lambda>sq.
          bindE (frame_pick (images sq) (percentage ae)) (\<lambda>path.
            draw_loaded imgs path (rp_with_target_size 64 64 (rp_with_position (ae_position ae) rp_default)) g)))"

definition current_turn_character :: "game \<Rightarrow> int option" where
  "current_turn_character g =
     (case current_turn (turn_system g) of
        None \<Rightarrow> None
      | Some t \<Rightarrow> (case kind t of Character_Turn i \<Rightarrow> Some i | Respawn _ \<Rightarrow> None))"

definition level_draw :: "images \<Rightarrow> render_tables \<Rightarrow> game \<Rightarrow> draw_call list res" where
  "level_draw imgs rt g =
     (case map_of (characters g) (cam_character_id (camera g)) of
        None \<Rightarrow> Inr []
      | Some c \<Rightarrow>
          bindE (draw_tiles imgs rt g c) (\<lambda>ts.
          bindE (concat_mapE (\<lambda>(_, t). draw_teleportation imgs g t) (teleportations g)) (\<lambda>tps.
          bindE (concat_mapE (draw_character imgs g (current_turn_character g)) (characters g)) (\<lambda>cs.
          bindE (concat_mapE (\<lambda>(_, ae). draw_animation imgs rt g ae) (sprite_animations g)) (\<lambda>as.
            Inr (ts @ tps @ cs @ as @ [DrawMesh (MapBorder (border_rect g)) (0, 0), DrawStats c (720, 0)]))))))"

text \<open>A screen point whose cell lies inside the frame of \<open>Rendering::draw_border\<close>,
  and a draw call placed at such a point (the frame and the stats panel are placed
  by the code itself).\<close>

definition in_frame :: "game \<Rightarrow> real \<times> real \<Rightarrow> bool" where
  "in_frame g d \<longleftrightarrow>
     of_int (border (camera g)) \<le> fst d
     \<and> fst d + of_int (tile_size (camera g)) \<le> of_int (border (camera g) + view_size g)
     \<and> of_int (border (camera g)) \<le> snd d
     \<and> snd d + of_int (tile_size (camera g)) \<le> of_int (border (camera g) + view_size g)"

definition call_in_view :: "game \<Rightarrow> draw_call \<Rightarrow> bool" where
  "call_in_view g dc =
     (case dc of
        DrawImage _ prm \<Rightarrow> in_frame g (dp_dest prm)
      | DrawMesh CharacterHighlight d \<Rightarrow> in_frame g d
      | _ \<Rightarrow> True)"

text \<open>When the unwraps and the indexing of the animation draw succeed: its sheet or
  sequence exists, the sheet has the named animation, the list of frames is not
  empty, and the sheet's \<open>frame_per_row\<close> is not zero.\<close>

definition animation_ok :: "render_tables \<Rightarrow> animation_effect \<Rightarrow> bool" where
  "animation_ok rt ae =
     (case ae_animation ae of
        SpriteSheet sid aname \<Rightarrow>
          (case map_of (sprite_sheets rt) sid of
             None \<Rightarrow> False
           | Some sh \<Rightarrow> frame_per_row sh \<noteq> 0 \<and>
               (case map_of (ss_animation sh) aname of None \<Rightarrow> False | Some fr \<Rightarrow> fr \<noteq> []))
      | SpriteSequence sid \<Rightarrow>
          (case map_of (sprite_sequences rt) sid of None \<Rightarrow> False | Some sq \<Rightarrow> images sq \<noteq> []))"

definition sprites_ok :: "game \<Rightarrow> bool" where
  "sprites_ok g =
     list_all (\<lambda>(i, c). hidden c \<or> map_of (character_sprites g) (character_sprite_id c) \<noteq> None) (characters g)"

subsection \<open>Lemmas\<close>

lemma draw_at_Some:
  "draw_at g m x y = Some d \<longleftrightarrow>
     (\<exists>c. map_of (characters g) (cam_character_id (camera g)) = Some c \<and> in_view g c m x y
        \<and> screen_dest g x y = Some d)"
  by (auto simp: draw_at_def split: option.splits)

lemma screen_dest_Some:
  "map_of (characters g) (cam_character_id (camera g)) = Some c \<Longrightarrow>
   screen_dest g x y = Some ((of_int (- pos_x (position c) + cam_extend (camera g)) + x) * of_int (tile_size (camera g))
                  + of_int (border (camera g)),
                (of_int (- pos_y (position c) + cam_extend (camera g)) + y) * of_int (tile_size (camera g))
                  + of_int (border (camera g)))"
  by (simp add: screen_dest_def)

text \<open>One axis of the view: a coordinate within \<open>e\<close> of the camera's lands, with its
  cell of \<open>t\<close> pixels, between the border and the far edge of the view.\<close>

lemma view_axis:
  fixes x :: real
  assumes "\<bar>of_int cx - x\<bar> \<le> of_int e" and "0 \<le> t"
  shows "of_int b \<le> (of_int (- cx + e) + x) * of_int t + of_int b"
    and "(of_int (- cx + e) + x) * of_int t + of_int b + of_int t \<le> of_int b + of_int ((e * 2 + 1) * t)"
proof -
  have lo: "0 \<le> of_int (- cx + e) + x" and hi: "of_int (- cx + e) + x \<le> 2 * of_int e"
    using assms(1) by (simp_all add: abs_le_iff)
  show "of_int b \<le> (of_int (- cx + e) + x) * of_int t + of_int b"
    using lo assms(2) by simp
  have "(of_int (- cx + e) + x) * of_int t \<le> 2 * of_int e * of_int t"
    using hi assms(2) by (simp add: mult_right_mono)
  then show "(of_int (- cx + e) + x) * of_int t + of_int b + of_int t \<le> of_int b + of_int ((e * 2 + 1) * t)"
    by (simp add: algebra_simps)
qed

lemma draw_at_inside:
  assumes "0 \<le> tile_size (camera g)" and "draw_at g m x y = Some (px, py)"
  shows "of_int (border (camera g)) \<le> px \<and> px + of_int (tile_size (camera g)) \<le> of_int (border (camera g) + view_size g)
    \<and> of_int (border (camera g)) \<le> py \<and> py + of_int (tile_size (camera g)) \<le> of_int (border (camera g) + view_size g)"
proof -
  obtain c where c: "map_of (characters g) (cam_character_id (camera g)) = Some c"
    and v: "in_view g c m x y" and d: "screen_dest g x y = Some (px, py)"
    using assms(2) by (auto simp: draw_at_Some)
  show ?thesis
    using d view_axis [OF _ assms(1), of "pos_x (position c)" x "cam_extend (camera g)" "border (camera g)"]
      view_axis [OF _ assms(1), of "pos_y (position c)" y "cam_extend (camera g)" "border (camera g)"] v
    by (simp add: screen_dest_Some [OF c] in_view_def view_size_def)
qed

lemma draw_image_dest:
  assumes "draw_image rp g sz = Some prm" and "rp_dest rp = Some (m, x, y)"
  shows "draw_at g m x y = Some (dp_dest prm)"
  using assms
  by (auto simp: draw_image_def draw_at_def Let_def screen_dest_def split: option.splits prod.splits)

text \<open>C29: nothing is drawn outside the view. With a non-negative tile size, every
  draw call of \<open>Rendering::draw\<close> and every image \<open>RenderingParam::draw_image\<close>
  places at a map point lands, with its cell, inside the frame that
  \<open>Rendering::draw_border\<close> strokes: between \<open>border\<close> and
  \<open>border + (2 extend + 1) tile_size\<close> on both axes.\<close>

theorem draw_inside_view:
  assumes "0 \<le> tile_size (camera g)"
  shows "(draw_at g m x y = Some (px, py) \<longrightarrow>
           of_int (border (camera g)) \<le> px \<and> px + of_int (tile_size (camera g)) \<le> of_int (border (camera g) + view_size g)
         \<and> of_int (border (camera g)) \<le> py \<and> py + of_int (tile_size (camera g)) \<le> of_int (border (camera g) + view_size g))
    \<and> (draw_image rp g sz = Some prm \<and> rp_dest rp = Some (m, x, y) \<longrightarrow>
           of_int (border (camera g)) \<le> fst (dp_dest prm)
         \<and> fst (dp_dest prm) + of_int (tile_size (camera g)) \<le> of_int (border (camera g) + view_size g)
         \<and> of_int (border (camera g)) \<le> snd (dp_dest prm)
         \<and> snd (dp_dest prm) + of_int (tile_size (camera g)) \<le> of_int (border (camera g) + view_size g))"
  using draw_at_inside [OF assms] draw_image_dest [of rp g sz prm m x y]
    draw_at_inside [OF assms, of m x y "fst (dp_dest prm)" "snd (dp_dest prm)"]
  by auto


lemma concat_mapE_all:
  assumes "\<And>x zs. x \<in> set xs \<Longrightarrow> f x = Inr zs \<Longrightarrow> list_all P zs"
    and "concat_mapE f xs = Inr ys"
  shows "list_all P ys"
  using assms
proof (induction xs arbitrary: ys)
  case Nil
  then show ?case by simp
next
  case (Cons x xs)
  obtain a b where "f x = Inr a" and b: "concat_mapE f xs = Inr b" and ys: "ys = a @ b"
    using Cons.prems(2) by (auto simp: bindE_eq_Inr)
  then have "list_all P a" using Cons.prems(1) [of x a] by simp
  moreover have "list_all P b" by (rule Cons.IH [OF _ b]) (rule Cons.prems(1), simp_all)
  ultimately show ?case using ys by simp
qed

lemma draw_at_in_frame:
  "0 \<le> tile_size (camera g) \<Longrightarrow> draw_at g m x y = Some d \<Longrightarrow> in_frame g d"
  using draw_at_inside [of g m x y "fst d" "snd d"] by (simp add: in_frame_def)

lemma emit_in_view:
  assumes "0 \<le> tile_size (camera g)" and "rp_dest rp = Some (m, x, y)"
  shows "list_all (call_in_view g) (emit path (draw_image rp g sz))"
proof (cases "draw_image rp g sz")
  case None
  then show ?thesis by (simp add: emit_def)
next
  case (Some prm)
  have "in_frame g (dp_dest prm)"
    by (rule draw_at_in_frame [OF assms(1) draw_image_dest [OF Some assms(2)]])
  then show ?thesis using Some by (simp add: emit_def call_in_view_def)
qed

lemma draw_loaded_in_view:
  assumes "draw_loaded imgs path rp g = Inr ds" and "0 \<le> tile_size (camera g)"
    and "rp_dest rp = Some (m, x, y)"
  shows "list_all (call_in_view g) ds"
  using assms emit_in_view [OF assms(2,3)] by (auto simp: draw_loaded_def bindE_eq_Inr)

lemma rp_dest_builders [simp]:
  "rp_dest (rp_with_target_size tw th rp) = rp_dest rp"
  "rp_dest (rp_with_rect rx ry rw rh rp) = rp_dest rp"
  "rp_dest (rp_with_dest m x y rp) = Some (m, x, y)"
  "rp_dest (rp_with_position pos rp) = Some (map_id pos, of_int (pos_x pos), of_int (pos_y pos))"
  by (simp_all add: rp_with_target_size_def rp_with_rect_def rp_with_dest_def rp_with_position_def)

lemma draw_tile_in_view:
  assumes "0 \<le> tile_size (camera g)" and "draw_tile imgs rt g m x y t = Inr ds"
  shows "list_all (call_in_view g) ds"
proof (cases "tile_kind t")
  case (Tile_Sheet sid tx ty)
  then show ?thesis
  proof (cases "map_of (tile_sheets rt) sid")
    case None
    then show ?thesis using assms(2) Tile_Sheet by (simp add: draw_tile_def)
  next
    case (Some sh)
    then show ?thesis
      using assms(2) Tile_Sheet draw_loaded_in_view [OF _ assms(1), of imgs "tsh_file_path sh" _ ds m "of_int x" "of_int y"]
      by (simp add: draw_tile_def)
  qed
next
  case (Tile_Image path)
  then show ?thesis
    using assms(2) draw_loaded_in_view [OF _ assms(1), of imgs path _ ds m "of_int x" "of_int y"]
    by (simp add: draw_tile_def)
qed

lemma draw_tiles_in_view:
  assumes "0 \<le> tile_size (camera g)" and "draw_tiles imgs rt g c = Inr ds"
  shows "list_all (call_in_view g) ds"
  using assms(2) unfolding draw_tiles_def Let_def
  by (auto split: option.splits elim!: concat_mapE_all [rotated]
      dest!: draw_tile_in_view [OF assms(1)])

lemma draw_teleportation_in_view:
  "0 \<le> tile_size (camera g) \<Longrightarrow> draw_teleportation imgs g t = Inr ds \<Longrightarrow> list_all (call_in_view g) ds"
  unfolding draw_teleportation_def by (erule draw_loaded_in_view) simp_all

lemma draw_character_in_view:
  assumes ts: "0 \<le> tile_size (camera g)" and e: "draw_character imgs g cur ic = Inr ds"
  shows "list_all (call_in_view g) ds"
proof -
  obtain i c where ic: "ic = (i, c)" by (cases ic)
  show ?thesis
  proof (cases "hidden c")
    case True
    then show ?thesis using e ic by (simp add: draw_character_def)
  next
    case False
    then obtain av ds1 where l: "draw_loaded imgs av
                 (rp_with_target_size 64 64
                   (rp_with_dest (map_id (position c)) (of_int (pos_x (position c)) + offset_x c)
                      (of_int (pos_y (position c)) + offset_y c) rp_default)) g = Inr ds1"
      and ds: "ds = ds1 @ (if cur = Some i then
                       (case draw_character_border g c of None \<Rightarrow> [] | Some d \<Rightarrow> [DrawMesh CharacterHighlight d])
                     else [])"
      using e ic by (auto simp: draw_character_def bindE_eq_Inr)
    have "list_all (call_in_view g) ds1" using draw_loaded_in_view [OF l ts] by simp
    moreover have "in_frame g d" if "draw_character_border g c = Some d" for d
      using draw_at_in_frame [OF ts] that by (simp add: draw_character_border_def)
    ultimately show ?thesis using ds by (auto simp: call_in_view_def split: option.splits)
  qed
qed

lemma draw_animation_in_view:
  assumes ts: "0 \<le> tile_size (camera g)" and e: "draw_animation imgs rt g ae = Inr ds"
  shows "list_all (call_in_view g) ds"
  using e emit_in_view [OF ts] draw_loaded_in_view [OF _ ts]
  by (auto simp: draw_animation_def bindE_eq_Inr split: animation.splits prod.splits)

text \<open>C31: the animation frame a sprite shows. The branches of the code
  (\<open>if i >= frames.len() { frames[frames.len() - 1] } else { frames[i] }\<close>) pick the
  frame at the index \<open>(len * percentage) as usize\<close> clamped to the last one, and panic
  on an empty list; the index never decreases as the percentage grows, is the first
  frame up to percentage 0 and the last from percentage 1 on, so as
  \<open>Command::update\<close> raises the percentage from 0 to 1 the frames play in order.\<close>

theorem animation_frame_pick:
  "frame_pick xs pc = (if xs = [] then Inl Panic else Inr (xs ! min (frame_index (length xs) pc) (length xs - 1)))
   \<and> (u \<le> v \<longrightarrow> frame_index n u \<le> frame_index n v)
   \<and> (u \<le> 0 \<longrightarrow> frame_index n u = 0)
   \<and> (1 \<le> v \<longrightarrow> n \<le> frame_index n v)"
proof -
  have "frame_pick xs pc = (if xs = [] then Inl Panic else Inr (xs ! min (frame_index (length xs) pc) (length xs - 1)))"
    by (cases xs) (auto simp: frame_pick_def Let_def min_def)
  moreover have "u \<le> v \<longrightarrow> frame_index n u \<le> frame_index n v"
    by (auto simp: frame_index_def intro!: nat_mono floor_mono mult_left_mono)
  moreover have "u \<le> 0 \<longrightarrow> frame_index n u = 0"
  proof
    assume "u \<le> 0"
    then have "of_nat n * u \<le> 0" by (simp add: mult_nonneg_nonpos)
    then show "frame_index n u = 0" by (simp add: frame_index_def)
  qed
  moreover have "1 \<le> v \<longrightarrow> n \<le> frame_index n v"
  proof
    assume "1 \<le> v"
    then have "of_nat n \<le> of_nat n * v" by (simp add: mult_le_cancel_left1)
    then have "int n \<le> \<lfloor>of_nat n * v\<rfloor>" by (simp add: le_floor_iff)
    then show "n \<le> frame_index n v" by (simp add: frame_index_def)
  qed
  ultimately show ?thesis by blast
qed

text \<open>C32: the map view draws nothing outside its frame. With a non-negative tile
  size, every image \<open>LevelScene::draw\<close> places (tiles, teleports, characters with their
  offsets, sprite animations) and the highlight of the current character lie, with
  their cell, inside the frame that \<open>Rendering::draw_border\<close> strokes.\<close>

theorem level_draw_inside_view:
  assumes ts: "0 \<le> tile_size (camera g)" and e: "level_draw imgs rt g = Inr calls"
  shows "list_all (call_in_view g) calls"
  using e
  by (auto simp: level_draw_def bindE_eq_Inr call_in_view_def split: option.splits
      dest!: draw_tiles_in_view [OF ts]
      elim!: concat_mapE_all [rotated] dest: draw_teleportation_in_view [OF ts] draw_character_in_view [OF ts]
        draw_animation_in_view [OF ts])

lemma concat_mapE_Inr_iff:
  "(\<exists>ys. concat_mapE f xs = Inr ys) \<longleftrightarrow> (\<forall>x\<in>set xs. \<exists>zs. f x = Inr zs)"
  by (induction xs) (auto simp: bindE_eq_Inr)

lemma draw_loaded_Inr: "imgs path \<noteq> None \<Longrightarrow> \<exists>ds. draw_loaded imgs path rp g = Inr ds"
  by (auto simp: draw_loaded_def)

lemma draw_tiles_Inr:
  assumes "\<forall>path. imgs path \<noteq> None"
  shows "\<exists>ds. draw_tiles imgs rt g c = Inr ds"
proof -
  have "\<exists>ds. draw_tile imgs rt g m x y t = Inr ds" for m x y t
    using assms by (auto simp: draw_tile_def split: tile_kind.split option.split intro!: draw_loaded_Inr)
  then show ?thesis
    by (auto simp: draw_tiles_def Let_def concat_mapE_Inr_iff split: option.split)
qed

lemma draw_character_Inr:
  assumes "\<forall>path. imgs path \<noteq> None" and "hidden c \<or> map_of (character_sprites g) (character_sprite_id c) \<noteq> None"
  shows "\<exists>ds. draw_character imgs g cur (i, c) = Inr ds"
  using assms draw_loaded_Inr [of imgs] by (auto simp: draw_character_def bindE_eq_Inr)

lemma frame_pick_Inr: "xs \<noteq> [] \<Longrightarrow> \<exists>v. frame_pick xs pc = Inr v"
  by (simp add: frame_pick_def Let_def)

lemma draw_animation_Inr_iff:
  assumes imgs: "\<forall>path. imgs path \<noteq> None"
  shows "(\<exists>ds. draw_animation imgs rt g ae = Inr ds) \<longleftrightarrow> animation_ok rt ae"
proof (cases "ae_animation ae")
  case (SpriteSheet sid aname)
  show ?thesis
  proof (cases "map_of (sprite_sheets rt) sid")
    case None
    then show ?thesis using SpriteSheet by (simp add: draw_animation_def animation_ok_def)
  next
    case (Some sh)
    obtain sz where sz: "imgs (image_path sh) = Some sz"
      using imgs [rule_format, of "image_path sh"] by auto
    show ?thesis
    proof (cases "map_of (ss_animation sh) aname")
      case None
      then show ?thesis using SpriteSheet Some sz by (simp add: draw_animation_def animation_ok_def)
    next
      case (Some fr)
      show ?thesis
      proof (cases "fr = []")
        case True
        then show ?thesis
          using SpriteSheet \<open>map_of (sprite_sheets rt) sid = Some sh\<close> Some sz
          by (simp add: draw_animation_def animation_ok_def frame_pick_def Let_def)
      next
        case False
        then obtain fi where "frame_pick fr (percentage ae) = Inr fi" using frame_pick_Inr by blast
        then show ?thesis
          using SpriteSheet \<open>map_of (sprite_sheets rt) sid = Some sh\<close> Some sz False
          by (simp add: draw_animation_def animation_ok_def i32_divmod_def)
      qed
    qed
  qed
next
  case (SpriteSequence sid)
  show ?thesis
  proof (cases "map_of (sprite_sequences rt) sid")
    case None
    then show ?thesis using SpriteSequence by (simp add: draw_animation_def animation_ok_def)
  next
    case (Some sq)
    show ?thesis
    proof (cases "images sq = []")
      case True
      then show ?thesis
        using SpriteSequence Some by (simp add: draw_animation_def animation_ok_def frame_pick_def Let_def)
    next
      case False
      then obtain path where pth: "frame_pick (images sq) (percentage ae) = Inr path" using frame_pick_Inr by blast
      have "imgs path \<noteq> None" using imgs by simp
      then obtain ds where "draw_loaded imgs path (rp_with_target_size 64 64 (rp_with_position (ae_position ae) rp_default)) g = Inr ds"
        using draw_loaded_Inr [of imgs path] by blast
      then show ?thesis
        using SpriteSequence Some False pth by (simp add: draw_animation_def animation_ok_def)
    qed
  qed
qed

lemma level_draw_Inr:
  assumes imgs: "\<forall>path. imgs path \<noteq> None" and "sprites_ok g"
    and "list_all (animation_ok rt) (map snd (sprite_animations g))"
  shows "\<exists>calls. level_draw imgs rt g = Inr calls"
proof (cases "map_of (characters g) (cam_character_id (camera g))")
  case None
  then show ?thesis by (simp add: level_draw_def)
next
  case (Some c)
  obtain ts where ts: "draw_tiles imgs rt g c = Inr ts" using draw_tiles_Inr [OF imgs] by blast
  have "\<forall>x\<in>set (teleportations g). \<exists>zs. (\<lambda>(_, t). draw_teleportation imgs g t) x = Inr zs"
    using draw_loaded_Inr [of imgs "''/images/teleportation.png''"] imgs by (auto simp: draw_teleportation_def)
  then obtain tps where tps: "concat_mapE (\<lambda>(_, t). draw_teleportation imgs g t) (teleportations g) = Inr tps"
    using concat_mapE_Inr_iff by blast
  have "\<forall>x\<in>set (characters g). \<exists>zs. draw_character imgs g (current_turn_character g) x = Inr zs"
    using assms(2) draw_character_Inr [OF imgs] by (auto simp: sprites_ok_def list_all_iff)
  then obtain cs where cs: "concat_mapE (draw_character imgs g (current_turn_character g)) (characters g) = Inr cs"
    using concat_mapE_Inr_iff by blast
  have "\<forall>x\<in>set (sprite_animations g). \<exists>zs. (\<lambda>(_, ae). draw_animation imgs rt g ae) x = Inr zs"
    using assms(3) draw_animation_Inr_iff [OF imgs] by (auto simp: list_all_iff)
  then obtain as where as: "concat_mapE (\<lambda>(_, ae). draw_animation imgs rt g ae) (sprite_animations g) = Inr as"
    using concat_mapE_Inr_iff by blast
  show ?thesis using Some ts tps cs as by (simp add: level_draw_def)
qed

text \<open>C33: when the map view draws without error. With every image loadable and a
  sprite for every visible character, \<open>LevelScene::draw\<close> returns exactly when there is
  no camera character to draw around or every sprite animation is well formed (its
  sheet or sequence and the named animation exist, its frames are not empty and the
  sheet's \<open>frame_per_row\<close> is not zero); otherwise an \<open>unwrap\<close>, the index
  \<open>frames.len() - 1\<close> or the remainder by zero panics.\<close>

theorem level_draw_succeeds:
  assumes imgs: "\<forall>path. imgs path \<noteq> None" and spr: "sprites_ok g"
  shows "(\<exists>calls. level_draw imgs rt g = Inr calls)
     \<longleftrightarrow> map_of (characters g) (cam_character_id (camera g)) = None
         \<or> list_all (animation_ok rt) (map snd (sprite_animations g))"
proof (cases "map_of (characters g) (cam_character_id (camera g))")
  case None
  then show ?thesis by (simp add: level_draw_def)
next
  case (Some c)
  have fwd: "list_all (animation_ok rt) (map snd (sprite_animations g))"
    if e: "level_draw imgs rt g = Inr calls" for calls
  proof -
    have "\<exists>as. concat_mapE (\<lambda>(_, ae). draw_animation imgs rt g ae) (sprite_animations g) = Inr as"
      using e Some unfolding level_draw_def by (simp only: option.case) (elim bindE_InrE, blast)
    then obtain as where as: "concat_mapE (\<lambda>(_, ae). draw_animation imgs rt g ae) (sprite_animations g) = Inr as" ..
    have all: "\<forall>x\<in>set (sprite_animations g). \<exists>zs. (\<lambda>(_, ae). draw_animation imgs rt g ae) x = Inr zs"
      by (rule concat_mapE_Inr_iff [THEN iffD1]) (rule exI, rule as)
    have "animation_ok rt (snd x)" if "x \<in> set (sprite_animations g)" for x
    proof -
      obtain i ae where x: "x = (i, ae)" by (cases x)
      from all that have "\<exists>zs. (\<lambda>(_, ae). draw_animation imgs rt g ae) x = Inr zs" by (rule bspec)
      then obtain zs where "(\<lambda>(_, ae). draw_animation imgs rt g ae) x = Inr zs" ..
      then have "draw_animation imgs rt g ae = Inr zs" using x by simp
      then show ?thesis using draw_animation_Inr_iff [OF imgs, of rt g ae] x by auto
    qed
    then show ?thesis by (simp add: list_all_iff)
  qed
  show ?thesis
  proof
    assume "\<exists>calls. level_draw imgs rt g = Inr calls"
    then obtain calls where "level_draw imgs rt g = Inr calls" ..
    then show "map_of (characters g) (cam_character_id (camera g)) = None
         \<or> list_all (animation_ok rt) (map snd (sprite_animations g))"
      using fwd by simp
  next
    assume "map_of (characters g) (cam_character_id (camera g)) = None
         \<or> list_all (animation_ok rt) (map snd (sprite_animations g))"
    then have "list_all (animation_ok rt) (map snd (sprite_animations g))" using Some by simp
    then show "\<exists>calls. level_draw imgs rt g = Inr calls" by (rule level_draw_Inr [OF imgs spr])
  qed
qed

end
