(* ===== verification/Scene_Draw.thy ===== *)
theory Scene_Draw
  imports Rendering
begin

text \<open>
  The \<open>draw\<close> methods of the menu scenes (src/src/scenes) and \<open>SceneStack::draw\<close>
  (src/src/scene.rs), which draws every scene of the stack from the bottom up. A
  scene's draw returns its draw calls and its own state afterwards: the dialogue
  scene's draw is the one that writes it, setting its cursor back to 0 while no
  choice is shown. Menus lay their buttons out column by column: item \<open>i\<close> of a menu
  of \<open>rows\<close> rows of \<open>w\<close> by \<open>h\<close> pixels is at column \<open>i / rows\<close> and row
  \<open>i % rows\<close>; the dialogue and shop lists are one column of 256 by 64 pixel boxes
  starting one box down.
\<close>

definition grid_slot :: "nat \<Rightarrow> nat \<Rightarrow> nat \<Rightarrow> nat \<Rightarrow> real \<times> real" where
  "grid_slot rows w h i = (of_nat (i div rows * w), of_nat (i mod rows * h))"

definition list_slot :: "nat \<Rightarrow> real \<times> real" where
  "list_slot i = (0, of_nat ((i + 1) * 64))"

definition text_box :: mesh where
  "text_box = FilledRect (256, 64) (0, 0, 127, 127)"

definition list_highlight :: mesh where
  "list_highlight = StrokedRect (256, 64) (255, 255, 0)"

subsection \<open>\<open>ActionScene::draw\<close> and \<open>SelectAbilityScene::draw\<close>\<close>

text \<open>The action menu: four rows of 240 by 180 pixel buttons, one per listed action
  (its texts were made with its ids, one each), and the highlight on the current
  item; nothing while the target scene on top of it is open.\<close>

definition action_draw :: "action_sc \<Rightarrow> draw_call list" where
  "action_draw s =
     (if as_waiting s then []
      else concat (map (\<lambda>(i, aid).
                          [DrawMesh (FilledRect (240, 180) (0, 127, 127, 255)) (grid_slot 4 240 180 i),
                           DrawActionCard aid (grid_slot 4 240 180 i)])
                     (List.enumerate 0 (as_action_ids s)))
           @ [DrawMesh (StrokedRect (240, 180) (255, 255, 0)) (grid_slot 4 240 180 (as_current_item s))])"

definition select_ability_draw :: "select_ability_sc \<Rightarrow> draw_call list" where
  "select_ability_draw s =
     concat (map (\<lambda>(i, aid).
                    [DrawMesh (FilledRect (256, 128) (0, 127, 127, 255)) (grid_slot 5 256 128 i),
                     DrawActionName aid (grid_slot 5 256 128 i)])
               (List.enumerate 0 (sa_action_ids s)))
     @ [DrawMesh (StrokedRect (256, 128) (255, 255, 0)) (grid_slot 5 256 128 (sa_current_item s))]"

subsection \<open>\<open>NovelScene::draw\<close>\<close>

definition background_draw :: "images \<Rightarrow> background option \<Rightarrow> draw_call list res" where
  "background_draw imgs b =
     (case b of
        None \<Rightarrow> Inr []
      | Some BNone \<Rightarrow> Inr []
      | Some (Color r gr bl a) \<Rightarrow> Inr [DrawMesh (FilledRect (1280, 720) (r, gr, bl, a)) (0, 0)]
      | Some (Image path) \<Rightarrow> bindE (unwrap (imgs path)) (\<lambda>_. Inr [DrawImage path dp_default]))"

text \<open>The background, the last line said in a box at the top, and, when a choice is
  shown, its options in boxes below with the highlight on the current one; with no
  choice the cursor is set back to 0. Nothing is drawn while the dialogue is paused
  for the shop.\<close>

definition novel_draw :: "images \<Rightarrow> scene_data \<Rightarrow> nat \<Rightarrow> (draw_call list \<times> nat) res" where
  "novel_draw imgs d ci =
     (let g = sd_game d in
      if ns_pause (novel_system g) then Inr ([], ci)
      else case ns_current (novel_system g) of
        None \<Rightarrow> Inr ([], ci)
      | Some cur \<Rightarrow>
          bindE (background_draw imgs (background cur)) (\<lambda>bg.
            let said = (if history cur = [] then []
                        else [DrawMesh text_box (0, 0), DrawText (last (history cur)) (0, 0)])
            in case select cur of
                 None \<Rightarrow> Inr (bg @ said, 0)
               | Some sel \<Rightarrow>
                   Inr (bg @ said
                        @ concat (map (\<lambda>(i, s). [DrawMesh text_box (list_slot i), DrawText s (list_slot i)])
                                   (List.enumerate 0 sel))
                        @ [DrawMesh list_highlight (list_slot ci)], ci)))"

subsection \<open>\<open>ShopScene::draw\<close>\<close>

definition shop_items_of :: "game \<Rightarrow> current_shop \<Rightarrow> shop_item list option" where
  "shop_items_of g cur =
     (case map_of (characters g) (shop_character_id cur) of
        None \<Rightarrow> None
      | Some c \<Rightarrow> map_option shop_items (ch_shop c))"

text \<open>How many of an item the customer has: the number of its entries in the
  customer's items (\<open>filter(..).count()\<close>), not the sum of their quantities.\<close>

definition owned_count :: "game \<Rightarrow> current_shop \<Rightarrow> int \<Rightarrow> nat" where
  "owned_count g cur iid =
     (case map_of (characters g) (csh_character_id cur) of
        None \<Rightarrow> 0
      | Some c \<Rightarrow> length (filter (\<lambda>it. item_id it = iid) (ch_items c)))"

definition shop_draw :: "scene_data \<Rightarrow> nat \<Rightarrow> draw_call list res" where
  "shop_draw d ci =
     (let g = sd_game d in
      case shop_current (shop_system g) of
        None \<Rightarrow> Inr []
      | Some cur \<Rightarrow>
          bindE (case shop_items_of g cur of
                   None \<Rightarrow> Inr []
                 | Some its \<Rightarrow>
                     concat_mapE (\<lambda>(i, si).
                       bindE (unwrap (map_option item_name (map_of (items g) (si_item_id si)))) (\<lambda>nm.
                         Inr [DrawMesh text_box (list_slot i), DrawText nm (list_slot i)]))
                       (List.enumerate 0 its)) (\<lambda>buttons.
          bindE (case Option.bind (shop_items_of g cur) (\<lambda>its. nth_opt its ci) of
                   None \<Rightarrow> Inr []
                 | Some si \<Rightarrow>
                     bindE (unwrap (map_option item_description (map_of (items g) (si_item_id si)))) (\<lambda>desc.
                       Inr [DrawMesh text_box (0, 0),
                            DrawItemInfo (owned_count g cur (si_item_id si)) desc (0, 0)])) (\<lambda>info.
            Inr (buttons @ [DrawMesh list_highlight (list_slot ci)] @ info))))"

subsection \<open>\<open>PauseScene::draw\<close>, \<open>TargetScene::draw\<close> and the stack\<close>

definition pause_draw :: "draw_call list" where
  "pause_draw =
     [DrawMesh (FilledRect (1280, 720) (0, 0, 0, 127)) (0, 0),
      DrawText ''Press N to create new character'' (0, 0)]"

text \<open>The shaded cell under the target cursor (culled as every map drawing), and the
  stats panel of the visible character standing there.\<close>

definition target_draw :: "scene_data \<Rightarrow> target_sc \<Rightarrow> draw_call list res" where
  "target_draw d t =
     (let g = sd_game d;
          shade = (case draw_at_position g (tg_position t) of
                     None \<Rightarrow> []
                   | Some pt \<Rightarrow> [DrawMesh (FilledRect (64, 64) (0, 0, 0, 127)) pt])
      in case character_at_position g (tg_position t) of
           None \<Rightarrow> Inr shade
         | Some cid \<Rightarrow> bindE (unwrap (map_of (characters g) cid)) (\<lambda>c. Inr (shade @ [DrawStats c (720, 360)])))"

definition scene_draw :: "images \<Rightarrow> render_tables \<Rightarrow> scene_data \<Rightarrow> scene \<Rightarrow> (draw_call list \<times> scene) res" where
  "scene_draw imgs rt d s =
     (case s of
        LevelScene \<Rightarrow> bindE (level_draw imgs rt (sd_game d)) (\<lambda>cs. Inr (cs, s))
      | ActionScene a \<Rightarrow> Inr (action_draw a, s)
      | TargetScene t \<Rightarrow> bindE (target_draw d t) (\<lambda>cs. Inr (cs, s))
      | NovelScene ci \<Rightarrow> bindE (novel_draw imgs d ci) (\<lambda>(cs, ci'). Inr (cs, NovelScene ci'))
      | PauseScene \<Rightarrow> Inr (pause_draw, s)
      | SelectAbilityScene a \<Rightarrow> Inr (select_ability_draw a, s)
      | ShopScene ci \<Rightarrow> bindE (shop_draw d ci) (\<lambda>cs. Inr (cs, s)))"

text \<open>\<open>SceneStack::draw\<close>: every scene from the bottom of the stack up, stopping at
  the first error; the screen is cleared before and presented after.\<close>

fun stack_draw :: "images \<Rightarrow> render_tables \<Rightarrow> scene_data \<Rightarrow> scene list \<Rightarrow> (draw_call list \<times> scene list) res" where
  "stack_draw imgs rt d [] = Inr ([], [])"
| "stack_draw imgs rt d (s # st) =
     bindE (scene_draw imgs rt d s) (\<lambda>(cs, s').
       bindE (stack_draw imgs rt d st) (\<lambda>(cs', st'). Inr (cs @ cs', s' # st')))"

text \<open>The data the shop scene reads with \<open>unwrap\<close>: every item the open shop sells
  exists in the item table.\<close>

definition shop_items_named :: "game \<Rightarrow> bool" where
  "shop_items_named g =
     (case shop_current (shop_system g) of
        None \<Rightarrow> True
      | Some cur \<Rightarrow> (case shop_items_of g cur of
                      None \<Rightarrow> True
                    | Some its \<Rightarrow> list_all (\<lambda>si. map_of (items g) (si_item_id si) \<noteq> None) its))"

subsection \<open>Lemmas\<close>

lemma grid_slot_inj:
  assumes "0 < rows" and "0 < w" and "0 < h"
  shows "inj (grid_slot rows w h)"
proof
  fix i j
  assume "grid_slot rows w h i = grid_slot rows w h j"
  then have "i div rows = j div rows" and "i mod rows = j mod rows"
    using assms by (auto simp: grid_slot_def)
  then show "i = j" by (metis div_mult_mod_eq)
qed

lemma enumerate_drawn:
  assumes "i < length xs" and "y \<in> set (f i (xs ! i))"
  shows "y \<in> set (concat (map (\<lambda>(k, x). f k x) (List.enumerate 0 xs)))"
  using assms by (force simp: in_set_enumerate_eq)

text \<open>C34: each menu's highlight sits on the button of the highlighted action. In the
  action menu (when no target scene is open over it) and in the ability menu, with
  the cursor inside a non-empty list (as C21 keeps it), the highlight is drawn at the
  place of a drawn button, the one carrying the highlighted action; and no two items
  of either menu share a place, so the highlight marks exactly one action.\<close>

theorem menu_highlight_on_button:
  assumes "as_current_item a < length (as_action_ids a)" and "\<not> as_waiting a"
    and "sa_current_item b < length (sa_action_ids b)"
  shows "DrawMesh (StrokedRect (240, 180) (255, 255, 0)) (grid_slot 4 240 180 (as_current_item a)) \<in> set (action_draw a)
    \<and> DrawActionCard (as_action_ids a ! as_current_item a) (grid_slot 4 240 180 (as_current_item a)) \<in> set (action_draw a)
    \<and> DrawMesh (StrokedRect (256, 128) (255, 255, 0)) (grid_slot 5 256 128 (sa_current_item b)) \<in> set (select_ability_draw b)
    \<and> DrawActionName (sa_action_ids b ! sa_current_item b) (grid_slot 5 256 128 (sa_current_item b)) \<in> set (select_ability_draw b)
    \<and> inj (grid_slot 4 240 180) \<and> inj (grid_slot 5 256 128)"
proof -
  have "DrawActionCard (as_action_ids a ! as_current_item a) (grid_slot 4 240 180 (as_current_item a))
        \<in> set (concat (map (\<lambda>(i, aid). [DrawMesh (FilledRect (240, 180) (0, 127, 127, 255)) (grid_slot 4 240 180 i),
                                          DrawActionCard aid (grid_slot 4 240 180 i)])
                       (List.enumerate 0 (as_action_ids a))))"
    by (rule enumerate_drawn [OF assms(1)]) simp
  moreover have "DrawActionName (sa_action_ids b ! sa_current_item b) (grid_slot 5 256 128 (sa_current_item b))
        \<in> set (concat (map (\<lambda>(i, aid). [DrawMesh (FilledRect (256, 128) (0, 127, 127, 255)) (grid_slot 5 256 128 i),
                                          DrawActionName aid (grid_slot 5 256 128 i)])
                       (List.enumerate 0 (sa_action_ids b))))"
    by (rule enumerate_drawn [OF assms(3)]) simp
  ultimately show ?thesis
    using assms(2) grid_slot_inj [of 4 240 180] grid_slot_inj [of 5 256 128]
    by (simp add: action_draw_def select_ability_draw_def)
qed

text \<open>What a frame of the shop shows about the highlighted item, when every listed
  item has a record.\<close>

lemma shop_buttons_Inr:
  assumes names: "list_all (\<lambda>si. map_of (items g) (si_item_id si) \<noteq> None) its"
  shows "\<exists>buttons. concat_mapE (\<lambda>(i, si).
          bindE (unwrap (map_option item_name (map_of (items g) (si_item_id si)))) (\<lambda>nm.
            Inr [DrawMesh text_box (list_slot i), DrawText nm (list_slot i)])) (List.enumerate 0 its) = Inr buttons"
proof -
  have "\<forall>x\<in>set (List.enumerate 0 its). \<exists>zs. (\<lambda>(i, si).
          bindE (unwrap (map_option item_name (map_of (items g) (si_item_id si)))) (\<lambda>nm.
            Inr [DrawMesh text_box (list_slot i), DrawText nm (list_slot i)])) x = Inr zs"
  proof
    fix x
    assume mem: "x \<in> set (List.enumerate 0 its)"
    obtain a b where xab: "x = (a, b)" by (cases x)
    with mem have a: "a < length its" and "b = its ! a" by (simp_all add: in_set_enumerate_eq)
    then have x: "x = (a, its ! a)" using xab by simp
    then obtain r where "map_of (items g) (si_item_id (its ! a)) = Some r"
      using names nth_mem [OF a] by (auto simp: list_all_iff)
    then show "\<exists>zs. (\<lambda>(i, si).
          bindE (unwrap (map_option item_name (map_of (items g) (si_item_id si)))) (\<lambda>nm.
            Inr [DrawMesh text_box (list_slot i), DrawText nm (list_slot i)])) x = Inr zs"
      by (simp add: x)
  qed
  then show ?thesis using concat_mapE_Inr_iff by blast
qed

lemma shop_draw_info:
  assumes cur: "shop_current (shop_system (sd_game d)) = Some cur"
    and its: "shop_items_of (sd_game d) cur = Some its" and ci: "ci < length its"
    and names: "list_all (\<lambda>si. map_of (items (sd_game d)) (si_item_id si) \<noteq> None) its"
    and it: "map_of (items (sd_game d)) (si_item_id (its ! ci)) = Some it"
  shows "\<exists>cs. shop_draw d ci = Inr cs
           \<and> DrawItemInfo (owned_count (sd_game d) cur (si_item_id (its ! ci))) (item_description it) (0, 0) \<in> set cs"
proof -
  obtain buttons where "concat_mapE (\<lambda>(i, si).
          bindE (unwrap (map_option item_name (map_of (items (sd_game d)) (si_item_id si)))) (\<lambda>nm.
            Inr [DrawMesh text_box (list_slot i), DrawText nm (list_slot i)])) (List.enumerate 0 its) = Inr buttons"
    using shop_buttons_Inr [OF names] by blast
  moreover have "nth_opt its ci = Some (its ! ci)" using ci by (simp add: nth_opt_conv)
  ultimately show ?thesis using cur its it by (simp add: shop_draw_def Let_def)
qed

lemma buy_item_customer:
  assumes "shop_current (shop_system g) = Some cur"
    and "shop_items_of g cur = Some its" and "ci < length its"
    and "map_of (characters g) (csh_character_id cur) = Some c"
  shows "buy_item ci g = g\<lparr>characters := AList.update (csh_character_id cur)
            (c\<lparr>ch_items := ch_items c @ [\<lparr>item_id = si_item_id (its ! ci), quantity = 1\<rparr>]\<rparr>) (characters g)\<rparr>"
  using assms by (auto simp: buy_item_def shop_items_of_def map_char_opt_def nth_opt_conv split: option.splits)

text \<open>C35: a purchase shows up in the shop. With the shop open on a listed item whose
  record exists (and records for every listed item), buying it (\<open>ShopSystem::buy_item\<close>)
  and drawing the shop again (\<open>ShopScene::draw\<close>) shows a count one higher than the
  frame before, whatever the item's \<open>stock\<close>: the purchase pushes one entry of
  quantity 1 and never reads or lowers the stock.\<close>

theorem buy_item_shown:
  assumes cur: "shop_current (shop_system (sd_game d)) = Some cur"
    and its: "shop_items_of (sd_game d) cur = Some its" and ci: "ci < length its"
    and names: "list_all (\<lambda>si. map_of (items (sd_game d)) (si_item_id si) \<noteq> None) its"
    and it: "map_of (items (sd_game d)) (si_item_id (its ! ci)) = Some it"
    and c: "map_of (characters (sd_game d)) (csh_character_id cur) = Some c"
  shows "\<exists>cs cs'. shop_draw d ci = Inr cs \<and> shop_draw (with_game d (buy_item ci (sd_game d))) ci = Inr cs'
    \<and> DrawItemInfo (owned_count (sd_game d) cur (si_item_id (its ! ci))) (item_description it) (0, 0) \<in> set cs
    \<and> DrawItemInfo (owned_count (sd_game d) cur (si_item_id (its ! ci)) + 1) (item_description it) (0, 0) \<in> set cs'"
proof -
  define d' where "d' = with_game d (buy_item ci (sd_game d))"
  have g': "sd_game d' = (sd_game d)\<lparr>characters := AList.update (csh_character_id cur)
            (c\<lparr>ch_items := ch_items c @ [\<lparr>item_id = si_item_id (its ! ci), quantity = 1\<rparr>]\<rparr>) (characters (sd_game d))\<rparr>"
    unfolding d'_def using buy_item_customer [OF cur its ci c] by simp
  have its': "shop_items_of (sd_game d') cur = Some its"
    using its c by (cases "shop_character_id cur = csh_character_id cur") (auto simp: g' shop_items_of_def)
  have cnt: "owned_count (sd_game d') cur (si_item_id (its ! ci)) = owned_count (sd_game d) cur (si_item_id (its ! ci)) + 1"
    using c by (simp add: g' owned_count_def)
  obtain cs where "shop_draw d ci = Inr cs"
    and "DrawItemInfo (owned_count (sd_game d) cur (si_item_id (its ! ci))) (item_description it) (0, 0) \<in> set cs"
    using shop_draw_info [OF cur its ci names it] by blast
  moreover have cur': "shop_current (shop_system (sd_game d')) = Some cur" using cur by (simp add: g')
  moreover have names': "list_all (\<lambda>si. map_of (items (sd_game d')) (si_item_id si) \<noteq> None) its"
    using names by (simp add: g')
  moreover have it': "map_of (items (sd_game d')) (si_item_id (its ! ci)) = Some it" using it by (simp add: g')
  ultimately obtain cs' where "shop_draw d' ci = Inr cs'"
    and "DrawItemInfo (owned_count (sd_game d') cur (si_item_id (its ! ci))) (item_description it) (0, 0) \<in> set cs'"
    using shop_draw_info [OF cur' its' ci names' it'] by blast
  then show ?thesis using cnt \<open>shop_draw d ci = Inr cs\<close>
    \<open>DrawItemInfo (owned_count (sd_game d) cur (si_item_id (its ! ci))) (item_description it) (0, 0) \<in> set cs\<close>
    unfolding d'_def by auto
qed

lemma novel_confirm_scene:
  assumes "novel_scene_key_down n KeyE d ci = Inr (d', s', tr)"
  shows "s' = NovelScene ci \<and> tr = (if ns_current (novel_system (sd_game d')) = None then TrPop else TrNone)"
  using assms unfolding novel_scene_key_down_def Let_def key.case
  by (elim bindE_InrE) (auto simp: with_game_def)

lemma list_slot_inj: "inj list_slot"
  by (auto simp: inj_def list_slot_def)

lemma list_slot_below_top: "list_slot i \<noteq> (0, 0)"
  by (simp add: list_slot_def)

text \<open>C36: confirming with \<open>E\<close> keeps the dialogue scene's cursor. When the option
  picked leads straight to another choice, the scene stays open with the old cursor,
  and the next draw keeps it too (the cursor is only reset on a frame with no
  choice): the highlight is drawn at the old cursor's slot, which holds an option
  box exactly when the old cursor is inside the new choice.\<close>

theorem novel_cursor_kept:
  assumes key: "novel_scene_key_down n KeyE d ci = Inr (d', s', tr)"
    and cur: "ns_current (novel_system (sd_game d')) = Some cur" and sel: "select cur = Some opts"
    and run: "\<not> ns_pause (novel_system (sd_game d'))"
    and bg: "background_draw imgs (background cur) = Inr bg"
  shows "s' = NovelScene ci \<and> tr = TrNone
    \<and> (\<exists>cs. novel_draw imgs d' ci = Inr (cs, ci) \<and> DrawMesh list_highlight (list_slot ci) \<in> set cs
         \<and> (DrawMesh text_box (list_slot ci) \<in> set cs \<longleftrightarrow> ci < length opts))"
proof -
  have st: "s' = NovelScene ci \<and> tr = TrNone" using novel_confirm_scene [OF key] cur by simp
  define said where "said = (if history cur = [] then []
                        else [DrawMesh text_box (0, 0), DrawText (last (history cur)) (0, 0)])"
  define cs where "cs = bg @ said
                        @ concat (map (\<lambda>(i, s). [DrawMesh text_box (list_slot i), DrawText s (list_slot i)])
                                   (List.enumerate 0 opts))
                        @ [DrawMesh list_highlight (list_slot ci)]"
  have dr: "novel_draw imgs d' ci = Inr (cs, ci)"
    using cur sel run bg by (simp add: novel_draw_def cs_def said_def Let_def)
  have bgm: "DrawMesh text_box (list_slot ci) \<notin> set bg"
    using bg by (auto simp: background_draw_def text_box_def split: background.splits option.splits elim!: bindE_InrE)
  have "DrawMesh text_box (list_slot ci) \<in> set cs \<longleftrightarrow> ci < length opts"
    using bgm list_slot_below_top [of ci] inj_eq [OF list_slot_inj]
    by (auto simp: cs_def said_def text_box_def list_highlight_def in_set_enumerate_eq)
  then show ?thesis using st dr by (auto simp: cs_def)
qed

lemma shop_draw_Inr:
  assumes "shop_items_named (sd_game d)"
  shows "\<exists>cs. shop_draw d ci = Inr cs"
proof (cases "shop_current (shop_system (sd_game d))")
  case None
  then show ?thesis by (simp add: shop_draw_def)
next
  case (Some cur)
  show ?thesis
  proof (cases "shop_items_of (sd_game d) cur")
    case None
    then show ?thesis using Some by (simp add: shop_draw_def)
  next
    case (Some its)
    note cur = \<open>shop_current (shop_system (sd_game d)) = Some cur\<close>
    have names: "list_all (\<lambda>si. map_of (items (sd_game d)) (si_item_id si) \<noteq> None) its"
      using assms cur Some by (simp add: shop_items_named_def)
    obtain buttons where b: "concat_mapE (\<lambda>(i, si).
          bindE (unwrap (map_option item_name (map_of (items (sd_game d)) (si_item_id si)))) (\<lambda>nm.
            Inr [DrawMesh text_box (list_slot i), DrawText nm (list_slot i)])) (List.enumerate 0 its) = Inr buttons"
      using shop_buttons_Inr [OF names] by blast
    show ?thesis
    proof (cases "ci < length its")
      case True
      have "map_of (items (sd_game d)) (si_item_id (its ! ci)) \<noteq> None"
        using names nth_mem [OF True] by (simp add: list_all_iff)
      then obtain it where "map_of (items (sd_game d)) (si_item_id (its ! ci)) = Some it" by blast
      then show ?thesis using shop_draw_info [OF cur Some True names] by blast
    next
      case False
      then have "nth_opt its ci = None" by (simp add: nth_opt_conv)
      then show ?thesis using cur Some b by (simp add: shop_draw_def Let_def)
    qed
  qed
qed

lemma target_draw_Inr: "\<exists>cs. target_draw d t = Inr cs"
proof (cases "character_at_position (sd_game d) (tg_position t)")
  case None
  then show ?thesis by (simp add: target_draw_def Let_def)
next
  case (Some cid)
  then obtain c where "(cid, c) \<in> set (characters (sd_game d))"
    by (auto simp: character_at_position_def dest!: find_Some_iff [THEN iffD1] nth_mem)
  then obtain c' where "map_of (characters (sd_game d)) cid = Some c'"
    by (auto dest: weak_map_of_SomeI)
  then show ?thesis using Some by (simp add: target_draw_def Let_def)
qed

lemma background_draw_Inr:
  assumes "\<forall>path. imgs path \<noteq> None"
  shows "\<exists>bg. background_draw imgs b = Inr bg"
proof (cases b)
  case None
  then show ?thesis by (simp add: background_draw_def)
next
  case (Some bk)
  show ?thesis
  proof (cases bk)
    case (Image path)
    obtain v where "imgs path = Some v" using assms by blast
    then show ?thesis using Some Image by (simp add: background_draw_def)
  qed (simp_all add: background_draw_def Some)
qed

lemma novel_draw_Inr:
  assumes "\<forall>path. imgs path \<noteq> None"
  shows "\<exists>cs ci'. novel_draw imgs d ci = Inr (cs, ci')"
proof (cases "ns_current (novel_system (sd_game d))")
  case None
  then show ?thesis by (simp add: novel_draw_def Let_def)
next
  case (Some cur)
  obtain bg where "background_draw imgs (background cur) = Inr bg"
    using background_draw_Inr [OF assms] by blast
  then show ?thesis using Some by (simp add: novel_draw_def Let_def split: option.split)
qed

text \<open>C39: when drawing can fail. \<open>SceneStack::draw\<close> returns, whatever scenes are
  on the stack and whatever their cursors, when every image loads, every visible
  character has a sprite, every sprite animation is well formed and every item the open
  shop sells exists: these are the only \<open>unwrap\<close>s, indexings and divisions of the
  scenes' draw methods that can fail (the character under the target cursor always
  exists, the dialogue only loads its background). The scenes come back one for one.\<close>

theorem stack_draw_returns:
  assumes imgs: "\<forall>path. imgs path \<noteq> None" and spr: "sprites_ok (sd_game d)"
    and anim: "list_all (animation_ok rt) (map snd (sprite_animations (sd_game d)))"
    and shop: "shop_items_named (sd_game d)"
  shows "\<exists>cs st'. stack_draw imgs rt d st = Inr (cs, st') \<and> length st' = length st"
proof (induction st)
  case Nil
  then show ?case by simp
next
  case (Cons s st)
  then obtain cs2 st2 where r: "stack_draw imgs rt d st = Inr (cs2, st2)" and l: "length st2 = length st"
    by blast
  have "\<exists>cs s'. scene_draw imgs rt d s = Inr (cs, s')"
  proof (cases s)
    case LevelScene
    then show ?thesis using level_draw_Inr [OF imgs spr anim] by (auto simp: scene_draw_def)
  next
    case (TargetScene t)
    then show ?thesis using target_draw_Inr [of d t] by (auto simp: scene_draw_def)
  next
    case (NovelScene ci)
    then show ?thesis using novel_draw_Inr [OF imgs, of d ci] by (auto simp: scene_draw_def)
  next
    case (ShopScene ci)
    then show ?thesis using shop_draw_Inr [OF shop, of ci] by (auto simp: scene_draw_def)
  qed (simp_all add: scene_draw_def)
  then obtain cs1 s' where "scene_draw imgs rt d s = Inr (cs1, s')" by blast
  then show ?case using r l by simp
qed

end
