(* ===== verification/App.thy ===== *)
theory App
  imports Scene_Draw
begin

text \<open>
  The application shell (src/src/main.rs). \<open>MainState::new\<close> reads the nineteen
  tables of the game from their resource files (an \<open>unwrap\<close> on the open and on the
  parse of each: a missing or malformed file panics), builds \<open>Game\<close>, \<open>Data\<close> and a
  stack holding the map view. The event loop then calls the \<open>EventHandler\<close> methods in
  whatever order the window's events arrive: \<open>update\<close> and \<open>key_down_event\<close> delegate
  to the scene stack, \<open>draw\<close> draws it. The states the running application can reach
  are an inductive relation over these three kinds of step, with the interpreter budget
  of each frame chosen freely (a frame that returns, returns for every larger
  budget); the invariant of the application is proved over it by rule induction.
\<close>

subsection \<open>\<open>MainState::new\<close>\<close>

text \<open>The content of each resource file once parsed, or \<open>None\<close> when it cannot be
  opened or parsed.\<close>

record game_files =
  f_characters :: "(int, character) table option"
  f_commands :: "(int, command) table option"
  f_character_actions :: "(int, character_action) table option"
  f_actions :: "(int, action) table option"
  f_items :: "(int, item) table option"
  f_tile_maps :: "(int, tile_map) table option"
  f_teleportations :: "(int, teleportation) table option"
  f_tiles :: "(int, tile) table option"
  f_tile_sheets :: "(int, tile_sheet) table option"
  f_character_sprites :: "(int, character_sprite) table option"
  f_sprite_sheets :: "(int, sprite_sheet) table option"
  f_sprite_sequences :: "(int, sprite_sequence) table option"
  f_sprite_animations :: "(int, animation_effect) table option"
  f_areas :: "(int, area) table option"
  f_camera :: "camera option"
  f_turn_system :: "turn_system option"
  f_novel_system :: "novel_system option"
  f_shop_system :: "shop_system option"
  f_floor_system :: "floor_system option"

definition load_game :: "game_files \<Rightarrow> (game \<times> render_tables) res" where
  "load_game f =
     bindE (unwrap (f_characters f)) (\<lambda>chs. bindE (unwrap (f_commands f)) (\<lambda>cmds.
     bindE (unwrap (f_character_actions f)) (\<lambda>cas. bindE (unwrap (f_actions f)) (\<lambda>acts.
     bindE (unwrap (f_items f)) (\<lambda>its. bindE (unwrap (f_tile_maps f)) (\<lambda>tms.
     bindE (unwrap (f_teleportations f)) (\<lambda>tps. bindE (unwrap (f_tiles f)) (\<lambda>tls.
     bindE (unwrap (f_tile_sheets f)) (\<lambda>tss. bindE (unwrap (f_character_sprites f)) (\<lambda>css.
     bindE (unwrap (f_sprite_sheets f)) (\<lambda>sss. bindE (unwrap (f_sprite_sequences f)) (\<lambda>sqs.
     bindE (unwrap (f_sprite_animations f)) (\<lambda>sas. bindE (unwrap (f_areas f)) (\<lambda>ars.
     bindE (unwrap (f_camera f)) (\<lambda>cam. bindE (unwrap (f_turn_system f)) (\<lambda>ts.
     bindE (unwrap (f_novel_system f)) (\<lambda>ns. bindE (unwrap (f_shop_system f)) (\<lambda>ss.
     bindE (unwrap (f_floor_system f)) (\<lambda>fs.
       Inr (\<lparr>characters = chs, character_actions = cas, commands = cmds, actions = acts, items = its,
             tile_maps = tms, teleportations = tps, tiles = tls, character_sprites = css,
             sprite_animations = sas, areas = ars, camera = cam, turn_system = ts, novel_system = ns,
             shop_system = ss, floor_system = fs\<rparr>,
            \<lparr>tile_sheets = tss, sprite_sheets = sss, sprite_sequences = sqs\<rparr>))))))))))))))))))))"

type_synonym main_state = "scene_data \<times> scene list"

definition main_new :: "game_files \<Rightarrow> (main_state \<times> render_tables) res" where
  "main_new f = bindE (load_game f) (\<lambda>(g, rt). Inr (main_state_new g, rt))"

subsection \<open>\<open>impl EventHandler for MainState\<close>\<close>

datatype app_event = EvUpdate real | EvDraw | EvKey key

text \<open>One call of the event loop: the frame's delta time for \<open>update\<close>, the key for
  \<open>key_down_event\<close>; a step returns the new state and the draw calls it issued.\<close>

definition main_event :: "nat \<Rightarrow> images \<Rightarrow> render_tables \<Rightarrow> main_state \<Rightarrow> app_event \<Rightarrow> (main_state \<times> draw_call list) res" where
  "main_event n imgs rt s e =
     (case e of
        EvUpdate delta \<Rightarrow> bindE (stack_update n delta (fst s) (snd s)) (\<lambda>s'. Inr (s', []))
      | EvDraw \<Rightarrow> bindE (stack_draw imgs rt (fst s) (snd s)) (\<lambda>(cs, st'). Inr ((fst s, st'), cs))
      | EvKey k \<Rightarrow> bindE (stack_key_down n k (fst s) (snd s)) (\<lambda>s'. Inr (s', [])))"

text \<open>The states reachable from \<open>s0\<close> by events that return.\<close>

inductive reachable :: "images \<Rightarrow> render_tables \<Rightarrow> main_state \<Rightarrow> main_state \<Rightarrow> bool"
  for imgs rt s0 where
  start: "reachable imgs rt s0 s0"
| step: "reachable imgs rt s0 s \<Longrightarrow> main_event n imgs rt s e = Inr (s', cs) \<Longrightarrow> reachable imgs rt s0 s'"

text \<open>The event loop run over a given sequence of events and budgets, collecting the
  draw calls.\<close>

fun run_events :: "images \<Rightarrow> render_tables \<Rightarrow> main_state \<Rightarrow> (nat \<times> app_event) list \<Rightarrow> (main_state \<times> draw_call list) res" where
  "run_events imgs rt s [] = Inr (s, [])"
| "run_events imgs rt s ((n, e) # es) =
     bindE (main_event n imgs rt s e) (\<lambda>(s', cs). bindE (run_events imgs rt s' es) (\<lambda>(s'', cs'). Inr (s'', cs @ cs')))"

definition app_ok :: "main_state \<Rightarrow> bool" where
  "app_ok s \<longleftrightarrow> stack_wf (snd s) \<and> qok (sd_game (fst s))"

text \<open>A draw keeps each scene, except that the dialogue scene may write its cursor.\<close>

definition same_kind :: "scene \<Rightarrow> scene \<Rightarrow> bool" where
  "same_kind s s' \<longleftrightarrow> s' = s \<or> (\<exists>ci ci'. s = NovelScene ci \<and> s' = NovelScene ci')"

subsection \<open>Lemmas\<close>

inductive_cases reachable_stepE: "reachable imgs rt s0 s'"

lemma main_new_Inr:
  "main_new f = Inr (s0, rt) \<Longrightarrow> \<exists>g. load_game f = Inr (g, rt) \<and> s0 = main_state_new g"
  by (auto simp: main_new_def elim!: bindE_InrE)

lemma load_game_Inr:
  "load_game f = Inr (g, rt) \<Longrightarrow> Some (turn_system g) = f_turn_system f"
  unfolding load_game_def by (elim bindE_InrE) (auto simp: unwrap_def split: option.splits)

lemma scene_draw_kind: "scene_draw imgs rt d s = Inr (cs, s') \<Longrightarrow> same_kind s s'"
  by (cases s) (auto simp: scene_draw_def same_kind_def elim!: bindE_InrE)

lemma stack_draw_kind:
  "stack_draw imgs rt d st = Inr (cs, st') \<Longrightarrow> list_all2 same_kind st st'"
proof (induction st arbitrary: cs st')
  case Nil
  then show ?case by simp
next
  case (Cons s st)
  from Cons.prems obtain cs1 s' cs2 st2 where d1: "scene_draw imgs rt d s = Inr (cs1, s')"
    and d2: "stack_draw imgs rt d st = Inr (cs2, st2)" and st': "st' = s' # st2"
    by (auto elim!: bindE_InrE)
  show ?case using scene_draw_kind [OF d1] Cons.IH [OF d2] st' by simp
qed

lemma same_kind_wf:
  assumes "list_all2 same_kind st st'" and "stack_wf st"
  shows "stack_wf st'"
proof -
  have lvl: "\<And>s s'. same_kind s s' \<Longrightarrow> s' = LevelScene \<longleftrightarrow> s = LevelScene"
    and ok: "\<And>s s'. same_kind s s' \<Longrightarrow> scene_ok s \<Longrightarrow> scene_ok s'"
    by (auto simp: same_kind_def)
  obtain s st1 where st: "st = s # st1" using assms(2) by (cases st) (auto simp: stack_wf_def)
  then obtain s' st1' where st': "st' = s' # st1'" and hd: "same_kind s s'" and tl: "list_all2 same_kind st1 st1'"
    using assms(1) by (cases st') auto
  have "LevelScene \<notin> set st1" and "list_all scene_ok st1" using assms(2) st by (simp_all add: stack_wf_def)
  with tl have "LevelScene \<notin> set st1' \<and> list_all scene_ok st1'"
    by (induction rule: list_all2_induct) (auto dest: lvl ok)
  then show ?thesis using assms(2) st st' hd lvl ok by (simp add: stack_wf_def)
qed

lemma stack_draw_game:
  "main_event n imgs rt s EvDraw = Inr (s', cs) \<Longrightarrow> fst s' = fst s \<and> list_all2 same_kind (snd s) (snd s')"
  by (auto simp: main_event_def elim!: bindE_InrE dest: stack_draw_kind)

lemma main_event_ok:
  assumes "main_event n imgs rt s e = Inr (s', cs)" and "app_ok s"
  shows "app_ok s'"
proof (cases e)
  case (EvUpdate delta)
  then have u: "stack_update n delta (fst s) (snd s) = Inr s'"
    using assms(1) by (auto simp: main_event_def elim!: bindE_InrE)
  have "stack_wf (snd s')"
    using u assms(2) unfolding stack_update_def app_ok_def
    by (cases s') (auto intro: on_top_wf [OF scene_update_shape])
  moreover have "qok (sd_game (fst s'))"
    using u assms(2) unfolding stack_update_def app_ok_def
    by (cases s') (auto intro: on_top_qok [OF scene_update_qok])
  ultimately show ?thesis by (simp add: app_ok_def)
next
  case EvDraw
  then have "fst s' = fst s \<and> list_all2 same_kind (snd s) (snd s')"
    using assms(1) by (simp add: stack_draw_game)
  then show ?thesis using assms(2) same_kind_wf by (auto simp: app_ok_def)
next
  case (EvKey k)
  then have u: "stack_key_down n k (fst s) (snd s) = Inr s'"
    using assms(1) by (auto simp: main_event_def elim!: bindE_InrE)
  have "stack_wf (snd s')"
    using u assms(2) unfolding stack_key_down_def app_ok_def
    by (cases s') (auto intro: on_top_wf [OF scene_key_down_shape])
  moreover have "qok (sd_game (fst s'))"
    using u assms(2) unfolding stack_key_down_def app_ok_def
    by (cases s') (auto intro: on_top_qok [OF scene_key_down_qok])
  ultimately show ?thesis by (simp add: app_ok_def)
qed

lemma reachable_ok: "reachable imgs rt s0 s \<Longrightarrow> app_ok s0 \<Longrightarrow> app_ok s"
  by (induction rule: reachable.induct) (auto intro: main_event_ok)

lemma run_events_reachable:
  "run_events imgs rt s es = Inr (s', cs) \<Longrightarrow> reachable imgs rt s0 s \<Longrightarrow> reachable imgs rt s0 s'"
proof (induction es arbitrary: s cs)
  case Nil
  then show ?case by simp
next
  case (Cons ne es)
  obtain n e where ne: "ne = (n, e)" by (cases ne)
  from Cons.prems(1) obtain s1 cs1 cs2 where e: "main_event n imgs rt s e = Inr (s1, cs1)"
    and r: "run_events imgs rt s1 es = Inr (s', cs2)"
    by (auto simp: ne elim!: bindE_InrE)
  have "reachable imgs rt s0 s1" by (rule reachable.step [OF Cons.prems(2) e])
  then show ?case by (rule Cons.IH [OF r])
qed

text \<open>C38: the invariant of the running application. When \<open>MainState::new\<close> loads the
  game (every resource file opens and parses) and the saved turn queue is sorted by
  time with no negative time, then in every state the event loop can reach, by any
  interleaving of frames, draws and key presses that return, the scene stack keeps the
  map view at the bottom and nowhere else with every menu cursor in bounds, and the turn
  queue stays sorted with no negative time.\<close>

theorem application_invariant:
  assumes new: "main_new f = Inr (s0, rt)" and ts: "f_turn_system f = Some ts"
    and q: "queue_ok (turn_queue ts)" and r: "reachable imgs rt s0 s"
  shows "stack_wf (snd s) \<and> queue_ok (turn_queue (turn_system (sd_game (fst s))))"
proof -
  obtain g where l: "load_game f = Inr (g, rt)" and s0: "s0 = main_state_new g"
    using main_new_Inr [OF new] by blast
  have "turn_system g = ts" using load_game_Inr [OF l] ts by simp
  then have "app_ok s0"
    using q s0 by (simp add: app_ok_def main_state_new_def data_new_def stack_wf_def qok_def)
  with r have "app_ok s" by (rule reachable_ok)
  then show ?thesis by (simp add: app_ok_def qok_def)
qed

lemma run_events_snoc:
  "run_events imgs rt s0 es = Inr (s, cs) \<Longrightarrow> main_event n imgs rt s e = Inr (s', cs') \<Longrightarrow>
   run_events imgs rt s0 (es @ [(n, e)]) = Inr (s', cs @ cs')"
proof (induction es arbitrary: s0 cs)
  case Nil
  then show ?case by simp
next
  case (Cons ne es)
  obtain n1 e1 where ne: "ne = (n1, e1)" by (cases ne)
  from Cons.prems(1) obtain s1 cs1 cs2 where e1: "main_event n1 imgs rt s0 e1 = Inr (s1, cs1)"
    and r: "run_events imgs rt s1 es = Inr (s, cs2)" and cs: "cs = cs1 @ cs2"
    by (auto simp: ne elim!: bindE_InrE)
  show ?case using Cons.IH [OF r Cons.prems(2)] e1 cs by (simp add: ne)
qed

text \<open>The event loop and the reachable states agree. A state is reachable from
  \<open>s0\<close> exactly when some finite sequence of events, each frame with its budget, run
  by \<open>run_events\<close> from \<open>s0\<close> returns in it: the inductive relation describes exactly
  the runs of the event loop, no more.\<close>

lemma reachable_iff_run:
  "reachable imgs rt s0 s \<longleftrightarrow> (\<exists>es cs. run_events imgs rt s0 es = Inr (s, cs))"
proof
  assume "reachable imgs rt s0 s"
  then show "\<exists>es cs. run_events imgs rt s0 es = Inr (s, cs)"
  proof (induction rule: reachable.induct)
    case start
    have "run_events imgs rt s0 [] = Inr (s0, [])" by simp
    then show ?case by blast
  next
    case (step s n e s' cs')
    then obtain es cs where "run_events imgs rt s0 es = Inr (s, cs)" by blast
    from run_events_snoc [OF this step.hyps(2)] show ?case by blast
  qed
next
  assume "\<exists>es cs. run_events imgs rt s0 es = Inr (s, cs)"
  then obtain es cs where "run_events imgs rt s0 es = Inr (s, cs)" by blast
  then show "reachable imgs rt s0 s" by (rule run_events_reachable [OF _ reachable.start])
qed

end
