(* ===== verification/Stats.thy ===== *)
theory Stats
  imports Rendering
begin

text \<open>
  The stats panel (src/src/ui/stats.rs): \<open>Stats::new\<close> formats a character's hp, mp,
  attack and defence into one text, \<open>Stats::draw\<close> draws it at the origin of the
  panel's canvas and \<open>draw_canvas\<close> renders that canvas, which the map view and the
  target scene then draw at their panel position. \<open>format!\<close> is modelled as its
  literal pieces with the printed arguments between them, and \<open>i32\<close>'s \<open>Display\<close> as
  \<open>dec_i32\<close>: a minus sign for a negative value, then the decimal digits with no
  leading zero. A parser of such texts reads the numbers back; the round trip shows
  that the panel's text determines the six values it is made from.
\<close>

subsection \<open>Decimal printing (\<open>impl Display for i32\<close>)\<close>

definition digit_char :: "nat \<Rightarrow> char" where
  "digit_char d = char_of (48 + d)"

fun dec_nat :: "nat \<Rightarrow> string" where
  "dec_nat n = (if n < 10 then [digit_char n] else dec_nat (n div 10) @ [digit_char (n mod 10)])"

declare dec_nat.simps [simp del]

definition dec_i32 :: "int \<Rightarrow> string" where
  "dec_i32 i = (if i < 0 then CHR ''-'' # dec_nat (nat (- i)) else dec_nat (nat i))"

subsection \<open>\<open>format!\<close>\<close>

text \<open>A format string with \<open>k\<close> placeholders is its \<open>k + 1\<close> literal pieces; the
  arguments are printed between them.\<close>

fun format_pieces :: "string list \<Rightarrow> int list \<Rightarrow> string" where
  "format_pieces (q # qs) (v # vs) = q @ dec_i32 v @ format_pieces qs vs"
| "format_pieces (q # qs) [] = q"
| "format_pieces [] vs = []"

subsection \<open>\<open>Stats\<close>\<close>

definition stats_pieces :: "string list" where
  "stats_pieces = [''Hp: '', ''/'', '' '' @ [CHR 0x0A] @ ''Mp: '', ''/'', '' '' @ [CHR 0x0A] @ ''Attack: '',
                   '' '' @ [CHR 0x0A] @ ''Defence: '', '''']"

definition stats_new :: "character \<Rightarrow> string" where
  "stats_new c = format_pieces stats_pieces
     [current (hp c), attr_max (hp c), current (mp c), attr_max (mp c), current (attack c), current (defence c)]"

definition stats_draw :: "character \<Rightarrow> draw_call list" where
  "stats_draw c = [DrawText (stats_new c) (0, 0)]"

text \<open>\<open>draw_canvas\<close> clears the window-sized canvas to transparent and draws the text
  at its origin; drawing the canvas at \<open>dest\<close> puts the text at \<open>dest\<close>. This is
  what the call \<open>DrawStats c dest\<close> of the map view and the target scene stands for.\<close>

definition stats_panel :: "character \<Rightarrow> real \<times> real \<Rightarrow> draw_call list" where
  "stats_panel c dest = map (\<lambda>dc. case dc of DrawText s (x, y) \<Rightarrow> DrawText s (x + fst dest, y + snd dest) | _ \<Rightarrow> dc)
                          (stats_draw c)"

subsection \<open>Reading the numbers back\<close>

definition is_digit :: "char \<Rightarrow> bool" where
  "is_digit c \<longleftrightarrow> 48 \<le> (of_char c :: nat) \<and> (of_char c :: nat) \<le> 57"

definition digits_val :: "string \<Rightarrow> nat" where
  "digits_val ds = foldl (\<lambda>n c. 10 * n + (of_char c - 48)) 0 ds"

definition parse_i32 :: "string \<Rightarrow> (int \<times> string) option" where
  "parse_i32 s =
     (let neg = (s \<noteq> [] \<and> hd s = CHR ''-'');
          t = (if neg then tl s else s);
          ds = takeWhile is_digit t
      in if ds = [] then None
         else Some (if neg then - int (digits_val ds) else int (digits_val ds), dropWhile is_digit t))"

fun parse_pieces :: "string list \<Rightarrow> string \<Rightarrow> int list option" where
  "parse_pieces [] s = None"
| "parse_pieces [q] s = (if s = q then Some [] else None)"
| "parse_pieces (q # q' # qs) s =
     (if take (length q) s = q
      then (case parse_i32 (drop (length q) s) of
              None \<Rightarrow> None
            | Some (v, r) \<Rightarrow> map_option (Cons v) (parse_pieces (q' # qs) r))
      else None)"

text \<open>The pieces after the first can follow a number without running into it: each is
  non-empty and does not start with a digit, except that the last may be empty.\<close>

fun seps_ok :: "string list \<Rightarrow> bool" where
  "seps_ok [] = True"
| "seps_ok [q] = (q = [] \<or> \<not> is_digit (hd q))"
| "seps_ok (q # q' # qs) = (q \<noteq> [] \<and> \<not> is_digit (hd q) \<and> seps_ok (q' # qs))"

subsection \<open>Lemmas\<close>

lemma digit_char_is_digit: "d < 10 \<Longrightarrow> is_digit (digit_char d)"
  by (simp add: digit_char_def is_digit_def)

lemma of_char_digit: "d < 10 \<Longrightarrow> of_char (digit_char d) - 48 = d"
  by (simp add: digit_char_def)

lemma dec_nat_digits: "dec_nat n \<noteq> [] \<and> list_all is_digit (dec_nat n)"
proof (induction n rule: dec_nat.induct)
  case (1 n)
  then show ?case unfolding dec_nat.simps [of n] by (simp add: digit_char_is_digit)
qed

lemma digits_val_snoc: "digits_val (ds @ [c]) = 10 * digits_val ds + (of_char c - 48)"
  by (simp add: digits_val_def)

lemma digits_val_dec_nat: "digits_val (dec_nat n) = n"
proof (induction n rule: dec_nat.induct)
  case (1 n)
  show ?case
  proof (cases "n < 10")
    case True
    then show ?thesis by (simp add: dec_nat.simps digits_val_def of_char_digit)
  next
    case False
    then have "digits_val (dec_nat n) = 10 * (n div 10) + n mod 10"
      using 1 by (simp add: dec_nat.simps digits_val_snoc of_char_digit)
    then show ?thesis by simp
  qed
qed

lemma no_digit_start: "r = [] \<or> \<not> is_digit (hd r) \<Longrightarrow> takeWhile is_digit r = [] \<and> dropWhile is_digit r = r"
  by (cases r) auto

lemma minus_not_digit: "\<not> is_digit CHR ''-''"
  by (simp add: is_digit_def)

lemma dec_nat_hd: "hd (dec_nat n) \<noteq> CHR ''-''"
  using dec_nat_digits [of n] minus_not_digit by (cases "dec_nat n") auto

lemma parse_dec_nat:
  assumes "r = [] \<or> \<not> is_digit (hd r)"
  shows "takeWhile is_digit (dec_nat n @ r) = dec_nat n \<and> dropWhile is_digit (dec_nat n @ r) = r"
proof -
  have all: "\<And>x. x \<in> set (dec_nat n) \<Longrightarrow> is_digit x" using dec_nat_digits [of n] by (simp add: list_all_iff)
  have "takeWhile is_digit (dec_nat n @ r) = dec_nat n @ takeWhile is_digit r" using all by (rule takeWhile_append2)
  moreover have "dropWhile is_digit (dec_nat n @ r) = dropWhile is_digit r" using all by (rule dropWhile_append2)
  ultimately show ?thesis using no_digit_start [OF assms] by simp
qed

lemma parse_dec_i32:
  assumes "r = [] \<or> \<not> is_digit (hd r)"
  shows "parse_i32 (dec_i32 i @ r) = Some (i, r)"
proof (cases "i < 0")
  case True
  then show ?thesis
    using parse_dec_nat [OF assms, of "nat (- i)"] dec_nat_digits [of "nat (- i)"]
    by (simp add: parse_i32_def dec_i32_def digits_val_dec_nat)
next
  case False
  have "dec_nat (nat i) @ r \<noteq> [] \<and> hd (dec_nat (nat i) @ r) \<noteq> CHR ''-''"
    using dec_nat_digits [of "nat i"] dec_nat_hd [of "nat i"] by simp
  then show ?thesis
    using False parse_dec_nat [OF assms, of "nat i"] dec_nat_digits [of "nat i"]
    by (simp add: parse_i32_def dec_i32_def digits_val_dec_nat Let_def)
qed

lemma format_pieces_start:
  "seps_ok (q # qs) \<Longrightarrow> length qs = length vs \<Longrightarrow>
   format_pieces (q # qs) vs = [] \<or> \<not> is_digit (hd (format_pieces (q # qs) vs))"
  by (cases vs; cases qs) auto

lemma parse_format_pieces:
  "length qs = Suc (length vs) \<Longrightarrow> seps_ok (tl qs) \<Longrightarrow> parse_pieces qs (format_pieces qs vs) = Some vs"
proof (induction vs arbitrary: qs)
  case Nil
  then obtain q where "qs = [q]" by (cases qs) auto
  then show ?case by simp
next
  case (Cons v vs)
  then obtain q q' qs' where qs: "qs = q # q' # qs'" and len: "length qs' = length vs"
    by (cases qs rule: remdups_adj.cases) auto
  have ok: "seps_ok (q' # qs')" using Cons.prems(2) qs by simp
  have tl: "seps_ok qs'" using ok by (cases qs') auto
  have "parse_i32 (dec_i32 v @ format_pieces (q' # qs') vs) = Some (v, format_pieces (q' # qs') vs)"
    by (rule parse_dec_i32 [OF format_pieces_start [OF ok len]])
  moreover have "parse_pieces (q' # qs') (format_pieces (q' # qs') vs) = Some vs"
    using Cons.IH [of "q' # qs'"] len tl by simp
  ultimately show ?case by (simp add: qs)
qed

text \<open>C37: the stats panel's text determines the stats it shows. \<open>Stats::new\<close> prints
  the current and maximum hp, the current and maximum mp, the current attack and the
  current defence, in that order, into its format string; reading the numbers back
  from the text at the places of the placeholders gives exactly these six values, so
  two characters whose panels read the same agree on all six.\<close>

theorem stats_roundtrip:
  "parse_pieces stats_pieces (stats_new c) =
     Some [current (hp c), attr_max (hp c), current (mp c), attr_max (mp c), current (attack c), current (defence c)]"
  unfolding stats_new_def
  by (rule parse_format_pieces) (simp_all add: stats_pieces_def is_digit_def)

end
