(* ===== verification/Image_Cache.thy ===== *)
theory Image_Cache
  imports Rendering
begin

text \<open>
  The image cache of \<open>Data\<close> (src/src/data.rs). \<open>ImageCache::get\<close> looks an image up
  by its path, loads it on a miss (\<open>Image::new(ctx, key)?\<close>, whose error is returned
  and ends the event loop) and stores it, then returns the stored image. The drawing
  definitions of Rendering.thy and Scene_Draw.thy read images through the pure loader
  \<open>imgs\<close>; the refinement below shows that drawing through the cache gives the same
  calls as long as every cached image is what the loader gives for its path, which
  every \<open>get\<close> keeps true from the empty cache of \<open>Data::new\<close> on.
\<close>

record image_cache =
  resources :: "(string, real \<times> real) table"

definition cache_new :: image_cache where
  "cache_new = \<lparr>resources = []\<rparr>"

definition cache_get :: "images \<Rightarrow> image_cache \<Rightarrow> string \<Rightarrow> ((real \<times> real) \<times> image_cache) res" where
  "cache_get load c key =
     bindE (if map_of (resources c) key = None
            then bindE (unwrap (load key)) (\<lambda>image. Inr (c\<lparr>resources := AList.update key image (resources c)\<rparr>))
            else Inr c) (\<lambda>c'.
       bindE (unwrap (map_of (resources c') key)) (\<lambda>img. Inr (img, c')))"

text \<open>\<open>data.image_caches.get(ctx, path)?\<close> followed by \<open>draw_image\<close>, the cached form of
  \<open>draw_loaded\<close>.\<close>

definition draw_loaded_cached ::
  "images \<Rightarrow> image_cache \<Rightarrow> string \<Rightarrow> rendering_param \<Rightarrow> game \<Rightarrow> (draw_call list \<times> image_cache) res" where
  "draw_loaded_cached load c path rp g =
     bindE (cache_get load c path) (\<lambda>(sz, c'). Inr (emit path (draw_image rp g sz), c'))"

definition cache_ok :: "images \<Rightarrow> image_cache \<Rightarrow> bool" where
  "cache_ok load c \<longleftrightarrow> list_all (\<lambda>(k, v). load k = Some v) (resources c)"

subsection \<open>Lemmas\<close>

lemma list_all_update:
  "list_all P al \<Longrightarrow> P (k, v) \<Longrightarrow> list_all P (AList.update k v al)"
  by (induction al) auto

lemma cache_ok_lookup: "cache_ok load c \<Longrightarrow> map_of (resources c) key = Some v \<Longrightarrow> load key = Some v"
  by (auto simp: cache_ok_def list_all_iff dest: map_of_SomeD)

lemma cache_ok_new: "cache_ok load cache_new"
  by (simp add: cache_ok_def cache_new_def)

lemma cache_get_miss:
  "map_of (resources c) key = None \<Longrightarrow> load key = Some v \<Longrightarrow>
   cache_get load c key = Inr (v, c\<lparr>resources := AList.update key v (resources c)\<rparr>)"
  by (simp add: cache_get_def update_conv')

lemma cache_get_hit: "map_of (resources c) key = Some v \<Longrightarrow> cache_get load c key = Inr (v, c)"
  by (simp add: cache_get_def)

lemma cache_get_fail: "map_of (resources c) key = None \<Longrightarrow> load key = None \<Longrightarrow> cache_get load c key = Inl Missing"
  by (simp add: cache_get_def)

text \<open>C40: the image cache is transparent. From a cache whose images are those the
  loader gives, \<open>ImageCache::get\<close> returns exactly the loader's image for the path, or
  its error; afterwards the cache holds that image and is again consistent, and a
  second \<open>get\<close> of the same path returns it without changing the cache. Drawing an
  image through the cache therefore issues the same calls as \<open>draw_loaded\<close> with the
  pure loader.\<close>

theorem cache_refines_loader:
  assumes ok: "cache_ok load c"
  shows "map_sum id fst (cache_get load c key) = unwrap (load key)
    \<and> (\<forall>v c'. cache_get load c key = Inr (v, c') \<longrightarrow>
         cache_ok load c' \<and> map_of (resources c') key = Some v \<and> cache_get load c' key = Inr (v, c'))
    \<and> map_sum id fst (draw_loaded_cached load c path rp g) = draw_loaded load path rp g"
proof -
  have get: "map_sum id fst (cache_get load c k) = unwrap (load k)
    \<and> (\<forall>v c'. cache_get load c k = Inr (v, c') \<longrightarrow> cache_ok load c' \<and> map_of (resources c') k = Some v)" for k
  proof (cases "map_of (resources c) k")
    case None
    show ?thesis
    proof (cases "load k")
      case None
      then show ?thesis using \<open>map_of (resources c) k = None\<close> by (simp add: cache_get_fail)
    next
      case (Some v)
      have "cache_ok load (c\<lparr>resources := AList.update k v (resources c)\<rparr>)"
        using ok Some by (simp add: cache_ok_def list_all_update)
      then show ?thesis using \<open>map_of (resources c) k = None\<close> Some
        by (simp add: cache_get_miss update_conv')
    qed
  next
    case (Some v)
    then show ?thesis using cache_ok_lookup [OF ok Some] ok by (simp add: cache_get_hit)
  qed
  have u: "unwrap (load path) = map_sum id fst (cache_get load c path)" using get [of path] by simp
  have "map_sum id fst (draw_loaded_cached load c path rp g) = draw_loaded load path rp g"
    by (cases "cache_get load c path") (auto simp: draw_loaded_cached_def draw_loaded_def u)
  then show ?thesis using get [of key] cache_get_hit by blast
qed

end
