(* ===== verification/Novel_Run.thy ===== *)
theory Novel_Run
  imports Novel
begin

text \<open>
  When \<open>NovelSystem::run\<close> returns. Within one call the cursor never descends: a node
  that does not wait for input moves it to the next sibling (\<open>*i += 1\<close>), and a cursor
  past the end of its list pops one level and moves the parent on; only \<open>If\<close> (which
  re-runs the same cursor), \<open>Restart\<close> (which jumps back to the root) and
  \<open>CharacterChangePosition\<close> (which re-enters the game through the floor controller)
  can revisit a position. On a script without these three nodes the measure
  \<open>run_measure\<close>, the depth of the cursor plus, at each level, the number of positions
  left in the list the index ranges over, falls at every nested call of \<open>run\<close>, so a
  budget above it is enough: the run returns, with a result or a panic, and never runs
  out of budget.
\<close>

fun calm :: "script_kind \<Rightarrow> bool" where
  "calm (If _ _) = False"
| "calm Restart = False"
| "calm (CharacterChangePosition _ _ _ _) = False"
| "calm (Select v) = list_all (\<lambda>ow. list_all calm (snd ow)) v"
| "calm (SelectAbility w) = list_all calm w"
| "calm (IfElse _ a b) = (list_all calm a \<and> list_all calm b)"
| "calm (Text _) = True"
| "calm (Background _) = True"
| "calm Shop = True"
| "calm Surrender = True"
| "calm (CharacterMove _ _ _) = True"
| "calm ForgetSkill = True"
| "calm PracticeSkill = True"

text \<open>The length of the list each index of a cursor ranges over, following the descent
  of \<open>nav_from\<close> (a \<open>Select\<close> node takes two indices: the option, then the position in
  its branch); below a missing or non-container node the lengths are 0.\<close>

fun lens :: "script_kind list \<Rightarrow> nat list \<Rightarrow> nat list" where
  "lens xs [] = []"
| "lens xs (i # rest) = length xs #
     (case nth_opt xs i of
        Some (If _ w) \<Rightarrow> lens w rest
      | Some (SelectAbility w) \<Rightarrow> lens w rest
      | Some (Select v) \<Rightarrow>
          (case rest of
             [] \<Rightarrow> []
           | j # rest' \<Rightarrow> length v #
               (case nth_opt v j of None \<Rightarrow> map (\<lambda>_. 0) rest' | Some ow \<Rightarrow> lens (snd ow) rest'))
      | _ \<Rightarrow> map (\<lambda>_. 0) rest)"

definition run_measure :: "script_kind list \<Rightarrow> nat list \<Rightarrow> nat" where
  "run_measure xs ps = length ps + sum_list (map (\<lambda>(l, i). Suc l - i) (zip (lens xs ps) ps))"

subsection \<open>The measure\<close>

lemma nth_opt_Some_mem: "nth_opt xs i = Some x \<Longrightarrow> i < length xs \<and> x \<in> set xs"
  by (cases "i < length xs") (auto simp: nth_opt_conv intro: nth_mem)

lemma lens_single [simp]: "lens xs [i] = [length xs]"
  by (simp split: option.split script_kind.split)

lemma length_lens [simp]: "length (lens xs ps) = length ps"
  by (induction xs ps rule: lens.induct) (auto split: option.split script_kind.split list.split)

text \<open>Appending an index adds the length of the list it ranges over, which does not
  depend on the index.\<close>

lemma lens_snoc: "\<exists>L. \<forall>i. lens xs (q @ [i]) = lens xs q @ [L]"
proof (induction "length q" arbitrary: xs q rule: less_induct)
  case less
  show ?case
  proof (cases q)
    case Nil
    then show ?thesis by (simp split: option.split script_kind.split)
  next
    case (Cons a q')
    show ?thesis
    proof (cases "nth_opt xs a")
      case None
      then show ?thesis using Cons by simp
    next
      case (Some nd)
      show ?thesis
      proof (cases nd)
        case (If c w)
        obtain L where "\<forall>i. lens w (q' @ [i]) = lens w q' @ [L]" using less [of q' w] Cons by auto
        then show ?thesis using Cons Some If by auto
      next
        case (SelectAbility w)
        obtain L where "\<forall>i. lens w (q' @ [i]) = lens w q' @ [L]" using less [of q' w] Cons by auto
        then show ?thesis using Cons Some SelectAbility by auto
      next
        case (Select v)
        show ?thesis
        proof (cases q')
          case Nil
          then show ?thesis using Cons Some Select by (auto split: option.split)
        next
          case (Cons j q'')
          show ?thesis
          proof (cases "nth_opt v j")
            case None
            then show ?thesis using \<open>q = a # q'\<close> Cons Some Select by auto
          next
            case (Some ow)
            obtain L where "\<forall>i. lens (snd ow) (q'' @ [i]) = lens (snd ow) q'' @ [L]"
              using less [of q'' "snd ow"] \<open>q = a # q'\<close> Cons by auto
            then show ?thesis using \<open>q = a # q'\<close> Cons \<open>nth_opt xs a = Some nd\<close> Select Some by auto
          qed
        qed
      qed (use Cons Some in auto)
    qed
  qed
qed

text \<open>The node under the cursor of a calm script is calm, and its index is inside the
  list it is taken from.\<close>

lemma nav_node:
  assumes "nav_from (nth_opt xs i) rest = Inr (Some nd)" and "list_all calm xs"
  shows "calm nd \<and> last (i # rest) < last (lens xs (i # rest))"
  using assms
proof (induction "length rest" arbitrary: xs i rest rule: less_induct)
  case less
  show ?case
  proof (cases rest)
    case Nil
    then show ?thesis using less.prems nth_opt_Some_mem [of xs i nd]
      by (auto simp: list_all_iff split: option.split script_kind.split)
  next
    case (Cons j r)
    obtain nd0 where nd0: "nth_opt xs i = Some nd0"
      using less.prems(1) Cons by (cases "nth_opt xs i") auto
    have c0: "calm nd0" using nd0 less.prems(2) nth_opt_Some_mem [OF nd0] by (auto simp: list_all_iff)
    show ?thesis
    proof (cases nd0)
      case (SelectAbility w)
      have "calm nd \<and> last (j # r) < last (lens w (j # r))"
        using less.hyps [of r w j] less.prems(1) c0 Cons nd0 SelectAbility by simp
      then show ?thesis using Cons nd0 SelectAbility by simp
    next
      case (Select v)
      obtain k r' where r: "r = k # r'"
        using less.prems(1) Cons nd0 Select by (cases r) auto
      obtain ow where ow: "nth_opt v j = Some ow"
        using less.prems(1) Cons nd0 Select r by (cases "nth_opt v j"; cases r') auto
      have nav: "nav_from (nth_opt (snd ow) k) r' = Inr (Some nd)"
        using less.prems(1) Cons nd0 Select r ow by (cases ow) simp
      have "list_all calm (snd ow)"
        using c0 Select nth_opt_Some_mem [OF ow] by (auto simp: list_all_iff)
      then have "calm nd \<and> last (k # r') < last (lens (snd ow) (k # r'))"
        using less.hyps [of r' "snd ow" k] nav Cons r by simp
      then show ?thesis using Cons nd0 Select r ow by simp
    qed (use less.prems(1) Cons nd0 c0 in auto)
  qed
qed

lemma nav_from_error: "nav_from c ps = Inl e \<Longrightarrow> e = Panic"
  by (induction c ps rule: nav_from.induct) (auto split: list.splits option.splits)

lemma run_measure_advance:
  assumes "ps \<noteq> []" and "last ps < last (lens xs ps)"
  shows "run_measure xs (last_inc ps) < run_measure xs ps"
proof -
  obtain q i where ps: "ps = q @ [i]" using assms(1) by (cases ps rule: rev_exhaust) auto
  obtain L where L: "\<forall>j. lens xs (q @ [j]) = lens xs q @ [L]" using lens_snoc by blast
  have "i < L" using assms(2) L by (simp add: ps)
  then show ?thesis using L by (simp add: ps run_measure_def zip_append)
qed

lemma run_measure_backtrack:
  assumes "ps \<noteq> []"
  shows "run_measure xs (last_inc (butlast ps)) < run_measure xs ps"
proof -
  obtain q i where ps: "ps = q @ [i]" using assms by (cases ps rule: rev_exhaust) auto
  show ?thesis
  proof (cases q rule: rev_exhaust)
    case Nil
    then show ?thesis by (simp add: ps run_measure_def)
  next
    case (snoc q0 a)
    obtain L1 where L1: "\<forall>j. lens xs (q0 @ [j]) = lens xs q0 @ [L1]" using lens_snoc by blast
    obtain L2 where L2: "\<forall>j. lens xs ((q0 @ [a]) @ [j]) = lens xs (q0 @ [a]) @ [L2]" using lens_snoc by blast
    have b: "last_inc (butlast (q0 @ [a, i])) = q0 @ [Suc a]" by (simp add: butlast_append)
    show ?thesis using L1 L2 by (simp add: b ps snoc run_measure_def zip_append)
  qed
qed

subsection \<open>Steps that cannot run out of budget\<close>

lemma bindE_not_fuel:
  "m \<noteq> Inl Fuel \<Longrightarrow> (\<And>x. m = Inr x \<Longrightarrow> f x \<noteq> Inl Fuel) \<Longrightarrow> bindE m f \<noteq> Inl Fuel"
  by (cases m) (auto simp: bindE_def)

lemma unwrap_not_fuel: "unwrap x \<noteq> Inl Fuel"
  by (simp add: unwrap_def split: option.split)

lemma character_move_node_not_fuel: "character_move_node cur sc x y g \<noteq> Inl Fuel"
  unfolding character_move_node_def Let_def command_new_def new_data_def new_animation_def
    drain_animation_def origin_of_def
  by (auto simp: bindE_def unwrap_def split: sum.splits option.splits action_kind.splits target.splits
      prod.splits)

lemma forget_skill_novel:
  "forget_skill cur g = Inr g1 \<Longrightarrow> novel_system g1 = novel_system g"
  by (auto simp: forget_skill_def vec_remove_def bindE_def split: option.splits if_splits)

lemma forget_skill_not_fuel: "forget_skill cur g \<noteq> Inl Fuel"
  by (auto simp: forget_skill_def vec_remove_def bindE_def split: option.splits if_splits)

lemma map_char_opt_novel [simp]: "novel_system (map_char_opt cid f g) = novel_system g"
  by (simp add: map_char_opt_def split: option.split)

lemma learn_all_novel [simp]: "novel_system (learn_all cid aids g) = novel_system g"
  by (induction aids arbitrary: g) (simp_all add: Let_def)

lemma practice_skill_novel [simp]: "novel_system (practice_skill cid g) = novel_system g"
  by (simp add: practice_skill_def Let_def split: option.split)

subsection \<open>The run returns\<close>

lemma node_at_node:
  assumes "node_at xs ps = Inr (Some nd)" and "list_all calm xs"
  shows "ps \<noteq> [] \<and> calm nd \<and> last ps < last (lens xs ps)"
proof -
  obtain i rest where ps: "ps = i # rest" using assms(1) by (cases ps) (auto simp: node_at_def)
  then show ?thesis using nav_node [of xs i rest nd] assms by (simp add: node_at_def)
qed

lemma node_at_error: "node_at xs ps = Inl e \<Longrightarrow> e = Panic"
  by (auto simp: node_at_def dest: nav_from_error split: list.splits)

text \<open>C2: \<open>NovelSystem::run\<close> returns on a script without \<open>If\<close>, \<open>Restart\<close> and
  \<open>CharacterChangePosition\<close> nodes. With no command pending, every nested call of
  \<open>run\<close> moves the cursor to a position of lower \<open>run_measure\<close>, so any budget above
  the measure of the cursor is enough: the run stops on a node that waits for input,
  at the end of the dialogue, or on a panic, and never exhausts the budget.\<close>

theorem novel_run_returns:
  assumes "ns_current (novel_system g) = Some cur" and "cs_command_id cur = None"
    and "map_of (novel_scripts (novel_system g)) (cs_id cur) = Some sc" and "list_all calm (scripts sc)"
    and "run_measure (scripts sc) (p cur) < n"
  shows "novel_run n g \<noteq> Inl Fuel"
  using assms
proof (induction n arbitrary: g cur)
  case 0
  then show ?case by simp
next
  case (Suc n)
  note cur = Suc.prems(1) and sc = Suc.prems(3) and calm = Suc.prems(4)
  let ?c = "cur\<lparr>select := None\<rparr>"
  let ?set = "\<lambda>c'. g\<lparr>novel_system := (novel_system g)\<lparr>ns_current := Some c'\<rparr>\<rparr>"
  have ih: "novel_run n (?set c') \<noteq> Inl Fuel"
    if "cs_command_id c' = None" and "cs_id c' = cs_id cur" and "run_measure (scripts sc) (p c') < run_measure (scripts sc) (p cur)"
    for c'
    using Suc.IH [of "?set c'" c'] that Suc.prems by simp
  have run: "novel_run (Suc n) g = run_node n g" using novel_run_no_command [OF cur Suc.prems(2)] .
  show ?case
  proof (cases "p cur = []")
    case True
    then show ?thesis using run run_node_end [OF cur sc] by simp
  next
    case ne: False
    show ?thesis
    proof (cases "node_at (scripts sc) (p cur)")
      case (Inl e)
      then have "run_node n g = Inl e" using cur sc ne by (simp add: run_node.simps upd_cur_def)
      then show ?thesis using run node_at_error [OF Inl] by simp
    next
      case (Inr r)
      show ?thesis
      proof (cases r)
        case None
        have "novel_run n (?set (?c\<lparr>p := last_inc (butlast (p cur))\<rparr>)) \<noteq> Inl Fuel"
          using Suc.prems(2) run_measure_backtrack [OF ne] by (intro ih) simp_all
        then show ?thesis using run run_node_missing [OF cur sc ne] Inr None by simp
      next
        case (Some nd)
        have nd: "node_at (scripts sc) (p cur) = Inr (Some nd)" using Inr Some by simp
        have cn: "calm nd" and lt: "last (p cur) < last (lens (scripts sc) (p cur))"
          using node_at_node [OF nd calm] by simp_all
        have adv: "run_measure (scripts sc) (last_inc (p cur)) < run_measure (scripts sc) (p cur)"
          by (rule run_measure_advance [OF ne lt])
        note unf = cur sc ne nd run_node.simps upd_cur_def Let_def advance_def
        show ?thesis
        proof (cases nd)
          case (Background b)
          have "novel_run n (?set (?c\<lparr>background := Some b, p := last_inc (p cur)\<rparr>)) \<noteq> Inl Fuel"
            using Suc.prems(2) adv by (intro ih) simp_all
          then show ?thesis using run Background by (simp add: unf)
        next
          case ForgetSkill
          have "bindE (forget_skill ?c (?set ?c)) (\<lambda>g1. novel_run n (upd_cur advance g1)) \<noteq> Inl Fuel"
          proof (rule bindE_not_fuel [OF forget_skill_not_fuel])
            fix g1
            assume f: "forget_skill ?c (?set ?c) = Inr g1"
            have "novel_system g1 = (novel_system g)\<lparr>ns_current := Some ?c\<rparr>"
              using forget_skill_novel [OF f] by simp
            moreover have "novel_run n (g1\<lparr>novel_system := (novel_system g1)\<lparr>ns_current := Some (?c\<lparr>p := last_inc (p cur)\<rparr>)\<rparr>\<rparr>) \<noteq> Inl Fuel"
              using Suc.IH [of _ "?c\<lparr>p := last_inc (p cur)\<rparr>"] Suc.prems adv calculation by simp
            ultimately show "novel_run n (upd_cur advance g1) \<noteq> Inl Fuel"
              by (simp add: upd_cur_def advance_def)
          qed
          moreover have "run_node n g = bindE (forget_skill ?c (?set ?c)) (\<lambda>g1. novel_run n (upd_cur advance g1))"
            using ForgetSkill by (simp add: unf)
          ultimately show ?thesis using run by simp
        next
          case PracticeSkill
          let ?g1 = "practice_skill (cs_character_id cur) (upd_cur advance (?set ?c))"
          have "novel_system ?g1 = (novel_system g)\<lparr>ns_current := Some (?c\<lparr>p := last_inc (p cur)\<rparr>)\<rparr>"
            by (simp add: upd_cur_def advance_def)
          then have "novel_run n ?g1 \<noteq> Inl Fuel"
            using Suc.IH [of ?g1 "?c\<lparr>p := last_inc (p cur)\<rparr>"] Suc.prems adv by simp
          moreover have "run_node n g = novel_run n ?g1" using PracticeSkill by (simp add: unf)
          ultimately show ?thesis using run by simp
        next
          case (CharacterMove scr x y)
          then have "run_node n g = character_move_node ?c scr x y (upd_cur advance (?set ?c))"
            by (simp add: cur sc ne nd run_node.simps upd_cur_def Let_def)
          then show ?thesis using run character_move_node_not_fuel by simp
        qed (use run cn in \<open>simp_all add: unf\<close>)
      qed
    qed
  qed
qed

text \<open>Why \<open>Restart\<close> is excluded: it sets the cursor to \<open>[0]\<close> and runs again, so on a
  script that starts with \<open>Restart\<close> a cursor on any \<open>Restart\<close> node never returns.\<close>

lemma restart_first_diverges:
  assumes "ns_current (novel_system g) = Some cur" and "cs_command_id cur = None"
    and "map_of (novel_scripts (novel_system g)) (cs_id cur) = Some sc" and "hd (scripts sc) = Restart"
    and "scripts sc \<noteq> []" and "node_at (scripts sc) (p cur) = Inr (Some Restart)"
  shows "novel_run n g = Inl Fuel"
  using assms
proof (induction n arbitrary: g cur)
  case 0
  then show ?case by simp
next
  case (Suc n)
  have ne: "p cur \<noteq> []" using Suc.prems(6) by (auto simp: node_at_def)
  let ?c = "cur\<lparr>select := None, p := [0]\<rparr>"
  let ?g' = "g\<lparr>novel_system := (novel_system g)\<lparr>ns_current := Some ?c\<rparr>\<rparr>"
  have "novel_run (Suc n) g = novel_run n ?g'"
    using novel_run_no_command [OF Suc.prems(1,2)] Suc.prems(1,3,6) ne
    by (simp add: run_node.simps upd_cur_def Let_def)
  also have "\<dots> = Inl Fuel"
  proof (rule Suc.IH [of _ ?c])
    show "node_at (scripts sc) (p ?c) = Inr (Some Restart)"
      using Suc.prems(4,5) by (cases "scripts sc") (simp_all add: node_at_def)
  qed (use Suc.prems in simp_all)
  finally show ?case .
qed

end
