(* ===== verification/Spec2Isabelle.thy ===== *)
theory Spec2Isabelle
  imports App Stats Image_Cache Novel_Run
begin

text \<open>
  Verification development for the simulation core of the turn-based tactical RPG
  \<open>tower\<close> (src/src/core). The core is one mutable registry, \<open>Game\<close> (game.rs),
  of id-keyed \<open>HashMap\<close> tables (characters, actions, commands, tiles, scripts,
  ...) and four subsystems that step it: the turn scheduler \<open>TurnSystem\<close>
  (turn.rs), the command lifecycle \<open>Command\<close> (command.rs, action.rs,
  character.rs), the dialogue interpreter \<open>NovelSystem\<close> (novel.rs) and the floor
  controller \<open>FloorSystem\<close> (floor.rs), with the shop (shop.rs) and area triggers
  (area.rs). They call each other re-entrantly: a command's end may move a character
  onto a teleport, which advances the floor, which opens a boss dialogue, which issues
  a command and runs it to its end.

  \<^bold>\<open>Modelling conventions.\<close> The embedding is shallow and executable. A
  \<open>HashMap<i32, V>\<close> is an association list \<open>(int, V) table\<close> read with
  \<open>map_of\<close> and written with \<open>AList.update\<close>/\<open>AList.delete\<close>; its iteration
  order is the list order, and every theorem holds for every order. \<open>i32\<close> values
  are \<open>int\<close> (the code never overflows them except through \<open>i32::MAX\<close>, which is
  the constant \<open>i32_max\<close>), \<open>usize\<close> indices are \<open>nat\<close>, \<open>f32\<close> values are
  \<open>real\<close>. A routine that can panic (an \<open>unwrap\<close> on a missing id, an index out of
  range, a \<open>panic!()\<close> arm) returns \<open>error + 'a\<close>: \<open>Inl Missing\<close> or \<open>Inl Panic\<close>
  (Prelude.thy). Recursion the code does not bound carries a budget and returns
  \<open>Inl Fuel\<close> when it is spent: \<open>turn_update\<close> (the frame loop of
  \<open>TurnSystem::update\<close>) takes at most \<open>n\<close> state-machine steps, and the mutually
  recursive \<open>novel_run\<close>/\<open>clear_loop\<close>/\<open>run_node\<close> (\<open>NovelSystem::run\<close>) spend
  one unit per nested call. Every terminating behaviour of the code is reached with
  a large enough budget, and a claim that the code returns is proved as such
  (\<open>Inr\<close> for the budget stated); a claim that it does not is proved for every
  budget. The re-entrant call \<open>Game::start_novel\<close> is the parameter
  \<open>sn :: novel_hook\<close> of the floor, command and scheduler definitions, so that
  they can be stated before the interpreter; Novel.thy and Game.thy instantiate it
  with \<open>start_novel n\<close>, the interpreter one level down.

  \<^bold>\<open>Theories.\<close>
  \<^item> Prelude: the error sum and its bind, tables, \<open>fresh_id\<close> (the code's
    \<open>1 + max key\<close>), \<open>Vec\<close> indexing (\<open>nth_opt\<close>, \<open>get_i32\<close>, \<open>vec_remove\<close>)
    and the cursor increment \<open>last_inc\<close>, with their lemmas; the collection
    \<open>queue_same\<close> of operations that leave the turn queue alone.
  \<^item> Basics: \<open>Attribute\<close>, \<open>Position\<close>, \<open>Character\<close> and its crowd control,
    items and known actions; \<open>current\<close>, \<open>distance\<close>, \<open>turn_end\<close>,
    \<open>set_experience\<close>, \<open>gain_exp\<close>. Claims C9 (levelling) and C10 (crowd-control
    decay).
  \<^item> Registry: every other record and enum of the core and the \<open>game\<close> record; the
    registry queries of game.rs (\<open>character_at_position\<close>, \<open>characters_in_range\<close>,
    \<open>characters_in_square\<close>, \<open>teleportation_at_position\<close>), \<open>set_character_command\<close>,
    \<open>add_player_command\<close>, \<open>open_shop\<close>. Claim C19 (the input gate).
  \<^item> Turn_Queue: \<open>Game::add_turn\<close> (\<open>queue_insert\<close>), the pop of
    \<open>TurnSystem::empty\<close>, the \<open>retain\<close> of \<open>take_damage\<close>, the invariant
    \<open>queue_ok\<close>, the factories \<open>new_player_character\<close>/\<open>new_enemy\<close>. Claim C1
    (insertion is a stable sort, a refinement of \<open>sort_key\<close>), with the lemma that ties
    are first-in first-out.
  \<^item> Effects: \<open>EffectKind::effective_characters\<close>, \<open>Character::take_damage\<close>, area
    triggers (\<open>Game::character_position_changed\<close>). Claims C4, C5 (damage
    thresholds), C7, C8 (targeting).
  \<^item> Floor: \<open>FloorSystem::next\<close> and \<open>Game::character_set_position\<close>.
  \<^item> Command: \<open>Command::new/start/update/end\<close> with every action kind's effect,
    \<open>Game::move_command\<close>. Claims C6 (move resolution), C17 (target errors), C18
    (costs).
  \<^item> Turn: the six states of \<open>TurnSystem\<close>, the enemy and boss AI, the frame loop
    \<open>turn_update\<close>, and the progress of a running command over the frames of the
    event loop (\<open>frames\<close>). Claims C3 (pause), C14 (the AI's step), C15 (nearest target),
    C16 (re-queueing at the end of a turn), C27 (a running command reaches its duration
    after exactly \<open>\<lceil>(duration - elapsed) / delta\<rceil> - 1\<close> frames).
  \<^item> Novel: the interpreter and its branch lemmas. Claim C12 (an \<open>If\<close> never
    returns).
  \<^item> Novel_Run: when the interpreter returns. \<open>calm\<close> scripts have no \<open>If\<close>,
    \<open>Restart\<close> or \<open>CharacterChangePosition\<close> node; \<open>lens\<close> gives the length of the
    list each index of the cursor ranges over and \<open>run_measure\<close> the depth of the cursor
    plus the positions left at each level. Claim C2 (on a calm script every budget
    above the measure of the cursor is enough: \<open>run\<close> returns or panics, and never
    exhausts the budget).
  \<^item> Game: \<open>Game::update\<close>, \<open>NovelSystem::update\<close>, the dialogue and shop inputs.
  \<^item> Invariant: \<open>qok\<close>, the turn-queue invariant on a whole game, and its
    preservation by every operation, bottom up: the operations of \<open>queue_same\<close>, the
    effects, the floor controller, the command lifecycle, each scheduler state, the frame
    loop by induction on its budget, and the interpreter by induction on its budget
    through the hook interface \<open>hook_ok\<close> (a hook that keeps \<open>qok\<close>), discharged for
    \<open>start_novel n\<close> by induction on \<open>n\<close>.
  \<^item> Scenes: the application around the core (scene.rs, data.rs, src/src/scenes,
    \<open>MainState\<close> of main.rs). \<open>Data\<close> is the record \<open>scene_data\<close>; each scene is a
    constructor of \<open>scene\<close> carrying its own state (a menu's cursor, the target
    cursor); \<open>update\<close> and \<open>key_down_event\<close> of each scene are \<open>*_update\<close> and
    \<open>*_key_down\<close>, returning the new data, the scene and the \<open>Transition\<close>;
    \<open>SceneStack\<close> is a list with its top last, and \<open>stack_update\<close>/\<open>stack_key_down\<close>
    run the top scene and apply the transition. A frame passes the interpreter budget
    \<open>n\<close> to \<open>game_update\<close>. Claims C21 (menu cursors in bounds), C22 (target cursor
    moves undo each other), C23 (pause menu round trip), C24 (a move key issues the
    player's command), C25 (the queue invariant for the running application).
  \<^item> Rendering: the drawing side (rendering.rs, \<open>LevelScene::draw\<close>) as the list of
    draw calls a frame issues. \<open>RenderingParam\<close> is a record with its builders;
    \<open>draw_image\<close>, \<open>draw_at\<close> (\<open>Rendering::draw\<close>) and \<open>screen_dest\<close>
    (\<open>Rendering::dest\<close>) cull to the camera's square and map cells to pixels; the
    asset tables only drawing reads are the record \<open>render_tables\<close>; image loading is
    the parameter \<open>imgs\<close>; the nested \<open>for\<close> loops are \<open>concat_mapE\<close>. Claims C29
    (nothing drawn outside the frame), C30 (the transform round-trips), C31 (the
    frame selection equals a clamped index and plays forward), C32 (the whole map
    view stays inside its frame), C33 (exactly when the map view draws without a
    panic).
  \<^item> Scene_Draw: the \<open>draw\<close> methods of the menu scenes (action, ability, dialogue,
    shop, pause and target scenes) and \<open>SceneStack::draw\<close>, which draws the stack from
    the bottom up and keeps the state each scene's draw writes (the dialogue scene
    resets its cursor there). Menus lay buttons out with \<open>grid_slot\<close> (column
    \<open>i / rows\<close>, row \<open>i % rows\<close>), the dialogue and shop lists with \<open>list_slot\<close>.
    Claims C34 (the highlight is on the selected button, and the layouts are
    injective), C35 (after buying, the shop shows one more owned, whatever the stock),
    C36 (the dialogue cursor survives a choice that leads to another choice), C39 (the
    whole stack draws whenever images load, sprites and animations are well formed and
    the open shop's items exist: the only ways a draw can fail).
  \<^item> Stats: the stats panel (ui/stats.rs). \<open>format!\<close> is its literal pieces with the
    printed arguments between them (\<open>format_pieces\<close>), \<open>i32\<close>'s \<open>Display\<close> is
    \<open>dec_i32\<close>; \<open>stats_new\<close> is the panel's text and \<open>stats_panel\<close> the text drawn
    at the panel's position, which the call \<open>DrawStats\<close> of the map view and the
    target scene stands for. A parser of such texts (\<open>parse_pieces\<close>) reads the
    numbers back. Claim C37 (the text round-trips to the six stats it shows).
  \<^item> Image_Cache: \<open>ImageCache\<close> of data.rs, the table of loaded images that
    \<open>get\<close> fills on a miss, and \<open>draw_loaded_cached\<close>, an image drawn through it.
    Claim C40 (the cache refines the pure loader \<open>imgs\<close> the drawing theories use:
    from a consistent cache, \<open>get\<close> returns the loader's image or error, keeps the cache
    consistent, and a draw through it issues the calls of \<open>draw_loaded\<close>).
  \<^item> App: \<open>MainState\<close> of main.rs. \<open>MainState::new\<close> is \<open>main_new\<close>: the
    nineteen resource files are the record \<open>game_files\<close> of their parsed contents
    (\<open>None\<close> for a file that does not open or parse, where the code's \<open>unwrap\<close>
    panics), \<open>load_game\<close> builds the game and the drawing tables in the code's order.
    The \<open>EventHandler\<close> methods are the steps of \<open>main_event\<close> (update, draw,
    key press); the states the event loop can reach are the inductive relation
    \<open>reachable\<close>, any interleaving of steps that return, each frame with its own
    interpreter budget; \<open>run_events\<close> runs a given sequence of events. Claim C38 (the
    stack shape and the sorted queue hold in every reachable state, by rule induction),
    and the lemma that the reachable states are exactly the ends of the runs of
    \<open>run_events\<close>.
  \<^item> Spec2Isabelle (this theory): concrete games (\<open>two_chars\<close>: the player and one
    enemy made by the factories; \<open>arena\<close>: the same on a walkable 10 by 10 map;
    \<open>dialogue_game\<close>, \<open>if_game\<close>, \<open>two_choices\<close>: one script each;
    \<open>sold_out_shop\<close>: a shop whose one item has stock 0; \<open>scenery_game\<close>,
    \<open>restart_game\<close>: scripts that set backgrounds, and that start with \<open>Restart\<close>;
    \<open>files_of\<close>: the resource files
    holding a given game; \<open>forgetful\<close>: a character
    with a dangling known action; \<open>in_flight\<close>: a command that has just started its
    frames), the witnesses that apply each conditional claim to
    them, claim C11 (the dialogue traversal of spec 8.8, computed), C13 (a livelock of
    \<open>Game::update\<close>), C20 (the queue invariant for every entry point of \<open>Game\<close>)
    and C26 (the ability menu's index against \<open>ForgetSkill\<close>).

  \<^bold>\<open>Not modelled.\<close> The shop's item panel text (a \<open>format!\<close> with a string
  argument: its draw call names the count and the description), the fonts and pixel
  metrics of text, and image decoding (an image is its size; the loader \<open>imgs\<close> says
  whether and at what size an image loads):
  they change no state. In main.rs, the logger (\<open>setup_logger\<close>), the window and
  context set-up of \<open>main\<close>, the opening of the resource files and their RON
  parsing are I/O; \<open>MainState::new\<close> is modelled from the parsed contents on.
  core/mod.rs only re-exports. Serialisation (serde derives) is not modelled.
  The enum \<open>CrowdControlKind\<close> of character.rs is declared but used nowhere, so
  no definition models it; the \<open>use\<close> lines and derives of every file are not
  code the map can cover.
  Floating-point rounding of \<open>f32\<close> is not modelled: durations, offsets and screen
  coordinates are reals, and \<open>i32\<close> products in the drawing code are unbounded.
\<close>

definition empty_game :: game where
  "empty_game =
     \<lparr>characters = [], character_actions = [], commands = [], actions = [], items = [],
      tile_maps = [], teleportations = [], tiles = [], character_sprites = [],
      sprite_animations = [], areas = [],
      camera = \<lparr>cam_character_id = 1, cam_extend = 0, tile_size = 0, border = 0\<rparr>,
      turn_system = \<lparr>turn_queue = [], current_turn = None, waiting_input = False,
                     ts_state = Empty, ts_pause = False\<rparr>,
      novel_system = \<lparr>ns_pause = False, novel_scripts = [], ns_current = None\<rparr>,
      shop_system = \<lparr>shop_current = None\<rparr>,
      floor_system = \<lparr>fs_pause = False, fs_current = None\<rparr>\<rparr>"

definition two_chars :: game where
  "two_chars = fst (new_enemy (new_player_character empty_game))"

definition paused :: "game \<Rightarrow> game" where
  "paused g = g\<lparr>turn_system := (turn_system g)\<lparr>ts_pause := True\<rparr>\<rparr>"

definition arena :: game where
  "arena = two_chars\<lparr>tile_maps := [(0, \<lparr>tm_id = 0, tm_tiles = replicate 10 (replicate 10 1)\<rparr>)],
                      tiles := [(1, \<lparr>walkable = True, tile_kind = Tile_Image ''grass''\<rparr>)]\<rparr>"

definition far_enemy :: game where
  "far_enemy = two_chars\<lparr>characters :=
     [(1, new_character 1 Player Human 1 8945 20 20 [1, 2, 3, 4]),
      (2, (new_character 2 Enemy Demon 2 0 1 10 [5, 6, 7, 8])\<lparr>position := \<lparr>map_id = 7, pos_x = 5, pos_y = 8\<rparr>\<rparr>)]\<rparr>"

definition dialogue_game :: game where
  "dialogue_game = empty_game\<lparr>novel_system := \<lparr>ns_pause = False,
     novel_scripts = [(1, \<lparr>sc_id = 1, scripts =
       [Text ''a'', Select [(''x'', [Text ''b'']), (''y'', [Text ''c''])]]\<rparr>)],
     ns_current = None\<rparr>\<rparr>"

definition scenery_game :: game where
  "scenery_game = empty_game\<lparr>novel_system := \<lparr>ns_pause = False,
     novel_scripts = [(1, \<lparr>sc_id = 1, scripts =
       [Background BNone, Background (Color 0 0 0 255), ForgetSkill, Text ''a'']\<rparr>)],
     ns_current = None\<rparr>\<rparr>"

definition restart_game :: game where
  "restart_game = empty_game\<lparr>novel_system := \<lparr>ns_pause = False,
     novel_scripts = [(1, \<lparr>sc_id = 1, scripts = [Restart, Text ''a'']\<rparr>)],
     ns_current = None\<rparr>\<rparr>"

definition two_choices :: game where
  "two_choices = empty_game\<lparr>novel_system := \<lparr>ns_pause = False,
     novel_scripts = [(1, \<lparr>sc_id = 1, scripts =
       [Select [(''a'', []), (''b'', []), (''c'', [])], Select [(''x'', []), (''y'', [])]]\<rparr>)],
     ns_current = Some \<lparr>cs_id = 1, cs_character_id = 1, cs_target_id = 2, p = [0], history = [],
       select = Some [''a'', ''b'', ''c''], select_ability_character_action_index = None,
       waiting_select_ability = False, cs_command_id = None, background = None\<rparr>\<rparr>\<rparr>"

definition sold_out_shop :: game where
  "sold_out_shop = empty_game\<lparr>
     characters := [(1, new_character 1 Player Human 1 0 20 20 []),
                    (2, (new_character 2 NPC Human 1 0 20 20 [])\<lparr>ch_shop :=
                          Some \<lparr>shop_id = 1, shop_items = [\<lparr>si_item_id = 10, stock = Some 0\<rparr>]\<rparr>\<rparr>)],
     items := [(10, \<lparr>it_id = 10, item_name = ''potion'', item_description = ''heals'', item_kind = Potion\<rparr>)],
     shop_system := \<lparr>shop_current = Some \<lparr>csh_character_id = 1, shop_character_id = 2\<rparr>\<rparr>\<rparr>"

definition dialogue_view :: "game \<Rightarrow> (string list \<times> nat list \<times> string list option) option" where
  "dialogue_view g = map_option (\<lambda>c. (history c, p c, select c)) (ns_current (novel_system g))"

definition if_game :: game where
  "if_game = empty_game\<lparr>novel_system := \<lparr>ns_pause = False,
     novel_scripts = [(1, \<lparr>sc_id = 1, scripts = [If Condition [Text ''never'']]\<rparr>)],
     ns_current = None\<rparr>\<rparr>"

definition idle_action :: action where
  "idle_action = \<lparr>act_id = 1, name = ''Idle'', description = '''', act_hp = None, act_mp = None,
     action_kind = Idle, target_kind = TKNone, effect_kind = EKCharacter, act_range = 0,
     duration = 1, act_cooldown = 0, animation = None\<rparr>"

definition lone_npc :: game where
  "lone_npc = empty_game\<lparr>
     characters := [(1, (new_character 1 Player Human 1 0 1 20 [])\<lparr>defeated := True, hidden := True\<rparr>),
                    (2, (new_character 2 NPC Human 0 0 1 10 [1])\<lparr>position := \<lparr>map_id = 1, pos_x = 0, pos_y = 0\<rparr>\<rparr>)],
     character_actions := [(1, new_character_action 1)],
     actions := [(1, idle_action)],
     turn_system := \<lparr>turn_queue = [\<lparr>time = 1, kind = Character_Turn 2\<rparr>], current_turn = None,
                     waiting_input = False, ts_state = Empty, ts_pause = False\<rparr>\<rparr>"

definition ending_turn :: game where
  "ending_turn = two_chars\<lparr>turn_system := \<lparr>turn_queue = [\<lparr>time = 0, kind = Character_Turn 2\<rparr>],
     current_turn = Some \<lparr>time = 0, kind = Character_Turn 1\<rparr>, waiting_input = False,
     ts_state = EndTurn, ts_pause = False\<rparr>\<rparr>"

definition move_action :: action where
  "move_action = idle_action\<lparr>name := ''Move'', action_kind := Move, target_kind := TKPosition\<rparr>"

definition armed :: game where
  "armed = two_chars\<lparr>actions := [(1, move_action)]\<rparr>"

definition pending_command :: command where
  "pending_command = \<lparr>cmd_character_id = 1, cmd_action_id = 1, target = TNone, elapsed_time = 0,
     data = CDNone, sprite_animation_id = None, cmd_state = New\<rparr>"

definition charging :: game where
  "charging = two_chars\<lparr>actions := [(1, idle_action\<lparr>act_hp := Some 3, act_mp := Some 5\<rparr>)],
     commands := [(1, pending_command)]\<rparr>"

definition walker :: game where
  "walker = arena\<lparr>characters := [(1, new_character 1 Player Human 1 0 1 20 [1])],
     character_actions := [(1, new_character_action 1)], actions := [(1, move_action)],
     turn_system := \<lparr>turn_queue = [], current_turn = Some \<lparr>time = 0, kind = Character_Turn 1\<rparr>,
                     waiting_input = True, ts_state = StartCommand, ts_pause = False\<rparr>\<rparr>"

definition forgetful :: game where
  "forgetful = empty_game\<lparr>characters := [(1, new_character 1 Player Human 1 0 1 20 [7, 8])],
     character_actions := [(8, new_character_action 3)], actions := [(3, idle_action\<lparr>act_id := 3\<rparr>)]\<rparr>"

definition picking :: current_script where
  "picking = \<lparr>cs_id = 1, cs_character_id = 1, cs_target_id = 1, p = [0], history = [], select = None,
     select_ability_character_action_index = Some 0, waiting_select_ability = False,
     cs_command_id = None, background = None\<rparr>"

definition in_flight :: game where
  "in_flight = empty_game\<lparr>
     characters := [(1, (new_character 1 Player Human 1 0 1 20 [1])\<lparr>command_id := Some 1\<rparr>)],
     commands := [(1, pending_command\<lparr>cmd_state := Started\<rparr>)], actions := [(1, idle_action)],
     turn_system := \<lparr>turn_queue = [], current_turn = Some \<lparr>time = 0, kind = Character_Turn 1\<rparr>,
                     waiting_input = False, ts_state = UpdateCommand, ts_pause = False\<rparr>\<rparr>"

definition drawn :: game where
  "drawn = arena\<lparr>
     character_sprites := [(1, \<lparr>spr_id = 1, avatar = ''/images/player.png'', spr_animation = []\<rparr>),
                           (2, \<lparr>spr_id = 2, avatar = ''/images/demon.png'', spr_animation = []\<rparr>)],
     camera := \<lparr>cam_character_id = 1, cam_extend = 1, tile_size = 64, border = 8\<rparr>\<rparr>"

definition drawn_bad :: game where
  "drawn_bad = drawn\<lparr>sprite_animations :=
     [(1, \<lparr>ae_id = 1, ae_animation = SpriteSequence 9, percentage = 0,
            ae_position = \<lparr>map_id = 0, pos_x = 5, pos_y = 8\<rparr>\<rparr>)]\<rparr>"

definition no_sheets :: render_tables where
  "no_sheets = \<lparr>tile_sheets = [], sprite_sheets = [], sprite_sequences = []\<rparr>"

definition files_of :: "game \<Rightarrow> render_tables \<Rightarrow> game_files" where
  "files_of g rt = \<lparr>f_characters = Some (characters g), f_commands = Some (commands g),
     f_character_actions = Some (character_actions g), f_actions = Some (actions g),
     f_items = Some (items g), f_tile_maps = Some (tile_maps g),
     f_teleportations = Some (teleportations g), f_tiles = Some (tiles g),
     f_tile_sheets = Some (tile_sheets rt), f_character_sprites = Some (character_sprites g),
     f_sprite_sheets = Some (sprite_sheets rt), f_sprite_sequences = Some (sprite_sequences rt),
     f_sprite_animations = Some (sprite_animations g), f_areas = Some (areas g),
     f_camera = Some (camera g), f_turn_system = Some (turn_system g),
     f_novel_system = Some (novel_system g), f_shop_system = Some (shop_system g),
     f_floor_system = Some (floor_system g)\<rparr>"

lemma two_chars_characters:
  "characters two_chars =
     [(1, new_character 1 Player Human 1 8945 20 20 [1, 2, 3, 4]),
      (2, new_character 2 Enemy Demon 2 0 1 10 [5, 6, 7, 8])]"
  by (simp add: two_chars_def new_enemy_def new_player_character_def spawn_character_def
      fresh_id_def add_turn_def queue_insert_def empty_game_def Let_def map_turn_system_def)

lemma two_chars_queue:
  "turn_queue (turn_system two_chars) =
     [\<lparr>time = 0, kind = Character_Turn 1\<rparr>, \<lparr>time = 0, kind = Character_Turn 2\<rparr>]"
  by (simp add: two_chars_def new_enemy_def new_player_character_def spawn_character_def
      fresh_id_def add_turn_def queue_insert_def empty_game_def Let_def)

lemma two_chars_teleportations: "teleportations two_chars = []"
  by (simp add: two_chars_def new_enemy_def new_player_character_def spawn_character_def
      Let_def add_turn_def empty_game_def fresh_id_def map_turn_system_def)

lemma two_chars_systems:
  "turn_system two_chars = \<lparr>turn_queue = [\<lparr>time = 0, kind = Character_Turn 1\<rparr>, \<lparr>time = 0, kind = Character_Turn 2\<rparr>],
     current_turn = None, waiting_input = False, ts_state = Empty, ts_pause = False\<rparr>"
  "novel_system two_chars = \<lparr>ns_pause = False, novel_scripts = [], ns_current = None\<rparr>"
  "camera two_chars = \<lparr>cam_character_id = 1, cam_extend = 0, tile_size = 0, border = 0\<rparr>"
  "shop_system two_chars = \<lparr>shop_current = None\<rparr>"
  by (simp_all add: two_chars_def new_enemy_def new_player_character_def spawn_character_def
      fresh_id_def add_turn_def queue_insert_def empty_game_def Let_def map_turn_system_def)

lemmas dialogue_steps = run_node_end run_node_missing run_node_text run_node_select
  start_novel_def novel_start_state_def dialogue_game_def empty_game_def node_at_def
  select_option_def upd_cur_def advance_def backtrack_def dialogue_view_def end_novel_def

lemma lone_npc_cycle: "run_steps sn delta 6 lone_npc = Some lone_npc"
  by (simp add: numeral_eq_Suc lone_npc_def empty_game_def idle_action_def new_character_def
      new_character_action_def turn_step_def ts_empty_def pop_turn_def start_turn_def
      start_character_turn_def act_by_controller_def add_command_def find_action_def
      command_new_def new_data_def new_animation_def set_character_command_def fresh_id_def
      start_command_def current_char_def command_start_def pay_cost_def add_opt_def
      update_command_def end_command_def command_end_def resolve_effect_def end_turn_def
      set_current_turn_def add_turn_def queue_insert_def map_char_def turn_end_def zero_cc_def
      set_state_def map_turn_system_def Let_def fresh_attr_def)


theorem add_turn_stable_sort_witness:
  "sorted (map time (turn_queue (turn_system two_chars))) \<and>
   turn_queue (turn_system (add_turn \<lparr>time = 1, kind = Respawn 3\<rparr> two_chars)) =
     [\<lparr>time = 0, kind = Character_Turn 1\<rparr>, \<lparr>time = 0, kind = Character_Turn 2\<rparr>,
      \<lparr>time = 1, kind = Respawn 3\<rparr>]"
  using add_turn_stable_sort [of two_chars "\<lparr>time = 1, kind = Respawn 3\<rparr>"]
  by (simp add: two_chars_queue)

text \<open>The example of the specification: turns at times 5, 2, 8, 2 inserted in this
  order come out as 2, 2, 5, 8, the two turns at time 2 in their call order.\<close>

theorem add_turn_fifo_ties_witness:
  "sorted (map time [\<lparr>time = 2, kind = Character_Turn 2\<rparr>, \<lparr>time = 5, kind = Character_Turn 1\<rparr>,
                     \<lparr>time = 8, kind = Character_Turn 3\<rparr>]) \<and>
   queue_insert \<lparr>time = 2, kind = Character_Turn 4\<rparr>
     (fold queue_insert [\<lparr>time = 5, kind = Character_Turn 1\<rparr>, \<lparr>time = 2, kind = Character_Turn 2\<rparr>,
        \<lparr>time = 8, kind = Character_Turn 3\<rparr>] []) =
   [\<lparr>time = 2, kind = Character_Turn 2\<rparr>, \<lparr>time = 2, kind = Character_Turn 4\<rparr>,
    \<lparr>time = 5, kind = Character_Turn 1\<rparr>, \<lparr>time = 8, kind = Character_Turn 3\<rparr>] \<and>
   filter (\<lambda>u. time u = 2) (queue_insert \<lparr>time = 2, kind = Character_Turn 4\<rparr>
     [\<lparr>time = 2, kind = Character_Turn 2\<rparr>, \<lparr>time = 5, kind = Character_Turn 1\<rparr>,
      \<lparr>time = 8, kind = Character_Turn 3\<rparr>]) =
   [\<lparr>time = 2, kind = Character_Turn 2\<rparr>, \<lparr>time = 2, kind = Character_Turn 4\<rparr>]"
  using add_turn_fifo_ties [of "[\<lparr>time = 2, kind = Character_Turn 2\<rparr>, \<lparr>time = 5, kind = Character_Turn 1\<rparr>,
                     \<lparr>time = 8, kind = Character_Turn 3\<rparr>]" "\<lparr>time = 2, kind = Character_Turn 4\<rparr>"]
  by (simp add: queue_insert_def)

theorem turn_update_paused_witness:
  "ts_pause (turn_system (paused two_chars)) \<and>
   turn_update (start_novel 3) (Suc 3) (1/2) (paused two_chars) = Inr (paused two_chars)"
  using turn_update_paused [of "paused two_chars" "start_novel 3" 3 "1/2"]
  by (simp add: paused_def)

text \<open>The example of the specification: the enemy (10 hp) takes 10 damage from the
  player: it is defeated and hidden but not dead, the player gains one experience point,
  and the enemy's turn leaves the queue.\<close>

theorem take_damage_defeat_witness:
  "map_of (characters two_chars) 2 = Some (new_character 2 Enemy Demon 2 0 1 10 [5, 6, 7, 8]) \<and>
   map_of (characters two_chars) 1 = Some (new_character 1 Player Human 1 8945 20 20 [1, 2, 3, 4]) \<and>
   (1::int) \<noteq> 2 \<and> \<not> defeated (new_character 2 Enemy Demon 2 0 1 10 [5, 6, 7, 8]) \<and>
   current (hp (new_character 2 Enemy Demon 2 0 1 10 [5, 6, 7, 8])) - 10 \<le> 0 \<and>
   (\<exists>g' c' s'. take_damage 10 2 1 two_chars = Inr g'
     \<and> map_of (characters g') 2 = Some c' \<and> defeated c' \<and> hidden c' \<and> \<not> dead c'
     \<and> map_of (characters g') 1 = Some s' \<and> experience s' = 8946
     \<and> turn_queue (turn_system g') = [\<lparr>time = 0, kind = Character_Turn 1\<rparr>])"
proof -
  have c: "map_of (characters two_chars) 2 = Some (new_character 2 Enemy Demon 2 0 1 10 [5, 6, 7, 8])"
    and s: "map_of (characters two_chars) 1 = Some (new_character 1 Player Human 1 8945 20 20 [1, 2, 3, 4])"
    by (simp_all add: two_chars_characters)
  have low: "current (hp (new_character 2 Enemy Demon 2 0 1 10 [5, 6, 7, 8])) - 10 \<le> 0"
    and nd: "\<not> defeated (new_character 2 Enemy Demon 2 0 1 10 [5, 6, 7, 8])"
    by (simp_all add: new_character_def current_def fresh_attr_def)
  from take_damage_defeat [OF c s _ nd low] show ?thesis
    using c s low nd
    by (simp add: new_character_def current_def fresh_attr_def two_chars_queue retain_turns_def keep_turn_def)
qed

theorem take_damage_death_after_defeat_witness:
  "map_of (characters (two_chars\<lparr>characters := [(2, (new_character 2 Enemy Demon 2 0 1 10 [])\<lparr>defeated := True\<rparr>)]\<rparr>)) 2
     = Some ((new_character 2 Enemy Demon 2 0 1 10 [])\<lparr>defeated := True\<rparr>) \<and>
   current (hp ((new_character 2 Enemy Demon 2 0 1 10 [])\<lparr>defeated := True\<rparr>)) - 1010 \<le> -1000 \<and>
   (\<exists>c'. take_damage 1010 2 1 (two_chars\<lparr>characters := [(2, (new_character 2 Enemy Demon 2 0 1 10 [])\<lparr>defeated := True\<rparr>)]\<rparr>) =
       Inr (two_chars\<lparr>characters := [(2, c')]\<rparr>) \<and> dead c' \<and> hidden c' \<and> defeated c')"
  using take_damage_death_after_defeat
    [of "two_chars\<lparr>characters := [(2, (new_character 2 Enemy Demon 2 0 1 10 [])\<lparr>defeated := True\<rparr>)]\<rparr>"
        2 "(new_character 2 Enemy Demon 2 0 1 10 [])\<lparr>defeated := True\<rparr>" 1010 1]
  by (auto simp: new_character_def current_def fresh_attr_def)


text \<open>A player on a walkable 10 by 10 map steps from (5, 8) to the free tile (5, 9).\<close>

theorem resolve_move_lands_witness:
  "map_of (characters arena) 1 = Some (new_character 1 Player Human 1 8945 20 20 [1, 2, 3, 4]) \<and>
   teleportation_at_position arena
     (move_destination arena \<lparr>map_id = 0, pos_x = 5, pos_y = 8\<rparr> \<lparr>map_id = 0, pos_x = 5, pos_y = 9\<rparr>) = None \<and>
   (\<exists>g' c'. resolve_move (start_novel 3) 1 \<lparr>map_id = 0, pos_x = 5, pos_y = 8\<rparr> \<lparr>map_id = 0, pos_x = 5, pos_y = 9\<rparr> arena = Inr g'
     \<and> map_of (characters g') 1 = Some c' \<and> position c' = \<lparr>map_id = 0, pos_x = 5, pos_y = 9\<rparr>
     \<and> offset_x c' = 0 \<and> offset_y c' = 0)"
proof -
  have c: "map_of (characters arena) 1 = Some (new_character 1 Player Human 1 8945 20 20 [1, 2, 3, 4])"
    by (simp add: arena_def two_chars_characters)
  have tp: "teleportation_at_position arena
     (move_destination arena \<lparr>map_id = 0, pos_x = 5, pos_y = 8\<rparr> \<lparr>map_id = 0, pos_x = 5, pos_y = 9\<rparr>) = None"
    by (simp add: teleportation_at_position_def arena_def two_chars_teleportations)
  have w: "is_walkable arena \<lparr>map_id = 0, pos_x = 5, pos_y = 9\<rparr>"
    by (simp add: is_walkable_def arena_def get_i32_def nth_opt_conv)
  have f: "character_at_position arena \<lparr>map_id = 0, pos_x = 5, pos_y = 9\<rparr> = None"
    by (simp add: character_at_position_def arena_def two_chars_characters new_character_def)
  show ?thesis
    using resolve_move_lands [OF c tp, of "start_novel 3"] c tp w f by simp
qed

text \<open>From the player's cell, a radius-1 square and a radius-0 diamond both contain the
  enemy standing on the same cell.\<close>

theorem effect_area_membership_witness:
  "distinct (map fst (characters two_chars)) \<and>
   map_of (characters two_chars) 2 = Some (new_character 2 Enemy Demon 2 0 1 10 [5, 6, 7, 8]) \<and>
   origin_of two_chars 1 TNone = Inr \<lparr>map_id = 0, pos_x = 5, pos_y = 8\<rparr> \<and>
   (\<exists>ids. effective_characters two_chars 1 TNone (Square 1) = Inr ids \<and> 2 \<in> set ids) \<and>
   (\<exists>ids. effective_characters two_chars 1 TNone (Manhattan 0) = Inr ids \<and> 2 \<in> set ids)"
proof -
  have d: "distinct (map fst (characters two_chars))"
    and c: "map_of (characters two_chars) 2 = Some (new_character 2 Enemy Demon 2 0 1 10 [5, 6, 7, 8])"
    by (simp_all add: two_chars_characters)
  have o: "origin_of two_chars 1 TNone = Inr \<lparr>map_id = 0, pos_x = 5, pos_y = 8\<rparr>"
    by (simp add: origin_of_def two_chars_characters new_character_def)
  have e: "position (new_character 2 Enemy Demon 2 0 1 10 [5, 6, 7, 8]) = \<lparr>map_id = 0, pos_x = 5, pos_y = 8\<rparr>"
    by (simp add: new_character_def)
  show ?thesis
    using effect_area_membership [OF d c o, of 1] effect_area_membership [OF d c o, of 0] d c o e
    by (simp add: distance_def)
qed

text \<open>An enemy on map 7 is outside every square around the player on map 0, but inside
  a diamond of radius \<open>i32::MAX\<close> around it.\<close>

theorem effect_other_map_witness:
  "distinct (map fst (characters far_enemy)) \<and>
   map_of (characters far_enemy) 2 =
     Some ((new_character 2 Enemy Demon 2 0 1 10 [5, 6, 7, 8])\<lparr>position := \<lparr>map_id = 7, pos_x = 5, pos_y = 8\<rparr>\<rparr>) \<and>
   2 \<notin> set (characters_in_square far_enemy \<lparr>map_id = 0, pos_x = 5, pos_y = 8\<rparr> 1000) \<and>
   2 \<in> set (characters_in_range far_enemy \<lparr>map_id = 0, pos_x = 5, pos_y = 8\<rparr> i32_max)"
proof -
  have d: "distinct (map fst (characters far_enemy))"
    and c: "map_of (characters far_enemy) 2 =
     Some ((new_character 2 Enemy Demon 2 0 1 10 [5, 6, 7, 8])\<lparr>position := \<lparr>map_id = 7, pos_x = 5, pos_y = 8\<rparr>\<rparr>)"
    by (simp_all add: far_enemy_def)
  have m: "map_id (position ((new_character 2 Enemy Demon 2 0 1 10 [5, 6, 7, 8])\<lparr>position := \<lparr>map_id = 7, pos_x = 5, pos_y = 8\<rparr>\<rparr>))
     \<noteq> map_id \<lparr>map_id = 0, pos_x = 5, pos_y = 8\<rparr>" by simp
  show ?thesis
    using effect_other_map [OF d c m, of 1000] effect_other_map [OF d c m, of i32_max] d c by simp
qed

text \<open>A level-1 character reaching 5 experience points moves to level 2 with hp and mp
  bases of 120.\<close>

theorem set_experience_level_witness:
  "level (set_experience 5 (new_character 1 Player Human 1 0 1 20 [])) = 2 \<and>
   base (hp (set_experience 5 (new_character 1 Player Human 1 0 1 20 []))) = 120 \<and>
   base (mp (set_experience 5 (new_character 1 Player Human 1 0 1 20 []))) = 120"
  using set_experience_level [of 5 "new_character 1 Player Human 1 0 1 20 []"]
  by (simp add: level_of_exp_def new_character_def)




text \<open>C13: the frame loop can livelock. In \<open>lone_npc\<close> the player (the camera's
  character) is defeated, so \<open>take_damage\<close> has removed its turns, and the only turn
  left belongs to an NPC on another map. Each of its turns idles off-screen, so
  \<open>UpdateCommand\<close> never halts the frame, and after six steps the scheduler is back
  in the same state: \<open>Game::update\<close> never returns, whatever the budget and the
  frame time.\<close>

theorem lone_npc_livelock: "game_update n delta lone_npc = Inl Fuel"
proof -
  have "turn_update (start_novel n) n delta lone_npc = Inl Fuel"
    by (rule turn_update_cycle [OF lone_npc_cycle]) simp
  then show ?thesis by (simp add: game_update_def)
qed

theorem step_toward_progress_witness:
  "map_id \<lparr>map_id = 0, pos_x = 0, pos_y = 0\<rparr> = map_id \<lparr>map_id = 0, pos_x = 2, pos_y = 2\<rparr> \<and>
   (pos_x \<lparr>map_id = 0, pos_x = 0, pos_y = 0\<rparr>, pos_y \<lparr>map_id = 0, pos_x = 0, pos_y = 0\<rparr>)
     \<noteq> (pos_x \<lparr>map_id = 0, pos_x = 2, pos_y = 2\<rparr>, pos_y \<lparr>map_id = 0, pos_x = 2, pos_y = 2\<rparr>) \<and>
   step_toward \<lparr>map_id = 0, pos_x = 0, pos_y = 0\<rparr> \<lparr>map_id = 0, pos_x = 2, pos_y = 2\<rparr> = (0, 1) \<and>
   distance \<lparr>map_id = 0, pos_x = 0, pos_y = 1\<rparr> \<lparr>map_id = 0, pos_x = 2, pos_y = 2\<rparr> = 3"
  using step_toward_progress [of "\<lparr>map_id = 0, pos_x = 0, pos_y = 0\<rparr>" "\<lparr>map_id = 0, pos_x = 2, pos_y = 2\<rparr>"]
  by (simp add: step_toward_def distance_def)

theorem enemy_targets_nearest_witness:
  "visible_humans two_chars (new_character 2 Enemy Demon 2 0 1 10 [5, 6, 7, 8]) =
     [(1, new_character 1 Player Human 1 8945 20 20 [1, 2, 3, 4])] \<and>
   enemy_ai 2 (new_character 2 Enemy Demon 2 0 1 10 [5, 6, 7, 8]) two_chars =
     add_command 2 ''Melee'' (TCharacter 1) two_chars"
proof -
  have v: "visible_humans two_chars (new_character 2 Enemy Demon 2 0 1 10 [5, 6, 7, 8]) =
     [(1, new_character 1 Player Human 1 8945 20 20 [1, 2, 3, 4])]"
    by (simp add: visible_humans_def two_chars_characters new_character_def distance_def)
  show ?thesis
    using enemy_targets_nearest [OF v, of 2] v by (simp add: new_character_def distance_def)
qed

theorem end_turn_requeue_witness:
  "current_turn (turn_system ending_turn) = Some \<lparr>time = 0, kind = Character_Turn 1\<rparr> \<and>
   map_of (characters ending_turn) 1 = Some (new_character 1 Player Human 1 8945 20 20 [1, 2, 3, 4]) \<and>
   (\<exists>g'. end_turn ending_turn = Inr (False, Empty, g') \<and>
      turn_queue (turn_system g') = [\<lparr>time = 0, kind = Character_Turn 2\<rparr>, \<lparr>time = 1, kind = Character_Turn 1\<rparr>])"
proof -
  have t: "current_turn (turn_system ending_turn) = Some \<lparr>time = 0, kind = Character_Turn 1\<rparr>"
    and c: "map_of (characters ending_turn) 1 = Some (new_character 1 Player Human 1 8945 20 20 [1, 2, 3, 4])"
    by (simp_all add: ending_turn_def two_chars_characters)
  show ?thesis
    using end_turn_requeue [OF t _ c] t c by (auto simp: ending_turn_def queue_insert_def)
qed

theorem command_new_target_error_witness:
  "map_of (actions armed) 1 = Some move_action \<and>
   map_of (characters armed) 1 = Some (new_character 1 Player Human 1 8945 20 20 [1, 2, 3, 4]) \<and>
   (\<exists>e. command_new armed 1 1 (TCharacter 2) = Inr (armed, Inl e))"
proof -
  have a: "map_of (actions armed) 1 = Some move_action" by (simp add: armed_def)
  have c: "map_of (characters armed) 1 = Some (new_character 1 Player Human 1 8945 20 20 [1, 2, 3, 4])"
    by (simp add: armed_def two_chars_characters)
  show ?thesis
    using command_new_target_error [OF a c, of "TCharacter 2"] a c
    by (simp add: move_action_def idle_action_def)
qed

theorem command_start_charges_witness:
  "map_of (commands charging) 1 = Some pending_command \<and>
   map_of (actions charging) (cmd_action_id pending_command) = Some (idle_action\<lparr>act_hp := Some 3, act_mp := Some 5\<rparr>) \<and>
   map_of (characters charging) (cmd_character_id pending_command) =
     Some (new_character 1 Player Human 1 8945 20 20 [1, 2, 3, 4]) \<and>
   (\<exists>g' c'. command_start 1 charging = Inr g' \<and> map_of (characters g') 1 = Some c'
      \<and> current (hp c') = 17 \<and> current (mp c') = 15)"
proof -
  have i: "map_of (commands charging) 1 = Some pending_command" by (simp add: charging_def)
  have a: "map_of (actions charging) (cmd_action_id pending_command) = Some (idle_action\<lparr>act_hp := Some 3, act_mp := Some 5\<rparr>)"
    by (simp add: charging_def pending_command_def)
  have c: "map_of (characters charging) (cmd_character_id pending_command) =
     Some (new_character 1 Player Human 1 8945 20 20 [1, 2, 3, 4])"
    by (simp add: charging_def pending_command_def two_chars_characters)
  show ?thesis
    using command_start_charges [OF i a c] i a c
    by (simp add: pending_command_def new_character_def current_def fresh_attr_def) blast
qed

theorem add_player_command_gate_witness:
  "map_of (commands (add_player_command 1 pending_command (map_turn_system (\<lambda>ts. ts\<lparr>waiting_input := True\<rparr>) two_chars))) 1
     = Some pending_command \<and>
   \<not> waiting_input (turn_system (add_player_command 1 pending_command
        (map_turn_system (\<lambda>ts. ts\<lparr>waiting_input := True\<rparr>) two_chars))) \<and>
   add_player_command 1 pending_command two_chars = two_chars"
proof -
  have w: "\<not> waiting_input (turn_system two_chars)"
    by (simp add: two_chars_def new_enemy_def new_player_character_def spawn_character_def Let_def
        add_turn_def empty_game_def fresh_id_def map_turn_system_def)
  have c: "map_of (characters (map_turn_system (\<lambda>ts. ts\<lparr>waiting_input := True\<rparr>) two_chars)) 1 =
     Some (new_character 1 Player Human 1 8945 20 20 [1, 2, 3, 4])"
    by (simp add: two_chars_characters map_turn_system_def)
  have k: "commands two_chars = []"
    by (simp add: two_chars_def new_enemy_def new_player_character_def spawn_character_def Let_def
        add_turn_def empty_game_def fresh_id_def map_turn_system_def)
  show ?thesis
    using add_player_command_gate [of "map_turn_system (\<lambda>ts. ts\<lparr>waiting_input := True\<rparr>) two_chars" 1
        pending_command "new_character 1 Player Human 1 8945 20 20 [1, 2, 3, 4]"]
      add_player_command_gate [of two_chars 1 pending_command] w c k
    by (simp add: map_turn_system_def fresh_id_def)
qed

text \<open>C20: the turn queue stays well formed across the whole core. From a state whose
  queue is sorted by time with no negative time, every entry point of \<open>Game\<close> (the
  frame \<open>update\<close>, the dialogue inputs, the shop inputs, \<open>add_player_command\<close>)
  returns a state whose queue is again sorted with no negative time: through the
  scheduler's six states, every action effect (damage removes turns, a floor spawns
  an enemy at time 0), and the dialogue interpreter re-entered at any depth.\<close>

theorem queue_ok_invariant:
  assumes "queue_ok (turn_queue (turn_system g))"
  shows "(game_update n delta g = Inr g' \<longrightarrow> queue_ok (turn_queue (turn_system g')))
    \<and> (select_option n i g = Inr g' \<longrightarrow> queue_ok (turn_queue (turn_system g')))
    \<and> (select_ability n i g = Inr g' \<longrightarrow> queue_ok (turn_queue (turn_system g')))
    \<and> (novel_next n g = Inr g' \<longrightarrow> queue_ok (turn_queue (turn_system g')))
    \<and> (close_shop n g = Inr g' \<longrightarrow> queue_ok (turn_queue (turn_system g')))
    \<and> queue_ok (turn_queue (turn_system (buy_item i g)))
    \<and> queue_ok (turn_queue (turn_system (add_player_command cid cmd g)))"
proof -
  have q: "qok g" using assms by (simp add: qok_def)
  show ?thesis
    using game_update_qok [OF q] input_qok [OF q] q
    unfolding qok_def [symmetric] by simp
qed

theorem queue_ok_invariant_witness:
  "queue_ok (turn_queue (turn_system two_chars)) \<and>
   (\<exists>g'. game_update 3 (1/2) two_chars = Inr g' \<and> queue_ok (turn_queue (turn_system g'))
        \<and> waiting_input (turn_system g'))"
proof -
  have q: "queue_ok (turn_queue (turn_system two_chars))"
    by (simp add: two_chars_systems queue_ok_def)
  have "\<exists>g'. game_update 3 (1/2) two_chars = Inr g' \<and> waiting_input (turn_system g')"
    by (simp add: game_update_def numeral_eq_Suc turn_step_def ts_empty_def pop_turn_def
        start_turn_def start_character_turn_def act_by_controller_def start_command_def
        current_char_def set_state_def map_turn_system_def novel_update_def two_chars_systems
        two_chars_characters new_character_def zero_cc_def)
  then show ?thesis
    using queue_ok_invariant [OF q, of 3 "1/2"] q by blast
qed

theorem menu_cursor_bounds_witness:
  "cursor_ok (length [1, 2 :: int]) 0 \<and> cursor_ok (length ([] :: int list)) 0 \<and>
   nth_opt [1, 2 :: int] 0 = Some 1"
  using menu_cursor_bounds [of "\<lparr>as_character_id = 1, as_current_item = 0, as_action_ids = [1, 2], as_waiting = False\<rparr>"
      "\<lparr>sa_character_id = 1, sa_current_item = 0, sa_action_ids = []\<rparr>"]
  by (simp add: cursor_ok_def)


theorem pause_roundtrip_witness:
  "[LevelScene] \<noteq> [] \<and> last [LevelScene] = LevelScene \<and>
   stack_key_down 3 KeyEscape (data_new two_chars) [LevelScene] = Inr (data_new two_chars, [LevelScene, PauseScene]) \<and>
   stack_key_down 3 KeyQ (data_new two_chars) [LevelScene, PauseScene] = Inr (data_new two_chars, [LevelScene])"
  using pause_roundtrip [of "[LevelScene]" 3 "data_new two_chars"] by simp

theorem level_move_issues_command_witness:
  "waiting_input (turn_system (sd_game (data_new walker))) \<and>
   current_character_turn (sd_game (data_new walker)) = Some 1 \<and>
   map_of (characters (sd_game (data_new walker))) 1 = Some (new_character 1 Player Human 1 0 1 20 [1]) \<and>
   find_action (sd_game (data_new walker)) 1 ''Move'' = Some 1 \<and>
   map_of (actions (sd_game (data_new walker))) 1 = Some move_action \<and> action_kind move_action = Move \<and>
   (\<exists>d' cmd. level_key_down KeyD (data_new walker) = Inr (d', LevelScene, TrNone)
      \<and> map_of (commands (sd_game d')) 1 = Some cmd
      \<and> data cmd = CDMove \<lparr>map_id = 0, pos_x = 5, pos_y = 8\<rparr> \<lparr>map_id = 0, pos_x = 6, pos_y = 8\<rparr>)"
proof -
  have h: "waiting_input (turn_system (sd_game (data_new walker)))"
    "current_character_turn (sd_game (data_new walker)) = Some 1"
    "map_of (characters (sd_game (data_new walker))) 1 = Some (new_character 1 Player Human 1 0 1 20 [1])"
    "find_action (sd_game (data_new walker)) 1 ''Move'' = Some 1"
    "map_of (actions (sd_game (data_new walker))) 1 = Some move_action" "action_kind move_action = Move"
    by (simp_all add: data_new_def walker_def current_character_turn_def find_action_def
        new_character_def new_character_action_def move_action_def idle_action_def)
  have k: "commands (sd_game (data_new walker)) = []"
    by (simp add: data_new_def walker_def arena_def two_chars_def new_enemy_def new_player_character_def
        spawn_character_def Let_def add_turn_def empty_game_def fresh_id_def map_turn_system_def)
  show ?thesis
    using level_move_issues_command [OF h] h k by (simp add: fresh_id_def new_character_def) blast
qed

lemma two_chars_escape:
  "stack_key_down n KeyEscape (data_new two_chars) [LevelScene]
     = Inr (data_new two_chars, [LevelScene, PauseScene])"
proof -
  have "\<not> waiting_input (turn_system two_chars)" by (simp add: two_chars_systems)
  then show ?thesis
    by (simp add: stack_key_down_def on_top_def scene_key_down_def level_key_down_def
        do_transition_def data_new_def)
qed

theorem application_queue_ok_witness:
  "queue_ok (turn_queue (turn_system (sd_game (data_new two_chars)))) \<and>
   (\<exists>d' st'. stack_key_down 3 KeyEscape (data_new two_chars) [LevelScene] = Inr (d', st')
      \<and> queue_ok (turn_queue (turn_system (sd_game d'))))"
proof -
  have q: "queue_ok (turn_queue (turn_system (sd_game (data_new two_chars))))"
    by (simp add: data_new_def two_chars_systems queue_ok_def)
  show ?thesis
    using application_queue_ok [OF q, where n = 3 and k = KeyEscape and st = "[LevelScene]"] q
      two_chars_escape [of 3] by blast
qed

theorem stack_well_formed_witness:
  "stack_wf [LevelScene]
   \<and> stack_key_down 3 KeyEscape (data_new two_chars) [LevelScene] = Inr (data_new two_chars, [LevelScene, PauseScene])
   \<and> stack_wf [LevelScene, PauseScene]"
proof -
  have w: "stack_wf [LevelScene]" by (simp add: stack_wf_def)
  show ?thesis
    using stack_well_formed [OF w, where n = 3 and k = KeyEscape and d = "data_new two_chars"
        and d' = "data_new two_chars" and st' = "[LevelScene, PauseScene]"] w two_chars_escape [of 3]
    by blast
qed



theorem animation_frame_pick_witness:
  "frame_pick [10, 20, 30 :: int] (1/2) = Inr 20 \<and> frame_index 3 (1/4) \<le> frame_index 3 (1/2)
   \<and> frame_index 3 (-1) = 0 \<and> 3 \<le> frame_index 3 2"
  using animation_frame_pick [where xs = "[10, 20, 30 :: int]" and pc = "1/2" and u = "1/4" and v = "1/2" and n = 3]
    animation_frame_pick [where xs = "[10, 20, 30 :: int]" and pc = "1/2" and u = "-1" and v = 2 and n = 3]
  by (simp add: frame_index_def)

lemma drawn_assets:
  "sprites_ok drawn" "sprites_ok drawn_bad" "sprite_animations drawn = []"
  "0 \<le> tile_size (camera drawn)"
  by (simp_all add: sprites_ok_def drawn_def drawn_bad_def arena_def two_chars_characters new_character_def
      two_chars_def new_enemy_def new_player_character_def spawn_character_def fresh_id_def add_turn_def
      queue_insert_def empty_game_def Let_def map_turn_system_def)

lemma drawn_camera:
  "camera drawn = \<lparr>cam_character_id = 1, cam_extend = 1, tile_size = 64, border = 8\<rparr>"
  "map_of (characters drawn) 1 = Some (new_character 1 Player Human 1 8945 20 20 [1, 2, 3, 4])"
  by (simp_all add: drawn_def arena_def two_chars_characters)

theorem draw_inside_view_witness:
  "0 \<le> tile_size (camera drawn) \<and> draw_at drawn 0 5 8 = Some (72, 72)
   \<and> 72 + 64 \<le> real_of_int (8 + view_size drawn)"
proof -
  have d: "draw_at drawn 0 5 8 = Some (72, 72)"
    by (simp add: draw_at_def in_view_def screen_dest_def drawn_camera new_character_def)
  show ?thesis
    using draw_inside_view [of drawn 0 5 8 72 72] d by (simp add: drawn_camera)
qed


theorem level_draw_inside_view_witness:
  "0 \<le> tile_size (camera drawn)
   \<and> (\<exists>calls. level_draw (\<lambda>_. Some (64, 64)) no_sheets drawn = Inr calls
        \<and> list_all (call_in_view drawn) calls)"
proof -
  obtain calls where "level_draw (\<lambda>_. Some (64, 64)) no_sheets drawn = Inr calls"
    using level_draw_Inr [of "\<lambda>_. Some (64, 64)" drawn no_sheets] drawn_assets by auto
  then show ?thesis using level_draw_inside_view [OF drawn_assets(4)] drawn_assets(4) by blast
qed

theorem level_draw_succeeds_witness:
  "(\<forall>path. (\<lambda>_. Some (64 :: real, 64 :: real)) path \<noteq> None) \<and> sprites_ok drawn_bad
   \<and> \<not> (\<exists>calls. level_draw (\<lambda>_. Some (64, 64)) no_sheets drawn_bad = Inr calls)"
proof -
  have "map_of (characters drawn_bad) (cam_character_id (camera drawn_bad)) \<noteq> None"
    by (simp add: drawn_bad_def drawn_def arena_def two_chars_characters)
  moreover have "\<not> animation_ok no_sheets (\<lparr>ae_id = 1, ae_animation = SpriteSequence 9, percentage = 0,
            ae_position = \<lparr>map_id = 0, pos_x = 5, pos_y = 8\<rparr>\<rparr>)"
    by (simp add: animation_ok_def no_sheets_def)
  ultimately show ?thesis
    using level_draw_succeeds [of "\<lambda>_. Some (64, 64)" drawn_bad no_sheets] drawn_assets(2)
    by (simp add: drawn_bad_def)
qed


text \<open>The sixth action of a menu of six is highlighted in the second column, first
  row; the third ability in the first column, third row.\<close>

theorem menu_highlight_on_button_witness:
  "DrawMesh (StrokedRect (240, 180) (255, 255, 0)) (240, 180) \<in> set (action_draw \<lparr>as_character_id = 1, as_current_item = 5, as_action_ids = [1, 2, 3, 4, 5, 6], as_waiting = False\<rparr>)
   \<and> DrawActionCard 6 (240, 180) \<in> set (action_draw \<lparr>as_character_id = 1, as_current_item = 5, as_action_ids = [1, 2, 3, 4, 5, 6], as_waiting = False\<rparr>)
   \<and> DrawMesh (StrokedRect (256, 128) (255, 255, 0)) (0, 256) \<in> set (select_ability_draw \<lparr>sa_character_id = 1, sa_current_item = 2, sa_action_ids = [7, 8, 9]\<rparr>)
   \<and> DrawActionName 9 (0, 256) \<in> set (select_ability_draw \<lparr>sa_character_id = 1, sa_current_item = 2, sa_action_ids = [7, 8, 9]\<rparr>)"
  using menu_highlight_on_button [of "\<lparr>as_character_id = 1, as_current_item = 5, as_action_ids = [1, 2, 3, 4, 5, 6], as_waiting = False\<rparr>"
      "\<lparr>sa_character_id = 1, sa_current_item = 2, sa_action_ids = [7, 8, 9]\<rparr>"]
  by (simp add: grid_slot_def)

text \<open>Buying the only item of a shop whose stock is 0: the customer owned none
  before and is shown owning one after.\<close>

theorem buy_item_shown_witness:
  "\<exists>cs cs'. shop_draw (data_new sold_out_shop) 0 = Inr cs
     \<and> shop_draw (with_game (data_new sold_out_shop) (buy_item 0 sold_out_shop)) 0 = Inr cs'
     \<and> DrawItemInfo 0 ''heals'' (0, 0) \<in> set cs \<and> DrawItemInfo 1 ''heals'' (0, 0) \<in> set cs'"
proof -
  let ?cur = "\<lparr>csh_character_id = 1, shop_character_id = 2\<rparr>"
  let ?its = "[\<lparr>si_item_id = 10, stock = Some 0\<rparr>]"
  have cur: "shop_current (shop_system (sd_game (data_new sold_out_shop))) = Some ?cur"
    and its: "shop_items_of (sd_game (data_new sold_out_shop)) ?cur = Some ?its"
    and names: "list_all (\<lambda>si. map_of (items (sd_game (data_new sold_out_shop))) (si_item_id si) \<noteq> None) ?its"
    and it: "map_of (items (sd_game (data_new sold_out_shop))) (si_item_id (?its ! 0))
             = Some \<lparr>it_id = 10, item_name = ''potion'', item_description = ''heals'', item_kind = Potion\<rparr>"
    and c: "map_of (characters (sd_game (data_new sold_out_shop))) (csh_character_id ?cur)
             = Some (new_character 1 Player Human 1 0 20 20 [])"
    by (simp_all add: data_new_def sold_out_shop_def shop_items_of_def empty_game_def new_character_def)
  have n: "owned_count (sd_game (data_new sold_out_shop)) ?cur 10 = 0"
    by (simp add: owned_count_def data_new_def sold_out_shop_def new_character_def)
  show ?thesis
    using buy_item_shown [OF cur its _ names it c] n by (simp add: data_new_def)
qed

text \<open>Choosing the third option \<open>c\<close> of \<open>[a, b, c]\<close> leads to the choice \<open>[x, y]\<close>; the
  cursor stays at 2, and the highlight is drawn below the two option boxes.\<close>

theorem novel_cursor_kept_witness:
  "\<exists>g' cs. novel_scene_key_down 5 KeyE (data_new two_choices) 2 = Inr (with_game (data_new two_choices) g', NovelScene 2, TrNone)
     \<and> novel_draw (\<lambda>_. None) (with_game (data_new two_choices) g') 2 = Inr (cs, 2)
     \<and> DrawMesh list_highlight (list_slot 2) \<in> set cs \<and> DrawMesh text_box (list_slot 2) \<notin> set cs"
proof -
  let ?cur = "\<lparr>cs_id = 1, cs_character_id = 1, cs_target_id = 2, p = [1],
                history = [], select = Some [''x'', ''y''],
                select_ability_character_action_index = None,
                waiting_select_ability = False, cs_command_id = None, background = None\<rparr>"
  have "map_sum id novel_system (select_option 5 2 two_choices) = Inr \<lparr>ns_pause = False,
     novel_scripts = [(1, \<lparr>sc_id = 1, scripts =
       [Select [(''a'', []), (''b'', []), (''c'', [])], Select [(''x'', []), (''y'', [])]]\<rparr>)],
     ns_current = Some ?cur\<rparr>"
    by (simp add: dialogue_steps two_choices_def numeral_eq_Suc)
  then obtain g' where sel: "select_option 5 2 two_choices = Inr g'"
    and ns: "ns_current (novel_system g') = Some ?cur" and np: "\<not> ns_pause (novel_system g')"
    by (cases "select_option 5 2 two_choices") auto
  have key: "novel_scene_key_down 5 KeyE (data_new two_choices) 2 = Inr (with_game (data_new two_choices) g', NovelScene 2, TrNone)"
    using sel ns by (simp add: novel_scene_key_down_def data_new_def two_choices_def)
  have ns': "ns_current (novel_system (sd_game (with_game (data_new two_choices) g'))) = Some ?cur"
    and np': "\<not> ns_pause (novel_system (sd_game (with_game (data_new two_choices) g')))"
    using ns np by (simp_all add: with_game_def)
  have bg: "background_draw (\<lambda>_. None) (background ?cur) = Inr []" by (simp add: background_draw_def)
  show ?thesis
    using novel_cursor_kept [OF key ns' _ np' bg] key by auto
qed


lemma load_files_of: "main_new (files_of g rt) = Inr (main_state_new g, rt)"
  by (cases g, cases rt) (simp add: main_new_def load_game_def files_of_def unwrap_def)

lemma drawn_escape:
  "stack_key_down n KeyEscape (data_new drawn) [LevelScene] = Inr (data_new drawn, [LevelScene, PauseScene])"
proof -
  have "\<not> waiting_input (turn_system drawn)" by (simp add: drawn_def arena_def two_chars_systems)
  then show ?thesis
    by (simp add: stack_key_down_def on_top_def scene_key_down_def level_key_down_def
        do_transition_def data_new_def)
qed

text \<open>The map view of \<open>drawn\<close>, loaded from its files: Escape opens the pause menu and
  the next frame draws the map and the menu over it.\<close>

theorem application_invariant_witness:
  "main_new (files_of drawn no_sheets) = Inr (main_state_new drawn, no_sheets)
   \<and> f_turn_system (files_of drawn no_sheets) = Some (turn_system drawn)
   \<and> queue_ok (turn_queue (turn_system drawn))
   \<and> reachable (\<lambda>_. Some (64, 64)) no_sheets (main_state_new drawn) (data_new drawn, [LevelScene, PauseScene])
   \<and> stack_wf [LevelScene, PauseScene] \<and> queue_ok (turn_queue (turn_system (sd_game (data_new drawn))))"
proof -
  let ?imgs = "\<lambda>_ :: string. Some (64 :: real, 64 :: real)"
  let ?s1 = "(data_new drawn, [LevelScene, PauseScene])"
  have new: "main_new (files_of drawn no_sheets) = Inr (main_state_new drawn, no_sheets)"
    by (rule load_files_of)
  have ts: "f_turn_system (files_of drawn no_sheets) = Some (turn_system drawn)"
    by (simp add: files_of_def)
  have q: "queue_ok (turn_queue (turn_system drawn))"
    by (simp add: drawn_def arena_def two_chars_systems queue_ok_def)
  obtain calls where c: "level_draw ?imgs no_sheets drawn = Inr calls"
    using level_draw_Inr [of ?imgs drawn no_sheets] drawn_assets by auto
  have "main_event 5 ?imgs no_sheets (main_state_new drawn) (EvKey KeyEscape) = Inr (?s1, [])"
    by (simp add: main_event_def main_state_new_def drawn_escape)
  then have r1: "reachable ?imgs no_sheets (main_state_new drawn) ?s1"
    by (rule reachable.step [OF reachable.start])
  have "main_event 5 ?imgs no_sheets ?s1 EvDraw = Inr (?s1, calls @ pause_draw)"
    using c by (simp add: main_event_def scene_draw_def data_new_def)
  then have r2: "reachable ?imgs no_sheets (main_state_new drawn) ?s1"
    by (rule reachable.step [OF r1])
  show ?thesis
    using application_invariant [OF new ts q r2] new ts q r2 by simp
qed


text \<open>The map view of \<open>drawn\<close> with the pause menu and a dialogue scene over it: all
  its images load, its characters have sprites, it has no animation and no shop open,
  and the three scenes draw.\<close>

theorem stack_draw_returns_witness:
  "(\<forall>path. (\<lambda>_ :: string. Some (64 :: real, 64 :: real)) path \<noteq> None) \<and> sprites_ok drawn
   \<and> list_all (animation_ok no_sheets) (map snd (sprite_animations drawn)) \<and> shop_items_named drawn
   \<and> (\<exists>cs st'. stack_draw (\<lambda>_. Some (64, 64)) no_sheets (data_new drawn) [LevelScene, PauseScene, NovelScene 3]
         = Inr (cs, st') \<and> length st' = 3)"
proof -
  let ?imgs = "\<lambda>_ :: string. Some (64 :: real, 64 :: real)"
  let ?st = "[LevelScene, PauseScene, NovelScene 3]"
  have sh: "shop_items_named drawn"
    by (simp add: shop_items_named_def drawn_def arena_def two_chars_systems)
  have imgs: "\<forall>path. ?imgs path \<noteq> None" by simp
  have spr: "sprites_ok (sd_game (data_new drawn))" using drawn_assets by (simp add: data_new_def)
  have anim: "list_all (animation_ok no_sheets) (map snd (sprite_animations (sd_game (data_new drawn))))"
    using drawn_assets by (simp add: data_new_def)
  have sh': "shop_items_named (sd_game (data_new drawn))" using sh by (simp add: data_new_def)
  obtain cs st' where d: "stack_draw ?imgs no_sheets (data_new drawn) ?st = Inr (cs, st')"
    and l: "length st' = length ?st"
    using stack_draw_returns [OF imgs spr anim sh', of ?st] by blast
  have l3: "length st' = 3" using l by simp
  have anim0: "list_all (animation_ok no_sheets) (map snd (sprite_animations drawn))"
    using drawn_assets(3) by simp
  show ?thesis using imgs drawn_assets(1) anim0 sh d l3 by blast
qed


text \<open>An empty cache and a loader that finds only the player's image: getting it
  returns the loader's image and stores it, and drawing it through the cache issues
  the calls of the pure loader.\<close>

theorem cache_refines_loader_witness:
  "cache_ok (\<lambda>p. if p = ''/images/player.png'' then Some (64, 64) else None) cache_new
   \<and> cache_get (\<lambda>p. if p = ''/images/player.png'' then Some (64, 64) else None) cache_new ''/images/player.png''
       = Inr ((64, 64), \<lparr>resources = [(''/images/player.png'', (64, 64))]\<rparr>)
   \<and> map_sum id fst (draw_loaded_cached (\<lambda>p. if p = ''/images/player.png'' then Some (64, 64) else None)
         cache_new ''/images/player.png'' rp_default drawn)
     = draw_loaded (\<lambda>p. if p = ''/images/player.png'' then Some (64, 64) else None) ''/images/player.png'' rp_default drawn"
proof -
  let ?load = "\<lambda>p. if p = ''/images/player.png'' then Some (64 :: real, 64 :: real) else None"
  have ok: "cache_ok ?load cache_new" by (rule cache_ok_new)
  have "cache_get ?load cache_new ''/images/player.png''
       = Inr ((64, 64), \<lparr>resources = [(''/images/player.png'', (64, 64))]\<rparr>)"
    by (simp add: cache_get_def cache_new_def)
  moreover have "map_sum id fst (draw_loaded_cached ?load cache_new ''/images/player.png'' rp_default drawn)
     = draw_loaded ?load ''/images/player.png'' rp_default drawn"
    using cache_refines_loader [OF ok, of "''/images/player.png''" "''/images/player.png''" rp_default drawn]
    by (elim conjE)
  ultimately show ?thesis using ok by (intro conjI)
qed


text \<open>A dialogue that sets two backgrounds and passes a \<open>ForgetSkill\<close> with no ability
  chosen before its first line:
  from its start the run returns within a budget of 7, above the measure 6 of the
  cursor \<open>[0]\<close>.\<close>

theorem novel_run_returns_witness:
  "\<exists>cur sc. ns_current (novel_system (novel_start_state 1 1 2 scenery_game)) = Some cur
     \<and> cs_command_id cur = None
     \<and> map_of (novel_scripts (novel_system (novel_start_state 1 1 2 scenery_game))) (cs_id cur) = Some sc
     \<and> list_all calm (scripts sc) \<and> run_measure (scripts sc) (p cur) < 7
     \<and> novel_run 7 (novel_start_state 1 1 2 scenery_game) \<noteq> Inl Fuel"
proof -
  let ?g = "novel_start_state 1 1 2 scenery_game"
  obtain cur where cur: "ns_current (novel_system ?g) = Some cur" and c1: "cs_id cur = 1"
    and c2: "cs_command_id cur = None" and c3: "p cur = [0]"
    by (simp add: novel_start_state_def)
  let ?sc = "\<lparr>sc_id = 1, scripts =
       [Background BNone, Background (Color 0 0 0 255), ForgetSkill, Text ''a'']\<rparr>"
  have sc: "map_of (novel_scripts (novel_system ?g)) (cs_id cur) = Some ?sc"
    using c1 by (simp add: novel_start_state_def scenery_game_def)
  have calm: "list_all calm (scripts ?sc)" by simp
  have m: "run_measure (scripts ?sc) (p cur) < 7" using c3 by (simp add: run_measure_def)
  show ?thesis using novel_run_returns [OF cur c2 sc calm m] cur c2 sc calm m by blast
qed


text \<open>A script that starts with \<open>Restart\<close>: started at its root, the dialogue never
  reaches its line and no budget is enough.\<close>

theorem restart_first_diverges_witness:
  "\<forall>n. novel_run n (novel_start_state 1 1 2 restart_game) = Inl Fuel"
proof
  fix n
  let ?g = "novel_start_state 1 1 2 restart_game"
  obtain cur where cur: "ns_current (novel_system ?g) = Some cur" and c1: "cs_id cur = 1"
    and c2: "cs_command_id cur = None" and c3: "p cur = [0]"
    by (simp add: novel_start_state_def)
  let ?sc = "\<lparr>sc_id = 1, scripts = [Restart, Text ''a'']\<rparr>"
  have sc: "map_of (novel_scripts (novel_system ?g)) (cs_id cur) = Some ?sc"
    using c1 by (simp add: novel_start_state_def restart_game_def)
  have nd: "node_at (scripts ?sc) (p cur) = Inr (Some Restart)" using c3 by (simp add: node_at_def)
  show "novel_run n ?g = Inl Fuel" by (rule restart_first_diverges [OF cur c2 sc _ _ nd]) simp_all
qed

end
